(* ===== verification/Py_Prelude.thy ===== *)
theory Py_Prelude
  imports
    "HOL-Library.AList"
    "HOL-Library.List_Lexorder"
    "HOL-Library.Char_ord"
    "HOL-Library.Product_Lexorder"
    "HOL-Library.Sublist"
    "HOL-Library.Multiset"
begin

text \<open>
  Shared vocabulary of the development: Python exceptions as values, the result type
  \<open>exn + 'a\<close> with its sequencing operator, Python's dynamic JSON-like values, and the
  string operations of the standard library that the sources call.

  Conventions used by every theory:
  \<^item> a Python \<open>str\<close> is a \<^typ>\<open>string\<close> whose characters are the code points below 256;
  \<^item> a Python \<open>int\<close> is an \<^typ>\<open>int\<close>; \<open>bool\<close> is a separate constructor of the dynamic
    values because the sources distinguish \<open>type(x) is int\<close> from \<open>isinstance(x, int)\<close>;
  \<^item> a \<open>dict\<close> is an association list in insertion order, written with the library's
    \<open>AList.update\<close>, which like Python keeps the position of an existing key;
  \<^item> \<open>raise\<close> is \<open>Inl\<close>, a normal return is \<open>Inr\<close>.
\<close>

section \<open>Collections of rules\<close>

named_theorems result_simps \<open>inversion of sequenced results\<close>
named_theorems frame_simps \<open>fields an operation leaves alone\<close>

section \<open>Exceptions as values\<close>

datatype exn =
    ValueError string
  | TypeError string
  | KeyError string
  | RuntimeError string
  | AttributeError string
  | NetworkScopeError string
  | ConfirmationError string
  | ManualSyncError string
  | LifecycleError string
  | OperationError string
  | RunReadError string
  | ScheduledPlanBlocked string
  | SourceReconciliationRequired string
  | ScheduleWorkerError string
  | ControlError string
  | HostRegistrationConflict string "string option" "(string \<times> string) list" bool
  | ProbeError string
  | SourceRegistryError string
  | SourceConflictError string
  | SourceConcurrentUpdateError string
  | UniqueViolation string
  | CheckViolation string
  | RaiseException string
  | SystemExit string

type_synonym 'a result = "exn + 'a"

text \<open>Sequencing: the first exception ends the computation.\<close>

definition bindr :: "'a result \<Rightarrow> ('a \<Rightarrow> 'b result) \<Rightarrow> 'b result" where
  "bindr m f = (case m of Inl e \<Rightarrow> Inl e | Inr x \<Rightarrow> f x)"

lemma bindr_simps [simp]: "bindr (Inl e) f = Inl e" "bindr (Inr x) f = f x"
  by (simp_all add: bindr_def)

lemma bindr_Inr_conv [result_simps]:
  "bindr m f = Inr y \<longleftrightarrow> (\<exists>x. m = Inr x \<and> f x = Inr y)"
  by (cases m) auto

lemma bindr_Inl_conv [result_simps]:
  "bindr m f = Inl e \<longleftrightarrow> m = Inl e \<or> (\<exists>x. m = Inr x \<and> f x = Inl e)"
  by (cases m) auto

lemma bindr_cong [fundef_cong]:
  "m = m' \<Longrightarrow> (\<And>x. m' = Inr x \<Longrightarrow> f x = f' x) \<Longrightarrow> bindr m f = bindr m' f'"
  by (cases m') auto

lemma if_Inl_eq_Inr [result_simps]:
  "(if b then Inl e else m) = Inr y \<longleftrightarrow> \<not> b \<and> m = Inr y"
  by auto

text \<open>
  \<open>if not ok: raise e\<close>; a chain \<open>a or b or ...\<close> whose operands can raise, evaluated from the left
  until one is true; and \<open>if a or b or ...: raise e\<close>.
\<close>

definition require :: "bool \<Rightarrow> exn \<Rightarrow> unit result" where
  "require ok e = (if ok then Inr () else Inl e)"

lemma require_simps [simp]: "require True e = Inr ()" "require False e = Inl e"
  by (simp_all add: require_def)

lemma require_Inr_iff [simp]: "require ok e = Inr u \<longleftrightarrow> ok"
  by (simp add: require_def)

lemma bind_require_Inr_iff [simp]: "bindr (require ok e) f = Inr y \<longleftrightarrow> ok \<and> f () = Inr y"
  by (cases ok) auto

fun or_chain :: "bool result list \<Rightarrow> bool result" where
  "or_chain [] = Inr False"
| "or_chain (m # ms) = bindr m (\<lambda>b. if b then Inr True else or_chain ms)"

lemma or_chain_False_iff: "or_chain ms = Inr False \<longleftrightarrow> (\<forall>m \<in> set ms. m = Inr False)"
  by (induction ms) (auto simp: bindr_Inr_conv split: if_splits)

definition refuse_if :: "bool result list \<Rightarrow> exn \<Rightarrow> unit result" where
  "refuse_if ms e = bindr (or_chain ms) (\<lambda>b. require (\<not> b) e)"

lemma refuse_if_Inr_iff [simp]: "refuse_if ms e = Inr u \<longleftrightarrow> (\<forall>m \<in> set ms. m = Inr False)"
  by (auto simp: refuse_if_def bindr_Inr_conv or_chain_False_iff[symmetric])

lemma bind_refuse_if_Inr_iff [simp]:
  "bindr (refuse_if ms e) f = Inr y \<longleftrightarrow> (\<forall>m \<in> set ms. m = Inr False) \<and> f () = Inr y"
  by (simp add: bindr_Inr_conv)

text \<open>A comprehension whose body can raise, and a loop that threads a state.\<close>

fun mapr :: "('a \<Rightarrow> 'b result) \<Rightarrow> 'a list \<Rightarrow> 'b list result" where
  "mapr f [] = Inr []"
| "mapr f (x # xs) = bindr (f x) (\<lambda>y. bindr (mapr f xs) (\<lambda>ys. Inr (y # ys)))"

fun foldr_result :: "('a \<Rightarrow> 's \<Rightarrow> 's result) \<Rightarrow> 'a list \<Rightarrow> 's \<Rightarrow> 's result" where
  "foldr_result f [] s = Inr s"
| "foldr_result f (x # xs) s = bindr (f x s) (foldr_result f xs)"

lemma mapr_Inr_iff: "mapr f xs = Inr ys \<longleftrightarrow> list_all2 (\<lambda>x y. f x = Inr y) xs ys"
  by (induction xs arbitrary: ys) (auto simp: bindr_Inr_conv list_all2_Cons1)

lemma mapr_length: "mapr f xs = Inr ys \<Longrightarrow> length ys = length xs"
  by (auto simp: mapr_Inr_iff dest: list_all2_lengthD)

lemma mapr_set: "mapr f xs = Inr ys \<Longrightarrow> y \<in> set ys \<Longrightarrow> \<exists>x \<in> set xs. f x = Inr y"
  by (induction xs arbitrary: ys) (auto simp: bindr_Inr_conv)

lemma mapr_Inl_ex: "mapr f xs = Inl e \<Longrightarrow> \<exists>x \<in> set xs. f x = Inl e"
  by (induction xs) (auto simp: bindr_Inl_conv)

section \<open>Association lists as dictionaries\<close>

lemma map_of_AList_update [simp]: "map_of (AList.update k v d) = (map_of d)(k \<mapsto> v)"
  by (simp add: update_conv')

lemma distinct_keys_AList_update:
  "distinct (map fst d) \<Longrightarrow> distinct (map fst (AList.update k v d))"
  by (rule distinct_update)

text \<open>\<open>{**a, **b}\<close>: the entries of \<open>b\<close> overwrite or extend those of \<open>a\<close>.\<close>

definition dict_merge :: "('k \<times> 'v) list \<Rightarrow> ('k \<times> 'v) list \<Rightarrow> ('k \<times> 'v) list" where
  "dict_merge a b = fold (\<lambda>(k, v). AList.update k v) b a"

lemma dict_merge_simps [simp]:
  "dict_merge a [] = a"
  "dict_merge a ((k, v) # b) = dict_merge (AList.update k v a) b"
  by (simp_all add: dict_merge_def)

lemma map_of_dict_merge:
  "distinct (map fst b) \<Longrightarrow> map_of (dict_merge a b) = map_of a ++ map_of b"
proof (induction b arbitrary: a)
  case Nil
  then show ?case by (simp add: dict_merge_def)
next
  case (Cons p b)
  obtain k v where p: "p = (k, v)" by fastforce
  from Cons p have "map_of (dict_merge (AList.update k v a) b) = map_of (AList.update k v a) ++ map_of b"
    by (simp add: dict_merge_def)
  moreover have "map_of b k = None"
    using Cons.prems p by (simp add: map_of_eq_None_iff)
  ultimately show ?case
    using p by (auto simp: dict_merge_def map_add_def fun_eq_iff split: option.splits)
qed

lemma dict_merge_frame: "k \<notin> fst ` set b \<Longrightarrow> map_of (dict_merge a b) k = map_of a k"
  by (induction b arbitrary: a) (auto simp: fun_upd_def)

lemma dict_merge_get:
  "distinct (map fst b) \<Longrightarrow> (k, v) \<in> set b \<Longrightarrow> map_of (dict_merge a b) k = Some v"
  by (simp add: map_of_dict_merge map_add_Some_iff)

text \<open>\<open>d.setdefault(k, []).append(v)\<close>, the grouping idiom of the sources.\<close>

definition group_add :: "'k \<Rightarrow> 'v \<Rightarrow> ('k \<times> 'v list) list \<Rightarrow> ('k \<times> 'v list) list" where
  "group_add k v d = AList.update k ((case map_of d k of None \<Rightarrow> [] | Some vs \<Rightarrow> vs) @ [v]) d"

definition group_get :: "('k \<times> 'v list) list \<Rightarrow> 'k \<Rightarrow> 'v list" where
  "group_get d k = (case map_of d k of None \<Rightarrow> [] | Some vs \<Rightarrow> vs)"

lemma group_get_Nil [simp]: "group_get [] k = []"
  by (simp add: group_get_def)

lemma group_get_add [simp]:
  "group_get (group_add k v d) k' = (if k' = k then group_get d k @ [v] else group_get d k')"
  by (simp add: group_get_def group_add_def)

lemma distinct_group_add:
  "distinct (map fst d) \<Longrightarrow> distinct (map fst (group_add k v d))"
  by (simp add: group_add_def distinct_update)

section \<open>Text\<close>

text \<open>The white space of \<open>str.strip\<close> among the code points below 256.\<close>

definition py_space :: "char \<Rightarrow> bool" where
  "py_space c = (let n = of_char c :: nat in
     (9 \<le> n \<and> n \<le> 13) \<or> (28 \<le> n \<and> n \<le> 32) \<or> n = 133 \<or> n = 160)"

definition py_strip :: "string \<Rightarrow> string" where
  "py_strip s = rev (dropWhile py_space (rev (dropWhile py_space s)))"

text \<open>ASCII case mapping; the sources apply it to MAC addresses and to flags.\<close>

definition char_upper :: "char \<Rightarrow> char" where
  "char_upper c = (let n = of_char c :: nat in if 97 \<le> n \<and> n \<le> 122 then char_of (n - 32) else c)"

definition char_lower :: "char \<Rightarrow> char" where
  "char_lower c = (let n = of_char c :: nat in if 65 \<le> n \<and> n \<le> 90 then char_of (n + 32) else c)"

definition py_upper :: "string \<Rightarrow> string" where
  "py_upper s = map char_upper s"

definition py_lower :: "string \<Rightarrow> string" where
  "py_lower s = map char_lower s"

definition char_in :: "int \<Rightarrow> int \<Rightarrow> char \<Rightarrow> bool" where
  "char_in lo hi c = (lo \<le> (of_char c :: int) \<and> (of_char c :: int) \<le> hi)"

abbreviation is_digit_char :: "char \<Rightarrow> bool" where "is_digit_char \<equiv> char_in 48 57"
abbreviation is_lower_char :: "char \<Rightarrow> bool" where "is_lower_char \<equiv> char_in 97 122"

text \<open>Evaluation with binary integers instead of unary numbers.\<close>

lemma of_char_int: "(of_char c :: int) = int (of_char c)"
  by (cases c) (simp add: of_char_def)

lemma char_in_code_point: "char_in lo hi c \<longleftrightarrow> lo \<le> int (of_char c) \<and> int (of_char c) \<le> hi"
  by (simp add: char_in_def of_char_int)

lemma char_case_code [code]:
  "char_upper c = (let n = of_char c :: int in if 97 \<le> n \<and> n \<le> 122 then char_of (n - 32) else c)"
  "char_lower c = (let n = of_char c :: int in if 65 \<le> n \<and> n \<le> 90 then char_of (n + 32) else c)"
proof -
  have "(char_of (int n - 32) :: char) = char_of (n - 32)" if "97 \<le> n" for n :: nat
    using that char_of_nat[of "n - 32"] by (simp add: of_nat_diff)
  moreover have "(char_of (int n + 32) :: char) = char_of (n + 32)" for n :: nat
    using char_of_nat[of "n + 32"] by simp
  ultimately show "char_upper c = (let n = of_char c :: int in if 97 \<le> n \<and> n \<le> 122 then char_of (n - 32) else c)"
    "char_lower c = (let n = of_char c :: int in if 65 \<le> n \<and> n \<le> 90 then char_of (n + 32) else c)"
    unfolding char_upper_def char_lower_def Let_def of_char_int by auto
qed

lemma py_space_code [code]:
  "py_space c = (let n = of_char c :: int in (9 \<le> n \<and> n \<le> 13) \<or> (28 \<le> n \<and> n \<le> 32) \<or> n = 133 \<or> n = 160)"
  unfolding py_space_def Let_def of_char_int by linarith

lemma py_strip_Nil [simp]: "py_strip [] = []"
  by (simp add: py_strip_def)

lemma py_strip_eq_Nil_iff: "py_strip s = [] \<longleftrightarrow> (\<forall>c \<in> set s. py_space c)"
proof -
  have "py_strip s = [] \<longleftrightarrow> (\<forall>c \<in> set (dropWhile py_space s). py_space c)"
    by (simp add: py_strip_def dropWhile_eq_Nil_conv)
  also have "\<dots> \<longleftrightarrow> (\<forall>c \<in> set s. py_space c)"
    by (induction s) auto
  finally show ?thesis .
qed

text \<open>Decimal digits of \<open>str(int)\<close>.\<close>

fun dec_nat :: "nat \<Rightarrow> string" where
  "dec_nat n = (if n < 10 then [char_of (48 + n)] else dec_nat (n div 10) @ [char_of (48 + n mod 10)])"

declare dec_nat.simps [simp del]

definition dec_int :: "int \<Rightarrow> string" where
  "dec_int i = (if i < 0 then CHR ''-'' # dec_nat (nat (- i)) else dec_nat (nat i))"

text \<open>The same digits computed on integers, which is what evaluation uses.\<close>

function dec_pos :: "int \<Rightarrow> string" where
  "dec_pos i = (if i < 10 then [char_of (48 + i)] else dec_pos (i div 10) @ [char_of (48 + i mod 10)])"
  by pat_completeness auto
termination by (relation "measure nat") auto
declare dec_pos.simps [simp del]

lemma char_of_int_nat: "char_of (int n) = char_of n"
  by (simp add: char_of_def bit_simps flip: of_nat_div)

lemma dec_nat_dec_pos: "dec_nat n = dec_pos (int n)"
proof (induction n rule: dec_nat.induct)
  case (1 n)
  have *: "char_of (48 + int m) = char_of (48 + m)" for m
    using char_of_int_nat[of "48 + m"] by simp
  show ?case
    using 1 * [of n] * [of "n mod 10"]
    by (simp add: dec_nat.simps [of n] dec_pos.simps [of "int n"] zdiv_int zmod_int)
qed

lemma dec_int_code [code]: "dec_int i = (if i < 0 then CHR ''-'' # dec_pos (- i) else dec_pos i)"
  by (simp add: dec_int_def dec_nat_dec_pos)

text \<open>Reading digits back gives the number, so printing is injective.\<close>

definition digit_val :: "char \<Rightarrow> nat" where
  "digit_val c = of_char c - 48"

definition undec_nat :: "string \<Rightarrow> nat" where
  "undec_nat s = foldl (\<lambda>n c. 10 * n + digit_val c) 0 s"

lemma dec_nat_undec: "undec_nat (dec_nat n) = n"
proof (induction n rule: dec_nat.induct)
  case (1 n)
  show ?case
  proof (cases "n < 10")
    case True
    then show ?thesis by (simp add: dec_nat.simps [of n] undec_nat_def digit_val_def)
  next
    case False
    with 1 have "undec_nat (dec_nat (n div 10)) = n div 10" by simp
    then have "undec_nat (dec_nat n) = 10 * (n div 10) + n mod 10"
      using False by (simp add: dec_nat.simps [of n] undec_nat_def digit_val_def)
    then show ?thesis by simp
  qed
qed

lemma dec_nat_digits: "\<forall>c \<in> set (dec_nat n). is_digit_char c"
proof (induction n rule: dec_nat.induct)
  case (1 n)
  have "is_digit_char (char_of (48 + n mod 10))"
    by (simp add: char_in_code_point)
  moreover have "is_digit_char (char_of (48 + n))" if "n < 10"
    using that by (simp add: char_in_code_point)
  ultimately show ?case using 1 by (subst dec_nat.simps) auto
qed

lemma dec_nat_not_Nil [simp]: "dec_nat n \<noteq> []"
  by (subst dec_nat.simps) simp

lemma inj_dec_nat: "inj dec_nat"
  by (metis dec_nat_undec injI)

lemma find_append: "List.find p (xs @ ys) = (case List.find p xs of None \<Rightarrow> List.find p ys | Some x \<Rightarrow> Some x)"
  by (induction xs) auto

end
