(* ===== verification/Py_Values.thy ===== *)
theory Py_Values
  imports Py_Prelude
begin

text \<open>
  Python's dynamic values as they occur in NetBox custom fields, journal rows and plans
  (JSON documents), their truth value, equality and \<open>repr\<close>, and \<open>json.dumps\<close> with
  \<open>sort_keys=True, ensure_ascii=True\<close>. The main result is that compact serialization is
  unambiguous: two documents with the same text are equal up to the order of dictionary
  keys. Numbers with a fractional part are not modelled: no field the sources read holds one.
\<close>

section \<open>Values\<close>

datatype pyval =
    PNone
  | PBool bool
  | PInt int
  | PStr string
  | PList "pyval list"
  | PDict "(string \<times> pyval) list"

type_synonym pydict = "(string \<times> pyval) list"

lemma size_pydict_mem [termination_simp]:
  "(k, v) \<in> set d \<Longrightarrow> size v < Suc (size_list (size_prod (\<lambda>_. 0) size) d)"
  by (induction d) auto

lemma size_pydict_snd [termination_simp]:
  "p \<in> set d \<Longrightarrow> size (snd p) < Suc (size_list (size_prod (\<lambda>_. 0) size) d)"
  by (cases p) (auto intro: size_pydict_mem)

lemma size_zip_mem [termination_simp]:
  "(a, b) \<in> set (zip xs ys) \<Longrightarrow> size a < Suc (size_list size xs)"
  by (meson le_imp_less_Suc less_imp_le_nat set_zip_leftD size_list_estimation order_refl size_list_estimation')

text \<open>\<open>bool(x)\<close>.\<close>

fun py_truth :: "pyval \<Rightarrow> bool" where
  "py_truth PNone = False"
| "py_truth (PBool b) = b"
| "py_truth (PInt i) = (i \<noteq> 0)"
| "py_truth (PStr s) = (s \<noteq> [])"
| "py_truth (PList xs) = (xs \<noteq> [])"
| "py_truth (PDict d) = (d \<noteq> [])"

text \<open>\<open>==\<close>: booleans are the integers 0 and 1, dictionaries ignore the order of keys.\<close>

fun num_of :: "pyval \<Rightarrow> int option" where
  "num_of (PBool b) = Some (if b then 1 else 0)"
| "num_of (PInt i) = Some i"
| "num_of _ = None"

fun py_eq :: "pyval \<Rightarrow> pyval \<Rightarrow> bool" where
  "py_eq (PList xs) w = (case w of
     PList ys \<Rightarrow> length xs = length ys \<and> list_all (\<lambda>(x, y). py_eq x y) (zip xs ys)
   | _ \<Rightarrow> False)"
| "py_eq (PDict d) w = (case w of
     PDict e \<Rightarrow> length d = length e \<and>
       list_all (\<lambda>p. case map_of e (fst p) of None \<Rightarrow> False | Some u \<Rightarrow> py_eq (snd p) u) d
   | _ \<Rightarrow> False)"
| "py_eq (PStr s) w = (w = PStr s)"
| "py_eq PNone w = (w = PNone)"
| "py_eq (PBool b) w = (num_of w = num_of (PBool b))"
| "py_eq (PInt i) w = (num_of w = num_of (PInt i))"

text \<open>The dictionaries a Python program can hold have distinct keys at every level.\<close>

fun wf_py :: "pyval \<Rightarrow> bool" where
  "wf_py (PList xs) = list_all wf_py xs"
| "wf_py (PDict d) = (distinct (map fst d) \<and> list_all (\<lambda>p. wf_py (snd p)) d)"
| "wf_py _ = True"

text \<open>\<open>d.get(k)\<close> and \<open>d.get(k, default)\<close> on a dictionary; \<open>d[k]\<close> raises.\<close>

definition dget :: "pydict \<Rightarrow> string \<Rightarrow> pyval" where
  "dget d k = (case map_of d k of None \<Rightarrow> PNone | Some v \<Rightarrow> v)"

definition dget_default :: "pydict \<Rightarrow> string \<Rightarrow> pyval \<Rightarrow> pyval" where
  "dget_default d k v = (case map_of d k of None \<Rightarrow> v | Some w \<Rightarrow> w)"

lemma dget_update [simp]: "dget (AList.update k v f) k' = (if k' = k then v else dget f k')"
  by (simp add: dget_def)

lemma dget_default_update [simp]:
  "dget_default (AList.update k v f) k' w = (if k' = k then v else dget_default f k' w)"
  by (simp add: dget_default_def)

definition dindex :: "pydict \<Rightarrow> string \<Rightarrow> pyval result" where
  "dindex d k = (case map_of d k of None \<Rightarrow> Inl (KeyError k) | Some v \<Rightarrow> Inr v)"

text \<open>The same on a value that may not be a dictionary, and \<open>xs[0]\<close>.\<close>

fun py_get :: "pyval \<Rightarrow> string \<Rightarrow> pyval result" where
  "py_get (PDict d) k = Inr (dget d k)"
| "py_get _ k = Inl (AttributeError ''get'')"

fun py_index :: "pyval \<Rightarrow> string \<Rightarrow> pyval result" where
  "py_index (PDict d) k = dindex d k"
| "py_index _ k = Inl (TypeError ''not subscriptable by a string'')"

fun py_first :: "pyval \<Rightarrow> pyval result" where
  "py_first (PList (x # _)) = Inr x"
| "py_first (PStr (c # _)) = Inr (PStr [c])"
| "py_first (PList []) = Inl (RuntimeError ''list index out of range'')"
| "py_first (PStr []) = Inl (RuntimeError ''string index out of range'')"
| "py_first (PDict _) = Inl (KeyError ''0'')"
| "py_first _ = Inl (TypeError ''not subscriptable'')"

text \<open>\<open>for x in v\<close> over a value.\<close>

fun py_iter :: "pyval \<Rightarrow> pyval list result" where
  "py_iter (PList xs) = Inr xs"
| "py_iter (PStr s) = Inr (map (\<lambda>c. PStr [c]) s)"
| "py_iter (PDict d) = Inr (map (PStr \<circ> fst) d)"
| "py_iter _ = Inl (TypeError ''not iterable'')"

text \<open>\<open>v < w\<close>, which raises on values of different kinds, and the stable \<open>sorted(xs)\<close>.\<close>

fun py_lt :: "pyval \<Rightarrow> pyval \<Rightarrow> bool result" where
  "py_lt (PStr s) (PStr t) = Inr (s < t)"
| "py_lt (PList []) (PList ys) = Inr (ys \<noteq> [])"
| "py_lt (PList (x # xs)) (PList []) = Inr False"
| "py_lt (PList (x # xs)) (PList (y # ys)) =
     (if py_eq x y then py_lt (PList xs) (PList ys) else py_lt x y)"
| "py_lt v w = (case (num_of v, num_of w) of
     (Some a, Some b) \<Rightarrow> Inr (a < b) | _ \<Rightarrow> Inl (TypeError ''< not supported between instances''))"

fun py_insort :: "pyval \<Rightarrow> pyval list \<Rightarrow> pyval list result" where
  "py_insort x [] = Inr [x]"
| "py_insort x (y # ys) = bindr (py_lt x y) (\<lambda>b.
     if b then Inr (x # y # ys) else bindr (py_insort x ys) (\<lambda>zs. Inr (y # zs)))"

definition py_sorted :: "pyval list \<Rightarrow> pyval list result" where
  "py_sorted xs = foldr_result py_insort xs []"

lemma py_insort_mset: "py_insort x ys = Inr zs \<Longrightarrow> mset zs = add_mset x (mset ys)"
  by (induction ys arbitrary: zs) (auto simp: bindr_Inr_conv split: if_splits)

lemma py_sorted_mset_acc:
  "foldr_result py_insort xs acc = Inr zs \<Longrightarrow> mset zs = mset xs + mset acc"
  by (induction xs arbitrary: acc) (auto simp: bindr_Inr_conv dest!: py_insort_mset)

lemma py_sorted_mset: "py_sorted xs = Inr zs \<Longrightarrow> mset zs = mset xs"
  by (auto simp: py_sorted_def dest: py_sorted_mset_acc)

text \<open>\<open>a or b\<close> on values.\<close>

definition py_or :: "pyval \<Rightarrow> pyval \<Rightarrow> pyval" where
  "py_or a b = (if py_truth a then a else b)"

section \<open>repr and str\<close>

definition hex_digit :: "nat \<Rightarrow> char" where
  "hex_digit n = (if n < 10 then char_of (48 + n) else char_of (87 + n))"

definition hex2 :: "nat \<Rightarrow> string" where
  "hex2 n = [hex_digit (n div 16), hex_digit (n mod 16)]"

definition repr_char :: "char \<Rightarrow> char \<Rightarrow> string" where
  "repr_char q c = (let n = of_char c :: nat in
     if c = q \<or> n = 92 then [CHR 0x5C, c]
     else if n = 9 then [CHR 0x5C, CHR ''t'']
     else if n = 10 then [CHR 0x5C, CHR ''n'']
     else if n = 13 then [CHR 0x5C, CHR ''r'']
     else if n < 32 \<or> (127 \<le> n \<and> n \<le> 160) \<or> n = 173 then [CHR 0x5C, CHR ''x''] @ hex2 n
     else [c])"

definition repr_str :: "string \<Rightarrow> string" where
  "repr_str s = (let q = (if CHR 0x27 \<in> set s \<and> CHR 0x22 \<notin> set s
       then CHR 0x22 else CHR 0x27)
     in q # concat (map (repr_char q) s) @ [q])"

fun joined :: "string \<Rightarrow> string list \<Rightarrow> string" where
  "joined sep [] = []"
| "joined sep [x] = x"
| "joined sep (x # y # ys) = x @ sep @ joined sep (y # ys)"

fun py_repr :: "pyval \<Rightarrow> string" where
  "py_repr PNone = ''None''"
| "py_repr (PBool b) = (if b then ''True'' else ''False'')"
| "py_repr (PInt i) = dec_int i"
| "py_repr (PStr s) = repr_str s"
| "py_repr (PList xs) = ''['' @ joined '', '' (map py_repr xs) @ '']''"
| "py_repr (PDict d) = ''{'' @ joined '', '' (map (\<lambda>(k, v). repr_str k @ '': '' @ py_repr v) d) @ ''}''"

fun py_str :: "pyval \<Rightarrow> string" where
  "py_str (PStr s) = s"
| "py_str v = py_repr v"

text \<open>\<open>repr(sorted(d.items()))\<close>: keys are distinct, so only they decide the order.\<close>

definition sorted_items :: "pydict \<Rightarrow> pydict" where
  "sorted_items d = sort_key fst d"

definition repr_items :: "pydict \<Rightarrow> string" where
  "repr_items d = ''['' @ joined '', ''
     (map (\<lambda>(k, v). ''('' @ repr_str k @ '', '' @ py_repr v @ '')'') d) @ '']''"

section \<open>json.dumps\<close>

text \<open>\<open>sort_keys=True\<close>: every dictionary in key order.\<close>

fun canon :: "pyval \<Rightarrow> pyval" where
  "canon (PList xs) = PList (map canon xs)"
| "canon (PDict d) = PDict (sort_key fst (map (\<lambda>(k, v). (k, canon v)) d))"
| "canon v = v"

text \<open>\<open>ensure_ascii=True\<close>: everything outside the printable ASCII range is escaped.\<close>

definition json_char :: "char \<Rightarrow> string" where
  "json_char c = (let n = of_char c :: nat; b = CHR 0x5C in
     if n = 34 \<or> n = 92 then [b, c]
     else if n = 10 then [b, CHR ''n'']
     else if n = 13 then [b, CHR ''r'']
     else if n = 9 then [b, CHR ''t'']
     else if n = 12 then [b, CHR ''f'']
     else if n = 8 then [b, CHR ''b'']
     else if 32 \<le> n \<and> n \<le> 126 then [c]
     else [b, CHR ''u'', CHR ''0'', CHR ''0''] @ hex2 n)"

lemma json_char_code [code]:
  "json_char c = (let n = of_char c :: int; b = CHR 0x5C in
     if n = 34 \<or> n = 92 then [b, c]
     else if n = 10 then [b, CHR ''n'']
     else if n = 13 then [b, CHR ''r'']
     else if n = 9 then [b, CHR ''t'']
     else if n = 12 then [b, CHR ''f'']
     else if n = 8 then [b, CHR ''b'']
     else if 32 \<le> n \<and> n \<le> 126 then [c]
     else [b, CHR ''u'', CHR ''0'', CHR ''0''] @ hex2 (of_char c))"
  unfolding json_char_def Let_def of_char_int by auto

definition json_string :: "string \<Rightarrow> string" where
  "json_string s = CHR 0x22 # concat (map json_char s) @ [CHR 0x22]"

fun render :: "string \<Rightarrow> string \<Rightarrow> pyval \<Rightarrow> string" where
  "render isep ksep PNone = ''null''"
| "render isep ksep (PBool b) = (if b then ''true'' else ''false'')"
| "render isep ksep (PInt i) = dec_int i"
| "render isep ksep (PStr s) = json_string s"
| "render isep ksep (PList xs) = ''['' @ joined isep (map (render isep ksep) xs) @ '']''"
| "render isep ksep (PDict d) =
     ''{'' @ joined isep (map (\<lambda>(k, v). json_string k @ ksep @ render isep ksep v) d) @ ''}''"

text \<open>
  The two calls of the sources: the compact form that is hashed, and the default form that
  is used as a sort key.
\<close>

definition dumps_compact :: "pyval \<Rightarrow> string" where
  "dumps_compact v = render '','' '':'' (canon v)"

definition dumps_sorted :: "pyval \<Rightarrow> string" where
  "dumps_sorted v = render '', '' '': '' (canon v)"

section \<open>Serialization is unambiguous\<close>

definition unhex :: "char \<Rightarrow> nat" where
  "unhex c = (let n = of_char c in if n < 58 then n - 48 else n - 87)"

lemma unhex_hex_digit: "n < 16 \<Longrightarrow> unhex (hex_digit n) = n"
  by (auto simp: unhex_def hex_digit_def Let_def)

text \<open>Reading one character of a string literal back.\<close>

definition unescape :: "string \<Rightarrow> (char \<times> string) option" where
  "unescape s = (case s of
     [] \<Rightarrow> None
   | c # r \<Rightarrow> if of_char c = (92::nat) then (case r of
         [] \<Rightarrow> None
       | d # q \<Rightarrow> if d = CHR ''n'' then Some (CHR 0x0A, q)
           else if d = CHR ''r'' then Some (CHR 0x0D, q)
           else if d = CHR ''t'' then Some (CHR 0x09, q)
           else if d = CHR ''f'' then Some (CHR 0x0C, q)
           else if d = CHR ''b'' then Some (CHR 0x08, q)
           else if d = CHR ''u'' then
             Some (char_of (16 * unhex (q ! 2) + unhex (q ! 3)), drop 4 q)
           else Some (d, q))
       else Some (c, r))"


lemma of_char_inject: "of_char c = (of_char d :: nat) \<Longrightarrow> c = d"
  by simp

lemma json_char_cases:
  obtains (quote) "c = CHR 0x22" | (backslash) "c = CHR 0x5C" | (nl) "c = CHR 0x0A" | (cr) "c = CHR 0x0D"
    | (tab) "c = CHR 0x09" | (ff) "c = CHR 0x0C" | (bs) "c = CHR 0x08"
    | (plain) "json_char c = [c]" "(of_char c :: nat) \<noteq> 92" "(of_char c :: nat) \<noteq> 34"
    | (other) "json_char c = [CHR 0x5C, CHR ''u'', CHR ''0'', CHR ''0'',
        hex_digit (of_char c div 16), hex_digit (of_char c mod 16)]"
proof -
  have codes: "(of_char c = (34::nat)) = (c = CHR 0x22)" "(of_char c = (92::nat)) = (c = CHR 0x5C)"
    "(of_char c = (10::nat)) = (c = CHR 0x0A)" "(of_char c = (13::nat)) = (c = CHR 0x0D)"
    "(of_char c = (9::nat)) = (c = CHR 0x09)" "(of_char c = (12::nat)) = (c = CHR 0x0C)"
    "(of_char c = (8::nat)) = (c = CHR 0x08)"
    by (auto intro!: of_char_inject)
  have "c \<in> {CHR 0x22, CHR 0x5C, CHR 0x0A, CHR 0x0D, CHR 0x09, CHR 0x0C, CHR 0x08} \<or>
      json_char c = [c] \<and> c \<noteq> CHR 0x5C \<and> c \<noteq> CHR 0x22 \<or>
      json_char c = [CHR 0x5C, CHR ''u'', CHR ''0'', CHR ''0'',
        hex_digit (of_char c div 16), hex_digit (of_char c mod 16)]"
    by (simp add: json_char_def hex2_def Let_def codes)
  then show ?thesis using that codes(1,2) by blast
qed

lemma unescape_json_char: "unescape (json_char c @ r) = Some (c, r)"
proof (cases c rule: json_char_cases)
  case plain
  then show ?thesis by (simp add: unescape_def)
next
  case other
  have "unhex (hex_digit (of_char c div 16)) = of_char c div 16"
    and "unhex (hex_digit (of_char c mod 16)) = of_char c mod 16"
    by (simp_all add: unhex_hex_digit less_mult_imp_div_less)
  with other show ?thesis by (simp add: unescape_def)
qed (simp_all add: json_char_def unescape_def Let_def)

lemma json_char_not_quote: "json_char c = d # r \<Longrightarrow> d \<noteq> CHR 0x22"
  by (cases c rule: json_char_cases) (auto simp: json_char_def Let_def)

lemma json_char_not_Nil: "json_char c \<noteq> []"
  by (cases c rule: json_char_cases) (auto simp: json_char_def Let_def)

lemma json_char_unambiguous: "json_char c @ r = json_char d @ s \<Longrightarrow> c = d \<and> r = s"
  by (metis unescape_json_char option.inject prod.inject)

lemma json_body_unambiguous:
  "concat (map json_char s) @ CHR 0x22 # r = concat (map json_char t) @ CHR 0x22 # q \<Longrightarrow> s = t \<and> r = q"
proof (induction s arbitrary: t)
  case Nil
  show ?case
  proof (cases t)
    case (Cons d t')
    obtain e u where "json_char d = e # u" using json_char_not_Nil [of d] by (cases "json_char d") auto
    with Nil Cons json_char_not_quote [of d e u] show ?thesis by simp
  qed (use Nil in simp)
next
  case (Cons c s)
  show ?case
  proof (cases t)
    case Nil
    obtain e u where "json_char c = e # u" using json_char_not_Nil [of c] by (cases "json_char c") auto
    with Nil Cons.prems json_char_not_quote [of c e u] show ?thesis by simp
  next
    case t: (Cons d t')
    with Cons.prems have "c = d \<and> concat (map json_char s) @ CHR 0x22 # r = concat (map json_char t') @ CHR 0x22 # q"
      using json_char_unambiguous by fastforce
    with Cons.IH t show ?thesis by blast
  qed
qed

lemma json_string_unambiguous: "json_string s @ r = json_string t @ q \<Longrightarrow> s = t \<and> r = q"
  using json_body_unambiguous [of s r t q] by (simp add: json_string_def)

text \<open>A rest of text that does not continue a number.\<close>

definition no_digit :: "string \<Rightarrow> bool" where
  "no_digit r \<longleftrightarrow> (case r of [] \<Rightarrow> True | c # _ \<Rightarrow> \<not> is_digit_char c)"

lemma dec_nat_unambiguous:
  assumes "dec_nat m @ r = dec_nat n @ s" and "no_digit r" and "no_digit s"
  shows "m = n \<and> r = s"
proof -
  have head: "takeWhile is_digit_char (dec_nat k @ q) = dec_nat k" if "no_digit q" for k q
    using that dec_nat_digits [of k] by (cases q) (simp_all add: takeWhile_append2 no_digit_def)
  with assms have "dec_nat m = dec_nat n" by metis
  with assms(1) show ?thesis using injD [OF inj_dec_nat] by auto
qed

lemma dec_int_head: obtains c t where "dec_int i = c # t" and "c = CHR ''-'' \<or> is_digit_char c"
proof -
  obtain c t where "dec_nat (nat i) = c # t" by (cases "dec_nat (nat i)") auto
  moreover from this have "is_digit_char c" using dec_nat_digits [of "nat i"] by simp
  ultimately show ?thesis using that by (cases "i < 0") (auto simp: dec_int_def)
qed

lemma dec_int_unambiguous:
  assumes eq: "dec_int i @ r = dec_int j @ s" and "no_digit r" and "no_digit s"
  shows "i = j \<and> r = s"
proof -
  have digit: "is_digit_char (hd (dec_nat n))" for n
    using dec_nat_digits [of n] by (cases "dec_nat n") auto
  have minus: "CHR ''-'' # t \<noteq> dec_nat n @ q" for t n q
    using digit [of n] by (cases "dec_nat n") (auto simp: char_in_def)
  consider "i < 0" "j < 0" | "0 \<le> i" "0 \<le> j" | "i < 0" "0 \<le> j" | "0 \<le> i" "j < 0" by linarith
  then show ?thesis
  proof cases
    case 1
    with eq have "dec_nat (nat (- i)) @ r = dec_nat (nat (- j)) @ s" by (simp add: dec_int_def)
    from dec_nat_unambiguous [OF this assms(2,3)] 1 show ?thesis by arith
  next
    case 2
    with eq have "dec_nat (nat i) @ r = dec_nat (nat j) @ s" by (simp add: dec_int_def)
    from dec_nat_unambiguous [OF this assms(2,3)] 2 show ?thesis by arith
  next
    case 3
    with eq have "CHR ''-'' # dec_nat (nat (- i)) @ r = dec_nat (nat j) @ s" by (simp add: dec_int_def)
    with minus show ?thesis by blast
  next
    case 4
    with eq have "CHR ''-'' # dec_nat (nat (- j)) @ s = dec_nat (nat i) @ r" by (simp add: dec_int_def)
    with minus show ?thesis by blast
  qed
qed

text \<open>Comma-separated sequences closed by a bracket.\<close>

lemma joined_Cons: "joined sep (x # xs) = x @ (if xs = [] then [] else sep @ joined sep xs)"
  by (cases xs) simp_all

lemma joined_unambiguous:
  assumes elem: "\<And>x w r s. x \<in> set xs \<Longrightarrow> f x @ r = f w @ s \<Longrightarrow> no_digit r \<Longrightarrow> no_digit s \<Longrightarrow> x = w \<and> r = s"
    and head: "\<And>w r s. f w @ r \<noteq> z # s"
    and z: "z \<noteq> CHR '',''" "\<not> is_digit_char z"
    and eq: "joined '','' (map f xs) @ z # r = joined '','' (map f ys) @ z # s"
  shows "xs = ys \<and> r = s"
  using elem eq
proof (induction xs arbitrary: ys)
  case Nil
  show ?case
  proof (cases ys)
    case (Cons y ys')
    with Nil have "f y @ (if ys' = [] then [] else '','' @ joined '','' (map f ys')) @ z # s = z # r"
      by (simp add: joined_Cons)
    with head show ?thesis by blast
  qed (use Nil in simp)
next
  case (Cons x xs)
  define tail where "tail = (\<lambda>us q. if us = [] then z # q else CHR '','' # joined '','' (map f us) @ z # q)"
  have split: "joined '','' (map f (u # us)) @ z # q = f u @ tail us q" for u us q
    by (simp add: tail_def joined_Cons)
  have stop: "no_digit (tail us q)" for us q
    using z by (simp add: tail_def no_digit_def char_in_def)
  show ?case
  proof (cases ys)
    case Nil
    with Cons.prems(2) split [of x xs r] have "f x @ tail xs r = z # s" by simp
    with head show ?thesis by blast
  next
    case ys: (Cons y ys')
    with Cons.prems(2) split have fe: "f x @ tail xs r = f y @ tail ys' s" by metis
    have "x = y \<and> tail xs r = tail ys' s"
      by (rule Cons.prems(1) [OF _ fe stop stop]) simp
    then have xy: "x = y" "tail xs r = tail ys' s" by simp_all
    have "xs = ys' \<and> r = s"
    proof (cases "xs = [] \<or> ys' = []")
      case True
      with xy(2) z(1) show ?thesis by (simp add: tail_def split: if_splits)
    next
      case False
      with xy(2) have "joined '','' (map f xs) @ z # r = joined '','' (map f ys') @ z # s"
        by (simp add: tail_def)
      from Cons.IH [OF Cons.prems(1) [OF list.set_intros(2)] this] show ?thesis by simp
    qed
    with xy(1) ys show ?thesis by simp
  qed
qed

abbreviation compact :: "pyval \<Rightarrow> string" where
  "compact \<equiv> render '','' '':''"

text \<open>The first character tells the constructor.\<close>

definition lead :: "pyval \<Rightarrow> char \<Rightarrow> bool" where
  "lead v c = (case v of PNone \<Rightarrow> c = CHR ''n'' | PBool b \<Rightarrow> c = (if b then CHR ''t'' else CHR ''f'')
     | PInt _ \<Rightarrow> c = CHR ''-'' \<or> is_digit_char c | PStr _ \<Rightarrow> c = CHR 0x22
     | PList _ \<Rightarrow> c = CHR ''['' | PDict _ \<Rightarrow> c = CHR ''{'')"

lemma compact_lead_ex: "\<exists>c t. compact v = c # t \<and> lead v c"
proof (cases v)
  case (PInt i)
  obtain c t where "dec_int i = c # t" "c = CHR ''-'' \<or> is_digit_char c" by (rule dec_int_head)
  with PInt show ?thesis by (simp add: lead_def)
qed (auto simp: lead_def json_string_def)

lemma compact_lead: obtains c t where "compact v = c # t" and "lead v c"
  using compact_lead_ex by blast

lemma compact_not_close: "compact v @ r \<noteq> CHR '']'' # s" "compact v @ r \<noteq> CHR ''}'' # s"
  by (cases v rule: compact_lead; auto simp: lead_def char_in_def split: pyval.splits if_splits)+

lemma lead_PInt: "lead w c \<Longrightarrow> c = CHR ''-'' \<or> is_digit_char c \<Longrightarrow> \<exists>i. w = PInt i"
  by (auto simp: lead_def char_in_def split: pyval.splits if_splits)

lemma compact_unambiguous:
  "compact v @ r = compact w @ s \<Longrightarrow> no_digit r \<Longrightarrow> no_digit s \<Longrightarrow> v = w \<and> r = s"
proof (induction v arbitrary: w r s)
  case (PInt i)
  obtain c t where c: "dec_int i = c # t" "c = CHR ''-'' \<or> is_digit_char c" by (rule dec_int_head)
  obtain d u where d: "compact w = d # u" "lead w d" by (rule compact_lead)
  from PInt.prems(1) c d have "d = c" by simp
  with lead_PInt [OF d(2)] c(2) obtain j where w: "w = PInt j" by blast
  with dec_int_unambiguous [of i r j s] PInt.prems show ?case by simp
next
  case (PStr x)
  obtain d u where d: "compact w = d # u" "lead w d" by (rule compact_lead)
  with PStr.prems(1) obtain y where w: "w = PStr y"
    by (cases w) (auto simp: lead_def json_string_def char_in_def split: if_splits)
  with json_string_unambiguous [of x r y s] PStr.prems show ?case by simp
next
  case (PList xs)
  obtain d u where d: "compact w = d # u" "lead w d" by (rule compact_lead)
  with PList.prems(1) obtain ys where w: "w = PList ys"
    by (cases w) (auto simp: lead_def char_in_def split: if_splits)
  have "xs = ys \<and> r = s"
  proof (rule joined_unambiguous [where f = compact and z = "CHR '']''"])
    show "joined '','' (map compact xs) @ CHR '']'' # r = joined '','' (map compact ys) @ CHR '']'' # s"
      using PList.prems(1) w by simp
  qed (use PList.IH compact_not_close in \<open>auto simp: char_in_def\<close>)
  with w show ?case by simp
next
  case (PDict e)
  obtain d u where d: "compact w = d # u" "lead w d" by (rule compact_lead)
  with PDict.prems(1) obtain e' where w: "w = PDict e'"
    by (cases w) (auto simp: lead_def char_in_def split: if_splits)
  let ?f = "\<lambda>(k, v). json_string k @ '':'' @ compact v"
  have "e = e' \<and> r = s"
  proof (rule joined_unambiguous [where f = ?f and z = "CHR ''}''"])
    show "joined '','' (map ?f e) @ CHR ''}'' # r = joined '','' (map ?f e') @ CHR ''}'' # s"
      using PDict.prems(1) w by simp
    fix p q r s
    assume p: "p \<in> set e" and eq: "?f p @ r = ?f q @ s" and stop: "no_digit r" "no_digit s"
    obtain k v k' v' where kv: "p = (k, v)" "q = (k', v')" by fastforce
    from eq kv have "json_string k @ CHR '':'' # compact v @ r = json_string k' @ CHR '':'' # compact v' @ s"
      by simp
    from json_string_unambiguous [OF this] have "k = k'" "compact v @ r = compact v' @ s" by simp_all
    with PDict.IH [of p v] p kv stop show "p = q \<and> r = s" by auto
  qed (auto simp: json_string_def char_in_def)
  with w show ?case by simp
next
  case PNone
  obtain d u where d: "compact w = d # u" "lead w d" by (rule compact_lead)
  with PNone.prems(1) have "w = PNone" by (cases w) (auto simp: lead_def char_in_def split: if_splits)
  with PNone show ?case by simp
next
  case (PBool b)
  obtain d u where d: "compact w = d # u" "lead w d" by (rule compact_lead)
  with PBool.prems(1) have "w = PBool b"
    by (cases w) (auto simp: lead_def char_in_def split: if_splits)
  with PBool show ?case by simp
qed

lemma compact_inject: "compact v = compact w \<longleftrightarrow> v = w"
  using compact_unambiguous [of v "[]" w "[]"] by (auto simp: no_digit_def)

lemma dumps_compact_inject: "dumps_compact v = dumps_compact w \<longleftrightarrow> canon v = canon w"
  by (simp add: dumps_compact_def compact_inject)

text \<open>Sorting keys does not change what a dictionary holds.\<close>

lemma map_of_sort_key:
  assumes "distinct (map fst d)"
  shows "map_of (sort_key fst d) = map_of d"
proof -
  have "mset (map fst (sort_key fst d)) = mset (map fst d)"
    unfolding mset_map mset_sort ..
  then have "distinct (map fst (sort_key fst d))"
    using assms mset_eq_imp_distinct_iff by blast
  with assms show ?thesis by (subst map_of_inject_set) auto
qed

lemma canon_PDict_get:
  assumes "distinct (map fst d)"
  shows "\<exists>e. canon (PDict d) = PDict e \<and> map_of e = (\<lambda>k. map_option canon (map_of d k))"
proof -
  let ?d = "map (\<lambda>(k, v). (k, canon v)) d"
  have "map fst ?d = map fst d" by (simp add: case_prod_unfold)
  with assms have "map_of (sort_key fst ?d) = map_of ?d" by (simp only: map_of_sort_key)
  then show ?thesis by (simp add: map_of_map fun_eq_iff)
qed
end
