(* ===== verification/Discovery.thy ===== *)
theory Discovery
  imports Py_Values
begin

text \<open>
  The provider-neutral inventory of \<open>src/netbox_sync/discovery.py\<close>: one record per
  dataclass, with its fields in order. \<open>Optional[str]\<close> is \<^typ>\<open>string option\<close>, a
  free-form dictionary is a \<^typ>\<open>pydict\<close>, and the untyped \<open>vmid\<close> of a virtual machine is a
  dynamic value (an integer for Proxmox, a managed-object name for ESXi).
\<close>

record DiscoveredDisk =
  disk_path :: string
  disk_model :: "string option"
  disk_serial :: "string option"
  disk_size_bytes :: int
  disk_type :: "string option"
  disk_health :: "string option"

record DiscoveredStorage =
  sto_name :: string
  sto_storage_type :: "string option"
  sto_content :: "string option"
  sto_total_bytes :: int
  sto_used_bytes :: int
  sto_available_bytes :: int
  sto_active :: bool

record DiscoveredCPU =
  cpu_model :: "string option"
  cpu_vendor :: "string option"
  cpu_sockets :: int
  cpu_cores :: int
  cpu_logical_cpus :: int

record DiscoveredHostInterface =
  hif_name :: string
  hif_interface_type :: "string option"
  hif_active :: bool
  hif_autostart :: bool
  hif_method :: "string option"
  hif_addresses :: "string list"
  hif_gateway :: "string option"
  hif_bridge_ports :: "string list"
  hif_vlan_id :: "int option"
  hif_vlan_aware :: bool
  hif_comments :: "string option"
  hif_mac_address :: "string option"
  hif_management :: bool

record DiscoveredVirtualDisk =
  vdisk_name :: string
  vdisk_storage :: "string option"
  vdisk_size_bytes :: int
  vdisk_external_id :: "string option"

record DiscoveredInterface =
  nic_name :: string
  nic_mac_address :: "string option"
  nic_bridge :: "string option"
  nic_vlan_id :: "int option"
  nic_ip_addresses :: "string list"
  nic_external_id :: "string option"
  nic_network_observations :: "pydict option"
  nic_ip_vrf_id :: "int option"
  nic_ip_scope_conflicts :: "pydict list"
  nic_mac_scope_conflicts :: "pydict list"

record DiscoveredVirtualMachine =
  vm_source :: string
  vm_source_instance :: string
  vm_legacy_identity_owner :: bool
  vm_source_id :: string
  vm_node_source_id :: string
  vm_vmid :: pyval
  vm_original_name :: string
  vm_normalized_name :: string
  vm_status :: string
  vm_vcpus :: int
  vm_memory_bytes :: int
  vm_autostart :: bool
  vm_disks :: "DiscoveredVirtualDisk list"
  vm_interfaces :: "DiscoveredInterface list"
  vm_external_id :: "string option"
  vm_description :: "string option"
  vm_provider_object_id :: "string option"
  vm_esxi_instance_uuid :: "string option"
  vm_esxi_bios_uuid :: "string option"

record DiscoveredContainer =
  ct_source :: string
  ct_source_instance :: string
  ct_legacy_identity_owner :: bool
  ct_source_id :: string
  ct_node_source_id :: string
  ct_vmid :: int
  ct_original_name :: string
  ct_normalized_name :: string
  ct_status :: string
  ct_architecture :: "string option"
  ct_os_type :: "string option"
  ct_vcpus :: int
  ct_memory_bytes :: int
  ct_swap_bytes :: int
  ct_autostart :: bool
  ct_unprivileged :: bool
  ct_disks :: "DiscoveredVirtualDisk list"
  ct_interfaces :: "DiscoveredInterface list"

record DiscoveredHost =
  h_source :: string
  h_source_instance :: string
  h_legacy_identity_owner :: bool
  h_source_id :: string
  h_original_name :: string
  h_normalized_name :: string
  h_management_ip :: "string option"
  h_hypervisor :: string
  h_hypervisor_version :: "string option"
  h_cpu :: DiscoveredCPU
  h_memory_bytes :: int
  h_manufacturer :: "string option"
  h_model :: "string option"
  h_disks :: "DiscoveredDisk list"
  h_storages :: "DiscoveredStorage list"
  h_interfaces :: "DiscoveredHostInterface list"
  h_virtual_machines :: "DiscoveredVirtualMachine list"
  h_containers :: "DiscoveredContainer list"
  h_esxi_events :: "pydict option"
  h_esxi_host_network :: "pydict option"
  h_proxmox_host_network :: "pydict option"
  h_connection_management :: "pydict option"
  h_hardware_identity :: "pydict option"

text \<open>
  Several loops of the sources run over \<open>[*host.virtual_machines, *host.containers]\<close> and tell
  the two apart with \<open>hasattr(guest, "architecture")\<close>, an attribute only containers have.
\<close>

datatype guest = GuestVM DiscoveredVirtualMachine | GuestLXC DiscoveredContainer

definition host_guests :: "DiscoveredHost \<Rightarrow> guest list" where
  "host_guests h = map GuestVM (h_virtual_machines h) @ map GuestLXC (h_containers h)"

fun has_architecture :: "guest \<Rightarrow> bool" where
  "has_architecture (GuestVM _) = False"
| "has_architecture (GuestLXC _) = True"

fun g_source :: "guest \<Rightarrow> string" where
  "g_source (GuestVM v) = vm_source v" | "g_source (GuestLXC c) = ct_source c"

fun g_source_instance :: "guest \<Rightarrow> string" where
  "g_source_instance (GuestVM v) = vm_source_instance v"
| "g_source_instance (GuestLXC c) = ct_source_instance c"

fun g_legacy_identity_owner :: "guest \<Rightarrow> bool" where
  "g_legacy_identity_owner (GuestVM v) = vm_legacy_identity_owner v"
| "g_legacy_identity_owner (GuestLXC c) = ct_legacy_identity_owner c"

fun g_source_id :: "guest \<Rightarrow> string" where
  "g_source_id (GuestVM v) = vm_source_id v" | "g_source_id (GuestLXC c) = ct_source_id c"

fun g_vmid :: "guest \<Rightarrow> pyval" where
  "g_vmid (GuestVM v) = vm_vmid v" | "g_vmid (GuestLXC c) = PInt (ct_vmid c)"

fun g_original_name :: "guest \<Rightarrow> string" where
  "g_original_name (GuestVM v) = vm_original_name v" | "g_original_name (GuestLXC c) = ct_original_name c"

fun g_interfaces :: "guest \<Rightarrow> DiscoveredInterface list" where
  "g_interfaces (GuestVM v) = vm_interfaces v" | "g_interfaces (GuestLXC c) = ct_interfaces c"

text \<open>\<open>getattr(guest, "external_id", None)\<close>: containers have no such attribute.\<close>

fun g_external_id :: "guest \<Rightarrow> string option" where
  "g_external_id (GuestVM v) = vm_external_id v" | "g_external_id (GuestLXC c) = None"

fun g_provider_object_id :: "guest \<Rightarrow> string option" where
  "g_provider_object_id (GuestVM v) = vm_provider_object_id v" | "g_provider_object_id (GuestLXC c) = None"

text \<open>\<open>x or y\<close> on an optional text: \<open>None\<close> and the empty text are both false.\<close>

definition opt_or :: "string option \<Rightarrow> string \<Rightarrow> string" where
  "opt_or x y = (case x of None \<Rightarrow> y | Some s \<Rightarrow> if s = [] then y else s)"

definition py_of_opt :: "string option \<Rightarrow> pyval" where
  "py_of_opt x = (case x of None \<Rightarrow> PNone | Some s \<Rightarrow> PStr s)"

definition py_of_int_opt :: "int option \<Rightarrow> pyval" where
  "py_of_int_opt x = (case x of None \<Rightarrow> PNone | Some i \<Rightarrow> PInt i)"

end
