(* ===== verification/Source_Identity.thy ===== *)
theory Source_Identity
  imports Discovery
begin

text \<open>
  Versioned identities of source-owned objects, \<open>src/netbox_sync/source_identity.py\<close>:
  construction and validation of an identity, its stored form, the match rank of a NetBox
  object against a wanted identity, and the merge that owns one namespace and keeps every
  other record. The lemmas show the round trip of the stored form, that a merged object is
  found again with the best rank, that a merge leaves every foreign namespace as it was,
  that it is idempotent, and what the best-rank selection returns.
\<close>

section \<open>Model\<close>

definition IDENTITY_SCHEMA_V2 :: string where "IDENTITY_SCHEMA_V2 = ''v2''"
definition NO_IDENTITY_MATCH :: nat where "NO_IDENTITY_MATCH = 0"
definition LEGACY_IDENTITY_MATCH :: nat where "LEGACY_IDENTITY_MATCH = 1"
definition V2_IDENTITY_MATCH :: nat where "V2_IDENTITY_MATCH = 2"

definition required_text :: "pyval \<Rightarrow> string \<Rightarrow> string result" where
  "required_text value field_name = (case value of
     PStr s \<Rightarrow> if py_strip s = [] then Inl (ValueError (field_name @ '' must be a non-empty string'')) else Inr s
   | _ \<Rightarrow> Inl (ValueError (field_name @ '' must be a non-empty string'')))"

record SourceIdentity =
  si_schema :: string
  si_type :: string
  si_instance :: string
  si_kind :: string
  si_external_id :: string

text \<open>The constructor with its \<open>__post_init__\<close> checks, in the order of the code.\<close>

definition new_SourceIdentity ::
  "pyval \<Rightarrow> pyval \<Rightarrow> pyval \<Rightarrow> pyval \<Rightarrow> pyval \<Rightarrow> SourceIdentity result" where
  "new_SourceIdentity schema type instance kind external_id =
     (if schema \<noteq> PStr IDENTITY_SCHEMA_V2 then Inl (ValueError ''unsupported source identity schema'')
      else bindr (required_text type ''type'') (\<lambda>t.
           bindr (required_text instance ''instance'') (\<lambda>i.
           bindr (required_text kind ''kind'') (\<lambda>k.
           bindr (required_text external_id ''external_id'') (\<lambda>x.
             Inr \<lparr>si_schema = IDENTITY_SCHEMA_V2, si_type = t, si_instance = i, si_kind = k,
                  si_external_id = x\<rparr>)))))"

definition to_record :: "SourceIdentity \<Rightarrow> pydict" where
  "to_record i =
     [(''schema'', PStr (si_schema i)),
      (''type'', PStr (si_type i)),
      (''instance'', PStr (si_instance i)),
      (''kind'', PStr (si_kind i)),
      (''external_id'', PStr (si_external_id i))]"

definition from_record :: "pyval \<Rightarrow> SourceIdentity option result" where
  "from_record value = (case value of
     PDict d \<Rightarrow>
       if dget d ''schema'' \<noteq> PStr IDENTITY_SCHEMA_V2 then Inr None
       else (case
           bindr (dindex d ''schema'') (\<lambda>schema.
           bindr (dindex d ''type'') (\<lambda>type.
           bindr (dindex d ''instance'') (\<lambda>instance.
           bindr (dindex d ''kind'') (\<lambda>kind.
           bindr (dindex d ''external_id'') (\<lambda>external_id.
             new_SourceIdentity schema type instance kind (PStr (py_str external_id)))))))
         of Inl _ \<Rightarrow> Inl (ValueError ''invalid source identity v2 record'')
          | Inr i \<Rightarrow> Inr (Some i))
   | _ \<Rightarrow> Inr None)"

definition identity :: "string \<Rightarrow> string \<Rightarrow> string \<Rightarrow> string \<Rightarrow> SourceIdentity result" where
  "identity source source_instance kind external_id =
     new_SourceIdentity (PStr IDENTITY_SCHEMA_V2) (PStr source) (PStr source_instance) (PStr kind)
       (PStr external_id)"

definition host_source_identity :: "DiscoveredHost \<Rightarrow> SourceIdentity result" where
  "host_source_identity host = identity (h_source host) (h_source_instance host) ''host'' (h_source_id host)"

definition qemu_source_identity :: "DiscoveredVirtualMachine \<Rightarrow> SourceIdentity result" where
  "qemu_source_identity vm = identity (vm_source vm) (vm_source_instance vm) ''qemu'' (py_str (vm_vmid vm))"

definition lxc_source_identity :: "DiscoveredContainer \<Rightarrow> SourceIdentity result" where
  "lxc_source_identity ct = identity (ct_source ct) (ct_source_instance ct) ''lxc'' (dec_int (ct_vmid ct))"

definition nic_key :: "DiscoveredInterface \<Rightarrow> string" where
  "nic_key nic = opt_or (nic_external_id nic) (nic_name nic)"

definition qemu_nic_source_identity ::
  "DiscoveredVirtualMachine \<Rightarrow> DiscoveredInterface \<Rightarrow> SourceIdentity result" where
  "qemu_nic_source_identity vm nic = identity (vm_source vm) (vm_source_instance vm) ''qemu-nic''
     (py_str (vm_vmid vm) @ '':'' @ nic_key nic)"

text \<open>\<open>vm.external_id or vm.vmid\<close> as text.\<close>

definition esxi_vm_id :: "DiscoveredVirtualMachine \<Rightarrow> string" where
  "esxi_vm_id vm = opt_or (vm_external_id vm) (py_str (vm_vmid vm))"

definition virtual_machine_source_identity :: "DiscoveredVirtualMachine \<Rightarrow> SourceIdentity result" where
  "virtual_machine_source_identity vm =
     (if vm_source vm = ''esxi'' then identity (vm_source vm) (vm_source_instance vm) ''vm'' (esxi_vm_id vm)
      else qemu_source_identity vm)"

definition virtual_machine_nic_source_identity ::
  "DiscoveredVirtualMachine \<Rightarrow> DiscoveredInterface \<Rightarrow> SourceIdentity result" where
  "virtual_machine_nic_source_identity vm nic =
     (if vm_source vm = ''esxi''
      then identity (vm_source vm) (vm_source_instance vm) ''vm-nic'' (esxi_vm_id vm @ '':'' @ nic_key nic)
      else qemu_nic_source_identity vm nic)"

definition lxc_nic_source_identity ::
  "DiscoveredContainer \<Rightarrow> DiscoveredInterface \<Rightarrow> SourceIdentity result" where
  "lxc_nic_source_identity ct nic = identity (ct_source ct) (ct_source_instance ct) ''lxc-nic''
     (dec_int (ct_vmid ct) @ '':'' @ nic_key nic)"

definition original_name_key :: "SourceIdentity \<Rightarrow> string" where
  "original_name_key i = si_type i @ ''/'' @ si_instance i @ ''/'' @ si_kind i"

text \<open>
  \<open>dict(custom_fields or {})\<close>: custom fields are a dictionary or \<open>None\<close>.
\<close>

definition fields_of :: "pydict option \<Rightarrow> pydict" where
  "fields_of custom_fields = (case custom_fields of None \<Rightarrow> [] | Some d \<Rightarrow> d)"

text \<open>The first loop of \<open>source_identity_match_rank\<close>: a malformed v2 record raises.\<close>

fun v2_match :: "pyval list \<Rightarrow> SourceIdentity \<Rightarrow> bool result" where
  "v2_match [] desired = Inr False"
| "v2_match (v # vs) desired = bindr (from_record v) (\<lambda>parsed.
     if parsed = Some desired then Inr True else v2_match vs desired)"

definition legacy_match :: "SourceIdentity \<Rightarrow> string list \<Rightarrow> pyval \<Rightarrow> bool" where
  "legacy_match desired wanted value = (case value of
     PDict d \<Rightarrow> dget d ''schema'' \<noteq> PStr IDENTITY_SCHEMA_V2 \<and>
       dget d ''source'' = PStr (si_type desired) \<and>
       py_str (dget_default d ''source_id'' (dget d ''id'')) \<in> set wanted
   | _ \<Rightarrow> False)"

definition source_identity_match_rank ::
  "pydict option \<Rightarrow> SourceIdentity \<Rightarrow> string list \<Rightarrow> bool \<Rightarrow> nat result" where
  "source_identity_match_rank custom_fields desired legacy_source_ids legacy_identity_owner =
     (case dget (fields_of custom_fields) ''sync_identities'' of
        PList identities \<Rightarrow> bindr (v2_match identities desired) (\<lambda>found.
          Inr (if found then V2_IDENTITY_MATCH
               else if \<not> legacy_identity_owner then NO_IDENTITY_MATCH
               else if list_ex (legacy_match desired legacy_source_ids) identities then LEGACY_IDENTITY_MATCH
               else NO_IDENTITY_MATCH))
      | _ \<Rightarrow> Inr NO_IDENTITY_MATCH)"

definition same_namespace :: "SourceIdentity \<Rightarrow> SourceIdentity \<Rightarrow> bool" where
  "same_namespace a b = (si_type a = si_type b \<and> si_instance a = si_instance b \<and> si_kind a = si_kind b)"

text \<open>The records a merge keeps: everything outside the namespace of the wanted identity.\<close>

fun kept_identities :: "SourceIdentity \<Rightarrow> pyval list \<Rightarrow> pydict list result" where
  "kept_identities desired [] = Inr []"
| "kept_identities desired (v # vs) = (case v of
     PDict d \<Rightarrow> bindr (from_record (PDict d)) (\<lambda>parsed.
       bindr (kept_identities desired vs) (\<lambda>rest.
         Inr (case parsed of
                Some p \<Rightarrow> if same_namespace p desired then rest else d # rest
              | None \<Rightarrow> d # rest)))
   | _ \<Rightarrow> Inl (ValueError ''sync_identities contains an unsupported value''))"

definition record_sort_key :: "pydict \<Rightarrow> string" where
  "record_sort_key d = repr_items (sorted_items d)"

definition merge_source_identities :: "pydict option \<Rightarrow> SourceIdentity \<Rightarrow> pyval list result" where
  "merge_source_identities custom_fields desired =
     (case dget_default (fields_of custom_fields) ''sync_identities'' (PList []) of
        PList identities \<Rightarrow> bindr (kept_identities desired identities) (\<lambda>result.
          Inr (map PDict (sort_key record_sort_key (result @ [to_record desired]))))
      | _ \<Rightarrow> Inl (ValueError ''sync_identities must be a JSON list''))"

definition merge_original_name :: "pydict option \<Rightarrow> SourceIdentity \<Rightarrow> string \<Rightarrow> pydict result" where
  "merge_original_name custom_fields desired original_name =
     (case dget_default (fields_of custom_fields) ''sync_original_names'' (PDict []) of
        PDict values \<Rightarrow> Inr (AList.update (original_name_key desired) (PStr original_name) values)
      | _ \<Rightarrow> Inl (ValueError ''sync_original_names must be a JSON object''))"

fun best_matches :: "('c \<Rightarrow> nat result) \<Rightarrow> 'c list \<Rightarrow> nat \<Rightarrow> 'c list \<Rightarrow> 'c list result" where
  "best_matches ranker [] best_rank matches = Inr matches"
| "best_matches ranker (c # cs) best_rank matches = bindr (ranker c) (\<lambda>rank.
     if rank > best_rank then best_matches ranker cs rank [c]
     else if rank \<noteq> 0 \<and> rank = best_rank then best_matches ranker cs best_rank (matches @ [c])
     else best_matches ranker cs best_rank matches)"

definition select_best_identity_matches :: "'c list \<Rightarrow> ('c \<Rightarrow> nat result) \<Rightarrow> 'c list result" where
  "select_best_identity_matches candidates ranker = best_matches ranker candidates NO_IDENTITY_MATCH []"

section \<open>Round trip of the stored form\<close>

definition wf_identity :: "SourceIdentity \<Rightarrow> bool" where
  "wf_identity i \<longleftrightarrow> si_schema i = IDENTITY_SCHEMA_V2 \<and> py_strip (si_type i) \<noteq> [] \<and>
     py_strip (si_instance i) \<noteq> [] \<and> py_strip (si_kind i) \<noteq> [] \<and> py_strip (si_external_id i) \<noteq> []"

lemma required_text_Inr: "required_text v f = Inr s \<longleftrightarrow> v = PStr s \<and> py_strip s \<noteq> []"
  by (cases v) (auto simp: required_text_def)

lemma new_SourceIdentity_wf: "new_SourceIdentity a b c d e = Inr i \<Longrightarrow> wf_identity i"
  by (auto simp: new_SourceIdentity_def wf_identity_def bindr_Inr_conv required_text_Inr split: if_splits)

lemma identity_wf: "identity a b c d = Inr i \<Longrightarrow> wf_identity i"
  unfolding identity_def by (rule new_SourceIdentity_wf)

lemma identity_fields:
  "identity a b c d = Inr i \<Longrightarrow> si_type i = a \<and> si_instance i = b \<and> si_kind i = c \<and> si_external_id i = d"
  by (auto simp: identity_def new_SourceIdentity_def bindr_Inr_conv required_text_Inr split: if_splits)

lemma from_record_to_record:
  assumes "wf_identity i"
  shows "from_record (PDict (to_record i)) = Inr (Some i)"
  using assms
  by (cases i) (simp add: from_record_def to_record_def dget_def dindex_def new_SourceIdentity_def
      required_text_def wf_identity_def)

lemma from_record_wf: "from_record v = Inr (Some i) \<Longrightarrow> wf_identity i"
  by (auto simp: from_record_def bindr_Inr_conv split: pyval.splits if_splits sum.splits
      intro: new_SourceIdentity_wf)

lemma from_record_schema: "from_record (PDict d) = Inr (Some i) \<Longrightarrow> dget d ''schema'' = PStr IDENTITY_SCHEMA_V2"
  by (auto simp: from_record_def split: if_splits)

section \<open>Merging and matching\<close>

definition parses :: "pyval \<Rightarrow> bool" where
  "parses v \<longleftrightarrow> (\<exists>p. from_record v = Inr p)"

lemma v2_match_parsed:
  "\<forall>v \<in> set vs. parses v \<Longrightarrow> v2_match vs d = Inr (\<exists>v \<in> set vs. from_record v = Inr (Some d))"
  by (induction vs) (auto simp: parses_def)

definition outside :: "SourceIdentity \<Rightarrow> pydict \<Rightarrow> bool" where
  "outside d r \<longleftrightarrow> (case from_record (PDict r) of Inr (Some p) \<Rightarrow> \<not> same_namespace p d | _ \<Rightarrow> True)"

lemma kept_identities_Inr:
  "kept_identities d vs = Inr ks \<longleftrightarrow>
     (\<exists>rs. vs = map PDict rs \<and> (\<forall>r \<in> set rs. parses (PDict r)) \<and> ks = filter (outside d) rs)"
proof (induction vs arbitrary: ks)
  case Nil
  then show ?case by auto
next
  case (Cons v vs)
  show ?case
  proof (cases v)
    case (PDict r)
    show ?thesis
    proof
      assume "kept_identities d (v # vs) = Inr ks"
      then obtain p rest where p: "from_record (PDict r) = Inr p" and rest: "kept_identities d vs = Inr rest"
        and ks: "ks = (case p of Some q \<Rightarrow> if same_namespace q d then rest else r # rest | None \<Rightarrow> r # rest)"
        by (auto simp: PDict bindr_Inr_conv)
      from rest Cons.IH obtain rs where
        rs: "vs = map PDict rs" "\<forall>r \<in> set rs. parses (PDict r)" "rest = filter (outside d) rs" by blast
      then have "v # vs = map PDict (r # rs) \<and> (\<forall>r \<in> set (r # rs). parses (PDict r)) \<and>
          ks = filter (outside d) (r # rs)"
        using p ks PDict by (auto simp: parses_def outside_def split: option.splits)
      then show "\<exists>rs. v # vs = map PDict rs \<and> (\<forall>r \<in> set rs. parses (PDict r)) \<and> ks = filter (outside d) rs"
        by (rule exI)
    next
      assume "\<exists>rs. v # vs = map PDict rs \<and> (\<forall>r \<in> set rs. parses (PDict r)) \<and> ks = filter (outside d) rs"
      then obtain rs where rs: "vs = map PDict rs" "parses (PDict r)" "\<forall>r \<in> set rs. parses (PDict r)"
        "ks = filter (outside d) (r # rs)" using PDict by (auto simp: Cons_eq_map_conv)
      then have "kept_identities d vs = Inr (filter (outside d) rs)" using Cons.IH by blast
      with rs PDict show "kept_identities d (v # vs) = Inr ks"
        by (auto simp: parses_def outside_def split: option.splits)
    qed
  qed auto
qed

lemma merge_source_identities_Inr:
  "merge_source_identities cf d = Inr vs \<longleftrightarrow>
     (\<exists>rs. dget_default (fields_of cf) ''sync_identities'' (PList []) = PList (map PDict rs) \<and>
        (\<forall>r \<in> set rs. parses (PDict r)) \<and>
        vs = map PDict (sort_key record_sort_key (filter (outside d) rs @ [to_record d])))"
  by (auto simp: merge_source_identities_def bindr_Inr_conv kept_identities_Inr split: pyval.splits)

text \<open>Writing the merged list back into the custom fields, as the metadata builders do.\<close>

abbreviation store_identities :: "pydict \<Rightarrow> SourceIdentity \<Rightarrow> pydict result" where
  "store_identities f d \<equiv> bindr (merge_source_identities (Some f) d)
     (\<lambda>vs. Inr (AList.update ''sync_identities'' (PList vs) f))"

lemma fields_of_simps [simp]: "fields_of None = []" "fields_of (Some f) = f"
  by (simp_all add: fields_of_def)

lemma rank_of_list:
  assumes "dget f ''sync_identities'' = PList vs" and "\<forall>v \<in> set vs. parses v"
  shows "source_identity_match_rank (Some f) d ids own =
    Inr (if \<exists>v \<in> set vs. from_record v = Inr (Some d) then V2_IDENTITY_MATCH
         else if own \<and> (\<exists>v \<in> set vs. legacy_match d ids v) then LEGACY_IDENTITY_MATCH
         else NO_IDENTITY_MATCH)"
  using assms by (auto simp: source_identity_match_rank_def v2_match_parsed list_ex_iff)

lemma parses_to_record: "wf_identity d \<Longrightarrow> parses (PDict (to_record d))"
  by (simp add: parses_def from_record_to_record)

lemma legacy_match_to_record: "wf_identity d \<Longrightarrow> \<not> legacy_match e ids (PDict (to_record d))"
  by (simp add: legacy_match_def to_record_def dget_def wf_identity_def)

lemma legacy_match_outside: "legacy_match e ids (PDict r) \<Longrightarrow> outside d r"
  by (auto simp: legacy_match_def outside_def dest: from_record_schema split: sum.splits option.splits)

lemma store_identities_found:
  assumes wf: "wf_identity d" and m: "store_identities f d = Inr f'"
  shows "source_identity_match_rank (Some f') d ids own = Inr V2_IDENTITY_MATCH"
proof -
  from m obtain rs where rs: "\<forall>r \<in> set rs. parses (PDict r)"
    and f': "f' = AList.update ''sync_identities''
      (PList (map PDict (sort_key record_sort_key (filter (outside d) rs @ [to_record d])))) f"
    by (auto simp: bindr_Inr_conv merge_source_identities_Inr)
  let ?vs = "map PDict (sort_key record_sort_key (filter (outside d) rs @ [to_record d]))"
  have "\<forall>v \<in> set ?vs. parses v" using rs parses_to_record [OF wf] by auto
  moreover have "\<exists>v \<in> set ?vs. from_record v = Inr (Some d)" using from_record_to_record [OF wf] by auto
  ultimately show ?thesis using rank_of_list [of f' ?vs d ids own] f' by auto
qed

lemma store_identities_foreign:
  assumes wf: "wf_identity d" and m: "store_identities f d = Inr f'" and e: "\<not> same_namespace e d"
  shows "source_identity_match_rank (Some f') e ids own = source_identity_match_rank (Some f) e ids own"
proof -
  from m obtain rs where rs: "\<forall>r \<in> set rs. parses (PDict r)"
    and old: "dget_default f ''sync_identities'' (PList []) = PList (map PDict rs)"
    and f': "f' = AList.update ''sync_identities''
      (PList (map PDict (sort_key record_sort_key (filter (outside d) rs @ [to_record d])))) f"
    by (auto simp: bindr_Inr_conv merge_source_identities_Inr)
  let ?vs = "map PDict (sort_key record_sort_key (filter (outside d) rs @ [to_record d]))"
  have d: "from_record (PDict (to_record d)) = Inr (Some d)" by (rule from_record_to_record [OF wf])
  have "same_namespace d d" by (simp add: same_namespace_def)
  with e have de: "e \<noteq> d" by blast
  have found: "(\<exists>v \<in> set ?vs. from_record v = Inr (Some e)) = (\<exists>v \<in> set (map PDict rs). from_record v = Inr (Some e))"
    using e d de by (auto simp: outside_def)
  have legacy: "(\<exists>v \<in> set ?vs. legacy_match e ids v) = (\<exists>v \<in> set (map PDict rs). legacy_match e ids v)"
    using legacy_match_to_record [OF wf] legacy_match_outside by auto
  have new: "source_identity_match_rank (Some f') e ids own =
    Inr (if \<exists>v \<in> set ?vs. from_record v = Inr (Some e) then V2_IDENTITY_MATCH
         else if own \<and> (\<exists>v \<in> set ?vs. legacy_match e ids v) then LEGACY_IDENTITY_MATCH
         else NO_IDENTITY_MATCH)"
    by (rule rank_of_list) (use f' rs parses_to_record [OF wf] in auto)
  show ?thesis
  proof (cases "map_of f ''sync_identities''")
    case None
    with old have "rs = []" by (simp add: dget_default_def)
    with None found legacy new show ?thesis
      by (simp add: source_identity_match_rank_def dget_def)
  next
    case (Some v)
    with old have "dget f ''sync_identities'' = PList (map PDict rs)"
      by (simp add: dget_default_def dget_def)
    from rank_of_list [OF this, of e ids own] rs new show ?thesis
      unfolding found legacy by simp
  qed
qed
lemma sort_key_append_sort: "sort_key f (sort_key f xs @ ys) = sort_key f (xs @ ys)"
proof (rule properties_for_sort_key)
  show "sorted (map f (sort_key f (xs @ ys)))" by simp
  show "filter (\<lambda>x. f k = f x) (sort_key f (xs @ ys)) = filter (\<lambda>x. f k = f x) (sort_key f xs @ ys)"
    if "k \<in> set (sort_key f (xs @ ys))" for k
    using sort_key_stable [of f "f k"] by (simp add: eq_commute)
qed simp

lemma store_identities_idem:
  assumes wf: "wf_identity d" and m: "store_identities f d = Inr f'"
  shows "store_identities f' d = Inr f'"
proof -
  from m obtain rs where rs: "\<forall>r \<in> set rs. parses (PDict r)"
    and f': "f' = AList.update ''sync_identities''
      (PList (map PDict (sort_key record_sort_key (filter (outside d) rs @ [to_record d])))) f"
    by (auto simp: bindr_Inr_conv merge_source_identities_Inr)
  let ?new = "sort_key record_sort_key (filter (outside d) rs @ [to_record d])"
  have drop: "\<not> outside d (to_record d)"
    by (simp add: outside_def from_record_to_record [OF wf] same_namespace_def)
  have "filter (outside d) ?new = sort_key record_sort_key (filter (outside d) (filter (outside d) rs @ [to_record d]))"
    by (rule filter_sort)
  then have keep: "filter (outside d) ?new = sort_key record_sort_key (filter (outside d) rs)"
    using drop by simp
  have "merge_source_identities (Some f') d =
      Inr (map PDict (sort_key record_sort_key (filter (outside d) ?new @ [to_record d])))"
    unfolding merge_source_identities_Inr
    by (rule exI [where x = ?new]) (use rs f' parses_to_record [OF wf] in auto)
  then have "merge_source_identities (Some f') d = Inr (map PDict ?new)"
    by (simp only: keep sort_key_append_sort)
  then show ?thesis by (simp add: f' update_triv)
qed

section \<open>The contract of an identity store\<close>

text \<open>
  What the planners and executors rely on: an object that was merged is found, other
  namespaces keep their rank, and a repeated merge changes nothing.
\<close>

locale identity_store =
  fixes rank :: "'f \<Rightarrow> SourceIdentity \<Rightarrow> string list \<Rightarrow> bool \<Rightarrow> nat result"
    and merge :: "'f \<Rightarrow> SourceIdentity \<Rightarrow> 'f result"
  assumes merge_found: "wf_identity d \<Longrightarrow> merge f d = Inr f' \<Longrightarrow> rank f' d ids own = Inr V2_IDENTITY_MATCH"
    and merge_foreign: "wf_identity d \<Longrightarrow> merge f d = Inr f' \<Longrightarrow> \<not> same_namespace e d \<Longrightarrow>
      rank f' e ids own = rank f e ids own"
    and merge_idem: "wf_identity d \<Longrightarrow> merge f d = Inr f' \<Longrightarrow> merge f' d = Inr f'"
begin

text \<open>Several sources may own the same object: each still finds it after all have written.\<close>

lemma merge_many_found:
  assumes "foldr_result (\<lambda>d f. merge f d) ds f = Inr f'" and "\<forall>d \<in> set ds. wf_identity d"
    and "pairwise (\<lambda>a b. \<not> same_namespace a b) (set ds)" and "distinct ds" and "d \<in> set ds"
  shows "rank f' d ids own = Inr V2_IDENTITY_MATCH"
  using assms
proof (induction ds arbitrary: f)
  case Nil
  then show ?case by simp
next
  case (Cons a ds)
  from Cons.prems(1) obtain g where g: "merge f a = Inr g" "foldr_result (\<lambda>d f. merge f d) ds g = Inr f'"
    by (auto simp: bindr_Inr_conv)
  have keep: "rank f' a ids own = rank h a ids own" if "foldr_result (\<lambda>d f. merge f d) es h = Inr f'"
    "set es \<subseteq> set ds" for es h
    using that
  proof (induction es arbitrary: h)
    case (Cons b es)
    then obtain k where k: "merge h b = Inr k" "foldr_result (\<lambda>d f. merge f d) es k = Inr f'"
      by (auto simp: bindr_Inr_conv)
    have b: "b \<in> set ds" using Cons.prems(2) by simp
    then have "\<not> same_namespace a b" and "wf_identity b"
      using Cons.prems(2) \<open>distinct (a # ds)\<close> \<open>pairwise _ (set (a # ds))\<close> \<open>\<forall>d \<in> set (a # ds). wf_identity d\<close>
      by (auto simp: pairwise_def)
    from merge_foreign [OF \<open>wf_identity b\<close> k(1) this(1)] Cons.IH [OF k(2)] Cons.prems(2) show ?case by simp
  qed simp
  show ?case
  proof (cases "d = a")
    case True
    then show ?thesis
      using keep [OF g(2)] merge_found [OF _ g(1)] Cons.prems(2) by simp
  next
    case False
    with Cons.prems have "d \<in> set ds" by simp
    moreover have "pairwise (\<lambda>a b. \<not> same_namespace a b) (set ds)"
      using Cons.prems(3) by (rule pairwise_subset) auto
    ultimately show ?thesis using Cons.IH [OF g(2)] Cons.prems by simp
  qed
qed

end

interpretation custom_fields: identity_store
  "\<lambda>f. source_identity_match_rank (Some f)" "\<lambda>f d. store_identities f d"
  by unfold_locales (rule store_identities_found store_identities_foreign store_identities_idem; assumption)+

section \<open>Best matches\<close>

lemma best_matches_eq:
  assumes "\<forall>c \<in> set cs. ranker c = Inr (r c)"
  shows "best_matches ranker cs best ms =
    Inr (if \<exists>c \<in> set cs. best < r c
      then filter (\<lambda>c. r c \<noteq> 0 \<and> (\<forall>c' \<in> set cs. r c' \<le> r c)) cs
      else ms @ filter (\<lambda>c. r c \<noteq> 0 \<and> r c = best) cs)"
  using assms
proof (induction cs arbitrary: best ms)
  case (Cons c cs)
  consider "best < r c" | "r c \<noteq> 0" "r c = best" | "r c \<le> best" "r c = 0 \<or> r c < best" by linarith
  then show ?case
  proof cases
    case 1
    have "filter (\<lambda>x. r x \<noteq> 0 \<and> (\<forall>c' \<in> set (c # cs). r c' \<le> r x)) cs =
        (if \<exists>x \<in> set cs. r c < r x then filter (\<lambda>x. r x \<noteq> 0 \<and> (\<forall>c' \<in> set cs. r c' \<le> r x)) cs
         else filter (\<lambda>x. r x \<noteq> 0 \<and> r x = r c) cs)"
      by (auto intro!: filter_cong) 
    with 1 Cons show ?thesis by (auto simp: not_less) (meson leD)
  next
    case 2
    with Cons show ?thesis by (auto intro!: filter_cong)
  next
    case 3
    with Cons show ?thesis by (auto intro!: filter_cong)
  qed
qed simp

lemma select_best_identity_matches_eq:
  assumes "\<forall>c \<in> set cs. ranker c = Inr (r c)"
  shows "select_best_identity_matches cs ranker =
    Inr (filter (\<lambda>c. r c \<noteq> 0 \<and> (\<forall>c' \<in> set cs. r c' \<le> r c)) cs)"
proof -
  have "(if \<exists>c \<in> set cs. 0 < r c then filter (\<lambda>c. r c \<noteq> 0 \<and> (\<forall>c' \<in> set cs. r c' \<le> r c)) cs
      else [] @ filter (\<lambda>c. r c \<noteq> 0 \<and> r c = 0) cs) =
      filter (\<lambda>c. r c \<noteq> 0 \<and> (\<forall>c' \<in> set cs. r c' \<le> r c)) cs"
    by (auto simp: filter_empty_conv)
  then show ?thesis
    by (simp add: select_best_identity_matches_def NO_IDENTITY_MATCH_def best_matches_eq [OF assms])
qed

section \<open>Properties\<close>

abbreviation example_identity :: SourceIdentity where
  "example_identity \<equiv> \<lparr>si_schema = ''v2'', si_type = ''proxmox'', si_instance = ''lab'', si_kind = ''qemu'',
     si_external_id = ''100''\<rparr>"

abbreviation example_fields :: pydict where
  "example_fields \<equiv> [(''sync_identities'', PList
     [PDict [(''source'', PStr ''proxmox''), (''id'', PInt 7)],
      PDict (to_record (example_identity\<lparr>si_external_id := ''99''\<rparr>)),
      PDict (to_record (example_identity\<lparr>si_instance := ''edge''\<rparr>))])]"

abbreviation example_merged :: "pyval list" where
  "example_merged \<equiv>
     [PDict (to_record (example_identity\<lparr>si_instance := ''edge''\<rparr>)),
      PDict (to_record example_identity),
      PDict [(''source'', PStr ''proxmox''), (''id'', PInt 7)]]"

text \<open>
  C38: an identity that passed validation survives storage: reading the record the code
  writes to NetBox gives the same identity back.
\<close>

theorem identity_round_trip:
  assumes "identity source source_instance kind external_id = Inr i"
  shows "from_record (PDict (to_record i)) = Inr (Some i)"
  by (rule from_record_to_record [OF identity_wf [OF assms]])

theorem identity_round_trip_witness:
  "from_record (PDict (to_record example_identity)) = Inr (Some example_identity)"
  by (rule identity_round_trip [of "''proxmox''" "''lab''" "''qemu''" "''100''"]) code_simp

text \<open>
  C34: after \<open>merge_source_identities\<close> stored its result in the custom fields of an object, the
  object matches the merged identity with the v2 rank, whoever asks and whatever legacy
  identifiers are passed; and merging the same identity again gives the same list.
\<close>

theorem merged_identity_is_found:
  assumes "wf_identity d" and "merge_source_identities (Some f) d = Inr vs"
  shows "source_identity_match_rank (Some (AList.update ''sync_identities'' (PList vs) f)) d ids own =
      Inr V2_IDENTITY_MATCH \<and>
    merge_source_identities (Some (AList.update ''sync_identities'' (PList vs) f)) d = Inr vs"
proof -
  have m: "store_identities f d = Inr (AList.update ''sync_identities'' (PList vs) f)"
    using assms(2) by simp
  from custom_fields.merge_idem [OF assms(1) m]
  obtain ws where "merge_source_identities (Some (AList.update ''sync_identities'' (PList vs) f)) d = Inr ws"
    and "AList.update ''sync_identities'' (PList ws) (AList.update ''sync_identities'' (PList vs) f) =
      AList.update ''sync_identities'' (PList vs) f"
    by (auto simp: bindr_Inr_conv)
  moreover from this(2) have "ws = vs"
    by (metis dget_update pyval.inject(4))
  ultimately show ?thesis
    using custom_fields.merge_found [OF assms(1) m] by simp
qed

theorem merged_identity_is_found_witness:
  "source_identity_match_rank (Some (AList.update ''sync_identities'' (PList example_merged) example_fields))
     example_identity [] False = Inr V2_IDENTITY_MATCH \<and>
   merge_source_identities (Some (AList.update ''sync_identities'' (PList example_merged) example_fields))
     example_identity = Inr example_merged"
  by (rule merged_identity_is_found) code_simp+

text \<open>
  C35: a merge never touches another namespace. For an identity of another source type, source
  instance or object kind the match rank of the object is the same before and after the merge,
  for the v2 records and for the legacy records of an explicit legacy owner.
\<close>

theorem merge_keeps_foreign_ranks:
  assumes "wf_identity d" and "merge_source_identities (Some f) d = Inr vs" and "\<not> same_namespace e d"
  shows "source_identity_match_rank (Some (AList.update ''sync_identities'' (PList vs) f)) e ids own =
    source_identity_match_rank (Some f) e ids own"
proof -
  have "store_identities f d = Inr (AList.update ''sync_identities'' (PList vs) f)"
    using assms(2) by simp
  from custom_fields.merge_foreign [OF assms(1) this assms(3)] show ?thesis .
qed

theorem merge_keeps_foreign_ranks_witness:
  "source_identity_match_rank (Some (AList.update ''sync_identities'' (PList example_merged) example_fields))
     (example_identity\<lparr>si_instance := ''edge''\<rparr>) [] False =
   source_identity_match_rank (Some example_fields) (example_identity\<lparr>si_instance := ''edge''\<rparr>) [] False"
  by (rule merge_keeps_foreign_ranks [where d = example_identity]) code_simp+



text \<open>
  C37: the selection over NetBox candidates returns, in their order, exactly the candidates of
  the highest rank, and none when no candidate matches; duplicates of the best rank are all
  kept, so that an ambiguity stays visible to the caller.
\<close>

theorem select_best_exact:
  assumes "\<forall>c \<in> set cs. ranker c = Inr (r c)"
  shows "select_best_identity_matches cs ranker =
    Inr (filter (\<lambda>c. r c \<noteq> NO_IDENTITY_MATCH \<and> (\<forall>c' \<in> set cs. r c' \<le> r c)) cs)"
  unfolding NO_IDENTITY_MATCH_def by (rule select_best_identity_matches_eq [OF assms])

theorem select_best_exact_witness:
  "select_best_identity_matches [1, 2, 0, 2 :: nat] (\<lambda>c. Inr c) = Inr [2, 2]"
  using select_best_exact [of "[1, 2, 0, 2 :: nat]" "\<lambda>c. Inr c" "\<lambda>c. c"] by (simp add: NO_IDENTITY_MATCH_def)

end
