(* ===== verification/Netbox_Metadata.thy ===== *)
theory Netbox_Metadata
  imports Source_Identity
begin

text \<open>
  Custom-field metadata of NetBox objects: \<open>netbox_record_values.py\<close>, \<open>netbox_metadata.py\<close>
  (hosts), \<open>netbox_vm_metadata.py\<close>, \<open>netbox_lxc_metadata.py\<close> and
  \<open>netbox_vm_interface_metadata.py\<close>. Each object kind has its legacy identifier, its match
  rank, the search for its NetBox candidates and the builder of its custom fields. The lemmas
  show that what a builder writes is found again by the search of the same object, and that a
  builder keeps every field it does not own.
\<close>

section \<open>NetBox records\<close>

text \<open>A record of the NetBox client: the attributes the sources read and \<open>serialize()\<close>.\<close>

record nb_record =
  nb_id :: int
  nb_name :: string
  nb_custom_fields :: "pydict option"
  nb_serialized :: pydict

fun object_id :: "pyval \<Rightarrow> pyval" where
  "object_id (PBool b) = PBool b"
| "object_id (PInt i) = PInt i"
| "object_id (PDict d) = dget d ''id''"
| "object_id _ = PNone"

fun choice_value :: "pyval \<Rightarrow> pyval" where
  "choice_value PNone = PNone"
| "choice_value (PStr s) = PStr s"
| "choice_value (PDict d) = dget d ''value''"
| "choice_value v = v"

section \<open>Legacy identifiers\<close>

text \<open>Strip the matching provider prefix, and only that, from a source identifier.\<close>

definition strip_source_prefix :: "string \<Rightarrow> string \<Rightarrow> string" where
  "strip_source_prefix source source_id =
     (let p = source @ '':'' in if prefix p source_id then drop (length p) source_id else source_id)"

definition vm_identity_source_id :: "guest \<Rightarrow> string" where
  "vm_identity_source_id g = strip_source_prefix (g_source g) (g_source_id g)"

definition lxc_identity_source_id :: "DiscoveredContainer \<Rightarrow> string" where
  "lxc_identity_source_id ct = strip_source_prefix (ct_source ct) (ct_source_id ct)"

definition nic_identity_source_id :: "guest \<Rightarrow> DiscoveredInterface \<Rightarrow> string" where
  "nic_identity_source_id g nic = vm_identity_source_id g @ '':'' @ nic_name nic"

section \<open>Hosts\<close>

definition sync_identity_match_rank :: "pydict option \<Rightarrow> DiscoveredHost \<Rightarrow> nat result" where
  "sync_identity_match_rank custom_fields host = bindr (host_source_identity host) (\<lambda>desired.
     source_identity_match_rank custom_fields desired [h_source_id host] (h_legacy_identity_owner host))"

definition matches_sync_identity :: "pydict option \<Rightarrow> DiscoveredHost \<Rightarrow> bool result" where
  "matches_sync_identity custom_fields host =
     bindr (sync_identity_match_rank custom_fields host) (\<lambda>r. Inr (r \<noteq> 0))"

definition build_device_custom_fields :: "DiscoveredHost \<Rightarrow> pydict option \<Rightarrow> pydict result" where
  "build_device_custom_fields host existing_custom_fields =
     (let existing = fields_of existing_custom_fields in
      bindr (host_source_identity host) (\<lambda>desired_identity.
      bindr (merge_source_identities (Some existing) desired_identity) (\<lambda>merged_identities.
      bindr (merge_original_name (Some existing) desired_identity (h_original_name host)) (\<lambda>merged_original_names.
        let result = (case h_hardware_identity host of None \<Rightarrow> existing
                      | Some doc \<Rightarrow> AList.update ''hardware_identity'' (PDict doc) existing);
            result = dict_merge result
              [(''sync_identities'', PList merged_identities),
               (''sync_original_names'', PDict merged_original_names),
               (''hypervisor_version'', py_of_opt (h_hypervisor_version host)),
               (''cpu_model'', py_of_opt (cpu_model (h_cpu host))),
               (''cpu_vendor'', py_of_opt (cpu_vendor (h_cpu host))),
               (''cpu_sockets'', PInt (cpu_sockets (h_cpu host))),
               (''cpu_cores'', PInt (cpu_cores (h_cpu host))),
               (''cpu_threads'', PInt (cpu_logical_cpus (h_cpu host))),
               (''memory_mb'', PInt (h_memory_bytes host div 1024 ^ 2))];
            result = (case h_esxi_host_network host of
                Some doc \<Rightarrow> if h_source host = ''esxi'' then AList.update ''esxi_host_network'' (PDict doc) result
                  else result
              | None \<Rightarrow> result);
            result = (case h_proxmox_host_network host of
                Some doc \<Rightarrow> if h_source host = ''proxmox'' then AList.update ''proxmox_host_network'' (PDict doc) result
                  else result
              | None \<Rightarrow> result)
        in Inr result))))"

section \<open>Virtual machines\<close>

definition vm_sync_identity_match_rank :: "pydict option \<Rightarrow> DiscoveredVirtualMachine \<Rightarrow> nat result" where
  "vm_sync_identity_match_rank custom_fields vm = bindr (virtual_machine_source_identity vm) (\<lambda>desired.
     source_identity_match_rank custom_fields desired
       [vm_identity_source_id (GuestVM vm), vm_source_id vm] (vm_legacy_identity_owner vm))"

definition matches_vm_sync_identity :: "pydict option \<Rightarrow> DiscoveredVirtualMachine \<Rightarrow> bool result" where
  "matches_vm_sync_identity custom_fields vm =
     bindr (vm_sync_identity_match_rank custom_fields vm) (\<lambda>r. Inr (r \<noteq> 0))"

definition find_vm_sync_identity_matches ::
  "nb_record list \<Rightarrow> DiscoveredVirtualMachine \<Rightarrow> nb_record list result" where
  "find_vm_sync_identity_matches candidates vm =
     select_best_identity_matches candidates (\<lambda>c. vm_sync_identity_match_rank (nb_custom_fields c) vm)"

definition build_vm_custom_fields :: "DiscoveredVirtualMachine \<Rightarrow> pydict option \<Rightarrow> pydict result" where
  "build_vm_custom_fields vm existing_custom_fields =
     (let existing = fields_of existing_custom_fields;
          normalized = (if dget existing ''sync_identities'' = PNone
            then AList.update ''sync_identities'' (PList []) existing else existing);
          normalized = (if dget normalized ''sync_original_names'' = PNone
            then AList.update ''sync_original_names'' (PDict []) normalized else normalized) in
      bindr (virtual_machine_source_identity vm) (\<lambda>desired_identity.
      bindr (merge_source_identities (Some normalized) desired_identity) (\<lambda>merged_identities.
      bindr (merge_original_name (Some normalized) desired_identity (vm_original_name vm)) (\<lambda>merged_original_names.
        Inr (dict_merge existing
          [(''sync_identities'', PList merged_identities),
           (''sync_original_names'', PDict merged_original_names)])))))"

section \<open>Containers\<close>

definition lxc_sync_identity_match_rank :: "pydict option \<Rightarrow> DiscoveredContainer \<Rightarrow> nat result" where
  "lxc_sync_identity_match_rank custom_fields ct = bindr (lxc_source_identity ct) (\<lambda>desired.
     source_identity_match_rank custom_fields desired [lxc_identity_source_id ct] (ct_legacy_identity_owner ct))"

definition matches_lxc_sync_identity :: "pydict option \<Rightarrow> DiscoveredContainer \<Rightarrow> bool result" where
  "matches_lxc_sync_identity custom_fields ct =
     bindr (lxc_sync_identity_match_rank custom_fields ct) (\<lambda>r. Inr (r \<noteq> 0))"

definition find_lxc_sync_identity_matches ::
  "nb_record list \<Rightarrow> DiscoveredContainer \<Rightarrow> nb_record list result" where
  "find_lxc_sync_identity_matches candidates ct =
     select_best_identity_matches candidates (\<lambda>c. lxc_sync_identity_match_rank (nb_custom_fields c) ct)"

definition build_lxc_custom_fields :: "DiscoveredContainer \<Rightarrow> pydict option \<Rightarrow> pydict result" where
  "build_lxc_custom_fields ct existing_custom_fields =
     (let existing = fields_of existing_custom_fields in
      bindr (lxc_source_identity ct) (\<lambda>desired_identity.
      bindr (merge_source_identities (Some existing) desired_identity) (\<lambda>merged_identities.
      bindr (merge_original_name (Some existing) desired_identity (ct_original_name ct)) (\<lambda>merged_original_names.
        Inr (dict_merge existing
          [(''sync_identities'', PList merged_identities),
           (''sync_original_names'', PDict merged_original_names),
           (''guest_kind'', PStr ''lxc''),
           (''guest_architecture'', py_of_opt (ct_architecture ct)),
           (''guest_os_type'', py_of_opt (ct_os_type ct)),
           (''swap_mb'', PInt (ct_swap_bytes ct div 1024 ^ 2))])))))"

section \<open>Guest interfaces\<close>

text \<open>\<open>builder(vm, nic)\<close>: the identity of a NIC depends on the kind of its guest.\<close>

fun guest_nic_identity :: "guest \<Rightarrow> DiscoveredInterface \<Rightarrow> SourceIdentity result" where
  "guest_nic_identity (GuestVM v) nic = virtual_machine_nic_source_identity v nic"
| "guest_nic_identity (GuestLXC c) nic = lxc_nic_source_identity c nic"

definition nic_sync_identity_match_rank ::
  "pydict option \<Rightarrow> guest \<Rightarrow> DiscoveredInterface \<Rightarrow> nat result" where
  "nic_sync_identity_match_rank custom_fields g nic = bindr (guest_nic_identity g nic) (\<lambda>desired.
     bindr (source_identity_match_rank custom_fields desired [nic_identity_source_id g nic]
              (g_legacy_identity_owner g)) (\<lambda>rank.
       if rank \<noteq> 0 \<or> si_type desired \<noteq> ''proxmox'' \<or> si_kind desired \<noteq> ''lxc-nic''
          \<or> opt_or (nic_external_id nic) [] = [] \<or> nic_external_id nic = Some (nic_name nic)
       then Inr rank
       else bindr (new_SourceIdentity (PStr (si_schema desired)) (PStr (si_type desired))
                (PStr (si_instance desired)) (PStr (si_kind desired))
                (PStr (py_str (g_vmid g) @ '':'' @ nic_name nic))) (\<lambda>legacy_v2.
              source_identity_match_rank custom_fields legacy_v2 [] False)))"

definition matches_nic_sync_identity :: "pydict option \<Rightarrow> guest \<Rightarrow> DiscoveredInterface \<Rightarrow> bool result" where
  "matches_nic_sync_identity custom_fields g nic =
     bindr (nic_sync_identity_match_rank custom_fields g nic) (\<lambda>r. Inr (r \<noteq> 0))"

definition find_nic_sync_identity_matches ::
  "nb_record list \<Rightarrow> guest \<Rightarrow> DiscoveredInterface \<Rightarrow> nb_record list result" where
  "find_nic_sync_identity_matches candidates g nic =
     select_best_identity_matches candidates (\<lambda>c. nic_sync_identity_match_rank (nb_custom_fields c) g nic)"

definition build_nic_custom_fields ::
  "guest \<Rightarrow> DiscoveredInterface \<Rightarrow> pydict option \<Rightarrow> pydict result" where
  "build_nic_custom_fields g nic existing_custom_fields =
     (let existing = fields_of existing_custom_fields in
      bindr (guest_nic_identity g nic) (\<lambda>desired_identity.
      bindr (merge_source_identities (Some existing) desired_identity) (\<lambda>merged_identities.
      bindr (merge_original_name (Some existing) desired_identity (nic_name nic)) (\<lambda>merged_original_names.
        let result = dict_merge existing
          [(''sync_identities'', PList merged_identities),
           (''sync_original_names'', PDict merged_original_names),
           (''source_bridge'', py_of_opt (nic_bridge nic)),
           (''source_vlan_id'', py_of_int_opt (nic_vlan_id nic))] in
        (case nic_network_observations nic of
           None \<Rightarrow> Inr result
         | Some observations \<Rightarrow>
             (case py_or (dget existing ''sync_network_observations'') (PDict []) of
                PDict previous \<Rightarrow> Inr (AList.update ''sync_network_observations''
                  (PDict (AList.update (g_source_instance g) (PDict observations) previous)) result)
              | _ \<Rightarrow> Inl (ValueError ''Incompatible network observation field'')))))))"

section \<open>What a builder writes is found again\<close>

lemma rank_cong:
  "dget f ''sync_identities'' = dget g ''sync_identities'' \<Longrightarrow>
   source_identity_match_rank (Some f) d ids own = source_identity_match_rank (Some g) d ids own"
  by (simp add: source_identity_match_rank_def)

lemma merged_rank:
  assumes "wf_identity d" and "merge_source_identities (Some f) d = Inr vs"
    and "dget g ''sync_identities'' = PList vs"
  shows "source_identity_match_rank (Some g) d ids own = Inr V2_IDENTITY_MATCH"
proof -
  have "store_identities f d = Inr (AList.update ''sync_identities'' (PList vs) f)"
    using assms(2) by simp
  from custom_fields.merge_found [OF assms(1) this, of ids own] show ?thesis
    by (subst rank_cong [where g = "AList.update ''sync_identities'' (PList vs) f"]) (simp_all add: assms(3))
qed

lemma virtual_machine_identity_wf: "virtual_machine_source_identity vm = Inr d \<Longrightarrow> wf_identity d"
  by (auto simp: virtual_machine_source_identity_def qemu_source_identity_def intro: identity_wf split: if_splits)

lemma guest_nic_identity_wf: "guest_nic_identity g nic = Inr d \<Longrightarrow> wf_identity d"
  by (cases g) (auto simp: virtual_machine_nic_source_identity_def qemu_nic_source_identity_def
      lxc_nic_source_identity_def intro: identity_wf split: if_splits)

lemma dget_eq_map_of: "map_of f k = Some v \<Longrightarrow> dget f k = v"
  by (simp add: dget_def)

text \<open>The custom fields each builder owns.\<close>

definition MANAGED_VM_CUSTOM_FIELDS :: "string list" where
  "MANAGED_VM_CUSTOM_FIELDS = [''sync_identities'', ''sync_original_names'']"

definition MANAGED_LXC_CUSTOM_FIELDS :: "string list" where
  "MANAGED_LXC_CUSTOM_FIELDS = [''sync_identities'', ''sync_original_names'', ''guest_kind'',
     ''guest_architecture'', ''guest_os_type'', ''swap_mb'']"

definition MANAGED_VM_INTERFACE_CUSTOM_FIELDS :: "string list" where
  "MANAGED_VM_INTERFACE_CUSTOM_FIELDS = [''sync_identities'', ''sync_original_names'', ''source_bridge'',
     ''source_vlan_id'', ''sync_network_observations'']"

definition MANAGED_DEVICE_CUSTOM_FIELDS :: "string list" where
  "MANAGED_DEVICE_CUSTOM_FIELDS = [''hardware_identity'', ''sync_identities'', ''sync_original_names'',
     ''hypervisor_version'', ''cpu_model'', ''cpu_vendor'', ''cpu_sockets'', ''cpu_cores'', ''cpu_threads'',
     ''memory_mb'', ''esxi_host_network'', ''proxmox_host_network'']"

text \<open>Concrete objects for the witnesses.\<close>

abbreviation example_vm :: DiscoveredVirtualMachine where
  "example_vm \<equiv> \<lparr>vm_source = ''proxmox'', vm_source_instance = ''lab'', vm_legacy_identity_owner = False,
     vm_source_id = ''proxmox:node:100'', vm_node_source_id = ''proxmox:node'', vm_vmid = PInt 100,
     vm_original_name = ''web'', vm_normalized_name = ''web'', vm_status = ''running'', vm_vcpus = 2,
     vm_memory_bytes = 1073741824, vm_autostart = True, vm_disks = [], vm_interfaces = [],
     vm_external_id = None, vm_description = None, vm_provider_object_id = None,
     vm_esxi_instance_uuid = None, vm_esxi_bios_uuid = None\<rparr>"

abbreviation example_ct :: DiscoveredContainer where
  "example_ct \<equiv> \<lparr>ct_source = ''proxmox'', ct_source_instance = ''lab'', ct_legacy_identity_owner = False,
     ct_source_id = ''proxmox:node:200'', ct_node_source_id = ''proxmox:node'', ct_vmid = 200,
     ct_original_name = ''dns'', ct_normalized_name = ''dns'', ct_status = ''running'',
     ct_architecture = Some ''amd64'', ct_os_type = Some ''debian'', ct_vcpus = 1, ct_memory_bytes = 536870912,
     ct_swap_bytes = 536870912, ct_autostart = True, ct_unprivileged = True, ct_disks = [], ct_interfaces = []\<rparr>"

abbreviation example_nic :: DiscoveredInterface where
  "example_nic \<equiv> \<lparr>nic_name = ''eth0'', nic_mac_address = Some ''AA:BB:CC:00:00:01'', nic_bridge = Some ''vmbr0'',
     nic_vlan_id = Some 10, nic_ip_addresses = [''10.0.0.5/24''], nic_external_id = Some ''net0'',
     nic_network_observations = Some [(''version'', PInt 1)], nic_ip_vrf_id = None,
     nic_ip_scope_conflicts = [], nic_mac_scope_conflicts = []\<rparr>"

abbreviation example_host :: DiscoveredHost where
  "example_host \<equiv> \<lparr>h_source = ''proxmox'', h_source_instance = ''lab'', h_legacy_identity_owner = False,
     h_source_id = ''proxmox:node'', h_original_name = ''node'', h_normalized_name = ''node'',
     h_management_ip = None, h_hypervisor = ''proxmox'', h_hypervisor_version = Some ''8'',
     h_cpu = \<lparr>cpu_model = None, cpu_vendor = None, cpu_sockets = 1, cpu_cores = 4, cpu_logical_cpus = 8\<rparr>,
     h_memory_bytes = 8589934592, h_manufacturer = None, h_model = None, h_disks = [], h_storages = [],
     h_interfaces = [], h_virtual_machines = [example_vm], h_containers = [example_ct],
     h_esxi_events = None, h_esxi_host_network = None, h_proxmox_host_network = Some [(''version'', PInt 1)],
     h_connection_management = None, h_hardware_identity = None\<rparr>"

abbreviation foreign_fields :: pydict where
  "foreign_fields \<equiv> [(''owner'', PStr ''ops''), (''sync_network_observations'', PDict [(''edge'', PInt 1)])]"

lemma example_vm_built:
  "build_vm_custom_fields example_vm (Some foreign_fields) =
    Inr (foreign_fields @ [(''sync_identities'', PList [PDict (to_record example_identity)]),
      (''sync_original_names'', PDict [(''proxmox/lab/qemu'', PStr ''web'')])])"
  by code_simp

lemma example_ct_built:
  "build_lxc_custom_fields example_ct (Some foreign_fields) =
    Inr (foreign_fields @ [(''sync_identities'',
        PList [PDict (to_record (example_identity\<lparr>si_kind := ''lxc'', si_external_id := ''200''\<rparr>))]),
      (''sync_original_names'', PDict [(''proxmox/lab/lxc'', PStr ''dns'')]),
      (''guest_kind'', PStr ''lxc''), (''guest_architecture'', PStr ''amd64''),
      (''guest_os_type'', PStr ''debian''), (''swap_mb'', PInt 512)])"
  by code_simp

lemma example_nic_built:
  "build_nic_custom_fields (GuestVM example_vm) example_nic (Some foreign_fields) =
    Inr ([(''owner'', PStr ''ops''),
      (''sync_network_observations'', PDict [(''edge'', PInt 1), (''lab'', PDict [(''version'', PInt 1)])]),
      (''sync_identities'',
        PList [PDict (to_record (example_identity\<lparr>si_kind := ''qemu-nic'', si_external_id := ''100:net0''\<rparr>))]),
      (''sync_original_names'', PDict [(''proxmox/lab/qemu-nic'', PStr ''eth0'')]),
      (''source_bridge'', PStr ''vmbr0''), (''source_vlan_id'', PInt 10)])"
  by code_simp

lemma example_host_built:
  "build_device_custom_fields example_host (Some foreign_fields) =
    Inr (foreign_fields @ [(''sync_identities'',
        PList [PDict (to_record (example_identity\<lparr>si_kind := ''host'', si_external_id := ''proxmox:node''\<rparr>))]),
      (''sync_original_names'', PDict [(''proxmox/lab/host'', PStr ''node'')]),
      (''hypervisor_version'', PStr ''8''), (''cpu_model'', PNone), (''cpu_vendor'', PNone),
      (''cpu_sockets'', PInt 1), (''cpu_cores'', PInt 4), (''cpu_threads'', PInt 8), (''memory_mb'', PInt 8192),
      (''proxmox_host_network'', PDict [(''version'', PInt 1)])])"
  by code_simp

section \<open>Properties\<close>

text \<open>
  C39: the custom fields built for a virtual machine match that machine with the v2 rank, and
  every field outside the two the builder owns has its old value.
\<close>

theorem built_vm_fields:
  assumes "build_vm_custom_fields vm cf = Inr f"
  shows "vm_sync_identity_match_rank (Some f) vm = Inr V2_IDENTITY_MATCH \<and>
    (\<forall>k. k \<notin> set MANAGED_VM_CUSTOM_FIELDS \<longrightarrow> map_of f k = map_of (fields_of cf) k)"
proof -
  from assms obtain d g vs ns where d: "virtual_machine_source_identity vm = Inr d"
    and vs: "merge_source_identities (Some g) d = Inr vs"
    and f: "f = dict_merge (fields_of cf) [(''sync_identities'', PList vs), (''sync_original_names'', PDict ns)]"
    by (auto simp: build_vm_custom_fields_def Let_def bindr_Inr_conv)
  from merged_rank [OF virtual_machine_identity_wf [OF d] vs, of f] f d show ?thesis
    by (auto simp: vm_sync_identity_match_rank_def MANAGED_VM_CUSTOM_FIELDS_def)
qed

theorem built_vm_fields_witness:
  "\<exists>f. build_vm_custom_fields example_vm (Some foreign_fields) = Inr f \<and>
     vm_sync_identity_match_rank (Some f) example_vm = Inr V2_IDENTITY_MATCH \<and>
     map_of f ''owner'' = Some (PStr ''ops'')"
  using built_vm_fields [OF example_vm_built] example_vm_built
  by (auto simp: MANAGED_VM_CUSTOM_FIELDS_def)

text \<open>
  the same for a container: the built fields are found with the v2 rank and only the six
  managed fields change.
\<close>

lemma built_lxc_fields:
  assumes "build_lxc_custom_fields ct cf = Inr f"
  shows "lxc_sync_identity_match_rank (Some f) ct = Inr V2_IDENTITY_MATCH \<and>
    (\<forall>k. k \<notin> set MANAGED_LXC_CUSTOM_FIELDS \<longrightarrow> map_of f k = map_of (fields_of cf) k)"
proof -
  from assms obtain d vs ns where d: "lxc_source_identity ct = Inr d"
    and vs: "merge_source_identities (Some (fields_of cf)) d = Inr vs"
    and f: "f = dict_merge (fields_of cf)
          [(''sync_identities'', PList vs),
           (''sync_original_names'', PDict ns),
           (''guest_kind'', PStr ''lxc''),
           (''guest_architecture'', py_of_opt (ct_architecture ct)),
           (''guest_os_type'', py_of_opt (ct_os_type ct)),
           (''swap_mb'', PInt (ct_swap_bytes ct div 1024 ^ 2))]"
    by (auto simp: build_lxc_custom_fields_def Let_def bindr_Inr_conv)
  have "wf_identity d" using d by (auto simp: lxc_source_identity_def intro: identity_wf)
  from merged_rank [OF this vs, of f] f d show ?thesis
    by (auto simp: lxc_sync_identity_match_rank_def MANAGED_LXC_CUSTOM_FIELDS_def)
qed

lemma built_lxc_fields_example:
  "\<exists>f. build_lxc_custom_fields example_ct (Some foreign_fields) = Inr f \<and>
     lxc_sync_identity_match_rank (Some f) example_ct = Inr V2_IDENTITY_MATCH \<and>
     map_of f ''owner'' = Some (PStr ''ops'')"
  using built_lxc_fields [OF example_ct_built] example_ct_built
  by (auto simp: MANAGED_LXC_CUSTOM_FIELDS_def)

text \<open>
  the fields built for a guest interface are found with the v2 rank, unmanaged fields
  keep their values, and the network observations recorded by every other source instance
  survive.
\<close>

lemma built_nic_fields:
  assumes "build_nic_custom_fields g nic cf = Inr f"
  shows "nic_sync_identity_match_rank (Some f) g nic = Inr V2_IDENTITY_MATCH \<and>
    (\<forall>k. k \<notin> set MANAGED_VM_INTERFACE_CUSTOM_FIELDS \<longrightarrow> map_of f k = map_of (fields_of cf) k) \<and>
    (\<forall>old s v. dget (fields_of cf) ''sync_network_observations'' = PDict old \<longrightarrow> s \<noteq> g_source_instance g \<longrightarrow>
       map_of old s = Some v \<longrightarrow>
       (\<exists>new. dget f ''sync_network_observations'' = PDict new \<and> map_of new s = Some v))"
proof -
  let ?base = "\<lambda>vs ns. dict_merge (fields_of cf)
          [(''sync_identities'', PList vs),
           (''sync_original_names'', PDict ns),
           (''source_bridge'', py_of_opt (nic_bridge nic)),
           (''source_vlan_id'', py_of_int_opt (nic_vlan_id nic))]"
  from assms obtain d vs ns where d: "guest_nic_identity g nic = Inr d"
    and vs: "merge_source_identities (Some (fields_of cf)) d = Inr vs"
    and r: "(case nic_network_observations nic of
           None \<Rightarrow> Inr (?base vs ns)
         | Some observations \<Rightarrow>
             (case py_or (dget (fields_of cf) ''sync_network_observations'') (PDict []) of
                PDict previous \<Rightarrow> Inr (AList.update ''sync_network_observations''
                  (PDict (AList.update (g_source_instance g) (PDict observations) previous)) (?base vs ns))
              | _ \<Rightarrow> Inl (ValueError ''Incompatible network observation field''))) = Inr f"
    unfolding build_nic_custom_fields_def Let_def bindr_Inr_conv by blast
  have f: "f = ?base vs ns \<and> nic_network_observations nic = None \<or>
      (\<exists>obs prev. py_or (dget (fields_of cf) ''sync_network_observations'') (PDict []) = PDict prev \<and>
        f = AList.update ''sync_network_observations''
          (PDict (AList.update (g_source_instance g) (PDict obs) prev)) (?base vs ns))"
    using r by (cases "nic_network_observations nic";
        cases "py_or (dget (fields_of cf) ''sync_network_observations'') (PDict [])") auto
  have "dget f ''sync_identities'' = PList vs" using f by auto
  from merged_rank [OF guest_nic_identity_wf [OF d] vs this]
  have "nic_sync_identity_match_rank (Some f) g nic = Inr V2_IDENTITY_MATCH"
    using d by (simp add: nic_sync_identity_match_rank_def V2_IDENTITY_MATCH_def)
  moreover have "map_of f k = map_of (fields_of cf) k" if "k \<notin> set MANAGED_VM_INTERFACE_CUSTOM_FIELDS" for k
    using f that by (auto simp: MANAGED_VM_INTERFACE_CUSTOM_FIELDS_def)
  moreover have "\<exists>new. dget f ''sync_network_observations'' = PDict new \<and> map_of new s = Some v"
    if "dget (fields_of cf) ''sync_network_observations'' = PDict old" "s \<noteq> g_source_instance g" "map_of old s = Some v"
    for old s v
    using f that by (auto simp: py_or_def dget_def split: if_splits)
  ultimately show ?thesis by blast
qed

lemma built_nic_fields_example:
  "\<exists>f. build_nic_custom_fields (GuestVM example_vm) example_nic (Some foreign_fields) = Inr f \<and>
     nic_sync_identity_match_rank (Some f) (GuestVM example_vm) example_nic = Inr V2_IDENTITY_MATCH"
  using built_nic_fields [OF example_nic_built] example_nic_built by auto

text \<open>
  the fields built for a host device are found with the v2 rank of that host, and only the
  managed device fields change.
\<close>

lemma built_device_fields:
  assumes "build_device_custom_fields host cf = Inr f"
  shows "sync_identity_match_rank (Some f) host = Inr V2_IDENTITY_MATCH \<and>
    (\<forall>k. k \<notin> set MANAGED_DEVICE_CUSTOM_FIELDS \<longrightarrow> map_of f k = map_of (fields_of cf) k)"
proof -
  let ?hw = "case h_hardware_identity host of None \<Rightarrow> fields_of cf
      | Some doc \<Rightarrow> AList.update ''hardware_identity'' (PDict doc) (fields_of cf)"
  let ?esxi = "\<lambda>r. case h_esxi_host_network host of
      Some doc \<Rightarrow> if h_source host = ''esxi'' then AList.update ''esxi_host_network'' (PDict doc) r else r
    | None \<Rightarrow> r"
  let ?pve = "\<lambda>r. case h_proxmox_host_network host of
      Some doc \<Rightarrow> if h_source host = ''proxmox'' then AList.update ''proxmox_host_network'' (PDict doc) r else r
    | None \<Rightarrow> r"
  let ?own = "\<lambda>vs ns. [(''sync_identities'', PList vs),
      (''sync_original_names'', PDict ns),
      (''hypervisor_version'', py_of_opt (h_hypervisor_version host)),
      (''cpu_model'', py_of_opt (cpu_model (h_cpu host))),
      (''cpu_vendor'', py_of_opt (cpu_vendor (h_cpu host))),
      (''cpu_sockets'', PInt (cpu_sockets (h_cpu host))),
      (''cpu_cores'', PInt (cpu_cores (h_cpu host))),
      (''cpu_threads'', PInt (cpu_logical_cpus (h_cpu host))),
      (''memory_mb'', PInt (h_memory_bytes host div 1024 ^ 2))]"
  from assms obtain d vs ns where d: "host_source_identity host = Inr d"
    and vs: "merge_source_identities (Some (fields_of cf)) d = Inr vs"
    and f: "f = ?pve (?esxi (dict_merge ?hw (?own vs ns)))"
    unfolding build_device_custom_fields_def Let_def bindr_Inr_conv by blast
  have esxi: "map_of (?esxi r) k = map_of r k" if "k \<noteq> ''esxi_host_network''" for r k
    using that by (simp split: option.splits)
  have pve: "map_of (?pve r) k = map_of r k" if "k \<noteq> ''proxmox_host_network''" for r k
    using that by (simp split: option.splits)
  have hw: "map_of ?hw k = map_of (fields_of cf) k" if "k \<noteq> ''hardware_identity''" for k
    using that by (simp split: option.splits)
  have f_id: "map_of f ''sync_identities'' = Some (PList vs)"
    unfolding f by (subst pve, simp, subst esxi, simp, rule dict_merge_get) simp_all
  have frame: "map_of f k = map_of (fields_of cf) k" if "k \<notin> set MANAGED_DEVICE_CUSTOM_FIELDS" for k
    unfolding f using that pve esxi hw dict_merge_frame [of k "?own vs ns" ?hw]
    by (simp add: MANAGED_DEVICE_CUSTOM_FIELDS_def)
  have "wf_identity d" using d by (auto simp: host_source_identity_def intro: identity_wf)
  from merged_rank [OF this vs dget_eq_map_of [OF f_id]] d frame show ?thesis
    by (simp add: sync_identity_match_rank_def)
qed

lemma built_device_fields_example:
  "\<exists>f. build_device_custom_fields example_host (Some foreign_fields) = Inr f \<and>
     sync_identity_match_rank (Some f) example_host = Inr V2_IDENTITY_MATCH \<and>
     map_of f ''owner'' = Some (PStr ''ops'')"
  using built_device_fields [OF example_host_built] example_host_built
  by (auto simp: MANAGED_DEVICE_CUSTOM_FIELDS_def)

end
