(* ===== verification/Py_Time.thy ===== *)
theory Py_Time
  imports Py_Values
begin

text \<open>
  Points in time of the registry database and of \<open>datetime\<close>: a timestamp is the number of
  microseconds since 1970-01-01 00:00 UTC. The theory has the proleptic Gregorian calendar in
  both directions and the two text forms the sources hash or store, \<open>datetime.isoformat()\<close> and
  \<open>str(datetime)\<close>, of a timestamp in UTC.
\<close>

type_synonym timestamp = int

definition seconds :: "int \<Rightarrow> timestamp" where
  "seconds n = n * 1000000"

section \<open>Calendar\<close>

text \<open>Days since 1970-01-01 as year, month and day. Years start in March inside the computation.\<close>

definition civil_of_days :: "int \<Rightarrow> int \<times> int \<times> int" where
  "civil_of_days n =
     (let z = n + 719468; era = z div 146097; doe = z mod 146097;
          c = min 3 (doe div 36524); doc = doe - 36524 * c;
          q = doc div 1461; doq = doc mod 1461;
          a = min 3 (doq div 365); doy = doq - 365 * a;
          mp = (5 * doy + 2) div 153;
          m = (if mp < 10 then mp + 3 else mp - 9)
      in (400 * era + 100 * c + 4 * q + a + (if m \<le> 2 then 1 else 0), m, doy - (153 * mp + 2) div 5 + 1))"

definition days_of_civil :: "int \<times> int \<times> int \<Rightarrow> int" where
  "days_of_civil c = (case c of (y0, m, d) \<Rightarrow>
     let y = (if m \<le> 2 then y0 - 1 else y0); era = y div 400; yoe = y mod 400;
         doy = (153 * (if m > 2 then m - 3 else m + 9) + 2) div 5 + d - 1;
         doe = yoe * 365 + yoe div 4 - yoe div 100 + doy
     in era * 146097 + doe - 719468)"

text \<open>\<open>date.weekday()\<close>: Monday is 0.\<close>

definition weekday_of_days :: "int \<Rightarrow> int" where
  "weekday_of_days n = (n + 3) mod 7"

section \<open>Text forms\<close>

definition pad :: "nat \<Rightarrow> int \<Rightarrow> string" where
  "pad w n = (let s = dec_int n in replicate (w - length s) (CHR ''0'') @ s)"

definition datetime_text :: "string \<Rightarrow> timestamp \<Rightarrow> string" where
  "datetime_text sep t =
     (let us = t mod 1000000; s = (t div 1000000) mod 86400 in
      case civil_of_days (t div 86400000000) of (y, m, d) \<Rightarrow>
        pad 4 y @ ''-'' @ pad 2 m @ ''-'' @ pad 2 d @ sep @
        pad 2 (s div 3600) @ '':'' @ pad 2 (s div 60 mod 60) @ '':'' @ pad 2 (s mod 60) @
        (if us = 0 then [] else ''.'' @ pad 6 us) @ ''+00:00'')"

definition isoformat :: "timestamp \<Rightarrow> string" where
  "isoformat = datetime_text ''T''"

definition datetime_str :: "timestamp \<Rightarrow> string" where
  "datetime_str = datetime_text '' ''"

lemma isoformat_example: "isoformat 1700000000123456 = ''2023-11-14T22:13:20.123456+00:00''"
  by code_simp

lemma days_of_civil_example:
  "map (days_of_civil \<circ> civil_of_days) [-719468, -1, 0, 11016, 19675] = [-719468, -1, 0, 11016, 19675]"
  by code_simp

section \<open>Day by day\<close>

definition leap_year :: "int \<Rightarrow> bool" where
  "leap_year y = (y mod 4 = 0 \<and> (y mod 100 \<noteq> 0 \<or> y mod 400 = 0))"

definition month_length :: "int \<Rightarrow> int \<Rightarrow> int" where
  "month_length y m = (if m = 2 then if leap_year y then 29 else 28 else if m \<in> {4, 6, 9, 11} then 30 else 31)"

definition next_civil :: "int \<times> int \<times> int \<Rightarrow> int \<times> int \<times> int" where
  "next_civil c = (case c of (y, m, d) \<Rightarrow>
     if d < month_length y m then (y, m, d + 1) else if m < 12 then (y, m + 1, 1) else (y + 1, 1, 1))"

definition march_year :: "int \<Rightarrow> int \<Rightarrow> int \<times> int \<times> int" where
  "march_year y doy = (let mp = (5 * doy + 2) div 153; m = (if mp < 10 then mp + 3 else mp - 9)
     in (y + (if m \<le> 2 then 1 else 0), m, doy - (153 * mp + 2) div 5 + 1))"

lemma civil_of_days_parts:
  assumes "n + 719468 = 146097 * era + 36524 * c + 1461 * q + 365 * a + doy"
    and "0 \<le> c" "c \<le> 3" "0 \<le> q" "q \<le> 24" "0 \<le> a" "a \<le> 3" "0 \<le> doy" "doy < 366"
    and "doy = 365 \<Longrightarrow> a = 3 \<and> (q < 24 \<or> c = 3)"
  shows "civil_of_days n = march_year (400 * era + 100 * c + 4 * q + a) doy"
proof -
  have doy: "doy < 365 \<or> doy = 365 \<and> a = 3 \<and> (q < 24 \<or> c = 3)" using assms(9,10) by auto
  have q1: "0 \<le> 365 * a + doy" "365 * a + doy < 1461" using assms doy by auto
  have c1: "0 \<le> 1461 * q + (365 * a + doy)" "1461 * q + (365 * a + doy) \<le> 36524" using assms doy by auto
  have c2: "1461 * q + (365 * a + doy) = 36524 \<Longrightarrow> c = 3" using assms(5,7) doy by linarith
  let ?doc = "1461 * q + (365 * a + doy)"
  have e: "(n + 719468) div 146097 = era \<and> (n + 719468) mod 146097 = 36524 * c + ?doc"
  proof -
    have "0 \<le> 36524 * c + ?doc" "36524 * c + ?doc < 146097" using assms(2,3) c1 c2 by auto
    then show ?thesis
      using assms(1) int_div_pos_eq[of "n + 719468" 146097 era "36524 * c + ?doc"]
        int_mod_pos_eq[of "n + 719468" 146097 era "36524 * c + ?doc"] by simp
  qed
  have c: "min 3 ((36524 * c + ?doc) div 36524) = c"
  proof (cases "?doc = 36524")
    case True then show ?thesis using c2 by simp
  next
    case False
    then have "(36524 * c + ?doc) div 36524 = c" using c1 int_div_pos_eq[of "36524 * c + ?doc" 36524 c ?doc] by simp
    then show ?thesis using assms(3) by simp
  qed
  have q: "?doc div 1461 = q" "?doc mod 1461 = 365 * a + doy"
    using q1 int_div_pos_eq[of ?doc 1461 q "365 * a + doy"] int_mod_pos_eq[of ?doc 1461 q "365 * a + doy"] by simp_all
  have a: "min 3 ((365 * a + doy) div 365) = a"
  proof (cases "doy = 365")
    case True then show ?thesis using doy by simp
  next
    case False
    then have "(365 * a + doy) div 365 = a" using doy assms(8) int_div_pos_eq[of "365 * a + doy" 365 a doy] by simp
    then show ?thesis using assms(7) by simp
  qed
  have cancel: "36524 * c + ?doc - 36524 * c = ?doc" "365 * a + doy - 365 * a = doy" by simp_all
  show ?thesis
    unfolding civil_of_days_def march_year_def Let_def e[THEN conjunct1] e[THEN conjunct2] c cancel(1) q a cancel(2)
    by (rule refl)
qed

lemma days_parts:
  obtains era c q a doy where "n + 719468 = 146097 * era + 36524 * c + 1461 * q + 365 * a + doy"
    "0 \<le> c" "c \<le> 3" "0 \<le> q" "q \<le> 24" "0 \<le> a" "a \<le> 3" "0 \<le> doy" "doy < 366"
    "doy = 365 \<longrightarrow> a = 3 \<and> (q < 24 \<or> c = (3 :: int))"
proof -
  define era where "era = (n + 719468) div 146097"
  define doe where "doe = (n + 719468) mod 146097"
  define c where "c = min 3 (doe div 36524)"
  define doc where "doc = doe - 36524 * c"
  define q where "q = doc div 1461"
  define doq where "doq = doc mod 1461"
  define a where "a = min 3 (doq div 365)"
  define doy where "doy = doq - 365 * a"
  have doe: "0 \<le> doe" "doe < 146097" by (auto simp: doe_def)
  have c: "0 \<le> c" "c \<le> 3" "36524 * c \<le> doe" "doe < 36524 * (c + 1) \<or> c = 3"
    using doe by (auto simp: c_def min_def)
  have doc: "0 \<le> doc" "doc \<le> 36524" "doc = 36524 \<Longrightarrow> c = 3" using c doe by (auto simp: doc_def)
  have q: "0 \<le> q" "q \<le> 24" "doc = 1461 * q + doq" "0 \<le> doq" "doq < 1461"
    using doc by (auto simp: q_def doq_def)
  have a: "0 \<le> a" "a \<le> 3" "365 * a \<le> doq" "doq < 365 * (a + 1) \<or> a = 3"
    using q(4,5) by (auto simp: a_def min_def)
  have doy: "0 \<le> doy" "doy < 366" "doy = 365 \<Longrightarrow> a = 3" using a q(5) by (auto simp: doy_def)
  have l: "q < 24 \<or> c = 3" if "doy = 365"
  proof (cases "q = 24")
    case True then show ?thesis using doc(3) doy(3) q(3) that by (simp add: doy_def)
  qed (use q(2) in simp)
  have n: "n + 719468 = 146097 * era + 36524 * c + 1461 * q + 365 * a + doy"
  proof -
    have "n + 719468 = 146097 * era + doe" unfolding era_def doe_def by (rule mult_div_mod_eq[symmetric])
    then show ?thesis using q(3) unfolding doc_def doy_def by linarith
  qed
  have e: "doy = 365 \<longrightarrow> a = 3 \<and> (q < 24 \<or> c = 3)" using l doy(3) by simp
  show ?thesis by (rule that[OF n c(1,2) q(1,2) a(1,2) doy(1,2) e])
qed

lemma march_month:
  assumes "153 * k \<le> 5 * doy + 2" "5 * doy + 2 < 153 * k + 153" "0 \<le> k" "k < 12"
  shows "march_year y doy = (if k < 10 then y else y + 1, if k < 10 then k + 3 else k - 9, doy - (153 * k + 2) div 5 + 1)"
proof -
  have "(5 * doy + 2) div 153 = k"
    using assms int_div_pos_eq[of "5 * doy + 2" 153 k "5 * doy + 2 - 153 * k"] by simp
  then show ?thesis using assms(3,4) by (simp add: march_year_def Let_def)
qed

lemma march_month_length:
  assumes "0 \<le> k" "k < 11"
  shows "month_length y (if k < 10 then k + 3 else k - 9) = (153 * (k + 1) + 2) div 5 - (153 * k + 2) div 5"
proof -
  have "k = 0 \<or> k = 1 \<or> k = 2 \<or> k = 3 \<or> k = 4 \<or> k = 5 \<or> k = 6 \<or> k = 7 \<or> k = 8 \<or> k = 9 \<or> k = 10"
    using assms by presburger
  then show ?thesis by (elim disjE) (simp_all add: month_length_def)
qed

lemma month_length_bounds: "28 \<le> month_length y m" "month_length y m \<le> 31"
  by (auto simp: month_length_def)

lemma less_div_five: "n < (x + 2) div 5 \<longleftrightarrow> 5 * n + 2 < (x :: int)"
  by presburger

lemma march_year_step:
  assumes "0 \<le> doy" "doy < 364"
  shows "march_year y (doy + 1) = next_civil (march_year y doy)"
proof -
  define k where "k = (5 * doy + 2) div 153"
  have k: "153 * k \<le> 5 * doy + 2" "5 * doy + 2 < 153 * k + 153" "0 \<le> k" "k < 12"
    using assms by (auto simp: k_def)
  define m where "m = (if k < 10 then k + 3 else k - 9)"
  define s where "s = (153 * k + 2) div 5"
  define s' where "s' = (153 * (k + 1) + 2) div 5"
  have s': "doy + 1 < s' \<longleftrightarrow> 5 * doy + 7 < 153 * k + 153" "doy < s'" unfolding s'_def less_div_five using k(2) by auto
  have now: "march_year y doy = (if k < 10 then y else y + 1, m, doy - s + 1)"
    using march_month[OF k] by (simp add: m_def s_def)
  show ?thesis
  proof (cases "k < 11")
    case True
    note l = march_month_length[OF k(3) True, folded m_def s_def s'_def]
    show ?thesis
    proof (cases "doy + 1 < s'")
      case True
      then have "march_year y (doy + 1) = (if k < 10 then y else y + 1, m, doy + 1 - s + 1)"
        using march_month[of k "doy + 1" y] k s'(1) by (simp add: m_def s_def)
      then show ?thesis using True by (simp add: now next_civil_def l)
    next
      case False
      then have "march_year y (doy + 1) = (if k + 1 < 10 then y else y + 1, if k + 1 < 10 then k + 4 else k - 8, doy + 1 - s' + 1)"
        using march_month[of "k + 1" "doy + 1" y] k s'(1) \<open>k < 11\<close> by (simp add: s'_def)
      moreover have "doy + 1 = s'" using False s'(2) by simp
      moreover from this have "next_civil (y', m, doy - s + 1) = (if m < 12 then (y', m + 1, 1) else (y' + 1, 1, 1))" for y'
        by (simp add: next_civil_def l)
      ultimately show ?thesis using k(3) \<open>k < 11\<close> by (simp add: now m_def)
    qed
  next
    case False
    then have "k = 11" using k(4) by simp
    then have "march_year y (doy + 1) = (y + 1, 2, doy + 1 - 337 + 1)"
      using march_month[of 11 "doy + 1" y] k assms by simp
    moreover have "doy - 337 + 1 < month_length (y + 1) 2" using assms(2) month_length_bounds(1)[of "y + 1" 2] by simp
    ultimately show ?thesis by (simp add: now next_civil_def m_def s_def \<open>k = 11\<close>)
  qed
qed

lemma march_year_end:
  "march_year y 0 = (y, 3, 1)" "march_year y 364 = (y + 1, 2, 28)" "march_year y 365 = (y + 1, 2, 29)"
  by (simp_all add: march_year_def)

text \<open>The calendar counts day by day, from 1970-01-01.\<close>

lemma leap_year_parts:
  assumes "0 \<le> c" "c \<le> 3" "0 \<le> q" "q \<le> 24" "0 \<le> a" "a \<le> 3"
  shows "leap_year (400 * era + 100 * c + 4 * q + a + 1) \<longleftrightarrow> a = 3 \<and> (q < 24 \<or> c = 3)"
proof -
  let ?y = "400 * era + 100 * c + 4 * q + a + 1"
  have "?y mod 4 = (a + 1) mod 4"
    using mod_mult_self2[of "a + 1" 4 "100 * era + 25 * c + q"] by (simp add: algebra_simps)
  then have m4: "?y mod 4 = 0 \<longleftrightarrow> a = 3" using assms(5,6) by (cases "a = 3") auto
  have m100: "?y mod 100 = 0 \<longleftrightarrow> q = 24" if "a = 3"
  proof -
    have "?y mod 100 = (4 * q + 4) mod 100"
      using mod_mult_self2[of "4 * q + 4" 100 "4 * era + c"] that by (simp add: algebra_simps)
    then show ?thesis using assms(3,4) by (cases "q = 24") auto
  qed
  have m400: "?y mod 400 = 0 \<longleftrightarrow> c = 3" if "a = 3" "q = 24"
  proof -
    have "?y mod 400 = (100 * c + 100) mod 400"
      using mod_mult_self2[of "100 * c + 100" 400 era] that by (simp add: algebra_simps)
    then show ?thesis using assms(1,2) by (cases "c = 3") auto
  qed
  show ?thesis using m4 m100 m400 assms(4) unfolding leap_year_def by (cases "a = 3"; cases "q = 24") auto
qed

lemma civil_of_days_Suc: "civil_of_days (n + 1) = next_civil (civil_of_days n)"
proof -
  obtain era c q a doy where n: "n + 719468 = 146097 * era + 36524 * c + 1461 * q + 365 * a + doy"
    and r: "0 \<le> c" "c \<le> 3" "0 \<le> q" "q \<le> 24" "0 \<le> a" "a \<le> 3" "0 \<le> doy" "doy < 366"
    and l: "doy = 365 \<longrightarrow> a = 3 \<and> (q < 24 \<or> c = 3)" by (rule days_parts[of n])
  define y where "y = 400 * era + 100 * c + 4 * q + a"
  have n1: "n + 1 + 719468 = n + 719468 + 1" by simp
  have now: "civil_of_days n = march_year y doy" unfolding y_def by (rule civil_of_days_parts[OF n r l[rule_format]])
  have leap: "leap_year (y + 1) \<longleftrightarrow> a = 3 \<and> (q < 24 \<or> c = 3)"
    unfolding y_def by (rule leap_year_parts[OF r(1-6)])
  have same: "civil_of_days (n + 1) = march_year y (doy + 1)" if "doy < 365" "doy = 364 \<longrightarrow> leap_year (y + 1)"
  proof -
    have z: "n + 1 + 719468 = 146097 * era + 36524 * c + 1461 * q + 365 * a + (doy + 1)" unfolding n1 n by simp
    have d: "0 \<le> doy + 1" "doy + 1 < 366" using r(7) that(1) by linarith+
    have e: "a = 3 \<and> (q < 24 \<or> c = 3)" if "doy + 1 = 365" using that \<open>doy = 364 \<longrightarrow> leap_year (y + 1)\<close> leap by simp
    show ?thesis unfolding y_def by (rule civil_of_days_parts[OF z r(1-6) d e])
  qed
  have over: "civil_of_days (n + 1) = march_year (y + 1) 0" if d: "doy = (if a = 3 \<and> (q < 24 \<or> c = 3) then 365 else 364)"
  proof -
    consider "a < 3" | "a = 3" "q < 24" | "a = 3" "q = 24" "c < 3" | "a = 3" "q = 24" "c = 3" using r(2,4,6) by fastforce
    then show ?thesis
    proof cases
      case 1
      have y: "y + 1 = 400 * era + 100 * c + 4 * q + (a + 1)" using 1 by (simp add: y_def)
      have d': "doy = 364" using d 1 by simp
      have z: "n + 1 + 719468 = 146097 * era + 36524 * c + 1461 * q + 365 * (a + 1) + 0" unfolding n1 n d' using 1 by (simp add: algebra_simps)
      show ?thesis unfolding y by (rule civil_of_days_parts[OF z]) (use 1 r in simp_all)
    next
      case 2
      have y: "y + 1 = 400 * era + 100 * c + 4 * (q + 1) + 0" using 2 by (simp add: y_def)
      have d': "doy = 365" using d 2 by simp
      have z: "n + 1 + 719468 = 146097 * era + 36524 * c + 1461 * (q + 1) + 365 * 0 + 0" unfolding n1 n d' using 2 by (simp add: algebra_simps)
      show ?thesis unfolding y by (rule civil_of_days_parts[OF z]) (use 2 r in simp_all)
    next
      case 3
      have y: "y + 1 = 400 * era + 100 * (c + 1) + 4 * 0 + 0" using 3 by (simp add: y_def)
      have d': "doy = 364" using d 3 by simp
      have z: "n + 1 + 719468 = 146097 * era + 36524 * (c + 1) + 1461 * 0 + 365 * 0 + 0" unfolding n1 n d' using 3 by (simp add: algebra_simps)
      show ?thesis unfolding y by (rule civil_of_days_parts[OF z]) (use 3 r in simp_all)
    next
      case 4
      have y: "y + 1 = 400 * (era + 1) + 100 * 0 + 4 * 0 + 0" using 4 by (simp add: y_def)
      have d': "doy = 365" using d 4 by simp
      have z: "n + 1 + 719468 = 146097 * (era + 1) + 36524 * 0 + 1461 * 0 + 365 * 0 + 0" unfolding n1 n d' using 4 by (simp add: algebra_simps)
      show ?thesis unfolding y by (rule civil_of_days_parts[OF z]) (use 4 r in simp_all)
    qed
  qed
  consider "doy < 364" | "doy = 364" "leap_year (y + 1)" | "doy = 365" | "doy = 364" "\<not> leap_year (y + 1)" using r(8) by fastforce
  then show ?thesis
  proof cases
    case 1
    then show ?thesis using same now march_year_step[of doy y] r(7) by simp
  next
    case 2
    then show ?thesis using same now march_year_end(2,3)[of y] by (simp add: next_civil_def month_length_def)
  next
    case 3
    then have "leap_year (y + 1)" using l leap by simp
    then show ?thesis using 3 leap over now march_year_end(3)[of y] march_year_end(1)[of "y + 1"]
      by (simp add: next_civil_def month_length_def)
  next
    case 4
    then show ?thesis using leap over now march_year_end(2)[of y] march_year_end(1)[of "y + 1"]
      by (simp add: next_civil_def month_length_def)
  qed
qed

lemma civil_day_ok: "case civil_of_days n of (y, m, d) \<Rightarrow> 1 \<le> m \<and> m \<le> 12 \<and> 1 \<le> d \<and> d \<le> month_length y m"
proof -
  obtain era c q a doy where n: "n + 719468 = 146097 * era + 36524 * c + 1461 * q + 365 * a + doy"
    and r: "0 \<le> c" "c \<le> 3" "0 \<le> q" "q \<le> 24" "0 \<le> a" "a \<le> 3" "0 \<le> doy" "doy < 366"
    and l: "doy = 365 \<longrightarrow> a = 3 \<and> (q < 24 \<or> c = 3)" by (rule days_parts[of n])
  define y where "y = 400 * era + 100 * c + 4 * q + a"
  have now: "civil_of_days n = march_year y doy" unfolding y_def by (rule civil_of_days_parts[OF n r l[rule_format]])
  have leap: "leap_year (y + 1) \<longleftrightarrow> a = 3 \<and> (q < 24 \<or> c = 3)"
    unfolding y_def by (rule leap_year_parts[OF r(1-6)])
  define k where "k = (5 * doy + 2) div 153"
  have k: "153 * k \<le> 5 * doy + 2" "5 * doy + 2 < 153 * k + 153" "0 \<le> k" "k < 12" using r(7,8) by (auto simp: k_def)
  have s: "\<not> doy < (153 * k + 2) div 5" "doy < (153 * (k + 1) + 2) div 5" unfolding less_div_five using k(1,2) by auto
  show ?thesis
  proof (cases "k < 11")
    case True
    then show ?thesis using now march_month[OF k] march_month_length[OF k(3) True] s k(3) by simp
  next
    case False
    then have "k = 11" using k(4) by simp
    moreover have "doy \<le> 364 \<or> leap_year (y + 1)" using r(8) l leap by (cases "doy = 365") auto
    ultimately show ?thesis using now march_month[OF k] s(1) r(8) by (auto simp: month_length_def)
  qed
qed

lemma civil_of_days_epoch: "civil_of_days 0 = (1970, 1, 1)"
  by code_simp

end
