(* ===== verification/Registry.thy ===== *)
theory Registry
  imports Discovery Py_Time
begin

text \<open>
  The registry database at its current schema revision: one record per row type with the
  columns the sources read, the tables as lists of rows, the view \<open>blocking_sync_runs\<close>, the
  partial unique index and the triggers of the migrations. A transaction is a function from
  the database to an exception or to a value and the new database: an exception inside
  \<open>with connect()\<close> rolls back, so no new database is returned with it. Advisory locks taken with
  \<open>pg_advisory_xact_lock\<close> make transactions on one source atomic, which is how they are
  modelled; locks that are only tried are part of the state or an argument.
\<close>

section \<open>Rows\<close>

text \<open>UUIDs are their canonical text, whose order is the order of the values.\<close>

type_synonym uuid = string

text \<open>
  A row of \<open>sources\<close>. The columns nothing below changes or reads by itself (address, slugs,
  timestamps, and so on) are kept together, already rendered, in \<open>s_columns\<close>.
\<close>

record source_row =
  s_instance :: string
  s_name :: string
  s_type :: string
  s_enabled :: bool
  s_sync_enabled :: bool
  s_interval :: int
  s_calendar :: "pydict option"
  s_schedule_changed_at :: timestamp
  s_token_id :: "string \<times> string"
  s_token_secret :: "string \<times> string"
  s_settings :: pydict
  s_columns :: pydict

record tombstone_row =
  t_instance :: string
  t_display_name :: string
  t_removed_at :: timestamp
  t_restored_at :: "timestamp option"
  t_credential_state :: string

datatype op_status = OP_RUNNING | OP_READY | OP_SUCCEEDED | OP_FAILED | OP_STALE

record operation_row =
  o_instance :: string
  o_kind :: string
  o_id :: uuid
  o_status :: op_status
  o_started_at :: timestamp
  o_updated_at :: timestamp
  o_finished_at :: "timestamp option"
  o_code :: "string option"
  o_result :: "pydict option"

datatype run_status =
  RUN_RUNNING | RUN_SUCCEEDED | RUN_FAILED_BEFORE_WRITE | RUN_PARTIALLY_APPLIED
| RUN_OUTCOME_UNCERTAIN | RUN_BLOCKED | RUN_LOCKED | RUN_FAILED

datatype run_trigger = MANUAL | SCHEDULED

record ActionCounts =
  c_create :: int
  c_update :: int
  c_no_change :: int
  c_review_required :: int
  c_blocked :: int
  c_ignored :: int
  c_unsupported :: int
  c_retain_only :: int

record run_row =
  r_id :: uuid
  r_instance :: string
  r_type :: string
  r_trigger :: run_trigger
  r_started_at :: timestamp
  r_finished_at :: "timestamp option"
  r_duration_ms :: "int option"
  r_status :: run_status
  r_digest :: "string option"
  r_planner :: "string option"
  r_counts :: ActionCounts
  r_code :: "string option"
  r_message :: "string option"
  r_created_by :: string

record reconciliation_row =
  rr_run_id :: uuid
  rr_instance :: string
  rr_actor :: string
  rr_operation :: uuid
  rr_run_status :: run_status
  rr_run_finished_at :: timestamp
  rr_decision :: pydict
  rr_valid :: bool
  rr_created_at :: timestamp

datatype recovery_state = REC_PREPARED | REC_CREDENTIALS_PENDING | REC_RESTORED | REC_ABANDONED

record recovery_row =
  rc_id :: uuid
  rc_instance :: string
  rc_actor :: string
  rc_revision :: string
  rc_plan :: pydict
  rc_state :: recovery_state
  rc_finished_at :: "timestamp option"

datatype ret_state = RET_READY | RET_SENDING | RET_UNCERTAIN | RET_SUCCEEDED | RET_FINALIZED | RET_BLOCKED

record retirement_row =
  ret_id :: uuid
  ret_instance :: string
  ret_actor :: string
  ret_revision :: string
  ret_guard :: uuid
  ret_plan :: pydict
  ret_state :: ret_state
  ret_receipt :: "pydict option"
  ret_code :: "string option"
  ret_remove_credentials :: "bool option"
  ret_created_at :: timestamp
  ret_finished_at :: "timestamp option"
  ret_superseded_by :: "uuid option"
  ret_cleanup_verified :: bool

datatype queue_state = Q_WAITING | Q_BLOCKED

record removal_row =
  q_instance :: string
  q_id :: uuid
  q_actor :: string
  q_revision :: string
  q_display_name :: string
  q_state :: queue_state
  q_code :: "string option"

record archive_row =
  a_instance :: string
  a_id :: uuid
  a_actor :: string
  a_mode :: string
  a_guard :: uuid
  a_receipt :: pydict
  a_verified_at :: "timestamp option"

record reservation_row =
  hr_provider :: string
  hr_anchor :: string
  hr_instance :: string
  hr_operation :: uuid
  hr_actor :: string
  hr_released_at :: "timestamp option"

record verification_row =
  iv_id :: uuid
  iv_instance :: string
  iv_actor :: string
  iv_revision :: string
  iv_anchor :: string
  iv_proof :: pydict

record intent_row =
  ri_instance :: string
  ri_operation :: uuid
  ri_actor :: string
  ri_anchor :: string
  ri_fingerprint :: string
  ri_request :: "pydict option"
  ri_created_at :: timestamp

section \<open>Tables\<close>

text \<open>
  \<open>held\<close> are the session advisory locks of executing operations, keyed by source and kind.
\<close>

record registry =
  sources :: "source_row list"
  source_tombstones :: "tombstone_row list"
  source_operations :: "operation_row list"
  sync_runs :: "run_row list"
  run_reconciliations :: "reconciliation_row list"
  source_recoveries :: "recovery_row list"
  source_retirements :: "retirement_row list"
  source_removal_requests :: "removal_row list"
  source_archives :: "archive_row list"
  host_reservations :: "reservation_row list"
  source_identity_verifications :: "verification_row list"
  registration_intents :: "intent_row list"
  auth_state :: pydict
  auth_audit :: "pydict list"
  held :: "(string \<times> string) list"

type_synonym 'a txn = "registry \<Rightarrow> ('a \<times> registry) result"

text \<open>\<open>UPDATE ... WHERE p\<close> and \<open>SELECT ... WHERE p\<close> with \<open>fetchone\<close>.\<close>

definition update_where :: "('r \<Rightarrow> bool) \<Rightarrow> ('r \<Rightarrow> 'r) \<Rightarrow> 'r list \<Rightarrow> 'r list" where
  "update_where p f rows = map (\<lambda>r. if p r then f r else r) rows"

definition source_of :: "registry \<Rightarrow> string \<Rightarrow> source_row option" where
  "source_of db source = List.find (\<lambda>r. s_instance r = source) (sources db)"

text \<open>The tombstone of a removed source that has not been restored.\<close>

definition removed_row :: "registry \<Rightarrow> string \<Rightarrow> tombstone_row option" where
  "removed_row db source =
     List.find (\<lambda>t. t_instance t = source \<and> t_restored_at t = None) (source_tombstones db)"

definition retirement_of :: "registry \<Rightarrow> uuid \<Rightarrow> retirement_row option" where
  "retirement_of db operation = List.find (\<lambda>r. ret_id r = operation) (source_retirements db)"

definition request_of :: "registry \<Rightarrow> string \<Rightarrow> removal_row option" where
  "request_of db source = List.find (\<lambda>q. q_instance q = source) (source_removal_requests db)"

text \<open>\<open>source_archive.archived\<close>.\<close>

definition archived :: "registry \<Rightarrow> string \<Rightarrow> bool" where
  "archived db source = list_ex (\<lambda>a. a_instance a = source) (source_archives db)"

text \<open>A dispatched retirement whose outcome is not closed, and the rows of the partial unique index.\<close>

definition dispatched :: "retirement_row \<Rightarrow> bool" where
  "dispatched r = (ret_state r \<in> {RET_SENDING, RET_UNCERTAIN, RET_SUCCEEDED})"

definition inflight :: "retirement_row \<Rightarrow> bool" where
  "inflight r = (dispatched r \<and> ret_superseded_by r = None)"

definition retirement_inflight_source :: "retirement_row list \<Rightarrow> bool" where
  "retirement_inflight_source rows = distinct (map ret_instance (filter inflight rows))"

text \<open>
  The view \<open>blocking_sync_runs\<close>: runs without a valid administrative reconciliation of exactly
  their recorded outcome. \<open>run_gates.blocking_runs\<close> selects it whenever the migration has run.
\<close>

definition reconciled :: "registry \<Rightarrow> run_row \<Rightarrow> bool" where
  "reconciled db r = list_ex (\<lambda>a. rr_run_id a = r_id r \<and> rr_instance a = r_instance r \<and>
     rr_run_status a = r_status r \<and> Some (rr_run_finished_at a) = r_finished_at r \<and> rr_valid a)
     (run_reconciliations db)"

definition blocking_runs :: "registry \<Rightarrow> run_row list" where
  "blocking_runs db = filter (\<lambda>r. \<not> reconciled db r) (sync_runs db)"

definition unconfirmed_status :: "run_status \<Rightarrow> bool" where
  "unconfirmed_status s = (s \<in> {RUN_OUTCOME_UNCERTAIN, RUN_PARTIALLY_APPLIED})"

definition blocking_status :: "run_status \<Rightarrow> bool" where
  "blocking_status s = (s = RUN_RUNNING \<or> unconfirmed_status s)"

definition run_blocks :: "registry \<Rightarrow> string \<Rightarrow> bool" where
  "run_blocks db source = list_ex (\<lambda>r. r_instance r = source \<and> blocking_status (r_status r)) (blocking_runs db)"

definition run_unconfirmed :: "registry \<Rightarrow> string \<Rightarrow> bool" where
  "run_unconfirmed db source =
     list_ex (\<lambda>r. r_instance r = source \<and> unconfirmed_status (r_status r)) (blocking_runs db)"

definition operation_running :: "registry \<Rightarrow> string \<Rightarrow> bool" where
  "operation_running db source =
     list_ex (\<lambda>r. o_instance r = source \<and> o_status r = OP_RUNNING) (source_operations db)"

definition run_running :: "registry \<Rightarrow> string \<Rightarrow> bool" where
  "run_running db source = list_ex (\<lambda>r. r_instance r = source \<and> r_status r = RUN_RUNNING) (sync_runs db)"

definition recovery_pending :: "registry \<Rightarrow> string \<Rightarrow> bool" where
  "recovery_pending db source =
     list_ex (\<lambda>r. rc_instance r = source \<and> rc_state r = REC_CREDENTIALS_PENDING) (source_recoveries db)"

section \<open>Admission of synchronization runs\<close>

text \<open>
  The row triggers \<open>source_run_admission\<close> and \<open>source_z_queued_run_admission\<close> of \<open>sync_runs\<close>,
  which fire in the order of their names, and the insert they guard.
\<close>

definition guard_run_source :: "registry \<Rightarrow> string \<Rightarrow> unit result" where
  "guard_run_source db source = require
     (source_of db source \<noteq> None \<and> removed_row db source = None \<and> \<not> archived db source \<and>
      \<not> list_ex (\<lambda>r. ret_instance r = source \<and> inflight r) (source_retirements db))
     (CheckViolation ''SOURCE_RUN_REFUSED'')"

definition guard_queued_run :: "registry \<Rightarrow> string \<Rightarrow> unit result" where
  "guard_queued_run db source =
     require (request_of db source = None) (CheckViolation ''SOURCE_RUN_REFUSED'')"

definition insert_run :: "run_row \<Rightarrow> unit txn" where
  "insert_run r db = bindr (guard_run_source db (r_instance r)) (\<lambda>_.
     bindr (guard_queued_run db (r_instance r)) (\<lambda>_.
     bindr (require (r_id r \<notin> r_id ` set (sync_runs db)) (UniqueViolation ''sync_runs'')) (\<lambda>_.
       Inr ((), db\<lparr>sync_runs := sync_runs db @ [r]\<rparr>))))"

section \<open>Revisions\<close>

text \<open>
  \<open>dict(row)\<close> of a source, and \<open>LifecycleStore.revision\<close>: the digest of its canonical text. The
  digest function is an argument. \<open>default=str\<close> renders the timestamp column.
\<close>

definition source_dict :: "source_row \<Rightarrow> pydict" where
  "source_dict r =
     [(''source_instance'', PStr (s_instance r)), (''name'', PStr (s_name r)),
      (''source_type'', PStr (s_type r)), (''enabled'', PBool (s_enabled r)),
      (''sync_enabled'', PBool (s_sync_enabled r)), (''sync_interval_seconds'', PInt (s_interval r)),
      (''sync_calendar'', (case s_calendar r of None \<Rightarrow> PNone | Some d \<Rightarrow> PDict d)),
      (''schedule_changed_at'', PStr (datetime_str (s_schedule_changed_at r))),
      (''token_id_provider'', PStr (fst (s_token_id r))), (''token_id_key'', PStr (snd (s_token_id r))),
      (''token_secret_provider'', PStr (fst (s_token_secret r))),
      (''token_secret_key'', PStr (snd (s_token_secret r))),
      (''settings'', PDict (s_settings r))] @ s_columns r"

definition revision :: "(string \<Rightarrow> string) \<Rightarrow> pydict \<Rightarrow> string" where
  "revision H row = H (dumps_compact (PDict row))"

section \<open>JSON text\<close>

text \<open>
  \<open>value->>'key'\<close>: the text of a member, null for a missing or null one. The text of a nested
  container is only ever compared with texts that are not one.
\<close>

fun json_text :: "pyval \<Rightarrow> string option" where
  "json_text PNone = None"
| "json_text (PStr s) = Some s"
| "json_text v = Some (dumps_sorted v)"

section \<open>Library\<close>

lemma find_SomeD: "List.find p xs = Some x \<Longrightarrow> x \<in> set xs \<and> p x"
  by (induction xs) (auto split: if_splits)

lemma find_none: "List.find p xs = None \<longleftrightarrow> (\<forall>x \<in> set xs. \<not> p x)"
  by (induction xs) auto

lemma set_update_where: "set (update_where p f rows) = (\<lambda>r. if p r then f r else r) ` set rows"
  by (simp add: update_where_def)

lemma map_update_where [simp]:
  "(\<And>r. p r \<Longrightarrow> g (f r) = g r) \<Longrightarrow> map g (update_where p f rows) = map g rows"
  by (auto simp: update_where_def)

lemma filter_update_where:
  "(\<And>r. p r \<Longrightarrow> \<not> c r) \<Longrightarrow> (\<And>r. p r \<Longrightarrow> \<not> c (f r)) \<Longrightarrow> filter c (update_where p f rows) = filter c rows"
  by (induction rows) (auto simp: update_where_def)

lemma source_of_Some: "source_of db source = Some r \<Longrightarrow> r \<in> set (sources db) \<and> s_instance r = source"
  by (auto simp: source_of_def dest: find_SomeD)

lemma source_of_unique:
  assumes "distinct (map s_instance (sources db))" "r \<in> set (sources db)" "s_instance r = source"
  shows "source_of db source = Some r"
proof -
  have "source_of db source \<noteq> None"
    using assms by (auto simp: source_of_def find_none)
  then obtain r' where r': "source_of db source = Some r'" by auto
  then have "r' = r" using assms source_of_Some[OF r']
    by (metis distinct_map inj_onD)
  with r' show ?thesis by simp
qed

end
