(* ===== verification/Source_Operations.thy ===== *)
theory Source_Operations
  imports Registry
begin

text \<open>
  \<open>source_operations.py\<close>: the gate every lifecycle change passes and the store of the latest
  PLAN and DISCOVERY operation of a source. An execution is two steps, because other
  transactions may run while the provider is read: it takes the session lock and checks its
  generation, then validates the result and completes the row. The interleavings of all
  operations form a step relation.
\<close>

section \<open>The source gate\<close>

definition source_gate :: "registry \<Rightarrow> string \<Rightarrow> bool \<Rightarrow> bool \<Rightarrow> unit result" where
  "source_gate db source allow_retirement allow_waiting =
     (if allow_retirement then Inr () else
      bindr (require (\<not> archived db source) (OperationError ''SOURCE_ARCHIVED'')) (\<lambda>_.
      bindr (require (\<not> list_ex (\<lambda>r. ret_instance r = source \<and> dispatched r) (source_retirements db))
        (OperationError ''SOURCE_RETIREMENT_PENDING'')) (\<lambda>_.
      require (allow_waiting \<or> request_of db source = None)
        (OperationError ''SOURCE_RETIREMENT_PENDING''))))"

section \<open>Several transactions in sequence\<close>

text \<open>
  An action threads a state and keeps it when it raises. A procedure on the registry commits each
  of its transactions, so an exception keeps what was committed before.
\<close>

type_synonym ('s, 'a) action = "'s \<Rightarrow> 'a result \<times> 's"
type_synonym 'a proc = "(registry, 'a) action"

definition commit :: "'a txn \<Rightarrow> 'a proc" where
  "commit t db = (case t db of Inl e \<Rightarrow> (Inl e, db) | Inr (a, db') \<Rightarrow> (Inr a, db'))"

definition bindp :: "('s, 'a) action \<Rightarrow> ('a \<Rightarrow> ('s, 'b) action) \<Rightarrow> ('s, 'b) action" where
  "bindp m f s = (case m s of (Inl e, s') \<Rightarrow> (Inl e, s') | (Inr a, s') \<Rightarrow> f a s')"

definition pure :: "'a result \<Rightarrow> ('s, 'a) action" where
  "pure r s = (r, s)"

section \<open>Constants\<close>

definition KINDS :: "string list" where
  "KINDS = [''PLAN'', ''DISCOVERY'']"

definition ACTIVE_SECONDS :: timestamp where "ACTIVE_SECONDS = seconds 180"
definition RESULT_SECONDS :: timestamp where "RESULT_SECONDS = seconds 86400"
definition MAX_RESULT_BYTES :: int where "MAX_RESULT_BYTES = 8 * 1024 * 1024"

text \<open>\<open>SOURCE_INSTANCE_PATTERN.fullmatch\<close>.\<close>

definition instance_char :: "char \<Rightarrow> bool" where
  "instance_char c = (is_lower_char c \<or> is_digit_char c \<or> c \<in> set ''._-'')"

definition source_instance_ok :: "string \<Rightarrow> bool" where
  "source_instance_ok s = (case s of [] \<Rightarrow> False | c # cs \<Rightarrow>
     (is_lower_char c \<or> is_digit_char c) \<and> 1 \<le> length cs \<and> length cs \<le> 62 \<and> list_all instance_char cs)"

text \<open>The keys of \<open>public_errors.json\<close> and the further codes an execution may publish.\<close>

definition ERRORS :: "string list" where
  "ERRORS = [''SOURCE_DNS_FAILED'', ''SOURCE_CONNECTION_FAILED'', ''SOURCE_TIMEOUT'', ''SOURCE_TLS_FAILED'',
     ''SOURCE_DESTINATION_DENIED'', ''SOURCE_AUTH_FAILED'', ''SOURCE_PERMISSION_DENIED'',
     ''NETBOX_PERMISSION_DENIED'', ''NETBOX_AUTH_FAILED'', ''NETBOX_TLS_FAILED'', ''NETBOX_UNAVAILABLE'',
     ''MAPPING_INVALID'', ''PLANNER_FAILED'', ''DISCOVERY_FAILED'', ''PROVIDER_UNAVAILABLE'',
     ''DISCOVERY_TIMEOUT'', ''ONBOARDING_TOKEN_INVALID'', ''PROBE_RECEIPT_INVALID'', ''CATALOG_CHANGED'',
     ''REGISTRATION_UNCERTAIN'', ''OUTCOME_UNCERTAIN'', ''OPERATION_FAILED'',
     ''REGISTRATION_CLUSTER_RETAINED'', ''NETBOX_PLACEMENT_MISSING'', ''HOST_IDENTITY_INCONSISTENT'',
     ''HOST_IDENTITY_CHANGED'', ''RETIREMENT_AUTH_FAILED'', ''RETIREMENT_TOKEN_WRITE_REQUIRED'',
     ''RETIREMENT_AUDIT_PERMISSION_REQUIRED'', ''RETIREMENT_SOURCE_SCOPE_DENIED'',
     ''RETIREMENT_OBJECT_VIEW_DENIED'', ''SOURCE_ARCHIVED'', ''SOURCE_ARCHIVE_REVIEW_REQUIRED'',
     ''SOURCE_CREDENTIAL_CLEANUP_PENDING'', ''SOURCE_LIFECYCLE_REVIEW_LIMIT'', ''HOST_PRIMARY_IP_CONFLICT'']"

definition EXECUTION_CODES :: "string list" where
  "EXECUTION_CODES = ERRORS @ [''SOURCE_NOT_FOUND'', ''SOURCE_DISABLED'', ''CREDENTIAL_UNAVAILABLE'',
     ''REGISTRY_UNAVAILABLE'', ''DISCOVERY_TIMEOUT'', ''PROVIDER_UNAVAILABLE'', ''NETBOX_UNAVAILABLE'',
     ''DISCOVERY_FAILED'', ''RESULT_TOO_LARGE'', ''RESULT_INVALID'']"

section \<open>Reconciling and starting\<close>

definition operations_of :: "registry \<Rightarrow> string \<Rightarrow> operation_row list" where
  "operations_of db source = sort_key o_kind (filter (\<lambda>r. o_instance r = source) (source_operations db))"

definition interrupt :: "timestamp \<Rightarrow> operation_row \<Rightarrow> operation_row" where
  "interrupt now r = r\<lparr>o_status := OP_FAILED, o_code := Some ''OPERATION_INTERRUPTED'', o_result := None,
     o_updated_at := now, o_finished_at := Some now\<rparr>"

definition expire :: "timestamp \<Rightarrow> operation_row \<Rightarrow> operation_row" where
  "expire now r = r\<lparr>o_result := None, o_status := (if o_kind r = ''PLAN'' then OP_STALE else OP_FAILED),
     o_code := Some ''RESULT_EXPIRED'', o_updated_at := now\<rparr>"

definition lapsed :: "timestamp \<Rightarrow> operation_row \<Rightarrow> bool" where
  "lapsed now r = (case o_finished_at r of None \<Rightarrow> False | Some t \<Rightarrow> t < now - RESULT_SECONDS)"

definition reconcile_row :: "timestamp \<Rightarrow> operation_row \<Rightarrow> registry \<Rightarrow> registry" where
  "reconcile_row now row db =
     (if o_status row = OP_RUNNING then
        if o_updated_at row < now - ACTIVE_SECONDS \<and> (o_instance row, o_kind row) \<notin> set (held db)
        then db\<lparr>source_operations := update_where (\<lambda>r. o_id r = o_id row \<and> o_status r = OP_RUNNING)
               (interrupt now) (source_operations db)\<rparr>
        else db
      else if o_result row \<noteq> None
      then db\<lparr>source_operations := update_where (\<lambda>r. o_id r = o_id row \<and> lapsed now r)
             (expire now) (source_operations db)\<rparr>
      else db)"

definition latest :: "timestamp \<Rightarrow> string \<Rightarrow> operation_row list txn" where
  "latest now source db = (let db' = fold (reconcile_row now) (operations_of db source) db
     in Inr (operations_of db' source, db'))"

definition slot_of :: "registry \<Rightarrow> string \<Rightarrow> string \<Rightarrow> operation_row option" where
  "slot_of db source kind =
     List.find (\<lambda>r. o_instance r = source \<and> o_kind r = kind) (source_operations db)"

definition fresh_row :: "timestamp \<Rightarrow> uuid \<Rightarrow> string \<Rightarrow> string \<Rightarrow> operation_row" where
  "fresh_row now uuid source kind = \<lparr>o_instance = source, o_kind = kind, o_id = uuid, o_status = OP_RUNNING,
     o_started_at = now, o_updated_at = now, o_finished_at = None, o_code = None, o_result = None\<rparr>"

text \<open>\<open>INSERT ... ON CONFLICT (source_instance, operation_kind) DO UPDATE\<close>.\<close>

definition upsert_operation :: "operation_row \<Rightarrow> registry \<Rightarrow> registry" where
  "upsert_operation row db = db\<lparr>source_operations :=
     (if slot_of db (o_instance row) (o_kind row) = None then source_operations db @ [row]
      else update_where (\<lambda>r. o_instance r = o_instance row \<and> o_kind r = o_kind row) (\<lambda>_. row)
             (source_operations db))\<rparr>"

text \<open>Take a free slot for a new generation.\<close>

definition claim_slot :: "timestamp \<Rightarrow> uuid \<Rightarrow> string \<Rightarrow> string \<Rightarrow> (operation_row \<times> bool) txn" where
  "claim_slot now uuid source kind db =
     bindr (require ((source, kind) \<notin> set (held db)) (OperationError ''OPERATION_STILL_EXECUTING'')) (\<lambda>_.
     bindr (require (uuid \<notin> o_id ` set (source_operations db)) (UniqueViolation ''source_operations'')) (\<lambda>_.
       let row = fresh_row now uuid source kind in Inr ((row, True), upsert_operation row db)))"

definition admit :: "timestamp \<Rightarrow> uuid \<Rightarrow> string \<Rightarrow> string \<Rightarrow> (operation_row \<times> bool) txn" where
  "admit now uuid source kind db =
     bindr (source_gate db source False False) (\<lambda>_.
     case source_of db source of None \<Rightarrow> Inl (OperationError ''SOURCE_NOT_FOUND'')
     | Some record \<Rightarrow>
       bindr (require (s_enabled record) (OperationError ''SOURCE_DISABLED'')) (\<lambda>_.
       case slot_of db source kind of
         Some current \<Rightarrow> if o_status current = OP_RUNNING then Inr ((current, False), db)
           else claim_slot now uuid source kind db
       | None \<Rightarrow> claim_slot now uuid source kind db))"

definition start :: "timestamp \<Rightarrow> uuid \<Rightarrow> string \<Rightarrow> string \<Rightarrow> (operation_row \<times> bool) proc" where
  "start now uuid source kind =
     bindp (pure (require (kind \<in> set KINDS \<and> source_instance_ok source) (OperationError ''OPERATION_INVALID''))) (\<lambda>_.
     bindp (commit (latest now source)) (\<lambda>_. commit (admit now uuid source kind)))"

section \<open>Executing\<close>

definition execute_begin :: "operation_row \<Rightarrow> registry \<Rightarrow> bool \<times> registry" where
  "execute_begin operation db =
     (let key = (o_instance operation, o_kind operation) in
      if key \<in> set (held db) then (False, db)
      else case List.find (\<lambda>r. o_id r = o_id operation) (source_operations db) of
        None \<Rightarrow> (False, db)
      | Some current \<Rightarrow> if o_status current \<noteq> OP_RUNNING then (False, db)
          else (True, db\<lparr>held := key # held db\<rparr>))"

text \<open>
  The callback returns a document or raises; of an exception only its code and the provider
  evidence attached to it are read. The transfer objects of the interface are pydantic models:
  whether they accept a document is the argument \<open>dto\<close>, and what the host model makes of one
  evidence row is \<open>host_dto\<close>.
\<close>

record failure =
  f_code :: string
  f_evidence :: pyval

fun exn_code :: "exn \<Rightarrow> string" where
  "exn_code (OperationError c) = c"
| "exn_code (LifecycleError c) = c"
| "exn_code (ControlError c) = c"
| "exn_code _ = []"

definition plan_digest :: "(string \<Rightarrow> string) \<Rightarrow> pydict \<Rightarrow> string" where
  "plan_digest H d = H (dumps_compact (PDict (AList.delete ''digest'' d)))"

definition check_result ::
  "(string \<Rightarrow> string) \<Rightarrow> (string \<Rightarrow> pyval \<Rightarrow> bool) \<Rightarrow> string \<Rightarrow> string \<Rightarrow> pyval \<Rightarrow> pydict result" where
  "check_result H dto kind source result =
     bindr (require (int (length (dumps_compact result)) \<le> MAX_RESULT_BYTES) (OperationError ''RESULT_TOO_LARGE'')) (\<lambda>_.
     bindr (py_get result ''source_instance'') (\<lambda>s.
     bindr (require (py_eq s (PStr source)) (OperationError ''RESULT_INVALID'')) (\<lambda>_.
     case result of PDict d \<Rightarrow>
       bindr (if kind = ''PLAN''
              then bindr (dindex d ''digest'') (\<lambda>digest.
                   require (py_eq (PStr (plan_digest H d)) digest) (OperationError ''RESULT_INVALID''))
              else Inr ()) (\<lambda>_.
       bindr (require (dto kind result) (OperationError ''RESULT_INVALID'')) (\<lambda>_. Inr d))
     | _ \<Rightarrow> Inl (AttributeError ''get''))))"

definition provider_evidence ::
  "(pyval \<Rightarrow> pydict result) \<Rightarrow> pyval \<Rightarrow> string \<Rightarrow> pydict result" where
  "provider_evidence host_dto value source = (case value of
     PDict d \<Rightarrow>
       bindr (require (set (map fst d) = {''source_instance'', ''hosts''} \<and>
                 py_eq (dget d ''source_instance'') (PStr source)) (ValueError ''Invalid provider evidence'')) (\<lambda>_.
       case dget d ''hosts'' of PList rows \<Rightarrow>
         bindr (require (1 \<le> length rows \<and> length rows \<le> 16) (ValueError ''Invalid provider evidence'')) (\<lambda>_.
         bindr (mapr host_dto rows) (\<lambda>hosts.
         bindr (mapr (\<lambda>h. dindex h ''id'') hosts) (\<lambda>ids.
         bindr (require (distinct ids) (ValueError ''Ambiguous provider evidence'')) (\<lambda>_.
           Inr [(''source_instance'', PStr source), (''hosts'', PList (map PDict hosts))]))))
       | _ \<Rightarrow> Inl (ValueError ''Invalid provider evidence''))
   | _ \<Rightarrow> Inl (ValueError ''Invalid provider evidence''))"

definition failure_code :: "string \<Rightarrow> string" where
  "failure_code candidate = (if candidate \<in> set EXECUTION_CODES then candidate else ''OPERATION_FAILED'')"

text \<open>The status, result and code an execution writes.\<close>

definition completion ::
  "(string \<Rightarrow> string) \<Rightarrow> (string \<Rightarrow> pyval \<Rightarrow> bool) \<Rightarrow> (pyval \<Rightarrow> pydict result) \<Rightarrow> string \<Rightarrow> string \<Rightarrow>
   failure + pyval \<Rightarrow> op_status \<times> pydict option \<times> string option" where
  "completion H dto host_dto kind source outcome =
     (let checked = (case outcome of Inl f \<Rightarrow> Inl f
        | Inr result \<Rightarrow> (case check_result H dto kind source result of
              Inl e \<Rightarrow> Inl \<lparr>f_code = exn_code e, f_evidence = PNone\<rparr> | Inr d \<Rightarrow> Inr d)) in
      case checked of
        Inr d \<Rightarrow> (if kind = ''PLAN'' then OP_READY else OP_SUCCEEDED, Some d, None)
      | Inl f \<Rightarrow> let code = failure_code (f_code f) in
          (OP_FAILED,
           (if kind = ''DISCOVERY'' \<and> code = ''NETBOX_PLACEMENT_MISSING''
            then (case provider_evidence host_dto (f_evidence f) source of Inl _ \<Rightarrow> None | Inr d \<Rightarrow> Some d)
            else None), Some code))"

definition execute_finish ::
  "(string \<Rightarrow> string) \<Rightarrow> (string \<Rightarrow> pyval \<Rightarrow> bool) \<Rightarrow> (pyval \<Rightarrow> pydict result) \<Rightarrow> timestamp \<Rightarrow>
   operation_row \<Rightarrow> failure + pyval \<Rightarrow> registry \<Rightarrow> registry" where
  "execute_finish H dto host_dto now operation outcome db =
     (case completion H dto host_dto (o_kind operation) (o_instance operation) outcome of
       (status, result, code) \<Rightarrow>
         db\<lparr>source_operations := update_where (\<lambda>r. o_id r = o_id operation \<and> o_status r = OP_RUNNING)
              (\<lambda>r. r\<lparr>o_status := status, o_result := result, o_code := code, o_updated_at := now,
                     o_finished_at := Some now\<rparr>) (source_operations db),
            held := filter (\<lambda>k. k \<noteq> (o_instance operation, o_kind operation)) (held db)\<rparr>)"

section \<open>The reviewed plan\<close>

definition plan_row :: "registry \<Rightarrow> string \<Rightarrow> operation_row option" where
  "plan_row db source = slot_of db source ''PLAN''"

text \<open>Why a reviewed plan is not current; nothing when it is.\<close>

definition stale_reason ::
  "timestamp \<Rightarrow> string \<Rightarrow> uuid option \<Rightarrow> operation_row option \<Rightarrow> string option result" where
  "stale_reason now digest operation_id row = (case row of
     None \<Rightarrow> Inr (Some ''OPERATION_MISSING'')
   | Some r \<Rightarrow>
       if operation_id \<noteq> None \<and> Some (o_id r) \<noteq> operation_id then Inr (Some ''OPERATION_VERSION'')
       else if (case o_finished_at r of None \<Rightarrow> True | Some t \<Rightarrow> t \<le> now - RESULT_SECONDS)
       then Inr (Some ''OPERATION_EXPIRED'')
       else if o_status r \<noteq> OP_READY then Inr (Some ''OPERATION_STATUS'')
       else (case o_result r of None \<Rightarrow> Inr (Some ''RESULT_MISSING'')
         | Some d \<Rightarrow> if d = [] then Inr (Some ''RESULT_MISSING'')
             else bindr (dindex d ''digest'') (\<lambda>v.
               Inr (if py_eq v (PStr digest) then None else Some ''REVIEW_DIGEST''))))"

definition current_plan :: "timestamp \<Rightarrow> string \<Rightarrow> string \<Rightarrow> uuid option \<Rightarrow> operation_row txn" where
  "current_plan now source digest operation_id db =
     bindr (stale_reason now digest operation_id (plan_row db source)) (\<lambda>reason.
       case (reason, plan_row db source) of
         (None, Some row) \<Rightarrow> Inr (row, db)
       | _ \<Rightarrow> Inl (OperationError ''PLAN_STALE''))"

definition plan_time :: "string \<Rightarrow> uuid \<Rightarrow> timestamp txn" where
  "plan_time source operation_id db =
     (case List.find (\<lambda>r. o_instance r = source \<and> o_id r = operation_id \<and> o_kind r = ''PLAN'')
             (source_operations db) of
        None \<Rightarrow> Inl (OperationError ''PLAN_STALE'')
      | Some row \<Rightarrow> (case o_finished_at row of None \<Rightarrow> Inl (OperationError ''PLAN_STALE'')
          | Some t \<Rightarrow> Inr (t, db)))"

text \<open>\<open>review_guard\<close> yields the reviewed document while its transaction holds the source lock.\<close>

definition review_guard :: "timestamp \<Rightarrow> string \<Rightarrow> string \<Rightarrow> uuid option \<Rightarrow> pydict txn" where
  "review_guard now source digest operation_id db =
     bindr (require (operation_id \<noteq> None) (OperationError ''PLAN_STALE'')) (\<lambda>_.
     bindr (source_gate db source False False) (\<lambda>_.
     bindr (current_plan now source digest operation_id db) (\<lambda>(row, db').
       case o_result row of None \<Rightarrow> Inl (OperationError ''PLAN_STALE'') | Some d \<Rightarrow> Inr (d, db'))))"

definition invalidate_plan :: "timestamp \<Rightarrow> string \<Rightarrow> uuid \<Rightarrow> unit txn" where
  "invalidate_plan now source operation_id db =
     bindr (source_gate db source False False) (\<lambda>_.
       Inr ((), db\<lparr>source_operations := update_where
         (\<lambda>r. o_instance r = source \<and> o_id r = operation_id \<and> o_kind r = ''PLAN'' \<and> o_status r = OP_READY)
         (\<lambda>r. r\<lparr>o_status := OP_STALE, o_result := None, o_code := Some ''PLAN_STALE'', o_updated_at := now\<rparr>)
         (source_operations db)\<rparr>))"

section \<open>Invariant of the operation slots\<close>

text \<open>
  What a row may hold in each status: a running row has no result; a finished PLAN or DISCOVERY
  row has a document of its own source, and a READY plan carries the digest of its own content;
  a failed row has a code and keeps a document only as placement evidence; a stale row is a plan
  without document.
\<close>

definition result_source :: "operation_row \<Rightarrow> pydict \<Rightarrow> bool" where
  "result_source r d = (dget d ''source_instance'' = PStr (o_instance r))"

definition op_row_ok :: "(string \<Rightarrow> string) \<Rightarrow> operation_row \<Rightarrow> bool" where
  "op_row_ok H r = (case o_status r of
     OP_RUNNING \<Rightarrow> o_result r = None \<and> o_finished_at r = None \<and> o_code r = None
   | OP_READY \<Rightarrow> o_kind r = ''PLAN'' \<and> o_finished_at r \<noteq> None \<and> (case o_result r of None \<Rightarrow> False
       | Some d \<Rightarrow> result_source r d \<and> dget d ''digest'' = PStr (plan_digest H d))
   | OP_SUCCEEDED \<Rightarrow> o_kind r \<noteq> ''PLAN'' \<and> o_finished_at r \<noteq> None \<and>
       (case o_result r of None \<Rightarrow> False | Some d \<Rightarrow> result_source r d)
   | OP_FAILED \<Rightarrow> o_finished_at r \<noteq> None \<and> o_code r \<noteq> None \<and> (case o_result r of None \<Rightarrow> True
       | Some d \<Rightarrow> o_kind r = ''DISCOVERY'' \<and> result_source r d)
   | OP_STALE \<Rightarrow> o_kind r = ''PLAN'' \<and> o_result r = None)"

definition op_key :: "operation_row \<Rightarrow> string \<times> string" where
  "op_key r = (o_instance r, o_kind r)"

definition op_inv :: "(string \<Rightarrow> string) \<Rightarrow> registry \<Rightarrow> bool" where
  "op_inv H db = (distinct (map op_key (source_operations db)) \<and> distinct (map o_id (source_operations db)) \<and>
     list_all (op_row_ok H) (source_operations db))"

lemma map_update_where_mem:
  "(\<And>r. r \<in> set rows \<Longrightarrow> p r \<Longrightarrow> g (f r) = g r) \<Longrightarrow> map g (update_where p f rows) = map g rows"
  by (auto simp: update_where_def)

lemma op_inv_update:
  assumes "op_inv H db" "source_operations db' = update_where p f (source_operations db)"
    "\<And>r. r \<in> set (source_operations db) \<Longrightarrow> p r \<Longrightarrow> op_key (f r) = op_key r"
    "\<And>r. r \<in> set (source_operations db) \<Longrightarrow> p r \<Longrightarrow> o_id (f r) = o_id r"
    "\<And>r. r \<in> set (source_operations db) \<Longrightarrow> p r \<Longrightarrow> op_row_ok H r \<Longrightarrow> op_row_ok H (f r)"
  shows "op_inv H db'"
proof -
  have "map op_key (source_operations db') = map op_key (source_operations db)"
    "map o_id (source_operations db') = map o_id (source_operations db)"
    using assms by (auto intro!: map_update_where_mem)
  with assms show ?thesis
    by (auto simp: op_inv_def list_all_iff set_update_where)
qed

lemma op_inv_updateI:
  assumes "op_inv H db"
    "\<And>r. r \<in> set (source_operations db) \<Longrightarrow> p r \<Longrightarrow> op_key (f r) = op_key r"
    "\<And>r. r \<in> set (source_operations db) \<Longrightarrow> p r \<Longrightarrow> o_id (f r) = o_id r"
    "\<And>r. r \<in> set (source_operations db) \<Longrightarrow> p r \<Longrightarrow> op_row_ok H r \<Longrightarrow> op_row_ok H (f r)"
  shows "op_inv H (db\<lparr>source_operations := update_where p f (source_operations db)\<rparr>)"
  by (rule op_inv_update[OF assms(1), where p = p and f = f]) (use assms in auto)

lemma op_inv_held [simp]: "op_inv H (db\<lparr>held := ks\<rparr>) = op_inv H db"
  by (simp add: op_inv_def)

lemma interrupt_ok: "op_row_ok H (interrupt now r)"
  by (simp add: interrupt_def op_row_ok_def)

lemma expire_ok: "lapsed now r \<Longrightarrow> op_row_ok H r \<Longrightarrow> op_row_ok H (expire now r)"
  by (auto simp: op_row_ok_def expire_def lapsed_def split: op_status.splits option.splits)

lemma interrupt_key [simp]: "op_key (interrupt now r) = op_key r" "o_id (interrupt now r) = o_id r"
  by (simp_all add: interrupt_def op_key_def)

lemma expire_key [simp]: "op_key (expire now r) = op_key r" "o_id (expire now r) = o_id r"
  by (simp_all add: expire_def op_key_def)

lemma reconcile_row_op_inv: "op_inv H db \<Longrightarrow> op_inv H (reconcile_row now row db)"
  by (auto simp: reconcile_row_def interrupt_ok expire_ok intro!: op_inv_updateI)

lemma fold_reconcile_op_inv: "op_inv H db \<Longrightarrow> op_inv H (fold (reconcile_row now) rows db)"
  by (induction rows arbitrary: db) (auto simp: reconcile_row_op_inv)

lemma latest_op_inv: "op_inv H db \<Longrightarrow> latest now source db = Inr (rows, db') \<Longrightarrow> op_inv H db'"
  by (auto simp: latest_def Let_def fold_reconcile_op_inv)

lemma slot_of_None_iff: "slot_of db source kind = None \<longleftrightarrow> (source, kind) \<notin> op_key ` set (source_operations db)"
  by (auto simp: slot_of_def find_none op_key_def image_iff)

lemma fresh_row_ok: "op_row_ok H (fresh_row now uuid source kind)"
  by (simp add: fresh_row_def op_row_ok_def)

lemma distinct_map_replace:
  assumes "distinct (map g rows)" "distinct (map k rows)" "g new \<notin> g ` set rows"
  shows "distinct (map g (update_where (\<lambda>r. k r = k new) (\<lambda>_. new) rows))"
  using assms by (induction rows) (auto simp: update_where_def image_iff split: if_splits)

lemma upsert_op_inv:
  assumes "op_inv H db" "op_row_ok H row" "o_id row \<notin> o_id ` set (source_operations db)"
  shows "op_inv H (upsert_operation row db)"
proof -
  have c: "o_instance r = o_instance row \<and> o_kind r = o_kind row \<longleftrightarrow> op_key r = op_key row" for r
    by (auto simp: op_key_def)
  have "distinct (map op_key (update_where (\<lambda>r. op_key r = op_key row) (\<lambda>_. row) (source_operations db)))"
    using assms by (subst map_update_where_mem) (auto simp: op_inv_def)
  moreover have "distinct (map o_id (update_where (\<lambda>r. op_key r = op_key row) (\<lambda>_. row) (source_operations db)))"
    using assms by (intro distinct_map_replace) (auto simp: op_inv_def)
  ultimately show ?thesis
    using assms slot_of_None_iff[of db "o_instance row" "o_kind row"]
    by (auto simp: op_inv_def upsert_operation_def c list_all_iff set_update_where op_key_def[of row])
qed

lemma source_gate_False_iff [simp]:
  "source_gate db source False False = Inr u \<longleftrightarrow> \<not> archived db source \<and>
     \<not> list_ex (\<lambda>r. ret_instance r = source \<and> dispatched r) (source_retirements db) \<and> request_of db source = None"
  by (auto simp: source_gate_def)

lemma admit_Inr:
  assumes "admit now uuid source kind db = Inr ((row, new), db')"
  obtains src where "source_gate db source False False = Inr ()" "source_of db source = Some src" "s_enabled src"
    "new \<and> row = fresh_row now uuid source kind \<and> db' = upsert_operation row db \<and>
       (source, kind) \<notin> set (held db) \<and> uuid \<notin> o_id ` set (source_operations db)
     \<or> \<not> new \<and> db' = db \<and> slot_of db source kind = Some row \<and> o_status row = OP_RUNNING"
  using assms unfolding admit_def bindr_Inr_conv
  by (auto simp: claim_slot_def Let_def split: option.splits if_splits)

lemma admit_op_inv:
  assumes "op_inv H db" "admit now uuid source kind db = Inr ((row, new), db')"
  shows "op_inv H db'"
  using assms(2)
proof (rule admit_Inr)
  assume "new \<and> row = fresh_row now uuid source kind \<and> db' = upsert_operation row db \<and>
       (source, kind) \<notin> set (held db) \<and> uuid \<notin> o_id ` set (source_operations db)
     \<or> \<not> new \<and> db' = db \<and> slot_of db source kind = Some row \<and> o_status row = OP_RUNNING"
  moreover have "o_id (fresh_row now uuid source kind) = uuid" by (simp add: fresh_row_def)
  ultimately show ?thesis
    using assms(1) upsert_op_inv[OF assms(1) fresh_row_ok[of H now uuid source kind]] by auto
qed

lemma start_cases:
  assumes "start now uuid source kind db = (res, db')"
  obtains "res = Inl (OperationError ''OPERATION_INVALID'')" "db' = db"
  | rows db1 where "kind \<in> set KINDS" "source_instance_ok source" "latest now source db = Inr (rows, db1)"
      "commit (admit now uuid source kind) db1 = (res, db')"
proof (cases "kind \<in> set KINDS \<and> source_instance_ok source")
  case False
  then show ?thesis using assms that(1) by (auto simp: start_def bindp_def pure_def require_def)
next
  case True
  obtain rows db1 where l: "latest now source db = Inr (rows, db1)" by (simp add: latest_def Let_def)
  then show ?thesis using True assms that(2)[OF _ _ l]
    by (auto simp: start_def bindp_def pure_def commit_def)
qed

lemma commit_Inr: "commit t db = (Inr a, db') \<longleftrightarrow> t db = Inr (a, db')"
  by (auto simp: commit_def split: sum.splits)

lemma commit_Inl: "commit t db = (Inl e, db') \<longleftrightarrow> t db = Inl e \<and> db' = db"
  by (auto simp: commit_def split: sum.splits)

lemma start_op_inv: "op_inv H db \<Longrightarrow> start now uuid source kind db = (res, db') \<Longrightarrow> op_inv H db'"
proof (erule start_cases)
  fix rows db1
  assume inv: "op_inv H db" and l: "latest now source db = Inr (rows, db1)"
    and c: "commit (admit now uuid source kind) db1 = (res, db')"
  have inv1: "op_inv H db1" using latest_op_inv[OF inv l] .
  show "op_inv H db'"
  proof (cases res)
    case (Inl e)
    then show ?thesis using c inv1 by (simp add: commit_Inl)
  next
    case (Inr a)
    then show ?thesis using c admit_op_inv[OF inv1] by (cases a) (auto simp: commit_Inr)
  qed
qed simp

lemma execute_begin_ops [simp]: "source_operations (snd (execute_begin operation db)) = source_operations db"
  by (auto simp: execute_begin_def Let_def split: option.splits)

lemma py_eq_PStr_right: "py_eq v (PStr s) \<longleftrightarrow> v = PStr s"
  by (cases v) auto

lemma check_result_Inr:
  assumes "check_result H dto kind source result = Inr d"
  shows "result = PDict d \<and> dget d ''source_instance'' = PStr source \<and>
    (kind = ''PLAN'' \<longrightarrow> dget d ''digest'' = PStr (plan_digest H d))"
  using assms
  by (cases result) (auto simp: check_result_def bindr_Inr_conv py_eq_PStr_right dindex_def dget_def
        split: if_splits option.splits)

lemma provider_evidence_source:
  assumes "provider_evidence host_dto v source = Inr d"
  shows "dget d ''source_instance'' = PStr source"
proof -
  have "\<exists>hosts. d = [(''source_instance'', PStr source), (''hosts'', hosts)]"
    using assms unfolding provider_evidence_def
    by (cases v) (simp_all add: bindr_Inr_conv split: pyval.splits, blast)
  then show ?thesis by (auto simp: dget_def)
qed

lemma completion_ok:
  assumes "completion H dto host_dto (o_kind r) (o_instance r) outcome = (status, result, code)" 
  shows "op_row_ok H (r\<lparr>o_status := status, o_result := result, o_code := code, o_updated_at := now,
                     o_finished_at := Some now\<rparr>)"
  using assms
  by (auto simp: completion_def op_row_ok_def Let_def result_source_def
        dest!: check_result_Inr provider_evidence_source split: sum.splits if_splits)

lemma execute_finish_op_inv:
  assumes "op_inv H db"
    and "\<And>r. r \<in> set (source_operations db) \<Longrightarrow> o_id r = o_id operation \<Longrightarrow> op_key r = op_key operation"
  shows "op_inv H (execute_finish H dto host_dto now operation outcome db)"
proof -
  obtain status result code where c:
    "completion H dto host_dto (o_kind operation) (o_instance operation) outcome = (status, result, code)"
    by (cases "completion H dto host_dto (o_kind operation) (o_instance operation) outcome")
  have "completion H dto host_dto (o_kind r) (o_instance r) outcome = (status, result, code)"
    if "r \<in> set (source_operations db)" "o_id r = o_id operation" for r
    using assms(2)[OF that] c by (simp add: op_key_def)
  then show ?thesis
    unfolding execute_finish_def c prod.case op_inv_held
    by (intro op_inv_updateI[OF assms(1)]) (auto simp: op_key_def intro!: completion_ok)
qed

lemma invalidate_plan_op_inv:
  assumes "op_inv H db" "invalidate_plan now source operation_id db = Inr (u, db')"
  shows "op_inv H db'"
proof -
  have "db' = db\<lparr>source_operations := update_where
         (\<lambda>r. o_instance r = source \<and> o_id r = operation_id \<and> o_kind r = ''PLAN'' \<and> o_status r = OP_READY)
         (\<lambda>r. r\<lparr>o_status := OP_STALE, o_result := None, o_code := Some ''PLAN_STALE'', o_updated_at := now\<rparr>)
         (source_operations db)\<rparr>"
    using assms(2) by (auto simp: invalidate_plan_def bindr_Inr_conv)
  also have "op_inv H \<dots>"
    by (intro op_inv_updateI[OF assms(1)]) (auto simp: op_key_def op_row_ok_def)
  finally show ?thesis .
qed

section \<open>Properties of the operation store\<close>

text \<open>What \<open>latest\<close> makes of one row of the source.\<close>

definition refreshed :: "timestamp \<Rightarrow> (string \<times> string) list \<Rightarrow> operation_row \<Rightarrow> operation_row" where
  "refreshed now locks r =
     (if o_status r = OP_RUNNING
      then if o_updated_at r < now - ACTIVE_SECONDS \<and> op_key r \<notin> set locks then interrupt now r else r
      else if o_result r \<noteq> None \<and> lapsed now r then expire now r else r)"

lemma refreshed_key [simp]: "op_key (refreshed now ks r) = op_key r" "o_id (refreshed now ks r) = o_id r"
  by (simp_all add: refreshed_def)

lemma reconcile_row_exact:
  assumes "distinct (map o_id (source_operations db))" "row \<in> set (source_operations db)"
  shows "reconcile_row now row db = db\<lparr>source_operations :=
    map (\<lambda>r. if o_id r = o_id row then refreshed now (held db) r else r) (source_operations db)\<rparr>"
proof -
  have eq: "r = row" if "r \<in> set (source_operations db)" "o_id r = o_id row" for r
    using assms that by (auto simp: distinct_map dest: inj_onD)
  let ?g = "\<lambda>r. if o_id r = o_id row then refreshed now (held db) r else r"
  have c: "map h (source_operations db) = map ?g (source_operations db)"
    if "h row = refreshed now (held db) row" "\<And>r. o_id r \<noteq> o_id row \<Longrightarrow> h r = r" for h
  proof (rule map_cong[OF refl])
    fix r assume r: "r \<in> set (source_operations db)"
    show "h r = ?g r"
    proof (cases "o_id r = o_id row")
      case True
      then show ?thesis using eq[OF r True] that(1) by simp
    next
      case False
      then show ?thesis using that(2) by simp
    qed
  qed
  have id: "db = db\<lparr>source_operations := map ?g (source_operations db)\<rparr>" if "refreshed now (held db) row = row"
    using c[of "\<lambda>r. r"] that by simp
  show ?thesis
  proof (cases "o_status row = OP_RUNNING")
    case True
    then show ?thesis
      using c[of "\<lambda>r. if o_id r = o_id row \<and> o_status r = OP_RUNNING then interrupt now r else r"] id
      by (cases "o_updated_at row < now - ACTIVE_SECONDS \<and> op_key row \<notin> set (held db)")
        (auto simp: reconcile_row_def update_where_def refreshed_def op_key_def)
  next
    case False
    then show ?thesis
      using c[of "\<lambda>r. if o_id r = o_id row \<and> lapsed now r then expire now r else r"] id
      by (cases "o_result row") (simp_all add: reconcile_row_def update_where_def refreshed_def)
  qed
qed

lemma fold_reconcile_exact:
  assumes "distinct (map o_id (source_operations db))" "set rows \<subseteq> set (source_operations db)" "distinct (map o_id rows)"
  shows "fold (reconcile_row now) rows db = db\<lparr>source_operations :=
    map (\<lambda>r. if o_id r \<in> o_id ` set rows then refreshed now (held db) r else r) (source_operations db)\<rparr>"
  using assms
proof (induction rows arbitrary: db)
  case Nil
  then show ?case by simp
next
  case (Cons row rows)
  let ?g = "\<lambda>r. if o_id r = o_id row then refreshed now (held db) r else r"
  let ?db = "db\<lparr>source_operations := map ?g (source_operations db)\<rparr>"
  have 1: "reconcile_row now row db = ?db"
    using Cons.prems by (intro reconcile_row_exact) auto
  have "map o_id (map ?g (source_operations db)) = map o_id (source_operations db)" by auto
  then have d1: "distinct (map o_id (source_operations ?db))"
    using Cons.prems(1) by (simp del: map_map)
  have "r \<in> set (source_operations ?db)" if "r \<in> set rows" for r
  proof -
    have "o_id row \<notin> o_id ` set rows" using Cons.prems(3) by simp
    then have "o_id r \<noteq> o_id row" using that by (metis image_eqI)
    then have "?g r = r" by simp
    then show ?thesis using that Cons.prems(2) by (force simp: image_iff)
  qed
  then have ih: "fold (reconcile_row now) rows ?db = ?db\<lparr>source_operations :=
    map (\<lambda>r. if o_id r \<in> o_id ` set rows then refreshed now (held db) r else r) (map ?g (source_operations db))\<rparr>"
    using Cons.prems(3) Cons.IH[OF d1] by (simp del: map_map add: subset_iff)
  have eq: "map (\<lambda>r. if o_id r \<in> o_id ` set rows then refreshed now (held db) r else r) (map ?g (source_operations db))
     = map (\<lambda>r. if o_id r \<in> o_id ` set (row # rows) then refreshed now (held db) r else r) (source_operations db)"
    using Cons.prems(3) by auto
  show ?case unfolding fold_simps 1 ih eq by simp
qed

lemma latest_db:
  assumes "op_inv H db"
  shows "latest now source db = Inr (operations_of db' source, db') \<longleftrightarrow> db' = db\<lparr>source_operations :=
    map (\<lambda>r. if o_instance r = source then refreshed now (held db) r else r) (source_operations db)\<rparr>"
proof -
  let ?rows = "operations_of db source"
  have d: "distinct (map o_id (source_operations db))" using assms by (simp add: op_inv_def)
  have s: "set ?rows = {r \<in> set (source_operations db). o_instance r = source}" by (simp add: operations_of_def)
  have "mset (map o_id ?rows) = mset (map o_id (filter (\<lambda>r. o_instance r = source) (source_operations db)))"
    unfolding operations_of_def mset_map by simp
  then have dr: "distinct (map o_id ?rows)"
    using d by (metis distinct_map_filter mset_eq_imp_distinct_iff)
  have "o_id r \<in> o_id ` set ?rows \<longleftrightarrow> o_instance r = source" if "r \<in> set (source_operations db)" for r
    using d that by (auto simp: s distinct_map dest: inj_onD)
  then show ?thesis
    using s by (auto simp: latest_def Let_def fold_reconcile_exact[OF d _ dr] cong: map_cong)
qed

text \<open>
  C27: Reading the latest operations of a source does exactly this and nothing else: a running row
  whose lease of 180 seconds is over is failed as interrupted, unless an executing supervisor
  still holds its lock; a finished row whose document is older than a day loses the document;
  every other row of the source, every row of another source and every other table is unchanged.
\<close>
theorem latest_exact:
  assumes "op_inv H db"
  shows "\<exists>db'. latest now source db = Inr (operations_of db' source, db') \<and>
    db' = db\<lparr>source_operations :=
      map (\<lambda>r. if o_instance r = source then refreshed now (held db) r else r) (source_operations db)\<rparr>"
  using latest_db[OF assms] by blast

definition example_source :: source_row where
  "example_source = \<lparr>s_instance = ''pve-a'', s_name = ''PVE A'', s_type = ''proxmox'', s_enabled = True,
     s_sync_enabled = True, s_interval = 3600, s_calendar = None, s_schedule_changed_at = 0,
     s_token_id = (''file'', ''pve-a-token-identifier''), s_token_secret = (''file'', ''pve-a-token-secret-01''),
     s_settings = [(''provider_identity'', PDict [(''site_id'', PInt 3), (''cluster_id'', PInt 7)])],
     s_columns = [(''id'', PStr ''1'')]\<rparr>"

definition example_operation :: operation_row where
  "example_operation = \<lparr>o_instance = ''pve-a'', o_kind = ''DISCOVERY'', o_id = ''u1'', o_status = OP_RUNNING,
     o_started_at = 0, o_updated_at = 0, o_finished_at = None, o_code = None, o_result = None\<rparr>"

definition example_plan_content :: pydict where
  "example_plan_content = [(''source_instance'', PStr ''pve-a''), (''items'', PList [])]"

definition example_plan :: operation_row where
  "example_plan = \<lparr>o_instance = ''pve-a'', o_kind = ''PLAN'', o_id = ''u2'', o_status = OP_READY,
     o_started_at = 0, o_updated_at = seconds 9, o_finished_at = Some (seconds 9), o_code = None,
     o_result = Some (example_plan_content @
       [(''digest'', PStr (rev (dumps_compact (PDict example_plan_content))))])\<rparr>"

definition example_registry :: registry where
  "example_registry = \<lparr>sources = [example_source], source_tombstones = [],
     source_operations = [example_operation, example_plan], sync_runs = [], run_reconciliations = [],
     source_recoveries = [], source_retirements = [], source_removal_requests = [], source_archives = [],
     host_reservations = [], source_identity_verifications = [], registration_intents = [],
     auth_state = [], auth_audit = [], held = []\<rparr>"

lemma example_op_inv: "op_inv rev example_registry"
  by code_simp

theorem latest_exact_witness:
  "\<exists>db'. latest (seconds 600) ''pve-a'' example_registry = Inr (operations_of db' ''pve-a'', db') \<and>
     map o_status (source_operations db') = [OP_FAILED, OP_READY]"
proof -
  have "map o_status (map (\<lambda>r. if o_instance r = ''pve-a'' then refreshed (seconds 600) (held example_registry) r
      else r) (source_operations example_registry)) = [OP_FAILED, OP_READY]"
    by code_simp
  with latest_exact[OF example_op_inv, of "seconds 600" "''pve-a''"] show ?thesis
    by (auto simp del: map_map)
qed

lemma source_of_ops [simp]: "source_of (db\<lparr>source_operations := x\<rparr>) source = source_of db source"
  by (simp add: source_of_def)

lemma gate_ops [simp]: "source_gate (db\<lparr>source_operations := x\<rparr>) source a b = source_gate db source a b"
  by (simp add: source_gate_def archived_def request_of_def)

lemma latest_Inr:
  assumes "op_inv H db" "latest now source db = Inr (rows, db')"
  shows "db' = db\<lparr>source_operations :=
    map (\<lambda>r. if o_instance r = source then refreshed now (held db) r else r) (source_operations db)\<rparr>"
  using latest_db[OF assms(1), of now source db'] assms(2) by (auto simp: latest_def Let_def)

lemma find_distinct:
  assumes "distinct (map k rows)" "x \<in> set rows"
  shows "List.find (\<lambda>r. k r = k x) rows = Some x"
  using assms by (induction rows) (auto simp: image_iff)

lemma slot_of_eq: "slot_of db source kind = List.find (\<lambda>r. op_key r = (source, kind)) (source_operations db)"
  by (simp add: slot_of_def op_key_def)

lemma slot_of_member:
  "op_inv H db \<Longrightarrow> r \<in> set (source_operations db) \<Longrightarrow> op_key r = (source, kind) \<Longrightarrow> slot_of db source kind = Some r"
  using find_distinct[of op_key "source_operations db" r] by (simp add: slot_of_eq op_inv_def)

lemma upsert_member: "row \<in> set (source_operations (upsert_operation row db))"
proof (cases "slot_of db (o_instance row) (o_kind row) = None")
  case True
  then show ?thesis by (simp add: upsert_operation_def)
next
  case False
  then obtain r where "r \<in> set (source_operations db)" "op_key r = op_key row"
    by (auto simp: slot_of_None_iff op_key_def)
  with False show ?thesis
    by (auto simp: upsert_operation_def set_update_where op_key_def image_iff)
qed

lemma refreshed_running: "o_status (refreshed now ks r) = OP_RUNNING \<Longrightarrow> refreshed now ks r = r"
  by (auto simp: refreshed_def interrupt_def expire_def split: if_splits)

text \<open>
  C26: An operation is admitted only for an enabled source that is neither archived nor in
  retirement nor waiting for removal, and afterwards its slot holds the returned running row.
  If the row is new it has the fresh identifier and nobody was executing in that slot;
  otherwise it is the operation that was already running, so callers share one identifier.
\<close>
theorem start_admission:
  assumes inv: "op_inv H db" and start: "start now uuid source kind db = (Inr (row, new), db')"
  shows "(\<exists>src. source_of db source = Some src \<and> s_enabled src) \<and> \<not> archived db source \<and>
    (\<forall>r \<in> set (source_retirements db). ret_instance r = source \<longrightarrow> \<not> dispatched r) \<and> request_of db source = None \<and>
    slot_of db' source kind = Some row \<and> o_status row = OP_RUNNING \<and>
    (if new then o_id row = uuid \<and> (source, kind) \<notin> set (held db) else row \<in> set (source_operations db))"
  using start
proof (rule start_cases)
  fix rows db1
  assume l: "latest now source db = Inr (rows, db1)"
    and c: "commit (admit now uuid source kind) db1 = (Inr (row, new), db')"
  let ?f = "\<lambda>r. if o_instance r = source then refreshed now (held db) r else r"
  have db1: "db1 = db\<lparr>source_operations := map ?f (source_operations db)\<rparr>" by (rule latest_Inr[OF inv l])
  have a: "admit now uuid source kind db1 = Inr ((row, new), db')" using c by (simp add: commit_Inr)
  have inv': "op_inv H db'" using admit_op_inv[OF latest_op_inv[OF inv l] a] .
  show ?thesis using a
  proof (rule admit_Inr)
    fix src
    assume g: "source_gate db1 source False False = Inr ()" and s: "source_of db1 source = Some src" "s_enabled src"
      and d: "new \<and> row = fresh_row now uuid source kind \<and> db' = upsert_operation row db1 \<and>
        (source, kind) \<notin> set (held db1) \<and> uuid \<notin> o_id ` set (source_operations db1)
        \<or> \<not> new \<and> db' = db1 \<and> slot_of db1 source kind = Some row \<and> o_status row = OP_RUNNING"
    have gate: "\<not> archived db source" "request_of db source = None"
      "\<forall>r \<in> set (source_retirements db). ret_instance r = source \<longrightarrow> \<not> dispatched r"
      using g by (auto simp: db1 list_ex_iff)
    from d show ?thesis
    proof (elim disjE conjE)
      assume n: new "row = fresh_row now uuid source kind" "db' = upsert_operation row db1" "(source, kind) \<notin> set (held db1)"
      have "slot_of db' source kind = Some row"
        using slot_of_member[OF inv', of row source kind] upsert_member[of row db1] n
        by (simp add: fresh_row_def op_key_def)
      then show ?thesis using n gate s by (simp add: db1 fresh_row_def)
    next
      assume n: "\<not> new" "db' = db1" "slot_of db1 source kind = Some row" "o_status row = OP_RUNNING"
      have "row \<in> set (map ?f (source_operations db))"
        using find_SomeD[OF n(3)[unfolded slot_of_def]] by (auto simp: db1)
      then have "row \<in> set (source_operations db)"
        using n(4) refreshed_running by (fastforce split: if_splits)
      then show ?thesis using n gate s by (simp add: db1)
    qed
  qed
qed simp

theorem start_admission_witness:
  "\<exists>row db'. start (seconds 600) ''u3'' ''pve-a'' ''DISCOVERY'' example_registry = (Inr (row, True), db') \<and>
     slot_of db' ''pve-a'' ''DISCOVERY'' = Some row \<and> o_id row = ''u3''"
proof -
  define res where "res = start (seconds 600) ''u3'' ''pve-a'' ''DISCOVERY'' example_registry"
  have "case res of (Inr (row, new), db') \<Rightarrow> new | _ \<Rightarrow> False"
    unfolding res_def by code_simp
  then obtain row db' where r: "res = (Inr (row, True), db')"
    by (auto split: prod.splits sum.splits)
  then show ?thesis
    using start_admission[OF example_op_inv, of "seconds 600" "''u3''" "''pve-a''" "''DISCOVERY''" row True db']
    unfolding res_def by simp
qed

text \<open>
  C25: A reviewed plan is handed out only while its source may change, only from the current
  READY operation that was reviewed, not older than a day, and its digest is the digest of its
  own content; the database is not changed. Two plans handed out under one digest, even from
  different databases at different times, have the same content up to the order of dictionary
  keys, unless the digest function collides on their two texts.
\<close>
theorem reviewed_plan_bound:
  assumes "op_inv H db" "review_guard now source digest (Some op) db = Inr (d, db1)"
    and "op_inv H db2" "review_guard now2 source2 digest (Some op2) db2 = Inr (d2, db3)"
    and no_collision: "H (dumps_compact (PDict (AList.delete ''digest'' d))) = H (dumps_compact (PDict (AList.delete ''digest'' d2)))
      \<Longrightarrow> dumps_compact (PDict (AList.delete ''digest'' d)) = dumps_compact (PDict (AList.delete ''digest'' d2))"
  shows "db1 = db \<and> dget d ''source_instance'' = PStr source \<and> plan_digest H d = digest \<and>
    (\<exists>row. plan_row db source = Some row \<and> o_id row = op \<and> o_status row = OP_READY \<and> o_result row = Some d \<and>
      (\<exists>t. o_finished_at row = Some t \<and> now - RESULT_SECONDS < t)) \<and>
    canon (PDict (AList.delete ''digest'' d)) = canon (PDict (AList.delete ''digest'' d2))"
proof -
  have *: "db1 = db \<and> dget d ''source_instance'' = PStr source \<and> plan_digest H d = digest \<and>
    (\<exists>row. plan_row db source = Some row \<and> o_id row = op \<and> o_status row = OP_READY \<and> o_result row = Some d \<and>
      (\<exists>t. o_finished_at row = Some t \<and> now - RESULT_SECONDS < t))"
    if inv: "op_inv H db" and g: "review_guard now source digest (Some op) db = Inr (d, db1)"
    for db now source op d db1
  proof -
    from g obtain row where row: "plan_row db source = Some row" "stale_reason now digest (Some op) (Some row) = Inr None"
      "o_result row = Some d" "db1 = db"
      unfolding review_guard_def current_plan_def bindr_Inr_conv
      by (auto split: option.splits)
    have mem: "row \<in> set (source_operations db)" "o_instance row = source"
      using find_SomeD[OF row(1)[unfolded plan_row_def slot_of_def]] by auto
    then have ok: "op_row_ok H row" using inv by (auto simp: op_inv_def list_all_iff)
    have st: "o_id row = op" "o_status row = OP_READY" "dget d ''digest'' = PStr digest"
      "\<exists>t. o_finished_at row = Some t \<and> now - RESULT_SECONDS < t"
      using row(2,3) by (auto simp: stale_reason_def bindr_Inr_conv py_eq_PStr_right dindex_def dget_def
          split: if_splits option.splits)
    then show ?thesis using ok row mem by (auto simp: op_row_ok_def result_source_def)
  qed
  have 1: "plan_digest H d = digest" and 2: "plan_digest H d2 = digest"
    using *[OF assms(1,2)] *[OF assms(3,4)] by auto
  then show ?thesis
    using *[OF assms(1,2)] no_collision by (auto simp: plan_digest_def dumps_compact_inject)
qed

definition example_digest :: string where
  "example_digest = rev (dumps_compact (PDict example_plan_content))"

theorem reviewed_plan_bound_witness:
  "\<exists>d. review_guard (seconds 600) ''pve-a'' example_digest (Some ''u2'') example_registry = Inr (d, example_registry) \<and>
     plan_digest rev d = example_digest"
proof -
  define res where "res = review_guard (seconds 600) ''pve-a'' example_digest (Some ''u2'') example_registry"
  have "case res of Inr _ \<Rightarrow> True | _ \<Rightarrow> False" unfolding res_def by code_simp
  then obtain d db1 where r: "res = Inr (d, db1)" by (auto split: sum.splits)
  show ?thesis
    using reviewed_plan_bound[OF example_op_inv r[unfolded res_def] example_op_inv r[unfolded res_def]] r
    unfolding res_def by simp
qed

end
