(* ===== verification/Source_Lifecycle.thy ===== *)
theory Source_Lifecycle
  imports Source_Operations
begin

text \<open>
  \<open>source_lifecycle.py\<close>: tombstones, the lifecycle projection of a source, renaming, removal and
  the cleanup of its credential files, and the schedule update of \<open>api/lifecycle_adapters.py\<close> over
  \<open>schedule_worker.py\<close>. The digest of a revision, the clock, the shared apply lock and the
  filesystem cleanup are arguments. The lemmas show which rows each operation can change, that
  nothing is removed while work on the source is active or unconfirmed, and that a credential
  another source still refers to is never handed to the cleanup.
\<close>

section \<open>Projection\<close>

text \<open>
  \<open>_retirement_hint\<close>: the operation an administrator should continue, the oldest dispatched one
  first, else the newest other candidate, else a queued removal request.
\<close>

datatype hint =
    RetirementHint uuid ret_state bool
  | QueuedHint uuid queue_state

definition hint_candidate :: "tombstone_row option \<Rightarrow> retirement_row \<Rightarrow> bool" where
  "hint_candidate removed r = (case removed of
     Some t \<Rightarrow> dispatched r \<or> ret_state r = RET_BLOCKED \<or>
       ret_state r = RET_FINALIZED \<and> (case ret_finished_at r of None \<Rightarrow> False | Some f \<Rightarrow> t_removed_at t \<le> f)
   | None \<Rightarrow> dispatched r \<or> ret_state r = RET_BLOCKED \<and> ret_code r = Some ''SOURCE_OPERATION_ACTIVE'')"

definition hint_order :: "retirement_row \<Rightarrow> (int \<times> timestamp) \<times> timestamp" where
  "hint_order r = (if dispatched r then (0, ret_created_at r) else (1, 0), - ret_created_at r)"

text \<open>\<open>bool(receipt) and receipt.get("generation_closed") is not True\<close>.\<close>

definition receipt_open :: "pydict option \<Rightarrow> bool" where
  "receipt_open receipt = (case receipt of None \<Rightarrow> False
     | Some d \<Rightarrow> d \<noteq> [] \<and> dget d ''generation_closed'' \<noteq> PBool True)"

definition retirement_hint :: "registry \<Rightarrow> string \<Rightarrow> tombstone_row option \<Rightarrow> hint option" where
  "retirement_hint db source removed =
     (case sort_key hint_order (filter (\<lambda>r. ret_instance r = source \<and> hint_candidate removed r) (source_retirements db)) of
        r # _ \<Rightarrow> Some (RetirementHint (ret_id r) (ret_state r) (ret_state r = RET_SUCCEEDED \<and> receipt_open (ret_receipt r)))
      | [] \<Rightarrow> map_option (\<lambda>q. QueuedHint (q_id q) (q_state q)) (request_of db source))"

datatype lifecycle_view =
    RemovedView tombstone_row "string option" "hint option"
  | ActiveView string string "hint option" "string option" string

definition removal_blocker :: "registry \<Rightarrow> string \<Rightarrow> string option" where
  "removal_blocker db source =
     (if retirement_hint db source None \<noteq> None then Some ''SOURCE_RETIREMENT_PENDING''
      else if run_unconfirmed db source then Some ''SOURCE_APPLY_UNCONFIRMED''
      else if operation_running db source \<or> run_blocks db source then Some ''SOURCE_OPERATION_ACTIVE''
      else None)"

definition read_source :: "(string \<Rightarrow> string) \<Rightarrow> string \<Rightarrow> lifecycle_view txn" where
  "read_source H source db = (case removed_row db source of
     Some t \<Rightarrow> Inr (RemovedView t
         (map_option a_mode (List.find (\<lambda>a. a_instance a = source) (source_archives db)))
         (retirement_hint db source (Some t)), db)
   | None \<Rightarrow> (case source_of db source of
       None \<Rightarrow> Inl (LifecycleError ''SOURCE_NOT_FOUND'')
     | Some row \<Rightarrow> Inr (ActiveView source (s_name row) (retirement_hint db source None)
         (removal_blocker db source) (revision H (source_dict row)), db)))"

text \<open>\<open>evidence\<close>: one page of at most fifty sources after a cursor.\<close>

record evidence_row =
  e_instance :: string
  e_plan_status :: "op_status option"
  e_plan_checked_at :: "string option"
  e_plan_blocked :: bool
  e_outcome_unconfirmed :: bool

definition evidence_of :: "registry \<Rightarrow> source_row \<Rightarrow> evidence_row" where
  "evidence_of db s = (let p = slot_of db (s_instance s) ''PLAN'' in
     \<lparr>e_instance = s_instance s, e_plan_status = map_option o_status p,
      e_plan_checked_at = (case p of None \<Rightarrow> None | Some r \<Rightarrow> map_option isoformat (o_finished_at r)),
      e_plan_blocked = (case p of None \<Rightarrow> False | Some r \<Rightarrow> o_status r = OP_READY \<and>
        (case o_result r of None \<Rightarrow> False | Some d \<Rightarrow> json_text (dget d ''apply_allowed'') = Some ''false'')),
      e_outcome_unconfirmed = run_unconfirmed db (s_instance s)\<rparr>)"

definition evidence :: "string \<Rightarrow> registry \<Rightarrow> evidence_row list \<times> string option" where
  "evidence after db =
     (let rows = take 50 (sort_key s_instance (filter (\<lambda>s. after < s_instance s) (sources db)))
      in (map (evidence_of db) rows, if length rows = 50 then Some (s_instance (last rows)) else None))"

section \<open>Rename\<close>

definition update_source :: "string \<Rightarrow> (source_row \<Rightarrow> source_row) \<Rightarrow> registry \<Rightarrow> registry" where
  "update_source source f db = db\<lparr>sources := update_where (\<lambda>r. s_instance r = source) f (sources db)\<rparr>"

definition label_ok :: "string \<Rightarrow> bool" where
  "label_ok name = (py_strip name \<noteq> [] \<and> length name \<le> 200 \<and>
     list_all (\<lambda>c. (of_char c :: int) \<ge> 32 \<and> (of_char c :: int) \<noteq> 127) name)"

definition rename_txn :: "(string \<Rightarrow> string) \<Rightarrow> string \<Rightarrow> string \<Rightarrow> string \<Rightarrow> unit txn" where
  "rename_txn H source expected_revision name db =
     bindr (source_gate db source False False) (\<lambda>_.
     case (source_of db source, removed_row db source) of
       (Some row, None) \<Rightarrow>
         bindr (require (revision H (source_dict row) = expected_revision) (LifecycleError ''SOURCE_LIFECYCLE_CONFLICT'')) (\<lambda>_.
         bindr (require (\<not> operation_running db source) (LifecycleError ''SOURCE_OPERATION_ACTIVE'')) (\<lambda>_.
           Inr ((), update_source source (\<lambda>r. r\<lparr>s_name := name\<rparr>) db)))
     | _ \<Rightarrow> Inl (LifecycleError ''SOURCE_NOT_FOUND''))"

text \<open>\<open>with self.lock(...)\<close>: the shared apply lock is not waited for.\<close>

definition with_apply_lock :: "bool \<Rightarrow> 'a proc \<Rightarrow> 'a proc" where
  "with_apply_lock lock_free p = (if lock_free then p else pure (Inl (LifecycleError ''SOURCE_APPLY_ACTIVE'')))"

definition rename :: "(string \<Rightarrow> string) \<Rightarrow> bool \<Rightarrow> string \<Rightarrow> string \<Rightarrow> string \<Rightarrow> lifecycle_view proc" where
  "rename H lock_free source expected_revision name =
     bindp (pure (require (label_ok name) (LifecycleError ''REQUEST_INVALID''))) (\<lambda>_.
     bindp (with_apply_lock lock_free (commit (rename_txn H source expected_revision name))) (\<lambda>_.
       commit (read_source H source)))"

section \<open>Credential cleanup\<close>

text \<open>\<open>re.fullmatch(r"[A-Za-z0-9][A-Za-z0-9_-]{15,127}", key)\<close>.\<close>

definition alnum_char :: "char \<Rightarrow> bool" where
  "alnum_char c = (is_lower_char c \<or> is_lower_char (char_lower c) \<or> is_digit_char c)"

definition credential_key_ok :: "string \<Rightarrow> bool" where
  "credential_key_ok key = (case key of [] \<Rightarrow> False | c # cs \<Rightarrow>
     alnum_char c \<and> 15 \<le> length cs \<and> length cs \<le> 127 \<and> list_all (\<lambda>d. alnum_char d \<or> d \<in> set ''_-'') cs)"

definition refs_of :: "source_row \<Rightarrow> (string \<times> string) list" where
  "refs_of row = remdups [s_token_id row, s_token_secret row]"

definition shared_refs :: "registry \<Rightarrow> string \<Rightarrow> (string \<times> string) list" where
  "shared_refs db source = concat (map refs_of (filter (\<lambda>r. s_instance r \<noteq> source) (sources db)))"

definition set_credential_state :: "string \<Rightarrow> string \<Rightarrow> registry \<Rightarrow> registry" where
  "set_credential_state source state db = db\<lparr>source_tombstones :=
     update_where (\<lambda>t. t_instance t = source) (\<lambda>t. t\<lparr>t_credential_state := state\<rparr>) (source_tombstones db)\<rparr>"

definition exclusive_refs :: "registry \<Rightarrow> source_row \<Rightarrow> bool" where
  "exclusive_refs db row = list_all (\<lambda>ref. fst ref = ''file'' \<and> credential_key_ok (snd ref) \<and>
     ref \<notin> set (shared_refs db (s_instance row))) (refs_of row)"

text \<open>
  The cleanup receives the keys to delete and returns whether it deleted them, or raises. The
  first transaction records the attempt as failed before anything is deleted; \<open>Inr (Inl s)\<close> is
  the early return of a state that needs no cleanup.
\<close>

definition cleanup_open :: "string \<Rightarrow> (string + source_row) txn" where
  "cleanup_open source db = (case (source_of db source, removed_row db source) of
     (Some row, Some t) \<Rightarrow>
       if t_credential_state t \<in> {''REMOVED'', ''RETAINED_SHARED_OR_LEGACY''} then Inr (Inl (t_credential_state t), db)
       else Inr (Inr row, set_credential_state source ''CLEANUP_FAILED'' db)
   | _ \<Rightarrow> Inl (LifecycleError ''SOURCE_NOT_FOUND''))"

definition cleanup_files :: "(string list \<Rightarrow> bool result) \<Rightarrow> string \<Rightarrow> source_row \<Rightarrow> unit txn" where
  "cleanup_files cleanup source row db =
     bindr (if exclusive_refs db row
            then bindr (cleanup (map snd (sort (refs_of row)))) (\<lambda>cleaned.
                 Inr (if cleaned then ''REMOVED'' else ''RETAINED_SHARED_OR_LEGACY''))
            else Inr ''RETAINED_SHARED_OR_LEGACY'') (\<lambda>state.
     Inr ((), set_credential_state source state db))"

definition credential_state :: "string \<Rightarrow> string txn" where
  "credential_state source db = (case List.find (\<lambda>t. t_instance t = source) (source_tombstones db) of
     None \<Rightarrow> Inl (TypeError ''NoneType is not subscriptable'') | Some t \<Rightarrow> Inr (t_credential_state t, db))"

definition cleanup_credentials :: "(string list \<Rightarrow> bool result) \<Rightarrow> string \<Rightarrow> string proc" where
  "cleanup_credentials cleanup source =
     bindp (commit (cleanup_open source)) (\<lambda>opened. case opened of
       Inl state \<Rightarrow> pure (Inr state)
     | Inr row \<Rightarrow> (\<lambda>db. let db' = snd (commit (cleanup_files cleanup source row) db)
         in commit (credential_state source) db'))"

section \<open>Removal\<close>

definition removal_guard ::
  "(string \<Rightarrow> string) \<Rightarrow> string \<Rightarrow> string \<Rightarrow> string \<Rightarrow> uuid option \<Rightarrow> registry \<Rightarrow> source_row result" where
  "removal_guard H source expected_revision confirmed_source retirement_operation db =
     bindr (source_gate db source (retirement_operation \<noteq> None) False) (\<lambda>_.
     bindr (require (case retirement_operation of None \<Rightarrow> True
         | Some operation \<Rightarrow> list_ex (\<lambda>r. ret_id r = operation \<and> ret_instance r = source \<and>
             ret_state r = RET_SUCCEEDED \<and> ret_receipt r \<noteq> None) (source_retirements db))
       (LifecycleError ''RETIREMENT_CONFLICT'')) (\<lambda>_.
     case source_of db source of None \<Rightarrow> Inl (LifecycleError ''SOURCE_NOT_FOUND'')
     | Some row \<Rightarrow>
       bindr (require (removed_row db source = None) (LifecycleError ''SOURCE_ALREADY_REMOVED'')) (\<lambda>_.
       bindr (require (revision H (source_dict row) = expected_revision) (LifecycleError ''SOURCE_LIFECYCLE_CONFLICT'')) (\<lambda>_.
       bindr (require (confirmed_source = s_name row) (LifecycleError ''SOURCE_CONFIRMATION_INVALID'')) (\<lambda>_.
       bindr (require (\<not> operation_running db source) (LifecycleError ''SOURCE_OPERATION_ACTIVE'')) (\<lambda>_.
       bindr (require (\<not> run_blocks db source) (LifecycleError ''SOURCE_APPLY_UNCONFIRMED'')) (\<lambda>_.
         Inr row)))))))"

definition disable_source :: "string \<Rightarrow> registry \<Rightarrow> registry" where
  "disable_source source = update_source source (\<lambda>r. r\<lparr>s_enabled := False, s_sync_enabled := False\<rparr>)"

definition upsert_tombstone :: "timestamp \<Rightarrow> string \<Rightarrow> string \<Rightarrow> string \<Rightarrow> registry \<Rightarrow> registry" where
  "upsert_tombstone now source name state db =
     (let new = \<lparr>t_instance = source, t_display_name = name, t_removed_at = now, t_restored_at = None,
                 t_credential_state = state\<rparr> in
      db\<lparr>source_tombstones := (if list_ex (\<lambda>t. t_instance t = source) (source_tombstones db)
        then update_where (\<lambda>t. t_instance t = source) (\<lambda>_. new) (source_tombstones db)
        else source_tombstones db @ [new])\<rparr>)"

definition remove_txn ::
  "(string \<Rightarrow> string) \<Rightarrow> timestamp \<Rightarrow> string \<Rightarrow> string \<Rightarrow> string \<Rightarrow> bool \<Rightarrow> uuid option \<Rightarrow> unit txn" where
  "remove_txn H now source expected_revision confirmed_source remove_credentials retirement_operation db =
     bindr (removal_guard H source expected_revision confirmed_source retirement_operation db) (\<lambda>row.
       Inr ((), upsert_tombstone now source (s_name row)
         (if remove_credentials then ''CLEANUP_FAILED'' else ''RETAINED_BY_REQUEST'') (disable_source source db)))"

definition remove_locked ::
  "(string \<Rightarrow> string) \<Rightarrow> timestamp \<Rightarrow> (string list \<Rightarrow> bool result) \<Rightarrow> string \<Rightarrow> string \<Rightarrow> string \<Rightarrow> bool \<Rightarrow>
   uuid option \<Rightarrow> lifecycle_view proc" where
  "remove_locked H now cleanup source expected_revision confirmed_source remove_credentials retirement_operation =
     bindp (commit (remove_txn H now source expected_revision confirmed_source remove_credentials retirement_operation)) (\<lambda>_.
     bindp (if remove_credentials then bindp (cleanup_credentials cleanup source) (\<lambda>_. pure (Inr ())) else pure (Inr ())) (\<lambda>_.
       commit (read_source H source)))"

definition remove ::
  "(string \<Rightarrow> string) \<Rightarrow> bool \<Rightarrow> timestamp \<Rightarrow> (string list \<Rightarrow> bool result) \<Rightarrow> string \<Rightarrow> string \<Rightarrow> string \<Rightarrow> bool \<Rightarrow>
   lifecycle_view proc" where
  "remove H lock_free now cleanup source expected_revision confirmed_source remove_credentials =
     with_apply_lock lock_free
       (remove_locked H now cleanup source expected_revision confirmed_source remove_credentials None)"

section \<open>Schedule updates\<close>

record schedule_request =
  sq_instance :: string
  sq_sync_enabled :: bool
  sq_interval :: int
  sq_calendar :: "pydict option"
  sq_expected_sync_enabled :: bool
  sq_expected_interval :: int
  sq_expected_calendar :: "pydict option"

definition same_calendar :: "pydict option \<Rightarrow> pydict option \<Rightarrow> bool" where
  "same_calendar a b = (case (a, b) of (None, None) \<Rightarrow> True | (Some c, Some d) \<Rightarrow> py_eq (PDict c) (PDict d) | _ \<Rightarrow> False)"

definition schedule_matches :: "schedule_request \<Rightarrow> source_row \<Rightarrow> bool" where
  "schedule_matches q r = (s_instance r = sq_instance q \<and> s_sync_enabled r = sq_expected_sync_enabled q \<and>
     s_interval r = sq_expected_interval q \<and> same_calendar (s_calendar r) (sq_expected_calendar q))"

definition apply_schedule :: "timestamp \<Rightarrow> schedule_request \<Rightarrow> source_row \<Rightarrow> source_row" where
  "apply_schedule now q r = r\<lparr>s_sync_enabled := sq_sync_enabled q, s_interval := sq_interval q,
     s_calendar := sq_calendar q, s_schedule_changed_at := now\<rparr>"

definition schedule_store_update :: "timestamp \<Rightarrow> schedule_request \<Rightarrow> source_row txn" where
  "schedule_store_update now q db =
     (let db' = db\<lparr>sources := update_where (schedule_matches q) (apply_schedule now q) (sources db)\<rparr> in
      case List.find (schedule_matches q) (sources db) of
        Some row \<Rightarrow> Inr (apply_schedule now q row, db')
      | None \<Rightarrow> Inl (ScheduleWorkerError
          (if source_of db (sq_instance q) \<noteq> None then ''SCHEDULE_CONFLICT'' else ''SOURCE_NOT_FOUND'')))"

definition schedule_update :: "timestamp \<Rightarrow> schedule_request \<Rightarrow> source_row txn" where
  "schedule_update now q db = (case source_gate db (sq_instance q) False False of
     Inl _ \<Rightarrow> Inl (ScheduleWorkerError ''CONTROL_REQUEST_FAILED'')
   | Inr _ \<Rightarrow>
       bindr (require (removed_row db (sq_instance q) = None) (ScheduleWorkerError ''SOURCE_NOT_FOUND'')) (\<lambda>_.
         schedule_store_update now q db))"

section \<open>Properties\<close>

subsection \<open>Removal\<close>

lemma bindp_pure [simp]: "bindp (pure (Inr a)) f = f a" "bindp (pure (Inl e)) f s = (Inl e, s)"
  by (simp_all add: fun_eq_iff bindp_def pure_def)

lemma removed_upsert: "removed_row (upsert_tombstone now source name state db) source =
  Some \<lparr>t_instance = source, t_display_name = name, t_removed_at = now, t_restored_at = None, t_credential_state = state\<rparr>"
proof -
  have "List.find (\<lambda>t. t_instance t = source \<and> t_restored_at t = None) (update_where (\<lambda>t. t_instance t = source)
      (\<lambda>_. \<lparr>t_instance = source, t_display_name = name, t_removed_at = now, t_restored_at = None, t_credential_state = state\<rparr>) ts) =
      Some \<lparr>t_instance = source, t_display_name = name, t_removed_at = now, t_restored_at = None, t_credential_state = state\<rparr>"
    if "list_ex (\<lambda>t. t_instance t = source) ts" for ts :: "tombstone_row list"
    using that by (induction ts) (auto simp: update_where_def)
  moreover have "List.find (\<lambda>t. t_instance t = source \<and> t_restored_at t = None) (ts @ [new]) = Some new"
    if "\<not> list_ex (\<lambda>t. t_instance t = source) ts" "t_instance new = source" "t_restored_at new = None" for ts and new :: tombstone_row
    using that by (induction ts) auto
  ultimately show ?thesis by (simp add: removed_row_def upsert_tombstone_def Let_def)
qed

lemma source_of_disable: "source_of (upsert_tombstone now source name state (disable_source source db)) x =
  map_option (\<lambda>r. if s_instance r = source then r\<lparr>s_enabled := False, s_sync_enabled := False\<rparr> else r) (source_of db x)"
proof -
  have "List.find (\<lambda>r. s_instance r = x) (update_where (\<lambda>r. s_instance r = source) (\<lambda>r. r\<lparr>s_enabled := False, s_sync_enabled := False\<rparr>) rs) =
    map_option (\<lambda>r. if s_instance r = source then r\<lparr>s_enabled := False, s_sync_enabled := False\<rparr> else r)
      (List.find (\<lambda>r. s_instance r = x) rs)" for rs :: "source_row list"
    by (induction rs) (auto simp: update_where_def)
  then show ?thesis by (simp add: source_of_def upsert_tombstone_def disable_source_def update_source_def Let_def)
qed

lemma set_credential_state_rows [simp]:
  "removed_row (set_credential_state source st db) x =
     map_option (\<lambda>t. if t_instance t = source then t\<lparr>t_credential_state := st\<rparr> else t) (removed_row db x)"
  "source_of (set_credential_state source st db) x = source_of db x"
  "sources (set_credential_state source st db) = sources db"
proof -
  have "List.find (\<lambda>t. t_instance t = x \<and> t_restored_at t = None)
      (update_where (\<lambda>t. t_instance t = source) (\<lambda>t. t\<lparr>t_credential_state := st\<rparr>) ts) =
    map_option (\<lambda>t. if t_instance t = source then t\<lparr>t_credential_state := st\<rparr> else t)
      (List.find (\<lambda>t. t_instance t = x \<and> t_restored_at t = None) ts)" for ts :: "tombstone_row list"
    by (induction ts) (auto simp: update_where_def)
  then show "removed_row (set_credential_state source st db) x =
     map_option (\<lambda>t. if t_instance t = source then t\<lparr>t_credential_state := st\<rparr> else t) (removed_row db x)"
    by (simp add: removed_row_def set_credential_state_def)
qed (simp_all add: source_of_def set_credential_state_def)

lemma removed_row_tombstone:
  "removed_row db source \<noteq> None \<Longrightarrow> \<exists>t. List.find (\<lambda>t. t_instance t = source) (source_tombstones db) = Some t"
proof -
  assume "removed_row db source \<noteq> None"
  then have "List.find (\<lambda>t. t_instance t = source) (source_tombstones db) \<noteq> None"
    by (auto simp: removed_row_def find_none dest: find_SomeD)
  then show ?thesis by auto
qed

lemma cleanup_files_rows:
  assumes "cleanup_files cleanup source row db = Inr (u, db')"
  shows "\<exists>st. db' = set_credential_state source st db"
  using assms by (auto simp: cleanup_files_def bindr_Inr_conv split: if_splits)

text \<open>The cleanup of a removed source always returns, and leaves it removed.\<close>

lemma cleanup_total:
  assumes "source_of db source = Some row" "removed_row db source \<noteq> None" "cleanup_credentials cleanup source db = (res, db')"
  shows "(\<exists>st. res = Inr st) \<and> source_of db' source = Some row \<and> removed_row db' source \<noteq> None"
proof -
  obtain t where t: "removed_row db source = Some t" using assms(2) by auto
  show ?thesis
  proof (cases "t_credential_state t \<in> {''REMOVED'', ''RETAINED_SHARED_OR_LEGACY''}")
    case True
    then show ?thesis using assms t by (auto simp: cleanup_credentials_def cleanup_open_def commit_def bindp_def pure_def)
  next
    case False
    define db1 where "db1 = set_credential_state source ''CLEANUP_FAILED'' db"
    define db2 where "db2 = snd (commit (cleanup_files cleanup source row) db1)"
    have "db2 = db1 \<or> (\<exists>st. db2 = set_credential_state source st db1)"
      unfolding db2_def commit_def by (auto split: sum.splits dest: cleanup_files_rows)
    then have 2: "source_of db2 source = Some row" "removed_row db2 source \<noteq> None"
      using assms(1) t by (auto simp: db1_def)
    then obtain q where "List.find (\<lambda>t. t_instance t = source) (source_tombstones db2) = Some q"
      using removed_row_tombstone by blast
    then have "commit (credential_state source) db2 = (Inr (t_credential_state q), db2)"
      by (simp add: commit_def credential_state_def)
    then show ?thesis using assms False t 2
      by (auto simp: cleanup_credentials_def cleanup_open_def commit_def[of "cleanup_open source"] bindp_def Let_def db1_def db2_def)
  qed
qed

lemma read_removed: "removed_row db source \<noteq> None \<Longrightarrow> \<exists>v. commit (read_source H source) db = (Inr v, db)"
  by (auto simp: read_source_def commit_def)

lemma removal_guard_Inr:
  assumes "removal_guard H source expected confirmed operation db = Inr row"
  shows "source_of db source = Some row \<and> revision H (source_dict row) = expected \<and> confirmed = s_name row \<and>
    removed_row db source = None \<and> \<not> operation_running db source \<and> \<not> run_blocks db source \<and>
    (operation = None \<longrightarrow> \<not> archived db source \<and> request_of db source = None \<and>
       \<not> list_ex (\<lambda>r. ret_instance r = source \<and> dispatched r) (source_retirements db))"
  using assms by (auto simp: removal_guard_def bindr_Inr_conv split: option.splits)

lemma remove_locked_cases:
  assumes "remove_locked H now cleanup source expected confirmed c operation db = (res, db')"
  shows "(case removal_guard H source expected confirmed operation db of
      Inl e \<Rightarrow> res = Inl e \<and> db' = db
    | Inr row \<Rightarrow> (\<exists>v. res = Inr v) \<and> removed_row db' source \<noteq> None \<and>
        source_of db' source = Some (row\<lparr>s_enabled := False, s_sync_enabled := False\<rparr>))"
proof (cases "removal_guard H source expected confirmed operation db")
  case (Inl e)
  then show ?thesis using assms by (auto simp: remove_locked_def remove_txn_def commit_def bindp_def)
next
  case (Inr row)
  define st where "st = (if c then ''CLEANUP_FAILED'' else ''RETAINED_BY_REQUEST'')"
  define db1 where "db1 = upsert_tombstone now source (s_name row) st (disable_source source db)"
  have row: "source_of db source = Some row" "s_instance row = source"
    using removal_guard_Inr[OF Inr] source_of_Some by auto
  then have 1: "source_of db1 source = Some (row\<lparr>s_enabled := False, s_sync_enabled := False\<rparr>)" "removed_row db1 source \<noteq> None"
    by (auto simp: db1_def source_of_disable removed_upsert)
  have t: "commit (remove_txn H now source expected confirmed c operation) db = (Inr (), db1)"
    using Inr by (simp add: remove_txn_def commit_def db1_def st_def)
  obtain res2 db2 where cl: "cleanup_credentials cleanup source db1 = (res2, db2)" by fastforce
  show ?thesis
  proof (cases c)
    case True
    then show ?thesis
      using assms t Inr cleanup_total[OF 1 cl] read_removed[of db2 source H] cl
      by (auto simp: remove_locked_def bindp_def pure_def)
  next
    case False
    then show ?thesis using assms t Inr 1 read_removed[of db1 source H] by (auto simp: remove_locked_def bindp_def pure_def)
  qed
qed

text \<open>When a source may be removed.\<close>

definition removable :: "(string \<Rightarrow> string) \<Rightarrow> string \<Rightarrow> string \<Rightarrow> string \<Rightarrow> registry \<Rightarrow> bool" where
  "removable H source expected confirmed db = ((case source_of db source of None \<Rightarrow> False
       | Some row \<Rightarrow> revision H (source_dict row) = expected \<and> s_name row = confirmed) \<and>
     removed_row db source = None \<and> \<not> operation_running db source \<and> \<not> run_blocks db source \<and> \<not> archived db source \<and>
     request_of db source = None \<and> \<not> list_ex (\<lambda>r. ret_instance r = source \<and> dispatched r) (source_retirements db))"

text \<open>
  C22: A removal either is refused with nothing changed, or succeeds; and it succeeds exactly when
  the apply lock is free, the source is at the reviewed revision, not removed yet, confirmed by
  its name, with no operation running, no run active or unconfirmed, and neither archived nor
  in retirement nor queued for removal. Afterwards the source is recorded as removed and its
  row is unchanged but for being disabled, even if the cleanup of credential files fails.
\<close>
theorem remove_atomic:
  "case remove H free now cleanup source expected confirmed c db of
     (Inl e, db') \<Rightarrow> db' = db \<and> \<not> (free \<and> removable H source expected confirmed db)
   | (Inr v, db') \<Rightarrow> free \<and> removable H source expected confirmed db \<and> removed_row db' source \<noteq> None \<and>
       source_of db' source = map_option (\<lambda>row. row\<lparr>s_enabled := False, s_sync_enabled := False\<rparr>) (source_of db source)"
proof (cases free)
  case False
  then show ?thesis by (simp add: remove_def with_apply_lock_def pure_def)
next
  case True
  obtain res db' where r: "remove_locked H now cleanup source expected confirmed c None db = (res, db')" by fastforce
  show ?thesis
  proof (cases "removal_guard H source expected confirmed None db")
    case (Inl e)
    have "\<exists>row. removal_guard H source expected confirmed None db = Inr row" if "removable H source expected confirmed db"
      using that by (auto simp: removable_def removal_guard_def source_gate_def split: option.splits)
    then have "\<not> removable H source expected confirmed db" using Inl by auto
    then show ?thesis using True Inl r remove_locked_cases[OF r]
      by (auto simp: remove_def with_apply_lock_def)
  next
    case (Inr row)
    then show ?thesis using True r remove_locked_cases[OF r] removal_guard_Inr[OF Inr]
      by (auto simp: remove_def with_apply_lock_def removable_def)
  qed
qed

subsection \<open>Credentials of other sources\<close>

lemma shared_refs_iff: "ref \<in> set (shared_refs db source) \<longleftrightarrow>
  (\<exists>s \<in> set (sources db). s_instance s \<noteq> source \<and> (ref = s_token_id s \<or> ref = s_token_secret s))"
  by (auto simp: shared_refs_def refs_of_def)

lemma exclusive_refs_keys:
  "exclusive_refs db row \<Longrightarrow> key \<in> set (map snd (sort (refs_of row))) \<Longrightarrow> (''file'', key) \<notin> set (shared_refs db (s_instance row))"
  by (fastforce simp: exclusive_refs_def list_all_iff)

lemma cleanup_files_agree:
  assumes "\<And>keys. \<forall>key \<in> set keys. (''file'', key) \<notin> set (shared_refs db (s_instance row)) \<Longrightarrow> c1 keys = c2 keys"
  shows "cleanup_files c1 source row db = cleanup_files c2 source row db"
proof (cases "exclusive_refs db row")
  case True
  then have "c1 (map snd (sort (refs_of row))) = c2 (map snd (sort (refs_of row)))"
    using exclusive_refs_keys by (intro assms) blast
  then show ?thesis by (simp add: cleanup_files_def)
qed (simp add: cleanup_files_def)

text \<open>
  C23: The cleanup of a removed source only ever deletes credential files no other source refers
  to: two cleanup services that agree on such files lead to the same result and the same
  registry, so the outcome cannot depend on what deleting any other file would do.
\<close>
theorem cleanup_spares_shared:
  assumes "\<And>keys. \<forall>key \<in> set keys. \<forall>s \<in> set (sources db). s_instance s \<noteq> source \<longrightarrow>
      (''file'', key) \<noteq> s_token_id s \<and> (''file'', key) \<noteq> s_token_secret s \<Longrightarrow> c1 keys = c2 keys"
  shows "cleanup_credentials c1 source db = cleanup_credentials c2 source db"
proof -
  have "cleanup_files c1 source row (set_credential_state source ''CLEANUP_FAILED'' db) =
      cleanup_files c2 source row (set_credential_state source ''CLEANUP_FAILED'' db)" if "s_instance row = source" for row
    using that by (intro cleanup_files_agree assms) (auto simp: shared_refs_iff)
  then have "commit (cleanup_files c1 source row) (set_credential_state source ''CLEANUP_FAILED'' db) =
      commit (cleanup_files c2 source row) (set_credential_state source ''CLEANUP_FAILED'' db)" if "source_of db source = Some row" for row
    using that source_of_Some by (simp add: commit_def)
  then show ?thesis
    by (auto simp: cleanup_credentials_def bindp_def cleanup_open_def commit_def[of "cleanup_open source"] Let_def split: option.splits)
qed

definition sharing_source :: source_row where
  "sharing_source = example_source\<lparr>s_instance := ''pve-b'', s_token_secret := (''file'', ''pve-b-token-secret-01'')\<rparr>"

definition shared_registry :: registry where
  "shared_registry = example_registry\<lparr>sources := [example_source, sharing_source],
     source_tombstones := [\<lparr>t_instance = ''pve-a'', t_display_name = ''PVE A'', t_removed_at = 0, t_restored_at = None,
       t_credential_state = ''CLEANUP_FAILED''\<rparr>]\<rparr>"

text \<open>The token identifier is shared with another source: a cleanup service that would delete it is not asked.\<close>

theorem cleanup_spares_shared_witness:
  "fst (cleanup_credentials (\<lambda>keys. Inr (snd (s_token_id example_source) \<in> set keys)) ''pve-a'' shared_registry) =
     Inr ''RETAINED_SHARED_OR_LEGACY''"
proof -
  have s: "sharing_source \<in> set (sources shared_registry)" "s_instance sharing_source \<noteq> ''pve-a''"
    by (simp add: shared_registry_def, simp add: sharing_source_def)
  have s3: "s_token_id sharing_source = (''file'', snd (s_token_id example_source))"
    by (simp add: sharing_source_def example_source_def)
  have eq: "cleanup_credentials (\<lambda>keys. Inr (snd (s_token_id example_source) \<in> set keys)) ''pve-a'' shared_registry =
      cleanup_credentials (\<lambda>_. Inr False) ''pve-a'' shared_registry"
  proof (rule cleanup_spares_shared)
    fix keys :: "string list"
    assume a: "\<forall>key \<in> set keys. \<forall>s \<in> set (sources shared_registry). s_instance s \<noteq> ''pve-a'' \<longrightarrow>
      (''file'', key) \<noteq> s_token_id s \<and> (''file'', key) \<noteq> s_token_secret s"
    have "snd (s_token_id example_source) \<notin> set keys" using a[rule_format, OF _ s(1,2)] s3 by auto
    then show "Inr (snd (s_token_id example_source) \<in> set keys) = (Inr False :: bool result)" by simp
  qed
  have "fst (cleanup_credentials (\<lambda>_. Inr False) ''pve-a'' shared_registry) = Inr ''RETAINED_SHARED_OR_LEGACY''"
    by code_simp
  then show ?thesis unfolding eq .
qed

subsection \<open>Gated commands\<close>

text \<open>A command on a source that passes the source gate before it changes anything.\<close>

locale gated_command =
  fixes command :: "'a txn" and source :: string
  assumes passes_gate: "command db = Inr r \<Longrightarrow> source_gate db source False False = Inr ()"
begin

lemma refused:
  assumes "archived db source \<or> (\<exists>r \<in> set (source_retirements db). ret_instance r = source \<and> dispatched r) \<or>
    request_of db source \<noteq> None"
  shows "\<exists>e. command db = Inl e"
  using assms passes_gate[of db] by (cases "command db") (auto simp: list_ex_iff)

end

interpretation admit_gated: gated_command "admit now uuid source kind" source for now uuid source kind
  by unfold_locales (auto simp: admit_def bindr_Inr_conv)

interpretation review_gated: gated_command "review_guard now source digest operation" source for now source digest operation
  by unfold_locales (auto simp: review_guard_def bindr_Inr_conv)

interpretation invalidate_gated: gated_command "invalidate_plan now source operation" source for now source operation
  by unfold_locales (auto simp: invalidate_plan_def bindr_Inr_conv)

interpretation rename_gated: gated_command "rename_txn H source expected name" source for H source expected name
  by unfold_locales (auto simp: rename_txn_def bindr_Inr_conv)

interpretation remove_gated: gated_command "remove_txn H now source expected confirmed c None" source
  for H now source expected confirmed c
  by unfold_locales (auto simp: remove_txn_def removal_guard_def bindr_Inr_conv)

interpretation schedule_gated: gated_command "schedule_update now q" "sq_instance q" for now q
  by unfold_locales (auto simp: schedule_update_def simp del: source_gate_False_iff split: sum.splits)

text \<open>
  C24: While a source is archived, has a dispatched retirement whose outcome is not closed, or
  waits in the removal queue, no new operation is admitted, no reviewed plan is handed out or
  invalidated, and the source can be neither renamed nor removed nor rescheduled.
\<close>
theorem closed_source_refuses:
  assumes "archived db source \<or> (\<exists>r \<in> set (source_retirements db). ret_instance r = source \<and> dispatched r) \<or>
    request_of db source \<noteq> None"
  shows "(\<exists>e. admit now uuid source kind db = Inl e) \<and> (\<exists>e. review_guard now source digest operation db = Inl e) \<and>
    (\<exists>e. invalidate_plan now source plan db = Inl e) \<and> (\<exists>e. rename_txn H source expected name db = Inl e) \<and>
    (\<exists>e. remove_txn H now source expected confirmed c None db = Inl e) \<and>
    (\<exists>e. schedule_update now (q\<lparr>sq_instance := source\<rparr>) db = Inl e)"
  using admit_gated.refused review_gated.refused invalidate_gated.refused rename_gated.refused remove_gated.refused
    schedule_gated.refused[where q = "q\<lparr>sq_instance := source\<rparr>"] assms by simp

theorem closed_source_refuses_witness:
  "\<exists>e. rename_txn rev ''pve-a'' ''r'' ''name'' (example_registry\<lparr>source_removal_requests :=
     [\<lparr>q_instance = ''pve-a'', q_id = ''u9'', q_actor = ''admin'', q_revision = ''r'', q_display_name = ''PVE A'',
       q_state = Q_WAITING, q_code = None\<rparr>]\<rparr>) = Inl e"
  by (rule closed_source_refuses[THEN conjunct2, THEN conjunct2, THEN conjunct2, THEN conjunct1]) (simp add: request_of_def)

end
