(* ===== verification/Retirement_Journal.thy ===== *)
theory Retirement_Journal
  imports Source_Lifecycle
begin

text \<open>
  The retirement of a source: \<open>retirement_codes.py\<close>, \<open>retirement_journal.py\<close>, the closing of a
  generation of \<open>source_archive.py\<close>, and the database function \<open>purge_retired_source\<close> of the
  migration \<open>0014_source_purge\<close>. Every operation of the journal is one transaction on the
  registry.
\<close>

section \<open>Refusal codes\<close>

definition REASONS :: "(string \<times> string) list" where
  "REASONS =
     [(''SOURCE_OBJECTS_REMAIN'', ''RETIREMENT_SOURCE_OBJECTS_REMAIN''),
      (''OWNED_OBJECT_OUTSIDE_PLACEMENT'', ''RETIREMENT_SOURCE_OBJECTS_REMAIN''),
      (''OBJECT_MISSING'', ''RETIREMENT_DEPENDENCIES_CHANGED''),
      (''SOURCE_NAMESPACE_CLOSED'', ''SOURCE_ARCHIVED''),
      (''SOURCE_NAMESPACE_BUSY'', ''RETIREMENT_SERVER_BUSY''),
      (''RETIREMENT_DEADLINE'', ''RETIREMENT_BUDGET_EXCEEDED''),
      (''DEPENDENCY_DATABASE_REFUSAL'', ''RETIREMENT_DATABASE_REFUSAL''),
      (''PERMISSION_DENIED'', ''RETIREMENT_PERMISSION_DENIED''),
      (''AUTHENTICATION_REQUIRED'', ''RETIREMENT_AUTH_FAILED''),
      (''TOKEN_WRITE_REQUIRED'', ''RETIREMENT_TOKEN_WRITE_REQUIRED''),
      (''GUARD_AUDIT_PERMISSION_REQUIRED'', ''RETIREMENT_AUDIT_PERMISSION_REQUIRED''),
      (''GUARD_SOURCE_SCOPE_DENIED'', ''RETIREMENT_SOURCE_SCOPE_DENIED''),
      (''GUARD_OBJECT_VIEW_DENIED'', ''RETIREMENT_OBJECT_VIEW_DENIED''),
      (''CREATION_OWNERSHIP_UNPROVEN'', ''RETIREMENT_OWNERSHIP_UNPROVEN''),
      (''OWNERSHIP_CONFLICT'', ''RETIREMENT_OWNERSHIP_CONFLICT''),
      (''PLACEMENT_CHANGED'', ''RETIREMENT_DEPENDENCIES_CHANGED''),
      (''DEPENDENCIES_CHANGED'', ''RETIREMENT_DEPENDENCIES_CHANGED''),
      (''OBJECT_GENERATION_CHANGED'', ''RETIREMENT_DEPENDENCIES_CHANGED''),
      (''EXTERNAL_FIELD_UPDATE'', ''RETIREMENT_MANUAL_CHANGE''),
      (''PROTECTED_DEPENDENCY'', ''RETIREMENT_PROTECTED_DEPENDENCY''),
      (''GUARD_INSTANCE_CHANGED'', ''RETIREMENT_GUARD_CHANGED''),
      (''GUARD_CAPABILITY_MISMATCH'', ''RETIREMENT_GUARD_CHANGED'')]"

definition DEFINITE_REFUSALS :: "string list" where
  "DEFINITE_REFUSALS = filter (\<lambda>c. c \<noteq> ''RETIREMENT_SERVER_BUSY'') (map snd REASONS) @ [''RETIREMENT_BLOCKED'']"

section \<open>Documents\<close>

text \<open>\<open>host_registration.identity_placement\<close>: site and cluster of the reviewed mapping or of the proof.\<close>

definition identity_placement :: "pydict \<Rightarrow> (pyval \<times> pyval) result" where
  "identity_placement settings =
     bindr (case dget_default settings ''onboarding_mapping'' (PDict []) of
         PDict mapping \<Rightarrow> Inr (dget_default mapping ''references'' (PDict []))
       | _ \<Rightarrow> Inr (PDict [])) (\<lambda>refs.
     bindr (py_get refs ''site'') (\<lambda>site.
     bindr (if py_truth site then py_get refs ''cluster'' else Inr PNone) (\<lambda>cluster.
       if py_truth site \<and> py_truth cluster
       then bindr (py_get site ''id'') (\<lambda>s. bindr (py_get cluster ''id'') (\<lambda>c. Inr (s, c)))
       else let proof' = dget_default settings ''provider_identity'' (PDict []) in
            bindr (py_get proof' ''site_id'') (\<lambda>s. bindr (py_get proof' ''cluster_id'') (\<lambda>c. Inr (s, c))))))"

definition plan_remote :: "pydict \<Rightarrow> pyval result" where
  "plan_remote plan = dindex plan ''remote''"

definition plan_manifest :: "pydict \<Rightarrow> pyval result" where
  "plan_manifest plan = bindr (plan_remote plan) (\<lambda>r. py_index r ''manifest'')"

definition plan_format_is :: "int \<Rightarrow> pydict \<Rightarrow> bool result" where
  "plan_format_is n plan = bindr (plan_manifest plan) (\<lambda>m. bindr (py_get m ''format'') (\<lambda>f. Inr (py_eq f (PInt n))))"

text \<open>The removal generation a review is bound to.\<close>

definition generation_of :: "registry \<Rightarrow> string \<Rightarrow> pyval" where
  "generation_of db source = (case List.find (\<lambda>t. t_instance t = source) (source_tombstones db) of
     None \<Rightarrow> PNone
   | Some t \<Rightarrow> PDict [(''removed_at'', PStr (isoformat (t_removed_at t))),
       (''restored_at'', (case t_restored_at t of None \<Rightarrow> PNone | Some r \<Rightarrow> PStr (isoformat r)))])"

section \<open>Guards\<close>

definition peers_of :: "registry \<Rightarrow> string \<Rightarrow> source_row list" where
  "peers_of db source = take 10001
     (filter (\<lambda>s. s_instance s \<noteq> source \<and> removed_row db (s_instance s) = None) (sources db))"

fun check_peers :: "bool \<Rightarrow> pyval \<Rightarrow> source_row list \<Rightarrow> unit result" where
  "check_peers archive cluster [] = Inr ()"
| "check_peers archive cluster (p # ps) =
     bindr (identity_placement (s_settings p)) (\<lambda>(_, other_cluster).
     bindr (require (archive \<or> \<not> py_eq other_cluster cluster) (LifecycleError ''RETIREMENT_BLOCKED'')) (\<lambda>_.
       check_peers archive cluster ps))"

fun positive_int :: "pyval \<Rightarrow> bool" where
  "positive_int (PInt i) = (0 < i)"
| "positive_int _ = False"

definition checked_row :: "source_row \<Rightarrow> pyval option \<Rightarrow> pydict result" where
  "checked_row row pending_flags = (case pending_flags of
     None \<Rightarrow> Inr (source_dict row)
   | Some flags \<Rightarrow>
       bindr (require (\<not> s_enabled row \<and> \<not> s_sync_enabled row) (LifecycleError ''SOURCE_LIFECYCLE_CONFLICT'')) (\<lambda>_.
       case flags of PDict d \<Rightarrow> Inr (dict_merge (source_dict row) d) | _ \<Rightarrow> Inl (TypeError ''not a mapping'')))"

definition journal_guard ::
  "(string \<Rightarrow> string) \<Rightarrow> registry \<Rightarrow> string \<Rightarrow> string \<Rightarrow> pyval option \<Rightarrow> bool \<Rightarrow> (source_row \<times> pyval \<times> pyval) result" where
  "journal_guard H db source expected_revision pending_flags archive = (case source_of db source of
     None \<Rightarrow> Inl (LifecycleError ''SOURCE_NOT_FOUND'')
   | Some row \<Rightarrow>
       bindr (checked_row row pending_flags) (\<lambda>checked.
       bindr (require (revision H checked = expected_revision) (LifecycleError ''SOURCE_LIFECYCLE_CONFLICT'')) (\<lambda>_.
       bindr (require (\<not> operation_running db source) (LifecycleError ''SOURCE_OPERATION_ACTIVE'')) (\<lambda>_.
       bindr (require (\<not> run_blocks db source) (LifecycleError ''SOURCE_APPLY_UNCONFIRMED'')) (\<lambda>_.
       bindr (require (\<not> recovery_pending db source) (LifecycleError ''SOURCE_RECOVERY_OUTCOME_UNCERTAIN'')) (\<lambda>_.
       bindr (identity_placement (s_settings row)) (\<lambda>(_, cluster).
       bindr (require (archive \<or> positive_int cluster) (LifecycleError ''RETIREMENT_BLOCKED'')) (\<lambda>_.
       bindr (require (length (peers_of db source) \<le> 10000) (LifecycleError ''RETIREMENT_BLOCKED'')) (\<lambda>_.
       bindr (check_peers archive cluster (peers_of db source)) (\<lambda>_.
         Inr (row, cluster, generation_of db source)))))))))))"

definition journal_record :: "registry \<Rightarrow> string \<Rightarrow> uuid \<Rightarrow> string \<Rightarrow> retirement_row result" where
  "journal_record db source operation actor =
     (case List.find (\<lambda>r. ret_id r = operation \<and> ret_instance r = source) (source_retirements db) of
        None \<Rightarrow> Inl (LifecycleError ''RETIREMENT_CONFLICT'')
      | Some r \<Rightarrow> bindr (require (ret_actor r = actor) (LifecycleError ''RETIREMENT_CONFLICT'')) (\<lambda>_. Inr r))"

definition update_retirement :: "uuid \<Rightarrow> (retirement_row \<Rightarrow> retirement_row) \<Rightarrow> registry \<Rightarrow> registry" where
  "update_retirement operation f db = db\<lparr>source_retirements :=
     update_where (\<lambda>r. ret_id r = operation) f (source_retirements db)\<rparr>"

text \<open>Every statement on \<open>source_retirements\<close> is subject to the partial unique index.\<close>

definition indexed :: "registry \<Rightarrow> registry result" where
  "indexed db = bindr (require (retirement_inflight_source (source_retirements db))
     (UniqueViolation ''retirement_inflight_source'')) (\<lambda>_. Inr db)"

section \<open>Review\<close>

definition review_plan :: "pydict \<Rightarrow> pyval \<Rightarrow> source_row \<Rightarrow> pydict" where
  "review_plan remote generation row =
     [(''remote'', PDict remote), (''removal_generation'', generation),
      (''source_flags'', PDict [(''enabled'', PBool (s_enabled row)), (''sync_enabled'', PBool (s_sync_enabled row))])]"

definition remote_format :: "pydict \<Rightarrow> pyval result" where
  "remote_format remote = py_get (dget_default remote ''manifest'' (PDict [])) ''format''"

definition prepare ::
  "(string \<Rightarrow> string) \<Rightarrow> timestamp \<Rightarrow> string \<Rightarrow> uuid \<Rightarrow> string \<Rightarrow> string \<Rightarrow> uuid \<Rightarrow> pydict \<Rightarrow> retirement_row txn" where
  "prepare H now source operation actor expected_revision guard_instance remote db =
     bindr (require (actor \<noteq> [] \<and> length actor \<le> 200) (LifecycleError ''REQUEST_INVALID'')) (\<lambda>_.
     bindr (require (int (length (render '', '' '': '' (PDict remote))) \<le> 2 * 1024 * 1024) (LifecycleError ''RETIREMENT_BLOCKED'')) (\<lambda>_.
     bindr (remote_format remote) (\<lambda>format.
     bindr (journal_guard H db source expected_revision None (py_eq format (PInt 4))) (\<lambda>(row, cluster, generation).
     bindr (refuse_if
       [Inr (\<not> py_eq (dget remote ''nonce'') (PStr operation)),
        Inr (\<not> py_eq (dget remote ''source_instance'') (PStr source)),
        Inr (\<not> py_eq (dget remote ''status'') (PStr ''REVIEWED'')),
        Inr (\<not> (py_eq format (PInt 2) \<or> py_eq format (PInt 4))),
        bindr (dindex remote ''manifest'') (\<lambda>m. bindr (py_get m ''cluster_id'') (\<lambda>c.
          Inr (py_eq format (PInt 2) \<and> \<not> py_eq c cluster)))]
       (LifecycleError ''RETIREMENT_CONFLICT'')) (\<lambda>_.
     let plan = review_plan remote generation row in
     case retirement_of db operation of
       Some previous \<Rightarrow>
         bindr (require (ret_instance previous = source \<and> ret_actor previous = actor \<and> ret_revision previous = expected_revision \<and>
             ret_guard previous = guard_instance \<and> py_eq (PDict (ret_plan previous)) (PDict plan))
           (LifecycleError ''RETIREMENT_CONFLICT'')) (\<lambda>_. Inr (previous, db))
     | None \<Rightarrow>
         let new = \<lparr>ret_id = operation, ret_instance = source, ret_actor = actor, ret_revision = expected_revision,
               ret_guard = guard_instance, ret_plan = plan, ret_state = RET_READY, ret_receipt = None, ret_code = None,
               ret_remove_credentials = None, ret_created_at = now, ret_finished_at = None, ret_superseded_by = None,
               ret_cleanup_verified = False\<rparr>
         in Inr (new, db\<lparr>source_retirements := source_retirements db @ [new]\<rparr>))))))"

section \<open>Dispatch\<close>

text \<open>An older outcome that a reviewed archive may close: succeeded, with a receipt that left the generation open.\<close>

definition legacy_outcome :: "retirement_row \<Rightarrow> bool" where
  "legacy_outcome r = (ret_state r = RET_SUCCEEDED \<and> (case ret_receipt r of None \<Rightarrow> False | Some d \<Rightarrow>
     d \<noteq> [] \<and> py_eq (dget d ''status'') (PStr ''SUCCEEDED'') \<and> dget d ''generation_closed'' \<noteq> PBool True))"

definition receipt_closed_text :: "retirement_row \<Rightarrow> string" where
  "receipt_closed_text r = (case ret_receipt r of None \<Rightarrow> ''false''
     | Some d \<Rightarrow> (case json_text (dget d ''generation_closed'') of None \<Rightarrow> ''false'' | Some t \<Rightarrow> t))"

definition supersede :: "uuid \<Rightarrow> string \<Rightarrow> registry \<Rightarrow> registry" where
  "supersede operation source db = db\<lparr>source_retirements := update_where
     (\<lambda>r. ret_instance r = source \<and> ret_state r = RET_SUCCEEDED \<and> receipt_closed_text r \<noteq> ''true'' \<and> ret_superseded_by r = None)
     (\<lambda>r. r\<lparr>ret_superseded_by := Some operation\<rparr>) (source_retirements db)\<rparr>"

definition abandon_prepared :: "timestamp \<Rightarrow> string \<Rightarrow> registry \<Rightarrow> registry" where
  "abandon_prepared now source db = db\<lparr>source_recoveries := update_where
     (\<lambda>r. rc_instance r = source \<and> rc_state r = REC_PREPARED)
     (\<lambda>r. r\<lparr>rc_state := REC_ABANDONED, rc_finished_at := Some now\<rparr>) (source_recoveries db)\<rparr>"

text \<open>A record that has left READY: only consent to the credential cleanup can still be added.\<close>

definition begin_again :: "retirement_row \<Rightarrow> bool \<Rightarrow> (retirement_row \<times> bool) txn" where
  "begin_again r remove_credentials db =
     (if ret_remove_credentials r = Some remove_credentials then Inr ((r, False), db)
      else bindr (require (ret_remove_credentials r = Some False \<and> remove_credentials \<and> dispatched r)
             (LifecycleError ''RETIREMENT_CONFLICT'')) (\<lambda>_.
           Inr ((r\<lparr>ret_remove_credentials := Some True\<rparr>, False),
             update_retirement (ret_id r) (\<lambda>x. x\<lparr>ret_remove_credentials := Some True\<rparr>) db)))"

definition dispatch :: "timestamp \<Rightarrow> string \<Rightarrow> retirement_row \<Rightarrow> bool \<Rightarrow> bool \<Rightarrow> (retirement_row \<times> bool) txn" where
  "dispatch now source r archive remove_credentials db =
     bindr (require (list_all (\<lambda>p. archive \<and> legacy_outcome p)
         (filter (\<lambda>p. ret_instance p = source \<and> dispatched p) (source_retirements db)))
       (LifecycleError ''SOURCE_RETIREMENT_PENDING'')) (\<lambda>_.
     let send = (\<lambda>x. x\<lparr>ret_state := RET_SENDING, ret_remove_credentials := Some remove_credentials\<rparr>);
         db1 = (if archive then supersede (ret_id r) source db else db);
         db2 = disable_source source (abandon_prepared now source db1)
     in bindr (indexed (update_retirement (ret_id r) send db2)) (\<lambda>db3. Inr ((send r, True), db3)))"

definition begin_retirement ::
  "(string \<Rightarrow> string) \<Rightarrow> timestamp \<Rightarrow> string \<Rightarrow> uuid \<Rightarrow> string \<Rightarrow> pyval \<Rightarrow> string \<Rightarrow> bool \<Rightarrow>
   (retirement_row \<times> bool) txn" where
  "begin_retirement H now source operation actor digest confirmed_source remove_credentials db =
     bindr (journal_record db source operation actor) (\<lambda>r.
     bindr (require (ret_superseded_by r = None) (LifecycleError ''SOURCE_ARCHIVE_REVIEW_REQUIRED'')) (\<lambda>_.
     bindr (if dispatched r \<or> ret_state r = RET_BLOCKED
            then bindr (dindex (ret_plan r) ''source_flags'') (\<lambda>f. Inr (Some f)) else Inr None) (\<lambda>flags.
     bindr (plan_format_is 4 (ret_plan r)) (\<lambda>archive.
     bindr (journal_guard H db source (ret_revision r) flags archive) (\<lambda>(row, _, generation).
     bindr (refuse_if
       [bindr (plan_remote (ret_plan r)) (\<lambda>remote. bindr (py_index remote ''digest'') (\<lambda>d. Inr (\<not> py_eq d digest))),
        if ret_state r = RET_SUCCEEDED then Inr False
        else bindr (dindex (ret_plan r) ''removal_generation'') (\<lambda>g. Inr (\<not> py_eq generation g)),
        Inr (confirmed_source \<noteq> s_name row)]
       (LifecycleError ''RETIREMENT_CONFLICT'')) (\<lambda>_.
     if ret_state r \<noteq> RET_READY then begin_again r remove_credentials db
     else dispatch now source r archive remove_credentials db))))))"

definition resume_legacy_busy :: "(string \<Rightarrow> string) \<Rightarrow> string \<Rightarrow> uuid \<Rightarrow> string \<Rightarrow> unit txn" where
  "resume_legacy_busy H source operation actor db =
     bindr (journal_record db source operation actor) (\<lambda>r.
     bindr (refuse_if
       [Inr (ret_state r \<noteq> RET_BLOCKED), Inr (ret_code r \<noteq> Some ''SOURCE_OPERATION_ACTIVE''),
        Inr (ret_remove_credentials r \<noteq> Some True), Inr (ret_receipt r \<noteq> None), Inr (ret_superseded_by r \<noteq> None),
        bindr (plan_format_is 2 (ret_plan r)) (\<lambda>b. Inr (\<not> b))]
       (LifecycleError ''RETIREMENT_CONFLICT'')) (\<lambda>_.
     bindr (dindex (ret_plan r) ''source_flags'') (\<lambda>flags.
     bindr (journal_guard H db source (ret_revision r) (Some flags) False) (\<lambda>_.
     bindr (require (\<not> list_ex (\<lambda>p. ret_instance p = source \<and> ret_id p \<noteq> ret_id r \<and> dispatched p) (source_retirements db))
       (LifecycleError ''SOURCE_RETIREMENT_PENDING'')) (\<lambda>_.
     bindr (indexed (update_retirement (ret_id r)
        (\<lambda>x. x\<lparr>ret_state := RET_UNCERTAIN, ret_code := Some ''RETIREMENT_SERVER_BUSY''\<rparr>) db)) (\<lambda>db'. Inr ((), db')))))))"

section \<open>Outcomes\<close>

definition uncertain :: "string \<Rightarrow> uuid \<Rightarrow> string \<Rightarrow> string \<Rightarrow> unit txn" where
  "uncertain source operation actor code db =
     bindr (require (code \<in> {''RETIREMENT_UNCERTAIN'', ''RETIREMENT_SERVER_BUSY''}) (LifecycleError ''REQUEST_INVALID'')) (\<lambda>_.
     bindr (journal_record db source operation actor) (\<lambda>r.
     bindr (require (ret_state r \<in> {RET_SENDING, RET_UNCERTAIN}) (LifecycleError ''RETIREMENT_CONFLICT'')) (\<lambda>_.
     bindr (indexed (update_retirement (ret_id r) (\<lambda>x. x\<lparr>ret_state := RET_UNCERTAIN, ret_code := Some code\<rparr>) db))
       (\<lambda>db'. Inr ((), db')))))"

fun is_list :: "pyval \<Rightarrow> bool" where
  "is_list (PList _) = True"
| "is_list _ = False"

fun list_items :: "pyval \<Rightarrow> pyval list" where
  "list_items (PList xs) = xs"
| "list_items _ = []"

text \<open>The keys of the reviewed objects, sorted; an archive review has none to delete.\<close>

definition expected_keys :: "pyval \<Rightarrow> pyval list result" where
  "expected_keys manifest = bindr (py_index manifest ''format'') (\<lambda>format.
     if py_eq format (PInt 2)
     then bindr (py_index manifest ''objects'') (\<lambda>objects. bindr (py_iter objects) (\<lambda>items.
          bindr (mapr py_first items) py_sorted))
     else Inr [])"

definition receipt_refusals :: "retirement_row \<Rightarrow> string \<Rightarrow> uuid \<Rightarrow> pyval \<Rightarrow> pydict \<Rightarrow> bool result list" where
  "receipt_refusals r source guard_instance expected receipt =
     [Inr (ret_guard r \<noteq> guard_instance),
      Inr (\<not> py_eq (dget receipt ''nonce'') (PStr (ret_id r))),
      Inr (\<not> py_eq (dget receipt ''source_instance'') (PStr source)),
      bindr (py_index expected ''digest'') (\<lambda>d. Inr (\<not> py_eq (dget receipt ''digest'') d)),
      bindr (py_index expected ''manifest'') (\<lambda>m. Inr (\<not> py_eq (dget receipt ''manifest'') m)),
      Inr (\<not> py_eq (dget receipt ''status'') (PStr ''SUCCEEDED'')),
      Inr (\<not> is_list (dget receipt ''deleted'')),
      Inr (\<not> is_list (dget_default receipt ''already_absent'' (PList []))),
      Inr (py_truth (dget receipt ''already_absent'') \<and> py_truth (dget receipt ''deleted'')),
      bindr (py_sorted (list_items (dget receipt ''deleted'') @ list_items (dget_default receipt ''already_absent'' (PList [])))) (\<lambda>done.
      bindr (py_index expected ''manifest'') (\<lambda>m. bindr (expected_keys m) (\<lambda>keys.
        Inr (\<not> py_eq (PList done) (PList keys)))))]"

definition resolve :: "timestamp \<Rightarrow> string \<Rightarrow> uuid \<Rightarrow> string \<Rightarrow> uuid \<Rightarrow> pydict \<Rightarrow> retirement_row txn" where
  "resolve now source operation actor guard_instance receipt db =
     bindr (journal_record db source operation actor) (\<lambda>r.
     bindr (plan_remote (ret_plan r)) (\<lambda>expected.
     bindr (refuse_if (receipt_refusals r source guard_instance expected receipt) (LifecycleError ''RETIREMENT_CONFLICT'')) (\<lambda>_.
     if ret_state r \<in> {RET_SUCCEEDED, RET_FINALIZED}
     then bindr (require (case ret_receipt r of None \<Rightarrow> False | Some d \<Rightarrow> py_eq (PDict d) (PDict receipt))
            (LifecycleError ''RETIREMENT_CONFLICT'')) (\<lambda>_. Inr (r, db))
     else bindr (require (ret_state r \<in> {RET_SENDING, RET_UNCERTAIN}) (LifecycleError ''RETIREMENT_CONFLICT'')) (\<lambda>_.
       let succeed = (\<lambda>x. x\<lparr>ret_state := RET_SUCCEEDED, ret_receipt := Some receipt, ret_code := None, ret_finished_at := Some now\<rparr>)
       in bindr (indexed (update_retirement (ret_id r) succeed db)) (\<lambda>db'. Inr (succeed r, db'))))))"

definition blocked :: "string \<Rightarrow> uuid \<Rightarrow> string \<Rightarrow> string \<Rightarrow> unit txn" where
  "blocked source operation actor code db =
     bindr (require (code \<in> set DEFINITE_REFUSALS) (LifecycleError ''REQUEST_INVALID'')) (\<lambda>_.
     bindr (journal_record db source operation actor) (\<lambda>r.
     bindr (require (ret_state r \<in> {RET_SENDING, RET_UNCERTAIN}) (LifecycleError ''RETIREMENT_CONFLICT'')) (\<lambda>_.
       Inr ((), update_retirement (ret_id r) (\<lambda>x. x\<lparr>ret_state := RET_BLOCKED, ret_code := Some code\<rparr>) db))))"

section \<open>Closing a generation\<close>

definition cleaned_up :: "tombstone_row option \<Rightarrow> bool" where
  "cleaned_up removed = (case removed of None \<Rightarrow> False
     | Some t \<Rightarrow> t_credential_state t \<in> {''REMOVED'', ''RETAINED_SHARED_OR_LEGACY''})"

definition closed_receipt :: "retirement_row \<Rightarrow> pydict result" where
  "closed_receipt r = (case ret_receipt r of None \<Rightarrow> Inl (LifecycleError ''RETIREMENT_CONFLICT'')
     | Some d \<Rightarrow> bindr (require (ret_state r \<in> {RET_SUCCEEDED, RET_FINALIZED} \<and> d \<noteq> [] \<and>
          py_eq (dget d ''status'') (PStr ''SUCCEEDED'') \<and> dget d ''generation_closed'' = PBool True)
          (LifecycleError ''RETIREMENT_CONFLICT'')) (\<lambda>_. Inr d))"

text \<open>\<open>INSERT ... ON CONFLICT DO NOTHING\<close>: neither the source nor the operation may be archived already.\<close>

definition insert_archive :: "archive_row \<Rightarrow> registry \<Rightarrow> registry" where
  "insert_archive a db =
     (if list_ex (\<lambda>b. a_instance b = a_instance a \<or> a_id b = a_id a) (source_archives db) then db
      else db\<lparr>source_archives := source_archives db @ [a]\<rparr>)"

definition release_reservations :: "timestamp \<Rightarrow> string \<Rightarrow> registry \<Rightarrow> registry" where
  "release_reservations now source db = db\<lparr>host_reservations := update_where (\<lambda>h. hr_instance h = source)
     (\<lambda>h. h\<lparr>hr_released_at := Some (case hr_released_at h of None \<Rightarrow> now | Some t \<Rightarrow> t)\<rparr>) (host_reservations db)\<rparr>"

definition stale_plans :: "timestamp \<Rightarrow> string \<Rightarrow> registry \<Rightarrow> registry" where
  "stale_plans now source db = db\<lparr>source_operations := update_where
     (\<lambda>r. o_instance r = source \<and> o_status r = OP_READY)
     (\<lambda>r. r\<lparr>o_status := OP_STALE, o_result := None, o_code := Some ''PLAN_STALE'', o_updated_at := now\<rparr>)
     (source_operations db)\<rparr>"

definition close_generation :: "timestamp \<Rightarrow> retirement_row \<Rightarrow> registry \<Rightarrow> registry result" where
  "close_generation now r db =
     (let source = ret_instance r in
      bindr (closed_receipt r) (\<lambda>receipt.
      bindr (require (cleaned_up (removed_row db source)) (LifecycleError ''SOURCE_CREDENTIAL_CLEANUP_PENDING'')) (\<lambda>_.
      bindr (dindex receipt ''manifest'') (\<lambda>m. bindr (py_get m ''format'') (\<lambda>format.
      let mode = (if py_eq format (PInt 4) then ''LEGACY_RETAIN'' else ''FULL_DELETE'');
          db1 = insert_archive \<lparr>a_instance = source, a_id = ret_id r, a_actor = ret_actor r, a_mode = mode,
            a_guard = ret_guard r, a_receipt = receipt, a_verified_at = Some now\<rparr> db
      in case List.find (\<lambda>a. a_instance a = source) (source_archives db1) of
           None \<Rightarrow> Inl (LifecycleError ''RETIREMENT_CONFLICT'')
         | Some previous \<Rightarrow>
             bindr (require (a_id previous = ret_id r \<and> a_guard previous = ret_guard r \<and>
                 py_eq (PDict (a_receipt previous)) (PDict receipt)) (LifecycleError ''RETIREMENT_CONFLICT'')) (\<lambda>_.
               Inr (stale_plans now source (release_reservations now source db1))))))))"

section \<open>Purging a fully retired source\<close>

fun json_member :: "pyval \<Rightarrow> string \<Rightarrow> pyval" where
  "json_member (PDict d) k = dget d k"
| "json_member _ k = PNone"

definition jsonb_eq :: "pyval \<Rightarrow> pyval \<Rightarrow> bool" where
  "jsonb_eq v w = (canon v = canon w)"

definition purge_evidence :: "retirement_row \<Rightarrow> string \<Rightarrow> uuid \<Rightarrow> bool" where
  "purge_evidence r source operation =
     (ret_state r = RET_SUCCEEDED \<and> ret_remove_credentials r = Some True \<and> ret_cleanup_verified r \<and>
      ret_superseded_by r = None \<and> (case ret_receipt r of None \<Rightarrow> False | Some d \<Rightarrow>
        json_text (dget d ''status'') = Some ''SUCCEEDED'' \<and> json_text (dget d ''generation_closed'') = Some ''true'' \<and>
        json_text (json_member (dget d ''manifest'') ''format'') = Some ''2'' \<and>
        json_text (dget d ''source_instance'') = Some source \<and> json_text (dget d ''nonce'') = Some operation \<and>
        json_text (dget d ''digest'') = json_text (json_member (dget (ret_plan r) ''remote'') ''digest'') \<and>
        jsonb_eq (dget d ''manifest'') (json_member (dget (ret_plan r) ''remote'') ''manifest'')))"

definition source_idle :: "registry \<Rightarrow> string \<Rightarrow> bool" where
  "source_idle db source = (cleaned_up (removed_row db source) \<and>
     (case source_of db source of None \<Rightarrow> False | Some s \<Rightarrow> \<not> s_enabled s \<and> \<not> s_sync_enabled s) \<and>
     \<not> operation_running db source \<and> \<not> run_blocks db source \<and> \<not> recovery_pending db source)"

text \<open>The team assignment of the source leaves the authorization state, whose revision advances.\<close>

definition drop_assignment :: "string \<Rightarrow> pydict \<Rightarrow> pydict result" where
  "drop_assignment source auth = (case dget auth ''source_teams'' of
     PDict teams \<Rightarrow> (case dget teams ''assignments'' of
       PDict assignments \<Rightarrow> if source \<in> set (map fst assignments)
         then (case dget teams ''revision'' of
             PInt i \<Rightarrow> Inr (AList.update ''source_teams'' (PDict (AList.update ''revision'' (PInt (i + 1))
               (AList.update ''assignments'' (PDict (AList.delete source assignments)) teams))) auth)
           | PNone \<Rightarrow> Inr (AList.update ''source_teams'' (PDict (AList.update ''revision'' (PInt 1)
               (AList.update ''assignments'' (PDict (AList.delete source assignments)) teams))) auth)
           | _ \<Rightarrow> Inl (RaiseException ''invalid input syntax for type bigint''))
         else Inr auth
     | _ \<Rightarrow> Inr auth)
   | _ \<Rightarrow> Inr auth)"

text \<open>The deletions; removing the source row cascades to its removal request.\<close>

definition purge_rows :: "string \<Rightarrow> pydict \<Rightarrow> registry \<Rightarrow> registry" where
  "purge_rows source auth db = db\<lparr>
     sources := filter (\<lambda>r. s_instance r \<noteq> source) (sources db),
     source_tombstones := filter (\<lambda>r. t_instance r \<noteq> source) (source_tombstones db),
     source_operations := filter (\<lambda>r. o_instance r \<noteq> source) (source_operations db),
     sync_runs := filter (\<lambda>r. r_instance r \<noteq> source) (sync_runs db),
     run_reconciliations := filter (\<lambda>r. rr_instance r \<noteq> source) (run_reconciliations db),
     source_recoveries := filter (\<lambda>r. rc_instance r \<noteq> source) (source_recoveries db),
     source_retirements := filter (\<lambda>r. ret_instance r \<noteq> source) (source_retirements db),
     source_removal_requests := filter (\<lambda>r. q_instance r \<noteq> source) (source_removal_requests db),
     source_archives := filter (\<lambda>r. a_instance r \<noteq> source) (source_archives db),
     host_reservations := filter (\<lambda>r. hr_instance r \<noteq> source) (host_reservations db),
     source_identity_verifications := filter (\<lambda>r. iv_instance r \<noteq> source) (source_identity_verifications db),
     registration_intents := filter (\<lambda>r. ri_instance r \<noteq> source) (registration_intents db),
     auth_state := auth,
     auth_audit := filter (\<lambda>e. json_text (dget e ''source_instance'') \<noteq> Some source) (auth_audit db)\<rparr>"

definition purge_retired_source :: "string \<Rightarrow> uuid \<Rightarrow> string \<Rightarrow> registry \<Rightarrow> registry result" where
  "purge_retired_source source operation actor db =
     (case List.find (\<lambda>r. ret_id r = operation \<and> ret_instance r = source \<and> ret_actor r = actor) (source_retirements db) of
        None \<Rightarrow> Inl (RaiseException ''SOURCE_PURGE_REFUSED'')
      | Some r \<Rightarrow>
          bindr (require (purge_evidence r source operation \<and> source_idle db source) (RaiseException ''SOURCE_PURGE_REFUSED'')) (\<lambda>_.
          bindr (drop_assignment source (auth_state db)) (\<lambda>auth. Inr (purge_rows source auth db))))"

section \<open>Finalization\<close>

definition finalized :: "timestamp \<Rightarrow> bool \<Rightarrow> string \<Rightarrow> uuid \<Rightarrow> string \<Rightarrow> unit txn" where
  "finalized now admission_free source operation actor db =
     bindr (journal_record db source operation actor) (\<lambda>r.
     bindr (require (ret_state r \<in> {RET_SUCCEEDED, RET_FINALIZED}) (LifecycleError ''RETIREMENT_CONFLICT'')) (\<lambda>_.
     bindr (require (removed_row db source \<noteq> None) (LifecycleError ''RETIREMENT_CONFLICT'')) (\<lambda>_.
     bindr (require admission_free (LifecycleError ''SOURCE_LIFECYCLE_CONFLICT'')) (\<lambda>_.
     bindr (plan_format_is 2 (ret_plan r)) (\<lambda>full.
       if full
       then bindr (require (ret_cleanup_verified r) (LifecycleError ''SOURCE_CREDENTIAL_CLEANUP_PENDING'')) (\<lambda>_.
            bindr (purge_retired_source source (ret_id r) actor db) (\<lambda>db'. Inr ((), db')))
       else bindr (close_generation now r db) (\<lambda>db'.
            Inr ((), update_retirement (ret_id r) (\<lambda>x. x\<lparr>ret_state := RET_FINALIZED, ret_code := None\<rparr>) db')))))))"

section \<open>Properties\<close>

text \<open>The source still has a team assignment.\<close>

definition assigned :: "string \<Rightarrow> pydict \<Rightarrow> bool" where
  "assigned source auth = (case dget auth ''source_teams'' of
     PDict teams \<Rightarrow> (case dget teams ''assignments'' of PDict assignments \<Rightarrow> source \<in> set (map fst assignments) | _ \<Rightarrow> False)
   | _ \<Rightarrow> False)"

lemma drop_assignment_unassigned:
  "drop_assignment source auth = Inr auth' \<Longrightarrow> \<not> assigned source auth'"
  by (auto simp: drop_assignment_def assigned_def AList.delete_eq split: pyval.splits if_splits)

text \<open>Some row of the registry belongs to the source.\<close>

definition recorded :: "string \<Rightarrow> registry \<Rightarrow> bool" where
  "recorded source db =
     (source \<in> s_instance ` set (sources db) \<or> source \<in> t_instance ` set (source_tombstones db) \<or>
      source \<in> o_instance ` set (source_operations db) \<or> source \<in> r_instance ` set (sync_runs db) \<or>
      source \<in> rr_instance ` set (run_reconciliations db) \<or> source \<in> rc_instance ` set (source_recoveries db) \<or>
      source \<in> ret_instance ` set (source_retirements db) \<or> source \<in> q_instance ` set (source_removal_requests db) \<or>
      source \<in> a_instance ` set (source_archives db) \<or> source \<in> hr_instance ` set (host_reservations db) \<or>
      source \<in> iv_instance ` set (source_identity_verifications db) \<or> source \<in> ri_instance ` set (registration_intents db) \<or>
      (\<exists>e \<in> set (auth_audit db). json_text (dget e ''source_instance'') = Some source) \<or> assigned source (auth_state db))"

lemma purge_rows_recorded: "\<not> recorded source (purge_rows source auth db) \<longleftrightarrow> \<not> assigned source auth"
  by (auto simp: recorded_def purge_rows_def)

lemma find_conj:
  "List.find p rows = Some r \<Longrightarrow> q r \<Longrightarrow> List.find (\<lambda>x. p x \<and> q x) rows = Some r"
  by (induction rows) (auto split: if_splits)

lemma journal_record_find:
  "journal_record db source operation actor = Inr r \<Longrightarrow>
     List.find (\<lambda>r. ret_id r = operation \<and> ret_instance r = source \<and> ret_actor r = actor) (source_retirements db) = Some r"
  using find_conj[of "\<lambda>r. ret_id r = operation \<and> ret_instance r = source" "source_retirements db" r "\<lambda>r. ret_actor r = actor"]
  by (auto simp: journal_record_def split: option.splits)

lemma purge_needs:
  assumes "purge_retired_source source operation actor db = Inr db'"
    and "List.find (\<lambda>r. ret_id r = operation \<and> ret_instance r = source \<and> ret_actor r = actor) (source_retirements db) = Some r"
  obtains auth where "purge_evidence r source operation" "source_idle db source" "drop_assignment source (auth_state db) = Inr auth"
    "db' = purge_rows source auth db"
  using assms by (auto simp: purge_retired_source_def bindr_Inr_conv)


definition retired_row :: retirement_row where
  "retired_row = \<lparr>ret_id = ''op1'', ret_instance = ''pve-a'', ret_actor = ''admin'', ret_revision = ''h'', ret_guard = ''guard'',
     ret_plan = [(''remote'', PDict [(''digest'', PStr ''d1''), (''manifest'', PDict [(''format'', PInt 2)])])],
     ret_state = RET_SUCCEEDED, ret_receipt = Some [(''nonce'', PStr ''op1''), (''source_instance'', PStr ''pve-a''),
       (''status'', PStr ''SUCCEEDED''), (''digest'', PStr ''d1''), (''manifest'', PDict [(''format'', PInt 2)]),
       (''generation_closed'', PBool True)], ret_code = None, ret_remove_credentials = Some True, ret_created_at = 0,
     ret_finished_at = Some 1, ret_superseded_by = None, ret_cleanup_verified = True\<rparr>"

definition retired_registry :: registry where
  "retired_registry = example_registry\<lparr>
     sources := [example_source\<lparr>s_enabled := False, s_sync_enabled := False\<rparr>, example_source\<lparr>s_instance := ''pve-b''\<rparr>],
     source_tombstones := [\<lparr>t_instance = ''pve-a'', t_display_name = ''PVE A'', t_removed_at = 0, t_restored_at = None,
       t_credential_state = ''REMOVED''\<rparr>],
     source_operations := [example_plan], source_retirements := [retired_row],
     auth_state := [(''source_teams'', PDict [(''revision'', PInt 4), (''assignments'', PDict [(''pve-a'', PStr ''t'')])])]\<rparr>"


end
