(* ===== verification/Retirement_Coordinator.thy ===== *)
theory Retirement_Coordinator
  imports Retirement_Journal
begin

text \<open>
  \<open>retirement_coordinator.py\<close>: review, execution and finalization of a retirement over the journal,
  the lifecycle store and the remote guard of NetBox. The guard is not part of these sources: it is
  the argument \<open>remote\<close>, which answers a named call on an operation and may change its own state,
  and which may raise. The cleanup of credential files and the outcome of the two tried locks are
  arguments as well.
\<close>

section \<open>World\<close>

type_synonym ('r) remote = "'r \<Rightarrow> string \<Rightarrow> uuid \<Rightarrow> pydict \<Rightarrow> (uuid \<times> pydict) result \<times> 'r"

text \<open>The answers of the surroundings during one call: the clock, the locks and the file cleanup.\<close>

record surroundings =
  env_hash :: "string \<Rightarrow> string"
  env_now :: timestamp
  env_apply_free :: bool
  env_admission_free :: bool
  env_cleanup :: "string list \<Rightarrow> bool result"

definition on_db :: "'a proc \<Rightarrow> (registry \<times> 'r, 'a) action" where
  "on_db p w = (case p (fst w) of (res, db) \<Rightarrow> (res, (db, snd w)))"

definition call :: "'r remote \<Rightarrow> string \<Rightarrow> uuid \<Rightarrow> pydict \<Rightarrow> (registry \<times> 'r, uuid \<times> pydict) action" where
  "call remote name operation args w = (case remote (snd w) name operation args of (res, r) \<Rightarrow> (res, (fst w, r)))"

section \<open>Projection\<close>

record retirement_view =
  v_id :: uuid
  v_source :: string
  v_state :: ret_state
  v_digest :: pyval
  v_revision :: string
  v_guard :: uuid
  v_manifest :: pyval
  v_mode :: string
  v_code :: "string option"
  v_remove_credentials :: "bool option"
  v_purged :: bool

definition public :: "retirement_row \<Rightarrow> retirement_view result" where
  "public r = bindr (plan_remote (ret_plan r)) (\<lambda>remote. bindr (py_index remote ''digest'') (\<lambda>digest.
     bindr (py_index remote ''manifest'') (\<lambda>manifest. bindr (py_get manifest ''format'') (\<lambda>format.
     Inr \<lparr>v_id = ret_id r, v_source = ret_instance r, v_state = ret_state r, v_digest = digest,
          v_revision = ret_revision r, v_guard = ret_guard r, v_manifest = manifest,
          v_mode = (if py_eq format (PInt 4) then ''LEGACY_RETAIN'' else ''FULL_DELETE''),
          v_code = ret_code r, v_remove_credentials = ret_remove_credentials r, v_purged = False\<rparr>))))"

definition retained_context :: "surroundings \<Rightarrow> string \<Rightarrow> (tombstone_row \<times> string option \<times> string \<times> hint option) txn" where
  "retained_context env source db = bindr (read_source (env_hash env) source db) (\<lambda>(view, _). case view of
     RemovedView t mode retirement \<Rightarrow> (case source_of db source of
         None \<Rightarrow> Inl (LifecycleError ''SOURCE_NOT_FOUND'')
       | Some row \<Rightarrow> Inr ((t, mode, revision (env_hash env) (source_dict row),
           (case retirement_hint db source None of None \<Rightarrow> retirement | Some h \<Rightarrow> Some h)), db))
   | ActiveView _ _ _ _ _ \<Rightarrow> Inl (LifecycleError ''SOURCE_RECOVERY_NOT_REMOVED''))"

section \<open>Credentials of which only one is shared\<close>

definition exclusive_keys :: "registry \<Rightarrow> source_row \<Rightarrow> string list" where
  "exclusive_keys db row = remdups (map snd (filter
     (\<lambda>ref. fst ref = ''file'' \<and> ref \<notin> set (shared_refs db (s_instance row))) [s_token_id row, s_token_secret row]))"

definition finish_exclusive_credentials :: "surroundings \<Rightarrow> string \<Rightarrow> unit txn" where
  "finish_exclusive_credentials env source db = (case source_of db source of
     None \<Rightarrow> Inl (LifecycleError ''SOURCE_NOT_FOUND'')
   | Some row \<Rightarrow> (case removed_row db source of
       None \<Rightarrow> Inl (LifecycleError ''RETIREMENT_CONFLICT'')
     | Some t \<Rightarrow> if t_credential_state t = ''REMOVED'' then Inr ((), db)
         else let keys = exclusive_keys db row in
           bindr (require (list_all credential_key_ok keys) (LifecycleError ''SOURCE_CREDENTIAL_CLEANUP_PENDING'')) (\<lambda>_.
           if keys = [] then Inr ((), db)
           else bindr (env_cleanup env (sort keys)) (\<lambda>cleaned.
             bindr (require cleaned (LifecycleError ''SOURCE_CREDENTIAL_CLEANUP_PENDING'')) (\<lambda>_. Inr ((), db))))))"

section \<open>Status\<close>

definition completed :: "'r remote \<Rightarrow> string \<Rightarrow> uuid \<Rightarrow> (registry \<times> 'r, retirement_view) action" where
  "completed remote source operation w =
     (if source_of (fst w) source \<noteq> None then (Inl (LifecycleError ''RETIREMENT_CONFLICT''), w)
      else bindp (call remote ''receipt'' operation []) (\<lambda>(guard_instance, receipt).
        pure (bindr (refuse_if
            [Inr (\<not> py_eq (dget receipt ''nonce'') (PStr operation)),
             Inr (\<not> py_eq (dget receipt ''source_instance'') (PStr source)),
             Inr (\<not> py_eq (dget receipt ''status'') (PStr ''SUCCEEDED'')),
             Inr (dget receipt ''generation_closed'' \<noteq> PBool True),
             bindr (py_get (dget_default receipt ''manifest'' (PDict [])) ''format'') (\<lambda>f. Inr (\<not> py_eq f (PInt 2)))]
            (LifecycleError ''RETIREMENT_CONFLICT'')) (\<lambda>_.
          bindr (dindex receipt ''digest'') (\<lambda>digest. bindr (dindex receipt ''manifest'') (\<lambda>manifest.
            Inr \<lparr>v_id = operation, v_source = source, v_state = RET_FINALIZED, v_digest = digest, v_revision = [],
                 v_guard = guard_instance, v_manifest = manifest, v_mode = ''FULL_DELETE'', v_code = None,
                 v_remove_credentials = Some True, v_purged = True\<rparr>))))) w)"

definition status :: "'r remote \<Rightarrow> string \<Rightarrow> uuid \<Rightarrow> string \<Rightarrow> (registry \<times> 'r, retirement_view) action" where
  "status remote source operation actor w =
     (if retirement_of (fst w) operation \<noteq> None
      then (bindr (journal_record (fst w) source operation actor) public, w)
      else completed remote source operation w)"

section \<open>Review\<close>

definition review_conflict :: "registry \<Rightarrow> string \<Rightarrow> uuid \<Rightarrow> bool \<Rightarrow> bool" where
  "review_conflict db source operation archive = list_ex (\<lambda>r. ret_instance r = source \<and>
     (if archive then ret_state r \<in> {RET_SENDING, RET_UNCERTAIN} \<or> ret_state r = RET_SUCCEEDED \<and> receipt_closed_text r = ''true''
      else ret_id r \<noteq> operation \<and> ret_superseded_by r = None \<and>
        (dispatched r \<or> ret_state r = RET_BLOCKED \<and> ret_code r = Some ''SOURCE_OPERATION_ACTIVE'')))
     (source_retirements db)"

definition review_check :: "surroundings \<Rightarrow> string \<Rightarrow> uuid \<Rightarrow> string \<Rightarrow> bool \<Rightarrow> bool \<Rightarrow> registry \<Rightarrow> pyval result" where
  "review_check env source operation expected_revision archive queued db =
     bindr (source_gate db source (archive \<or> queued) False) (\<lambda>_.
     bindr (require (\<not> (archive \<and> archived db source)) (LifecycleError ''SOURCE_ARCHIVED'')) (\<lambda>_.
     bindr (require (\<not> review_conflict db source operation archive) (LifecycleError ''SOURCE_RETIREMENT_PENDING'')) (\<lambda>_.
     bindr (journal_guard (env_hash env) db source expected_revision None archive) (\<lambda>(_, cluster, _). Inr cluster))))"

definition review ::
  "surroundings \<Rightarrow> 'r remote \<Rightarrow> string \<Rightarrow> uuid \<Rightarrow> string \<Rightarrow> string \<Rightarrow> bool \<Rightarrow> bool \<Rightarrow> (registry \<times> 'r, retirement_view) action" where
  "review env remote source operation actor expected_revision archive queued w =
     (if \<not> env_apply_free env then (Inl (LifecycleError ''SOURCE_APPLY_ACTIVE''), w)
      else bindp (on_db (\<lambda>db. (review_check env source operation expected_revision archive queued db, db))) (\<lambda>cluster.
        bindp (if archive then call remote ''archive_review'' operation [(''source_instance'', PStr source)]
               else call remote ''review'' operation [(''source_instance'', PStr source), (''cluster_id'', cluster)])
          (\<lambda>(guard_instance, result).
        bindp (on_db (commit (prepare (env_hash env) (env_now env) source operation actor expected_revision guard_instance result)))
          (\<lambda>r. pure (public r)))) w)"

section \<open>Execution\<close>

definition execute_name :: "retirement_row \<Rightarrow> string result" where
  "execute_name r = bindr (plan_format_is 4 (ret_plan r)) (\<lambda>archive. Inr (if archive then ''archive_execute'' else ''execute''))"

text \<open>
  The remote attempt of an undecided record: the execution when this call dispatches it, otherwise
  the receipt of the original intent, and for a continuation the execution of exactly the reviewed
  intent if the guard still has it unexecuted. The flag says whether an execution was sent.
\<close>

definition attempt ::
  "'r remote \<Rightarrow> retirement_row \<Rightarrow> pyval \<Rightarrow> bool \<Rightarrow> bool \<Rightarrow> registry \<times> 'r \<Rightarrow> (bool \<times> (uuid \<times> pydict) result) \<times> (registry \<times> 'r)" where
  "attempt remote r digest sent resume w = (case execute_name r of
     Inl e \<Rightarrow> ((sent, Inl e), w)
   | Inr name \<Rightarrow>
       let execution = call remote name (ret_id r) [(''digest'', digest)] in
       case (if sent then execution else call remote ''receipt'' (ret_id r) []) w of
         (Inl e, w1) \<Rightarrow> ((sent, Inl e), w1)
       | (Inr (guard_instance, result), w1) \<Rightarrow>
           if resume \<and> \<not> sent \<and> py_eq (dget result ''status'') (PStr ''REVIEWED'')
           then (case plan_remote (ret_plan r) of
               Inl e \<Rightarrow> ((sent, Inl e), w1)
             | Inr expected \<Rightarrow>
                 if ret_guard r \<noteq> guard_instance \<or> \<not> py_eq (PDict result) expected
                 then ((sent, Inl (LifecycleError ''RETIREMENT_CONFLICT'')), w1)
                 else (case execution w1 of (res, w2) \<Rightarrow> ((True, res), w2)))
           else ((sent, Inr (guard_instance, result)), w1))"

definition set_code :: "uuid \<Rightarrow> string \<Rightarrow> unit proc" where
  "set_code operation code db = (Inr (), update_retirement operation (\<lambda>x. x\<lparr>ret_code := Some code\<rparr>) db)"

definition cleanup_pending :: "'r remote \<Rightarrow> string \<Rightarrow> uuid \<Rightarrow> string \<Rightarrow> (registry \<times> 'r, retirement_view) action" where
  "cleanup_pending remote source operation actor =
     bindp (on_db (set_code operation ''SOURCE_CREDENTIAL_CLEANUP_PENDING'')) (\<lambda>_. status remote source operation actor)"

text \<open>Whether the removal is already recorded, and the revision of the source row.\<close>

definition finalize_check :: "surroundings \<Rightarrow> string \<Rightarrow> retirement_row \<Rightarrow> registry \<Rightarrow> (bool \<times> string) result" where
  "finalize_check env source r db =
     bindr (dindex (ret_plan r) ''source_flags'') (\<lambda>flags. bindr (plan_format_is 4 (ret_plan r)) (\<lambda>archive.
     bindr (journal_guard (env_hash env) db source (ret_revision r) (Some flags) archive) (\<lambda>(row, _, generation).
     bindr (dindex (ret_plan r) ''removal_generation'') (\<lambda>reviewed.
     bindr (if \<not> py_eq generation reviewed
            then (case List.find (\<lambda>t. t_instance t = source) (source_tombstones db) of
                None \<Rightarrow> Inl (LifecycleError ''RETIREMENT_CONFLICT'')
              | Some t \<Rightarrow> bindr (require (t_restored_at t = None) (LifecycleError ''RETIREMENT_CONFLICT'')) (\<lambda>_. Inr True))
            else Inr (generation \<noteq> PNone \<and> json_member generation ''restored_at'' = PNone)) (\<lambda>already_removed.
       Inr (already_removed, revision (env_hash env) (source_dict row)))))))"

text \<open>The last steps of a full deletion before its rows are purged: files, then the guard's own evidence.\<close>

definition purge_local ::
  "'r remote \<Rightarrow> retirement_row \<Rightarrow> string \<Rightarrow> pyval \<Rightarrow> (registry \<times> 'r, unit) action" where
  "purge_local remote r source digest =
     bindp (call remote ''purge_local'' (ret_id r) [(''source_instance'', PStr source), (''digest'', digest)])
       (\<lambda>(guard_instance, result).
     bindp (pure (require (guard_instance = ret_guard r \<and> py_eq (PDict result) (PDict [(''local_cleanup_verified'', PBool True)]))
         (LifecycleError ''RETIREMENT_CONFLICT''))) (\<lambda>_.
       on_db (\<lambda>db. (Inr (), update_retirement (ret_id r) (\<lambda>x. x\<lparr>ret_cleanup_verified := True\<rparr>) db))))"

definition finish ::
  "surroundings \<Rightarrow> 'r remote \<Rightarrow> string \<Rightarrow> uuid \<Rightarrow> string \<Rightarrow> (registry \<times> 'r, retirement_view) action" where
  "finish env remote source operation actor w =
     (case on_db (commit (finalized (env_now env) (env_admission_free env) source operation actor)) w of
        (Inr _, w1) \<Rightarrow> status remote source operation actor w1
      | (Inl e, w1) \<Rightarrow> if e = LifecycleError ''SOURCE_CREDENTIAL_CLEANUP_PENDING''
          then cleanup_pending remote source operation actor w1 else (Inl e, w1))"

definition complete ::
  "surroundings \<Rightarrow> 'r remote \<Rightarrow> retirement_row \<Rightarrow> string \<Rightarrow> string \<Rightarrow> pyval \<Rightarrow> string \<Rightarrow> bool \<Rightarrow>
   (registry \<times> 'r, retirement_view) action" where
  "complete env remote r source actor digest confirmed_source remove_credentials =
     bindp (pure (case ret_receipt r of None \<Rightarrow> Inl (AttributeError ''get'')
       | Some d \<Rightarrow> require (dget d ''generation_closed'' = PBool True) (LifecycleError ''RETIREMENT_CONFLICT''))) (\<lambda>_.
     bindp (on_db (\<lambda>db. (finalize_check env source r db, db))) (\<lambda>(already_removed, current_revision).
     bindp (if already_removed then pure (Inr ())
            else bindp (on_db (remove_locked (env_hash env) (env_now env) (env_cleanup env) source current_revision
                   confirmed_source remove_credentials (Some (ret_id r)))) (\<lambda>_. pure (Inr ()))) (\<lambda>_.
     if ret_remove_credentials r \<noteq> Some True then cleanup_pending remote source (ret_id r) actor
     else bindp (on_db (cleanup_credentials (env_cleanup env) source)) (\<lambda>state.
       if state = ''CLEANUP_FAILED'' then cleanup_pending remote source (ret_id r) actor
       else bindp (pure (plan_format_is 2 (ret_plan r))) (\<lambda>full.
         if full
         then (\<lambda>w. case on_db (commit (finish_exclusive_credentials env source)) w of
             (Inl _, w1) \<Rightarrow> cleanup_pending remote source (ret_id r) actor w1
           | (Inr _, w1) \<Rightarrow> bindp (purge_local remote r source digest) (\<lambda>_.
               finish env remote source (ret_id r) actor) w1)
         else finish env remote source (ret_id r) actor)))))"

text \<open>Record what the attempt showed: a definite refusal, an unknown outcome, or a verified receipt.\<close>

definition settle ::
  "surroundings \<Rightarrow> 'r remote \<Rightarrow> retirement_row \<Rightarrow> string \<Rightarrow> string \<Rightarrow> pyval \<Rightarrow> string \<Rightarrow> bool \<Rightarrow> bool \<Rightarrow> (uuid \<times> pydict) result \<Rightarrow>
   (registry \<times> 'r, retirement_view) action" where
  "settle env remote r source actor digest confirmed_source remove_credentials sent outcome = (case outcome of
     Inl (ControlError code) \<Rightarrow>
       bindp (on_db (commit (if sent \<and> code \<in> set DEFINITE_REFUSALS then blocked source (ret_id r) actor code
           else uncertain source (ret_id r) actor
             (if code = ''RETIREMENT_SERVER_BUSY'' then code else ''RETIREMENT_UNCERTAIN'')))) (\<lambda>_.
         status remote source (ret_id r) actor)
   | Inl e \<Rightarrow> pure (Inl e)
   | Inr (guard_instance, result) \<Rightarrow>
       if \<not> py_eq (dget result ''status'') (PStr ''SUCCEEDED'')
       then bindp (on_db (commit (uncertain source (ret_id r) actor ''RETIREMENT_UNCERTAIN''))) (\<lambda>_.
         status remote source (ret_id r) actor)
       else bindp (on_db (commit (resolve (env_now env) source (ret_id r) actor guard_instance result))) (\<lambda>r'.
         complete env remote r' source actor digest confirmed_source remove_credentials))"

definition execute ::
  "surroundings \<Rightarrow> 'r remote \<Rightarrow> string \<Rightarrow> uuid \<Rightarrow> string \<Rightarrow> pyval \<Rightarrow> string \<Rightarrow> bool \<Rightarrow> bool \<Rightarrow>
   (registry \<times> 'r, retirement_view) action" where
  "execute env remote source operation actor digest confirmed_source remove_credentials resume w =
     (if \<not> env_apply_free env then (Inl (LifecycleError ''SOURCE_APPLY_ACTIVE''), w)
      else if retirement_of (fst w) operation = None
      then bindp (completed remote source operation) (\<lambda>view.
        pure (bindr (require (py_eq (v_digest view) digest \<and> remove_credentials) (LifecycleError ''RETIREMENT_CONFLICT''))
          (\<lambda>_. Inr view))) w
      else bindp (on_db (\<lambda>db. (journal_record db source operation actor, db))) (\<lambda>prior.
        bindp (if resume \<and> ret_state prior = RET_BLOCKED \<and> ret_code prior = Some ''SOURCE_OPERATION_ACTIVE''
               then on_db (commit (resume_legacy_busy (env_hash env) source operation actor)) else pure (Inr ())) (\<lambda>_.
        if ret_state prior = RET_FINALIZED
        then (\<lambda>w1. (bindr (plan_remote (ret_plan prior)) (\<lambda>p. bindr (py_index p ''digest'') (\<lambda>d.
            bindr (require (py_eq d digest \<and> ret_remove_credentials prior = Some remove_credentials)
              (LifecycleError ''RETIREMENT_CONFLICT'')) (\<lambda>_.
            if archived (fst w1) source then public prior else Inl (LifecycleError ''SOURCE_ARCHIVE_REVIEW_REQUIRED'')))), w1))
        else bindp (on_db (commit (begin_retirement (env_hash env) (env_now env) source operation actor digest
               confirmed_source remove_credentials))) (\<lambda>(r, sent).
          if ret_state r = RET_BLOCKED then pure (public r)
          else if ret_state r = RET_SUCCEEDED
          then bindp (call remote ''receipt'' operation []) (\<lambda>(guard_instance, result).
            bindp (on_db (commit (resolve (env_now env) source operation actor guard_instance result))) (\<lambda>r'.
              complete env remote r' source actor digest confirmed_source remove_credentials))
          else (\<lambda>w1. case attempt remote r digest sent resume w1 of ((sent', outcome), w2) \<Rightarrow>
            settle env remote r source actor digest confirmed_source remove_credentials sent' outcome w2)))) w)"

end
