(* ===== verification/Removal_Queue.thy ===== *)
theory Removal_Queue
  imports Retirement_Coordinator
begin

text \<open>
  \<open>removal_queue.py\<close> and \<open>retirement_continuation.py\<close>: confirmed removals that wait for admitted
  work, one queue step, and the continuation of dispatched retirements after a restart. Both
  loops take one item per step behind a rotating cursor.
\<close>

section \<open>Consent\<close>

record queue_view =
  qv_source :: string
  qv_id :: uuid
  qv_state :: queue_state
  qv_code :: "string option"

definition queue_public :: "removal_row \<Rightarrow> queue_view" where
  "queue_public q = \<lparr>qv_source = q_instance q, qv_id = q_id q, qv_state = q_state q, qv_code = q_code q\<rparr>"

definition retirement_pending :: "registry \<Rightarrow> string \<Rightarrow> bool" where
  "retirement_pending db source = list_ex (\<lambda>r. ret_instance r = source \<and>
     (dispatched r \<or> ret_state r = RET_BLOCKED \<and> ret_code r = Some ''SOURCE_OPERATION_ACTIVE'')) (source_retirements db)"

definition store_request :: "removal_row \<Rightarrow> registry \<Rightarrow> registry result" where
  "store_request q db =
     bindr (require (q_id q \<notin> q_id ` set (filter (\<lambda>p. q_instance p \<noteq> q_instance q) (source_removal_requests db)))
       (UniqueViolation ''source_removal_requests'')) (\<lambda>_.
     Inr (db\<lparr>source_removal_requests := (if request_of db (q_instance q) = None
       then source_removal_requests db @ [q]
       else update_where (\<lambda>p. q_instance p = q_instance q) (\<lambda>_. q) (source_removal_requests db))\<rparr>))"

definition enqueue_new ::
  "(string \<Rightarrow> string) \<Rightarrow> string \<Rightarrow> uuid \<Rightarrow> string \<Rightarrow> string \<Rightarrow> source_row \<Rightarrow> queue_view txn" where
  "enqueue_new H source operation actor expected_revision row db =
     bindr (require (revision H (source_dict row) = expected_revision) (LifecycleError ''SOURCE_LIFECYCLE_CONFLICT'')) (\<lambda>_.
     bindr (require (\<not> run_unconfirmed db source) (LifecycleError ''SOURCE_APPLY_UNCONFIRMED'')) (\<lambda>_.
     bindr (require (\<not> recovery_pending db source) (LifecycleError ''SOURCE_RECOVERY_OUTCOME_UNCERTAIN'')) (\<lambda>_.
     bindr (require (\<not> retirement_pending db source) (LifecycleError ''SOURCE_RETIREMENT_PENDING'')) (\<lambda>_.
     let db1 = update_source source (\<lambda>r. r\<lparr>s_sync_enabled := False\<rparr>) db;
         paused = row\<lparr>s_sync_enabled := False\<rparr>;
         q = \<lparr>q_instance = source, q_id = operation, q_actor = actor, q_revision = revision H (source_dict paused),
              q_display_name = s_name row, q_state = Q_WAITING, q_code = None\<rparr>
     in bindr (store_request q db1) (\<lambda>db2. Inr (queue_public q, db2))))))"

definition enqueue ::
  "(string \<Rightarrow> string) \<Rightarrow> string \<Rightarrow> uuid \<Rightarrow> string \<Rightarrow> string \<Rightarrow> bool \<Rightarrow> queue_view txn" where
  "enqueue H source operation actor expected_revision confirmed db =
     bindr (require (confirmed \<and> actor \<noteq> [] \<and> length actor \<le> 200) (LifecycleError ''REQUEST_INVALID'')) (\<lambda>_.
     case source_of db source of None \<Rightarrow> Inl (LifecycleError ''SOURCE_NOT_FOUND'')
     | Some row \<Rightarrow> (case request_of db source of
         None \<Rightarrow> enqueue_new H source operation actor expected_revision row db
       | Some saved \<Rightarrow> if q_id saved = operation \<and> q_actor saved = actor then Inr (queue_public saved, db)
           else bindr (require (q_state saved = Q_BLOCKED) (LifecycleError ''SOURCE_RETIREMENT_PENDING'')) (\<lambda>_.
             enqueue_new H source operation actor expected_revision row db)))"

definition queue_status ::
  "'r remote \<Rightarrow> string \<Rightarrow> uuid \<Rightarrow> string \<Rightarrow> (registry \<times> 'r, queue_view + retirement_view) action" where
  "queue_status remote source operation actor w =
     (case (request_of (fst w) source,
            list_ex (\<lambda>r. ret_id r = operation \<and> ret_instance r = source) (source_retirements (fst w))) of
        (Some saved, False) \<Rightarrow>
          (bindr (require (q_id saved = operation \<and> q_actor saved = actor) (LifecycleError ''RETIREMENT_CONFLICT''))
             (\<lambda>_. Inr (Inl (queue_public saved))), w)
      | _ \<Rightarrow> bindp (status remote source operation actor) (\<lambda>v. pure (Inr (Inr v))) w)"

section \<open>One step of the queue\<close>

definition abandoned_read :: "timestamp \<Rightarrow> registry \<Rightarrow> string \<Rightarrow> operation_row \<Rightarrow> bool" where
  "abandoned_read now db source r = (o_instance r = source \<and> o_status r = OP_RUNNING \<and>
     o_updated_at r < now - ACTIVE_SECONDS \<and> o_kind r \<in> set KINDS \<and> op_key r \<notin> set (held db))"

definition reconcile_abandoned_reads :: "timestamp \<Rightarrow> string \<Rightarrow> registry \<Rightarrow> registry" where
  "reconcile_abandoned_reads now source db = db\<lparr>source_operations :=
     update_where (abandoned_read now db source) (interrupt now) (source_operations db)\<rparr>"

text \<open>\<open>ORDER BY (operation_id > after) DESC, operation_id LIMIT 1\<close>: the cursor rotates.\<close>

definition rotate :: "uuid \<Rightarrow> ('a \<Rightarrow> uuid) \<Rightarrow> 'a list \<Rightarrow> 'a option" where
  "rotate after key rows = (case sort_key (\<lambda>r. (\<not> after < key r, key r)) rows of [] \<Rightarrow> None | r # _ \<Rightarrow> Some r)"

definition next_request :: "uuid \<Rightarrow> registry \<Rightarrow> removal_row option" where
  "next_request after db = rotate after q_id (filter (\<lambda>q. q_state q = Q_WAITING) (source_removal_requests db))"

definition WAITING_CODES :: "string list" where
  "WAITING_CODES = [''SOURCE_OPERATION_ACTIVE'', ''SOURCE_APPLY_ACTIVE'', ''LIFECYCLE_UNAVAILABLE'', ''RETIREMENT_UNAVAILABLE'']"

definition advance_request ::
  "surroundings \<Rightarrow> 'r remote \<Rightarrow> removal_row \<Rightarrow> (registry \<times> 'r, unit) action" where
  "advance_request env remote q =
     bindp (on_db (\<lambda>db. (Inr (), reconcile_abandoned_reads (env_now env) (q_instance q) db))) (\<lambda>_ w.
     let go = (\<lambda>view. bindp (execute env remote (q_instance q) (q_id q) (q_actor q) (v_digest view)
                (q_display_name q) True False) (\<lambda>_. pure (Inr ()))) in
     (case retirement_of (fst w) (q_id q) of
        Some r \<Rightarrow>
          if ret_state r = RET_BLOCKED
          then pure (Inl (LifecycleError (case ret_code r of None \<Rightarrow> ''RETIREMENT_BLOCKED''
            | Some c \<Rightarrow> if c = [] then ''RETIREMENT_BLOCKED'' else c)))
          else if ret_state r \<noteq> RET_READY then pure (Inr ())
          else bindp (pure (public r)) go
      | None \<Rightarrow> bindp (review env remote (q_instance q) (q_id q) (q_actor q) (q_revision q) False True) go) w)"

definition block_request :: "removal_row \<Rightarrow> string \<Rightarrow> registry \<Rightarrow> registry" where
  "block_request q code db = db\<lparr>source_removal_requests := update_where
     (\<lambda>p. q_instance p = q_instance q \<and> q_id p = q_id q)
     (\<lambda>p. p\<lparr>q_state := Q_BLOCKED, q_code := Some code\<rparr>) (source_removal_requests db)\<rparr>"

definition tick :: "surroundings \<Rightarrow> 'r remote \<Rightarrow> uuid \<Rightarrow> registry \<times> 'r \<Rightarrow> uuid \<times> (registry \<times> 'r)" where
  "tick env remote after w = (case next_request after (fst w) of
     None \<Rightarrow> (after, w)
   | Some q \<Rightarrow> (q_id q, case advance_request env remote q w of
       (Inl (LifecycleError code), w1) \<Rightarrow>
         if code \<in> set WAITING_CODES then w1 else (block_request q code (fst w1), snd w1)
     | (_, w1) \<Rightarrow> w1))"

section \<open>Continuation of dispatched retirements\<close>

definition continuable :: "retirement_row \<Rightarrow> bool" where
  "continuable r = (ret_superseded_by r = None \<and>
     (dispatched r \<or> ret_state r = RET_BLOCKED \<and> ret_code r = Some ''SOURCE_OPERATION_ACTIVE''))"

definition continuation_order :: "retirement_row \<Rightarrow> int \<times> timestamp \<times> uuid" where
  "continuation_order r = (if ret_state r = RET_BLOCKED then 1 else 0, ret_created_at r, ret_id r)"

text \<open>The first continuable operation of its source, if it has consent to remove credentials.\<close>

definition continuation_candidates :: "registry \<Rightarrow> retirement_row list" where
  "continuation_candidates db = filter (\<lambda>r. source_of db (ret_instance r) \<noteq> None \<and> continuable r \<and>
     ret_remove_credentials r = Some True \<and>
     \<not> list_ex (\<lambda>p. ret_instance p = ret_instance r \<and> continuable p \<and> continuation_order p < continuation_order r)
        (source_retirements db)) (source_retirements db)"

definition continue_one :: "surroundings \<Rightarrow> 'r remote \<Rightarrow> retirement_row \<Rightarrow> string \<Rightarrow> (registry \<times> 'r, retirement_view) action" where
  "continue_one env remote r name =
     bindp (pure (bindr (plan_remote (ret_plan r)) (\<lambda>p. py_index p ''digest''))) (\<lambda>digest.
       execute env remote (ret_instance r) (ret_id r) (ret_actor r) digest name True True)"

text \<open>The queue step comes first; every exception is logged and ends the step.\<close>

definition continuation ::
  "surroundings \<Rightarrow> 'r remote \<Rightarrow> uuid \<times> uuid \<Rightarrow> registry \<times> 'r \<Rightarrow> (uuid \<times> uuid) \<times> (registry \<times> 'r)" where
  "continuation env remote cursors w =
     (case tick env remote (fst cursors) w of (queue_after, w1) \<Rightarrow>
        (case rotate (snd cursors) ret_id (continuation_candidates (fst w1)) of
           None \<Rightarrow> ((queue_after, snd cursors), w1)
         | Some r \<Rightarrow> (case source_of (fst w1) (ret_instance r) of
             None \<Rightarrow> ((queue_after, snd cursors), w1)
           | Some s \<Rightarrow> ((queue_after, ret_id r), snd (continue_one env remote r (s_name s) w1)))))"

section \<open>Fairness of the cursor\<close>

lemma sort_key_hd:
  assumes "sort_key f xs = r # rs"
  shows "r \<in> set xs \<and> (\<forall>x \<in> set xs. f r \<le> f x)"
proof -
  have "r \<in> set xs" using assms by (metis list.set_intros(1) set_sort)
  moreover have "sorted (map f (r # rs))" using assms by (metis sorted_sort_key)
  moreover have "set xs = set (r # rs)" using assms by (metis set_sort)
  ultimately show ?thesis by auto
qed

text \<open>The cursor moves to the next greater identifier, and from the last one back to the first.\<close>

lemma rotate_Some:
  assumes "rotate after key rows = Some r"
  shows "r \<in> set rows" "after < key r \<Longrightarrow> x \<in> set rows \<Longrightarrow> after < key x \<Longrightarrow> key r \<le> key x"
    "\<not> after < key r \<Longrightarrow> x \<in> set rows \<Longrightarrow> \<not> after < key x \<and> key r \<le> key x"
  using assms sort_key_hd[of "\<lambda>r. (\<not> after < key r, key r)" rows]
  by (auto simp: rotate_def less_eq_prod_def split: list.splits)

lemma rotate_total: "rows \<noteq> [] \<Longrightarrow> \<exists>r. rotate after key rows = Some r"
  by (auto simp: rotate_def split: list.splits) (metis length_0_conv length_sort)

definition advance_cursor :: "('a \<Rightarrow> uuid) \<Rightarrow> 'a list \<Rightarrow> uuid \<Rightarrow> uuid" where
  "advance_cursor key rows after = (case rotate after key rows of None \<Rightarrow> after | Some r \<Rightarrow> key r)"

text \<open>How many identifiers the cursor still passes before one of them.\<close>

definition ahead :: "('a \<Rightarrow> uuid) \<Rightarrow> 'a list \<Rightarrow> uuid \<Rightarrow> uuid \<Rightarrow> nat" where
  "ahead key rows goal after = (if after < goal then card {k \<in> key ` set rows. after < k \<and> k < goal}
     else card {k \<in> key ` set rows. after < k \<or> k < goal})"

lemma ahead_decreases:
  assumes r: "rotate after key rows = Some r" and g: "goal \<in> key ` set rows" and n: "key r \<noteq> goal"
  shows "ahead key rows goal (key r) < ahead key rows goal after"
proof -
  have fin: "finite {k \<in> key ` set rows. P k}" for P by simp
  have mem: "key r \<in> key ` set rows" using rotate_Some(1)[OF r] by simp
  have next_: "key r \<le> k" if "k \<in> key ` set rows" "after < k" "after < key r" for k
    using rotate_Some(2)[OF r] that by auto
  have wrap: "\<not> after < k \<and> key r \<le> k" if "k \<in> key ` set rows" "\<not> after < key r" for k
    using rotate_Some(3)[OF r] that by auto
  show ?thesis
  proof (cases "after < key r")
    case True
    show ?thesis
    proof (cases "after < goal")
      case A: True
      then have lt: "key r < goal" using next_[OF g A True] n by simp
      have "{k \<in> key ` set rows. key r < k \<and> k < goal} \<subset> {k \<in> key ` set rows. after < k \<and> k < goal}"
        using True lt mem by auto
      then show ?thesis using A lt by (simp add: ahead_def psubset_card_mono)
    next
      case B: False
      then have "\<not> key r < goal" using True by auto
      moreover have "{k \<in> key ` set rows. key r < k \<or> k < goal} \<subset> {k \<in> key ` set rows. after < k \<or> k < goal}"
        using True mem B by auto
      ultimately show ?thesis using B by (simp add: ahead_def psubset_card_mono)
    qed
  next
    case False
    then have B: "\<not> after < goal" and lt: "key r < goal" using wrap[OF g False] n by auto
    have "{k \<in> key ` set rows. key r < k \<and> k < goal} \<subset> {k \<in> key ` set rows. after < k \<or> k < goal}"
      using lt mem by auto
    then show ?thesis using B lt by (simp add: ahead_def psubset_card_mono)
  qed
qed

lemma ahead_bound: "goal \<in> key ` set rows \<Longrightarrow> ahead key rows goal after < length rows"
proof -
  assume g: "goal \<in> key ` set rows"
  have le: "card (key ` set rows) \<le> length rows" by (metis List.finite_set card_image_le card_length order_trans)
  have "card {k \<in> key ` set rows. P k} < length rows" if "\<not> P goal" for P
    by (rule less_le_trans[OF psubset_card_mono le]) (use g that in auto)
  then show ?thesis by (simp add: ahead_def)
qed

lemma rotation_reaches:
  assumes "goal \<in> key ` set rows"
  shows "\<exists>n \<le> ahead key rows goal after. \<exists>r. rotate ((advance_cursor key rows ^^ n) after) key rows = Some r \<and> key r = goal"
proof (induction "ahead key rows goal after" arbitrary: after rule: less_induct)
  case less
  have "rows \<noteq> []" using assms by auto
  then obtain r where r: "rotate after key rows = Some r" using rotate_total by blast
  show ?case
  proof (cases "key r = goal")
    case True
    then show ?thesis using r by (intro exI[of _ 0]) auto
  next
    case False
    have d: "ahead key rows goal (key r) < ahead key rows goal after" using ahead_decreases[OF r assms False] .
    obtain n q where n: "n \<le> ahead key rows goal (key r)"
      "rotate ((advance_cursor key rows ^^ n) (key r)) key rows = Some q" "key q = goal"
      using less[OF d] by blast
    have "(advance_cursor key rows ^^ Suc n) after = (advance_cursor key rows ^^ n) (key r)"
      using r by (simp add: funpow_Suc_right advance_cursor_def del: funpow.simps)
    then show ?thesis using n d by (intro exI[of _ "Suc n"]) auto
  qed
qed


definition queued_request :: "uuid \<Rightarrow> removal_row" where
  "queued_request u = \<lparr>q_instance = u, q_id = u, q_actor = ''admin'', q_revision = ''r'', q_display_name = u, q_state = Q_WAITING, q_code = None\<rparr>"

definition queue_registry :: registry where
  "queue_registry = example_registry\<lparr>source_removal_requests := map queued_request [''c'', ''a'', ''b'']\<rparr>"


end
