(* ===== verification/Calendar_Schedule.thy ===== *)
theory Calendar_Schedule
  imports Py_Time
begin

text \<open>
  \<open>calendar_schedule.py\<close>: daily, weekly and monthly schedules in Moscow wall-clock time. Moscow
  time is UTC+3 without transitions since 26 October 2014, before the first timestamp the
  program can hold, so the zone is a constant offset. The theory shows that the search for the
  next slot always ends with the earliest later occurrence.
\<close>

definition msk_offset :: timestamp where
  "msk_offset = seconds 10800"

definition day_us :: timestamp where
  "day_us = 86400000000"

text \<open>\<open>(?:[01][0-9]|2[0-3]):[0-5][0-9]\<close>, and the value of a text of this form.\<close>

fun clock_text_ok :: "string \<Rightarrow> bool" where
  "clock_text_ok [a, b, c, d, e] =
     ((a \<in> set ''01'' \<and> is_digit_char b \<or> a = CHR ''2'' \<and> b \<in> set ''0123'') \<and> c = CHR '':'' \<and>
      d \<in> set ''012345'' \<and> is_digit_char e)"
| "clock_text_ok _ = False"

fun clock_seconds :: "string \<Rightarrow> int" where
  "clock_seconds [a, b, c, d, e] =
     3600 * int (undec_nat [a, b]) + 60 * int (undec_nat [d, e])"
| "clock_seconds _ = 0"

definition validate_calendar :: "pyval \<Rightarrow> pydict option result" where
  "validate_calendar value = (case value of
     PNone \<Rightarrow> Inr None
   | PDict d \<Rightarrow>
       let mode = dget d ''mode'' in
       bindr (require (mode \<in> {PStr ''daily'', PStr ''weekly'', PStr ''monthly''}) (ValueError ''invalid calendar schedule'')) (\<lambda>_.
       let expected = {''mode'', ''time'', ''timezone''} \<union> (if mode \<noteq> PStr ''daily'' then {''day''} else {}) in
       bindr (require (fst ` set d = expected \<and> dget d ''timezone'' = PStr ''Europe/Moscow'') (ValueError ''invalid calendar schedule'')) (\<lambda>_.
       bindr (require (case dget d ''time'' of PStr t \<Rightarrow> clock_text_ok t | _ \<Rightarrow> False) (ValueError ''invalid calendar time'')) (\<lambda>_.
       bindr (require (mode = PStr ''daily'' \<or>
           (case dget d ''day'' of PInt k \<Rightarrow> 1 \<le> k \<and> k \<le> (if mode = PStr ''weekly'' then 7 else 31) | _ \<Rightarrow> False))
         (ValueError ''invalid calendar day'')) (\<lambda>_.
       Inr (Some d)))))
   | _ \<Rightarrow> Inl (ValueError ''invalid calendar schedule''))"

text \<open>\<open>date.isoweekday()\<close>: Monday is 1.\<close>

definition isoweekday :: "int \<Rightarrow> int" where
  "isoweekday day = weekday_of_days day + 1"

text \<open>The two \<open>continue\<close> conditions of the search, and the time of day of a slot.\<close>

definition slot_day :: "pydict \<Rightarrow> int \<Rightarrow> bool" where
  "slot_day cal day =
     (if dget cal ''mode'' = PStr ''weekly'' then dget cal ''day'' = PInt (isoweekday day)
      else if dget cal ''mode'' = PStr ''monthly'' then
        (case civil_of_days day of (y, m, d) \<Rightarrow>
          (case dget cal ''day'' of PInt k \<Rightarrow> d = min k (month_length y m) | _ \<Rightarrow> False))
      else True)"

definition slot_time :: "pydict \<Rightarrow> timestamp" where
  "slot_time cal = (case dget cal ''time'' of PStr t \<Rightarrow> seconds (clock_seconds t) | _ \<Rightarrow> 0)"

definition next_slot :: "pyval \<Rightarrow> timestamp \<Rightarrow> timestamp result" where
  "next_slot value after =
     bindr (validate_calendar value) (\<lambda>v. case v of
       None \<Rightarrow> Inl (TypeError ''NoneType object is not subscriptable'')
     | Some cal \<Rightarrow>
         let local = after + msk_offset in
         (case List.find (\<lambda>day. slot_day cal day \<and> local < day * day_us + slot_time cal)
                 (map (\<lambda>offset. local div day_us + int offset) [0..<63]) of
            None \<Rightarrow> Inl (ValueError ''calendar occurrence unavailable'')
          | Some day \<Rightarrow> Inr (day * day_us + slot_time cal - msk_offset)))"

section \<open>The next slot\<close>

text \<open>A point in time the calendar names: a day it selects, at its time of day in Moscow.\<close>

definition occurrence :: "pydict \<Rightarrow> timestamp \<Rightarrow> bool" where
  "occurrence cal t = (slot_day cal ((t + msk_offset) div day_us) \<and> (t + msk_offset) mod day_us = slot_time cal)"

lemma civil_run: "civil_of_days n = (y, m, d) \<Longrightarrow> d + int j \<le> month_length y m \<Longrightarrow> civil_of_days (n + int j) = (y, m, d + int j)"
proof (induction j)
  case (Suc j)
  then have "civil_of_days (n + int j) = (y, m, d + int j)" by simp
  then show ?case
    using civil_of_days_Suc[of "n + int j"] Suc.prems(2) by (simp add: next_civil_def algebra_simps)
qed simp

lemma month_first:
  assumes "civil_of_days n = (y, m, d)" "d \<le> month_length y m"
  obtains y' m' where "civil_of_days (n + (month_length y m - d) + 1) = (y', m', 1)"
proof -
  have "civil_of_days (n + int (nat (month_length y m - d))) = (y, m, month_length y m)"
    using civil_run[OF assms(1), of "nat (month_length y m - d)"] assms(2) by simp
  then have "civil_of_days (n + (month_length y m - d) + 1) = next_civil (y, m, month_length y m)"
    using civil_of_days_Suc[of "n + (month_length y m - d)"] assms(2) by simp
  then show ?thesis using that by (simp add: next_civil_def split: if_splits)
qed

lemma monthly_day_exists:
  assumes "1 \<le> k" "k \<le> (31 :: int)"
  shows "\<exists>j. 1 \<le> j \<and> j \<le> 61 \<and> (case civil_of_days (n + j) of (y, m, d) \<Rightarrow> d = min k (month_length y m))"
proof -
  obtain y m d where n: "civil_of_days n = (y, m, d)" by (metis prod_cases3)
  have d: "1 \<le> d" "d \<le> month_length y m" using civil_day_ok[of n] n by auto
  obtain y' m' where f: "civil_of_days (n + (month_length y m - d) + 1) = (y', m', 1)" using month_first[OF n d(2)] .
  define e where "e = min k (month_length y' m')"
  have e: "1 \<le> e" "e \<le> month_length y' m'" "e \<le> 31" using assms month_length_bounds[of y' m'] by (auto simp: e_def)
  have "civil_of_days (n + (month_length y m - d) + 1 + int (nat (e - 1))) = (y', m', e)"
    using civil_run[OF f, of "nat (e - 1)"] e by simp
  then have "civil_of_days (n + (month_length y m - d + e)) = (y', m', e)" using e(1) by (simp add: algebra_simps)
  moreover have "1 \<le> month_length y m - d + e" "month_length y m - d + e \<le> 61"
    using d e month_length_bounds[of y m] by linarith+
  ultimately show ?thesis by (intro exI[of _ "month_length y m - d + e"]) (auto simp: e_def)
qed

lemma weekly_day_exists:
  assumes "1 \<le> k" "k \<le> (7 :: int)"
  shows "\<exists>j. 1 \<le> j \<and> j \<le> 7 \<and> isoweekday (n + j) = k"
proof -
  define j where "j = (k - 1 - (n + 4)) mod 7 + 1"
  have "(n + j + 3) mod 7 = ((n + 4) + (k - 1 - (n + 4)) mod 7) mod 7" by (simp add: j_def algebra_simps)
  also have "\<dots> = (n + 4 + (k - 1 - (n + 4))) mod 7" by (rule mod_add_right_eq)
  also have "\<dots> = k - 1" using assms by simp
  finally have "isoweekday (n + j) = k" by (simp add: isoweekday_def weekday_of_days_def)
  moreover have "1 \<le> j" "j \<le> 7" by (simp_all add: j_def)
  ultimately show ?thesis by blast
qed

lemma validate_calendar_Some:
  assumes "validate_calendar value = Inr (Some cal)"
  shows "value = PDict cal \<and> dget cal ''mode'' \<in> {PStr ''daily'', PStr ''weekly'', PStr ''monthly''} \<and>
    (\<exists>t. dget cal ''time'' = PStr t \<and> clock_text_ok t) \<and>
    (dget cal ''mode'' = PStr ''weekly'' \<longrightarrow> (\<exists>k. dget cal ''day'' = PInt k \<and> 1 \<le> k \<and> k \<le> 7)) \<and>
    (dget cal ''mode'' = PStr ''monthly'' \<longrightarrow> (\<exists>k. dget cal ''day'' = PInt k \<and> 1 \<le> k \<and> k \<le> 31))"
proof -
  obtain d where d: "value = PDict d" using assms by (cases "value") (simp_all add: validate_calendar_def)
  note v = assms[unfolded d validate_calendar_def Let_def pyval.case bind_require_Inr_iff]
  have cal: "d = cal" using v by simp
  have mode: "dget cal ''mode'' \<in> {PStr ''daily'', PStr ''weekly'', PStr ''monthly''}" using v unfolding cal by blast
  have "\<exists>t. dget cal ''time'' = PStr t \<and> clock_text_ok t"
    using v unfolding cal by (cases "dget cal ''time''") simp_all
  moreover have "dget cal ''mode'' \<noteq> PStr ''daily'' \<longrightarrow>
      (\<exists>k. dget cal ''day'' = PInt k \<and> 1 \<le> k \<and> k \<le> (if dget cal ''mode'' = PStr ''weekly'' then 7 else 31))"
  proof -
    have "dget cal ''mode'' = PStr ''daily'' \<or> (case dget cal ''day'' of
        PInt k \<Rightarrow> 1 \<le> k \<and> k \<le> (if dget cal ''mode'' = PStr ''weekly'' then 7 else 31) | _ \<Rightarrow> False)"
      using v unfolding cal by blast
    then show ?thesis by (cases "dget cal ''day''") auto
  qed
  ultimately show ?thesis using d cal mode by auto
qed

lemma clock_seconds_range: "clock_text_ok t \<Longrightarrow> 0 \<le> clock_seconds t \<and> clock_seconds t < 86400"
proof (cases t rule: clock_text_ok.cases)
  case (1 a b c d e)
  assume ok: "clock_text_ok t"
  have digit: "digit_val x \<le> 9" if "char_in 48 57 x" for x using that[unfolded char_in_code_point] unfolding digit_val_def by linarith
  have "digit_val a \<le> 1 \<and> digit_val b \<le> 9 \<or> digit_val a = 2 \<and> digit_val b \<le> 3" "digit_val d \<le> 5" "digit_val e \<le> 9"
    using ok 1 digit[of b] digit[of e] by (auto simp: digit_val_def)
  then show ?thesis using 1 by (auto simp: undec_nat_def)
qed simp_all

lemma slot_time_range:
  assumes "validate_calendar value = Inr (Some cal)"
  shows "0 \<le> slot_time cal" "slot_time cal < day_us"
  using validate_calendar_Some[OF assms] clock_seconds_range by (auto simp: slot_time_def seconds_def day_us_def)

lemma slot_day_exists:
  assumes "validate_calendar value = Inr (Some cal)"
  shows "\<exists>j. 1 \<le> j \<and> j \<le> 61 \<and> slot_day cal (n + j)"
proof -
  note v = validate_calendar_Some[OF assms]
  consider "dget cal ''mode'' = PStr ''daily''" | "dget cal ''mode'' = PStr ''weekly''" | "dget cal ''mode'' = PStr ''monthly''"
    using v by blast
  then show ?thesis
  proof cases
    case 1
    then show ?thesis by (intro exI[of _ 1]) (simp add: slot_day_def)
  next
    case 2
    then obtain k where k: "dget cal ''day'' = PInt k" "1 \<le> k" "k \<le> 7" using v by blast
    obtain j where "1 \<le> j" "j \<le> 7" "isoweekday (n + j) = k" using weekly_day_exists[OF k(2,3)] by blast
    then show ?thesis using 2 k(1) by (intro exI[of _ j]) (simp add: slot_day_def)
  next
    case 3
    then obtain k where k: "dget cal ''day'' = PInt k" "1 \<le> k" "k \<le> 31" using v by blast
    then show ?thesis using 3 monthly_day_exists[OF k(2,3), of n] by (simp add: slot_day_def)
  qed
qed

lemma find_map_upt:
  assumes "P (f k)" "k < n"
  shows "\<exists>i. List.find P (map f [0..<n]) = Some (f i) \<and> i \<le> k \<and> P (f i) \<and> (\<forall>j < i. \<not> P (f j))"
proof -
  define i where "i = (LEAST i. P (f i))"
  have i: "P (f i)" "i \<le> k" "\<And>j. j < i \<Longrightarrow> \<not> P (f j)"
    using assms(1) by (auto simp: i_def intro: LeastI Least_le dest: not_less_Least)
  have "[0..<n] = [0..<i] @ [i..<n]" using i(2) assms(2) upt_add_eq_append[of 0 i "n - i"] by simp
  moreover have "[i..<n] = i # [Suc i..<n]" using i(2) assms(2) by (simp add: upt_conv_Cons)
  moreover have "List.find P (map f [0..<i]) = None" using i(3) by (simp add: find_None_iff)
  ultimately have "List.find P (map f [0..<n]) = Some (f i)" using i(1) by (simp add: find_append)
  then show ?thesis using i by blast
qed

lemma next_slot_spec:
  assumes "validate_calendar value = Inr (Some cal)"
  shows "\<exists>t. next_slot value after = Inr t \<and> after < t \<and> t \<le> after + 62 * day_us \<and> occurrence cal t \<and>
    (\<forall>t'. after < t' \<and> occurrence cal t' \<longrightarrow> t \<le> t')"
proof -
  define local where "local = after + msk_offset"
  define f where "f offset = local div day_us + int offset" for offset
  define P where "P day = (slot_day cal day \<and> local < day * day_us + slot_time cal)" for day
  note r = slot_time_range[OF assms]
  have u: "0 < day_us" by (simp add: day_us_def)
  have local: "local div day_us * day_us \<le> local" "local < local div day_us * day_us + day_us"
    using u div_mult_mod_eq[of local day_us] pos_mod_sign[OF u, of local] pos_mod_bound[OF u, of local] by linarith+
  obtain j where j: "1 \<le> j" "j \<le> 61" "slot_day cal (local div day_us + j)" using slot_day_exists[OF assms] by blast
  have "local < (local div day_us + 1) * day_us" using local(2) by (simp add: distrib_right)
  also have "\<dots> \<le> (local div day_us + j) * day_us" using j(1) u by (intro mult_right_mono) auto
  finally have "P (f (nat j))" using j r(1) by (simp add: P_def f_def)
  moreover have "nat j < 63" using j(2) by simp
  ultimately obtain i where i: "List.find P (map f [0..<63]) = Some (f i)" "i \<le> nat j" "P (f i)"
      "\<forall>j < i. \<not> P (f j)" using find_map_upt[of P f "nat j" 63] by blast
  define t where "t = f i * day_us + slot_time cal - msk_offset"
  have t: "t + msk_offset = f i * day_us + slot_time cal" by (simp add: t_def)
  have slot: "next_slot value after = Inr t"
    using assms i(1) unfolding next_slot_def t_def P_def f_def local_def by simp
  have occ: "occurrence cal t"
    using i(3) r u unfolding occurrence_def t P_def by simp
  have lower: "after < t" using i(3) unfolding P_def t_def local_def by simp
  have "f i * day_us \<le> (local div day_us + 61) * day_us" using i(2) j(2) u unfolding f_def by (intro mult_right_mono) auto
  then have "t + msk_offset \<le> local + 62 * day_us" unfolding t using local(1) r(2) by (simp add: distrib_right)
  then have upper: "t \<le> after + 62 * day_us" by (simp add: local_def)
  have "t \<le> t'" if t': "after < t'" "occurrence cal t'" for t'
  proof (rule ccontr)
    assume "\<not> t \<le> t'"
    define day where "day = (t' + msk_offset) div day_us"
    have e: "t' + msk_offset = day * day_us + slot_time cal"
      using t'(2) div_mult_mod_eq[of "t' + msk_offset" day_us] by (simp add: occurrence_def day_def)
    have "slot_day cal day" using t'(2) by (simp add: occurrence_def day_def)
    then have p: "P day" using t'(1) e by (simp add: P_def local_def)
    have "day * day_us < f i * day_us" using \<open>\<not> t \<le> t'\<close> e t by linarith
    then have less: "day < f i" using u by simp
    have "local \<le> t' + msk_offset" using t'(1) by (simp add: local_def)
    then have "local div day_us \<le> day" unfolding day_def using u by (rule zdiv_mono1)
    then have "day = f (nat (day - local div day_us))" "nat (day - local div day_us) < i" using less by (auto simp: f_def)
    then show False using i(4) p by metis
  qed
  then show ?thesis using slot occ lower upper by blast
qed

text \<open>
  C32: For every valid calendar the search for the next slot returns: within 62 days of the given
  moment it finds an occurrence of the calendar that is strictly later, and no occurrence lies
  in between. A month without the scheduled day is served on its last day.
\<close>
theorem next_slot_exact:
  assumes "validate_calendar value = Inr (Some cal)"
  shows "\<exists>t. next_slot value after = Inr t \<and> after < t \<and> t \<le> after + 62 * day_us \<and> occurrence cal t \<and>
    (\<forall>t'. after < t' \<and> occurrence cal t' \<longrightarrow> t \<le> t')"
  by (rule next_slot_spec[OF assms])

definition last_of_month :: pydict where
  "last_of_month = [(''mode'', PStr ''monthly''), (''day'', PInt 31), (''time'', PStr ''09:30''), (''timezone'', PStr ''Europe/Moscow'')]"

lemma last_of_month_valid: "validate_calendar (PDict last_of_month) = Inr (Some last_of_month)"
  by code_simp

theorem next_slot_exact_witness:
  "\<exists>t. next_slot (PDict last_of_month) (seconds 1706682600) = Inr t \<and> seconds 1706682600 < t \<and>
     t \<le> seconds 1706682600 + 62 * day_us \<and> occurrence last_of_month t \<and>
     (\<forall>t'. seconds 1706682600 < t' \<and> occurrence last_of_month t' \<longrightarrow> t \<le> t')"
  by (rule next_slot_exact[OF last_of_month_valid])

lemma next_slot_leap_day: "next_slot (PDict last_of_month) (seconds 1706682600) = Inr (seconds 1709188200)"
  by code_simp

end
