(* ===== verification/Source_Config.thy ===== *)
theory Source_Config
  imports Source_Operations Calendar_Schedule
begin

text \<open>
  \<open>source_config.py\<close> and \<open>roles.py\<close>: the immutable configuration of one source with the checks of
  its constructor, its construction from the environment of a single-source installation, and
  the fixed permission sets of the roles.
\<close>

section \<open>Checks\<close>

text \<open>\<open>^[a-z][a-z0-9_-]{1,31}$\<close> with \<open>fullmatch\<close>.\<close>

definition source_type_ok :: "string \<Rightarrow> bool" where
  "source_type_ok s = (case s of [] \<Rightarrow> False | c # cs \<Rightarrow>
     is_lower_char c \<and> 1 \<le> length cs \<and> length cs \<le> 31 \<and>
     list_all (\<lambda>c. is_lower_char c \<or> is_digit_char c \<or> c \<in> set ''_-'') cs)"

definition source_port :: "string \<Rightarrow> pyval \<Rightarrow> int result" where
  "source_port source_type port = (case port of
     PNone \<Rightarrow> Inr (if source_type = ''proxmox'' then 8006 else 443)
   | PInt n \<Rightarrow> bindr (require (1 \<le> n \<and> n \<le> 65535) (ValueError ''HTTPS port must be an integer between 1 and 65535'')) (\<lambda>_. Inr n)
   | _ \<Rightarrow> Inl (ValueError ''HTTPS port must be an integer between 1 and 65535''))"

definition require_text :: "string \<Rightarrow> string \<Rightarrow> unit result" where
  "require_text text field_name = require (py_strip text \<noteq> []) (ValueError (field_name @ '' must be a non-empty string''))"

text \<open>
  \<open>int(text)\<close>: surrounding white space, an optional sign, and decimal digits that single
  underscores may separate.
\<close>

fun grouped_digits :: "string \<Rightarrow> nat \<Rightarrow> nat option" where
  "grouped_digits [] n = Some n"
| "grouped_digits (c # cs) n =
     (if is_digit_char c then grouped_digits cs (10 * n + digit_val c)
      else case cs of d # ds \<Rightarrow>
        if c = CHR ''_'' \<and> is_digit_char d then grouped_digits ds (10 * n + digit_val d) else None
      | [] \<Rightarrow> None)"

definition unsigned_int :: "string \<Rightarrow> int option" where
  "unsigned_int s = (case s of [] \<Rightarrow> None
     | c # cs \<Rightarrow> if is_digit_char c then map_option int (grouped_digits s 0) else None)"

definition py_int :: "string \<Rightarrow> int option" where
  "py_int text = (case py_strip text of [] \<Rightarrow> None
     | c # cs \<Rightarrow> if c = CHR ''-'' then map_option uminus (unsigned_int cs)
                 else if c = CHR ''+'' then unsigned_int cs else unsigned_int (c # cs))"

section \<open>Configuration records\<close>

record NetBoxTargetConfig =
  site_slug :: string
  device_role_slug :: string
  platform_slug :: string
  device_type_slug :: string
  cluster_type_slug :: string
  cluster_name :: string
  onboarding_mapping :: pydict

definition new_NetBoxTargetConfig :: "NetBoxTargetConfig \<Rightarrow> NetBoxTargetConfig result" where
  "new_NetBoxTargetConfig t =
     bindr (require_text (site_slug t) ''site_slug'') (\<lambda>_.
     bindr (require_text (device_role_slug t) ''device_role_slug'') (\<lambda>_.
     bindr (require_text (platform_slug t) ''platform_slug'') (\<lambda>_.
     bindr (require_text (device_type_slug t) ''device_type_slug'') (\<lambda>_.
     bindr (require_text (cluster_type_slug t) ''cluster_type_slug'') (\<lambda>_.
     bindr (require_text (cluster_name t) ''cluster_name'') (\<lambda>_. Inr t))))))"

record SecretReference =
  sr_provider :: string
  sr_key :: string

definition new_SecretReference :: "string \<Rightarrow> string \<Rightarrow> SecretReference result" where
  "new_SecretReference provider key =
     bindr (require_text provider ''provider'') (\<lambda>_.
     bindr (require_text key ''key'') (\<lambda>_. Inr \<lparr>sr_provider = provider, sr_key = key\<rparr>))"

record SourceCredentials =
  sc_username :: string
  sc_token_id :: SecretReference
  sc_token_secret :: SecretReference

definition new_SourceCredentials :: "string \<Rightarrow> SecretReference \<Rightarrow> SecretReference \<Rightarrow> SourceCredentials result" where
  "new_SourceCredentials username token_id token_secret =
     bindr (require_text username ''username'') (\<lambda>_.
       Inr \<lparr>sc_username = username, sc_token_id = token_id, sc_token_secret = token_secret\<rparr>)"

definition for_password :: "string \<Rightarrow> SecretReference \<Rightarrow> SourceCredentials result" where
  "for_password username password_reference = new_SourceCredentials username password_reference password_reference"

definition password_reference :: "SourceCredentials \<Rightarrow> SecretReference" where
  "password_reference c = sc_token_secret c"

record SourceConfig =
  cfg_id :: string
  cfg_instance :: string
  cfg_name :: string
  cfg_type :: string
  cfg_address :: string
  cfg_enabled :: bool
  cfg_sync_enabled :: bool
  cfg_interval :: int
  cfg_verify_ssl :: bool
  cfg_target :: NetBoxTargetConfig
  cfg_credentials :: SourceCredentials
  cfg_calendar :: pyval
  cfg_schedule_changed_at :: "timestamp option"
  cfg_legacy_owner :: bool
  cfg_settings :: pydict

text \<open>
  \<open>SourceConfig.__post_init__\<close>. A mapping from the reviewed onboarding replaces the one of the
  target; \<open>replace\<close> constructs the target again, whose checks it has passed before.
\<close>

definition new_SourceConfig :: "SourceConfig \<Rightarrow> SourceConfig result" where
  "new_SourceConfig c =
     bindr (require_text (cfg_id c) ''id'') (\<lambda>_.
     bindr (require_text (cfg_name c) ''name'') (\<lambda>_.
     bindr (require_text (cfg_address c) ''address'') (\<lambda>_.
     bindr (require (source_instance_ok (cfg_instance c)) (ValueError ''source_instance must match ^[a-z0-9][a-z0-9._-]{1,62}$'')) (\<lambda>_.
     bindr (require (source_type_ok (cfg_type c)) (ValueError ''source_type must match ^[a-z][a-z0-9_-]{1,31}$'')) (\<lambda>_.
     bindr (require (0 < cfg_interval c) (ValueError ''sync_interval_seconds must be a positive integer'')) (\<lambda>_.
     bindr (validate_calendar (cfg_calendar c)) (\<lambda>_.
     bindr (source_port (cfg_type c) (dget (cfg_settings c) ''api_port'')) (\<lambda>_.
     let mapping = dget (cfg_settings c) ''onboarding_mapping'' in
     if py_truth mapping then
       (case mapping of
          PDict m \<Rightarrow> bindr (new_NetBoxTargetConfig ((cfg_target c)\<lparr>onboarding_mapping := m\<rparr>)) (\<lambda>t. Inr (c\<lparr>cfg_target := t\<rparr>))
        | _ \<Rightarrow> Inl (TypeError ''onboarding_mapping''))
     else Inr c))))))))"

definition api_port :: "SourceConfig \<Rightarrow> int result" where
  "api_port c = source_port (cfg_type c) (dget (cfg_settings c) ''api_port'')"

section \<open>The single source of the environment\<close>

type_synonym environ = "(string \<times> string) list"

definition env_get :: "environ \<Rightarrow> string \<Rightarrow> string \<Rightarrow> string" where
  "env_get environ name dflt = (case map_of environ name of None \<Rightarrow> dflt | Some v \<Rightarrow> v)"

definition required_environment :: "environ \<Rightarrow> string \<Rightarrow> string result" where
  "required_environment environ name = (let v = py_strip (env_get environ name []) in
     if v = [] then Inl (ValueError (name @ '' must be configured'')) else Inr v)"

definition environment_flag :: "environ \<Rightarrow> string \<Rightarrow> string \<Rightarrow> bool" where
  "environment_flag environ name dflt = (py_lower (py_strip (env_get environ name dflt)) = ''true'')"

definition legacy_secret_reference :: "environ \<Rightarrow> string \<Rightarrow> SecretReference result" where
  "legacy_secret_reference environ name =
     (let file_variable = name @ ''_FILE''; file_path = py_strip (env_get environ file_variable []) in
      if file_path \<noteq> [] then new_SecretReference ''file'' file_path
      else if py_strip (env_get environ name []) \<noteq> [] then new_SecretReference ''environment'' name
      else Inl (ValueError (name @ '' or '' @ file_variable @ '' must be configured'')))"

definition legacy_target :: "environ \<Rightarrow> NetBoxTargetConfig result" where
  "legacy_target environ =
     bindr (required_environment environ ''NB_SITE_SLUG'') (\<lambda>site.
     bindr (required_environment environ ''NB_DEVICE_ROLE_SLUG'') (\<lambda>device_role.
     bindr (required_environment environ ''NB_PLATFORM_SLUG'') (\<lambda>platform.
     bindr (required_environment environ ''NB_DEVICE_TYPE_SLUG'') (\<lambda>device_type.
     bindr (required_environment environ ''NB_CLUSTER_TYPE_SLUG'') (\<lambda>cluster_type.
     bindr (required_environment environ ''NB_CLUSTER_NAME'') (\<lambda>cluster.
       new_NetBoxTargetConfig \<lparr>site_slug = site, device_role_slug = device_role, platform_slug = platform,
         device_type_slug = device_type, cluster_type_slug = cluster_type, cluster_name = cluster,
         onboarding_mapping = []\<rparr>))))))"

definition legacy_credentials :: "environ \<Rightarrow> SourceCredentials result" where
  "legacy_credentials environ =
     bindr (required_environment environ ''PVE_API_USER'') (\<lambda>username.
     bindr (legacy_secret_reference environ ''PVE_API_TOKEN'') (\<lambda>token_id.
     bindr (legacy_secret_reference environ ''PVE_API_SECRET'') (\<lambda>token_secret.
       new_SourceCredentials username token_id token_secret)))"

definition from_legacy_environment :: "environ \<Rightarrow> SourceConfig result" where
  "from_legacy_environment environ =
     bindr (required_environment environ ''SOURCE_INSTANCE'') (\<lambda>source_instance.
     case py_int (env_get environ ''SOURCE_SYNC_INTERVAL_SECONDS'' ''600'') of
       None \<Rightarrow> Inl (ValueError ''SOURCE_SYNC_INTERVAL_SECONDS must be an integer'')
     | Some interval \<Rightarrow>
         let id' = py_strip (env_get environ ''SOURCE_ID'' []); name' = py_strip (env_get environ ''SOURCE_NAME'' []) in
         bindr (required_environment environ ''PVE_API_HOST'') (\<lambda>address.
         bindr (legacy_target environ) (\<lambda>target.
         bindr (legacy_credentials environ) (\<lambda>credentials.
         new_SourceConfig
           \<lparr>cfg_id = (if id' \<noteq> [] then id' else source_instance), cfg_instance = source_instance,
            cfg_name = (if name' \<noteq> [] then name' else source_instance), cfg_type = ''proxmox'', cfg_address = address,
            cfg_enabled = environment_flag environ ''SOURCE_ENABLED'' ''true'',
            cfg_sync_enabled = environment_flag environ ''SOURCE_SYNC_ENABLED'' ''true'',
            cfg_interval = interval, cfg_verify_ssl = environment_flag environ ''PVE_API_VERIFY_SSL'' ''false'',
            cfg_target = target, cfg_credentials = credentials, cfg_calendar = PNone, cfg_schedule_changed_at = None,
            cfg_legacy_owner = environment_flag environ ''SOURCE_LEGACY_IDENTITY_OWNER'' ''true'', cfg_settings = []\<rparr>))))"

section \<open>Roles\<close>

definition READ :: "string list" where
  "READ = [''source.read'', ''run.read'', ''diagnostics.read'']"

definition OPERATE :: "string list" where
  "OPERATE = READ @ [''source.plan'', ''source.apply'', ''source.probe'', ''source.register'', ''source.schedule'']"

definition ADMIN :: "string list" where
  "ADMIN = OPERATE @ [''catalog.create'', ''policy.read'', ''policy.write'', ''source.configure'', ''source.remove'',
     ''bootstrap.manage'', ''identity.manage'']"

definition ROLES :: "(string \<times> string list) list" where
  "ROLES = [(''viewer'', READ), (''operator'', OPERATE), (''admin'', ADMIN)]"

definition permissions :: "string \<Rightarrow> string set" where
  "permissions role = (case map_of ROLES role of None \<Rightarrow> {} | Some ps \<Rightarrow> set ps)"

definition matrix :: "(string \<times> string list) list" where
  "matrix = map (\<lambda>(role, values). (role, sort values)) ROLES"

section \<open>Properties\<close>

text \<open>What the rest of the program relies on in a configuration.\<close>

definition target_ok :: "NetBoxTargetConfig \<Rightarrow> bool" where
  "target_ok t = list_all (\<lambda>s. py_strip s \<noteq> []) [site_slug t, device_role_slug t, platform_slug t,
     device_type_slug t, cluster_type_slug t, cluster_name t]"

definition config_ok :: "SourceConfig \<Rightarrow> bool" where
  "config_ok c = (list_all (\<lambda>s. py_strip s \<noteq> []) [cfg_id c, cfg_name c, cfg_address c] \<and>
     source_instance_ok (cfg_instance c) \<and> source_type_ok (cfg_type c) \<and> 0 < cfg_interval c \<and>
     (case validate_calendar (cfg_calendar c) of Inl _ \<Rightarrow> False | Inr _ \<Rightarrow> True) \<and>
     (case api_port c of Inl _ \<Rightarrow> False | Inr p \<Rightarrow> 1 \<le> p \<and> p \<le> 65535))"

lemma source_port_range: "source_port ty port = Inr p \<Longrightarrow> 1 \<le> p \<and> p \<le> 65535"
  by (auto simp: source_port_def split: pyval.splits if_splits)

lemma new_target_Inr: "new_NetBoxTargetConfig t = Inr t' \<longleftrightarrow> t' = t \<and> target_ok t"
  by (auto simp: new_NetBoxTargetConfig_def require_text_def target_ok_def)

text \<open>The mapping of the settings, when there is one, is an object.\<close>

definition mapping_ok :: "SourceConfig \<Rightarrow> bool" where
  "mapping_ok c = (case dget (cfg_settings c) ''onboarding_mapping'' of PDict m \<Rightarrow> True | v \<Rightarrow> \<not> py_truth v)"

definition mapped :: "SourceConfig \<Rightarrow> SourceConfig" where
  "mapped c = (case dget (cfg_settings c) ''onboarding_mapping'' of
     PDict m \<Rightarrow> if m = [] then c else c\<lparr>cfg_target := (cfg_target c)\<lparr>onboarding_mapping := m\<rparr>\<rparr> | _ \<Rightarrow> c)"

lemma target_ok_mapping [simp]: "target_ok (t\<lparr>onboarding_mapping := m\<rparr>) = target_ok t"
  by (simp add: target_ok_def)

lemma new_SourceConfig_Inr:
  assumes "target_ok (cfg_target c)"
  shows "new_SourceConfig c = Inr c' \<longleftrightarrow> config_ok c \<and> mapping_ok c \<and> c' = mapped c"
proof -
  define mapping where "mapping = dget (cfg_settings c) ''onboarding_mapping''"
  have m: "(if py_truth mapping then (case mapping of
          PDict m \<Rightarrow> bindr (new_NetBoxTargetConfig ((cfg_target c)\<lparr>onboarding_mapping := m\<rparr>)) (\<lambda>t. Inr (c\<lparr>cfg_target := t\<rparr>))
        | _ \<Rightarrow> Inl (TypeError ''onboarding_mapping''))
     else Inr c) = Inr c' \<longleftrightarrow> mapping_ok c \<and> c' = mapped c"
    unfolding mapping_ok_def mapped_def mapping_def[symmetric]
    using assms by (cases mapping) (auto simp: bindr_Inr_conv new_target_Inr)
  show ?thesis
    unfolding new_SourceConfig_def config_ok_def require_text_def bind_require_Inr_iff Let_def bindr_Inr_conv
      mapping_def[symmetric] m api_port_def
    using source_port_range[of "cfg_type c"] by (auto split: sum.splits)
qed


definition example_environ :: environ where
  "example_environ = [(''SOURCE_INSTANCE'', ''pve-01''), (''PVE_API_HOST'', ''pve.example''), (''PVE_API_USER'', ''sync@pve''),
     (''PVE_API_TOKEN'', ''id''), (''PVE_API_SECRET_FILE'', ''/run/secret''), (''NB_SITE_SLUG'', ''dc''),
     (''NB_DEVICE_ROLE_SLUG'', ''server''), (''NB_PLATFORM_SLUG'', ''pve''), (''NB_DEVICE_TYPE_SLUG'', ''generic''),
     (''NB_CLUSTER_TYPE_SLUG'', ''pve''), (''NB_CLUSTER_NAME'', ''main''), (''SOURCE_SYNC_INTERVAL_SECONDS'', '' 3_600 '')]"

definition example_target :: NetBoxTargetConfig where
  "example_target = \<lparr>site_slug = ''dc'', device_role_slug = ''server'', platform_slug = ''pve'', device_type_slug = ''generic'',
     cluster_type_slug = ''pve'', cluster_name = ''main'', onboarding_mapping = []\<rparr>"

definition example_config :: SourceConfig where
  "example_config = \<lparr>cfg_id = ''pve-01'', cfg_instance = ''pve-01'', cfg_name = ''pve-01'', cfg_type = ''proxmox'',
     cfg_address = ''pve.example'', cfg_enabled = True, cfg_sync_enabled = True, cfg_interval = 3600, cfg_verify_ssl = False,
     cfg_target = example_target,
     cfg_credentials = \<lparr>sc_username = ''sync@pve'', sc_token_id = \<lparr>sr_provider = ''environment'', sr_key = ''PVE_API_TOKEN''\<rparr>,
       sc_token_secret = \<lparr>sr_provider = ''file'', sr_key = ''/run/secret''\<rparr>\<rparr>,
     cfg_calendar = PNone, cfg_schedule_changed_at = None, cfg_legacy_owner = True, cfg_settings = []\<rparr>"

lemma example_environ_config: "from_legacy_environment example_environ = Inr example_config"
  by code_simp


text \<open>The secret variables are only tested for being set.\<close>

lemma env_get_other: "n \<noteq> name \<Longrightarrow> env_get ((n, v) # environ) name d = env_get environ name d"
  by (simp add: env_get_def)

lemma legacy_secret_reference_set:
  assumes "py_strip v \<noteq> []" "py_strip v' \<noteq> []" "n \<noteq> name @ ''_FILE''"
  shows "legacy_secret_reference ((n, v) # environ) name = legacy_secret_reference ((n, v') # environ) name"
  using assms by (cases "n = name") (simp_all add: legacy_secret_reference_def env_get_def Let_def)

text \<open>
  C40: The configuration built from the environment does not depend on the value of the API token
  or secret: two environments that differ only in that value, not blank in both, give the same
  configuration or the same error. The configuration holds a reference, never the secret.
\<close>
theorem legacy_environment_hides_secrets:
  assumes "n \<in> {''PVE_API_TOKEN'', ''PVE_API_SECRET''}" "py_strip v \<noteq> []" "py_strip v' \<noteq> []"
  shows "from_legacy_environment ((n, v) # environ) = from_legacy_environment ((n, v') # environ)"
proof -
  have other: "env_get ((n, v) # environ) name d = env_get ((n, v') # environ) name d"
    if "name \<notin> {''PVE_API_TOKEN'', ''PVE_API_SECRET''}" for name d
    using assms(1) that by (auto simp: env_get_def)
  have r: "required_environment ((n, v) # environ) name = required_environment ((n, v') # environ) name"
      "environment_flag ((n, v) # environ) name d = environment_flag ((n, v') # environ) name d"
    if "name \<notin> {''PVE_API_TOKEN'', ''PVE_API_SECRET''}" for name d
    using other[OF that] by (simp_all add: required_environment_def environment_flag_def)
  have s: "legacy_secret_reference ((n, v) # environ) name = legacy_secret_reference ((n, v') # environ) name"
    if "name \<in> {''PVE_API_TOKEN'', ''PVE_API_SECRET''}" for name
    by (rule legacy_secret_reference_set[OF assms(2,3)]) (use assms(1) that in auto)
  have t: "legacy_target ((n, v) # environ) = legacy_target ((n, v') # environ)"
    unfolding legacy_target_def by (subst r(1), simp)+ (rule refl)
  have c: "legacy_credentials ((n, v) # environ) = legacy_credentials ((n, v') # environ)"
    by (simp add: legacy_credentials_def r(1) s)
  show ?thesis by (simp add: from_legacy_environment_def r other t c Let_def cong: option.case_cong)
qed

theorem legacy_environment_hides_secrets_witness:
  "from_legacy_environment ((''PVE_API_TOKEN'', ''first'') # example_environ) =
   from_legacy_environment ((''PVE_API_TOKEN'', ''second'') # example_environ)"
  by (rule legacy_environment_hides_secrets) (simp, code_simp, code_simp)

end
