(* ===== verification/Run_History.thy ===== *)
theory Run_History
  imports Source_Operations
begin

text \<open>
  \<open>run_history.py\<close>: the durable history of synchronization runs over the table \<open>sync_runs\<close>, and
  the reading service \<open>application/runs.py\<close>. A run is inserted as RUNNING and finalized once; the
  lemmas show that a terminal record never changes again, that the counters and safe texts a
  run can hold are the closed ones, and what the history queries return.
\<close>

section \<open>Closed outcomes\<close>

definition ACTION_NAMES :: "string list" where
  "ACTION_NAMES = [''CREATE'', ''UPDATE'', ''NO_CHANGE'', ''REVIEW_REQUIRED'', ''BLOCKED'', ''IGNORED'',
     ''UNSUPPORTED'', ''RETAIN_ONLY'']"

definition ERROR_STATUS :: "(string \<times> run_status) list" where
  "ERROR_STATUS = [(''APPLY_LOCKED'', RUN_LOCKED), (''PLAN_BLOCKED'', RUN_BLOCKED),
     (''SOURCE_RECONCILIATION_REQUIRED'', RUN_BLOCKED), (''FAILED_BEFORE_WRITE'', RUN_FAILED_BEFORE_WRITE),
     (''PARTIALLY_APPLIED'', RUN_PARTIALLY_APPLIED), (''OUTCOME_UNCERTAIN'', RUN_OUTCOME_UNCERTAIN)]"

definition SAFE_ERROR_MESSAGES :: "(string \<times> string) list" where
  "SAFE_ERROR_MESSAGES =
     [(''APPLY_LOCKED'', ''Another synchronization is already running.''),
      (''PLAN_BLOCKED'', ''The synchronization plan contains blocking conditions.''),
      (''SOURCE_RECONCILIATION_REQUIRED'',
       ''Scheduled synchronization is blocked by unresolved previous writes or a pending manual sync after baseline acceptance. Review source recovery. No new plan was built and no writes were started.''),
      (''PLAN_STALE'', ''The synchronization plan is no longer current.''),
      (''CONFIRMATION_EXPIRED'', ''The synchronization confirmation expired.''),
      (''CONFIRMATION_INVALID'', ''The synchronization confirmation is invalid.''),
      (''CONFIRMATION_SOURCE_MISMATCH'', ''The confirmation does not match this source.''),
      (''FAILED_BEFORE_WRITE'', ''Synchronization failed before any changes were written.''),
      (''PARTIALLY_APPLIED'', ''Synchronization stopped after some changes were written.''),
      (''OUTCOME_UNCERTAIN'', ''The final NetBox state may be uncertain.''),
      (''APPLY_FAILED'', ''Synchronization failed.'')]"

definition terminal_status :: "string \<Rightarrow> run_status" where
  "terminal_status error_code = (case map_of ERROR_STATUS error_code of None \<Rightarrow> RUN_FAILED | Some s \<Rightarrow> s)"

text \<open>The argument is the attribute \<open>code\<close> of an exception, missing or of any kind.\<close>

definition safe_error_code :: "string option \<Rightarrow> string" where
  "safe_error_code error_code = (case error_code of None \<Rightarrow> ''APPLY_FAILED''
     | Some c \<Rightarrow> if c \<in> fst ` set SAFE_ERROR_MESSAGES then c else ''APPLY_FAILED'')"

definition safe_error_message :: "string \<Rightarrow> string" where
  "safe_error_message error_code = (case map_of SAFE_ERROR_MESSAGES error_code of
     None \<Rightarrow> ''Synchronization failed.'' | Some m \<Rightarrow> m)"

definition no_counts :: ActionCounts where
  "no_counts = \<lparr>c_create = 0, c_update = 0, c_no_change = 0, c_review_required = 0, c_blocked = 0,
     c_ignored = 0, c_unsupported = 0, c_retain_only = 0\<rparr>"

text \<open>\<open>ActionCounts.from_items\<close> on the actions of the items; an unknown action is not counted.\<close>

definition from_items :: "string list \<Rightarrow> ActionCounts" where
  "from_items actions = (let n = (\<lambda>a. int (count_list actions a)) in
     \<lparr>c_create = n ''CREATE'', c_update = n ''UPDATE'', c_no_change = n ''NO_CHANGE'',
      c_review_required = n ''REVIEW_REQUIRED'', c_blocked = n ''BLOCKED'', c_ignored = n ''IGNORED'',
      c_unsupported = n ''UNSUPPORTED'', c_retain_only = n ''RETAIN_ONLY''\<rparr>)"

definition count_values :: "ActionCounts \<Rightarrow> int list" where
  "count_values c = [c_create c, c_update c, c_no_change c, c_review_required c, c_blocked c, c_ignored c,
     c_unsupported c, c_retain_only c]"

section \<open>Validation\<close>

definition is_hex_char :: "char \<Rightarrow> bool" where
  "is_hex_char c = (is_digit_char c \<or> char_in 97 102 c)"

definition digest_ok :: "string \<Rightarrow> bool" where
  "digest_ok d = (length d = 64 \<and> list_all is_hex_char d)"

definition optional :: "('a \<Rightarrow> bool) \<Rightarrow> 'a option \<Rightarrow> bool" where
  "optional p v = (case v of None \<Rightarrow> True | Some x \<Rightarrow> p x)"

definition validate_source :: "string \<Rightarrow> string \<Rightarrow> unit result" where
  "validate_source source source_type =
     bindr (require (source_instance_ok source) (ValueError ''invalid source_instance'')) (\<lambda>_.
       require (source_type \<in> {''proxmox'', ''esxi''}) (ValueError ''invalid source_type''))"

definition validate_plan_columns :: "string option \<Rightarrow> string option \<Rightarrow> unit result" where
  "validate_plan_columns pdigest planner_version =
     bindr (require (optional digest_ok pdigest) (ValueError ''invalid plan_digest'')) (\<lambda>_.
       require (optional (\<lambda>v. length v \<le> 128) planner_version) (ValueError ''invalid planner_version''))"

section \<open>Writing\<close>

definition new_run ::
  "timestamp \<Rightarrow> uuid \<Rightarrow> string \<Rightarrow> string \<Rightarrow> run_trigger \<Rightarrow> string \<Rightarrow> string option \<Rightarrow> string option \<Rightarrow> run_row" where
  "new_run now run_id source source_type trigger created_by pdigest planner_version =
     \<lparr>r_id = run_id, r_instance = source, r_type = source_type, r_trigger = trigger, r_started_at = now,
      r_finished_at = None, r_duration_ms = None, r_status = RUN_RUNNING, r_digest = pdigest,
      r_planner = planner_version, r_counts = no_counts, r_code = None, r_message = None, r_created_by = created_by\<rparr>"

definition start_run ::
  "timestamp \<Rightarrow> uuid \<Rightarrow> string \<Rightarrow> string \<Rightarrow> run_trigger \<Rightarrow> string \<Rightarrow> string option \<Rightarrow> string option \<Rightarrow> run_row txn" where
  "start_run now run_id source source_type trigger created_by pdigest planner_version db =
     bindr (validate_source source source_type) (\<lambda>_.
     bindr (require (created_by \<noteq> [] \<and> length created_by \<le> 128) (ValueError ''invalid created_by'')) (\<lambda>_.
     bindr (validate_plan_columns pdigest planner_version) (\<lambda>_.
     let r = new_run now run_id source source_type trigger created_by pdigest planner_version in
     bindr (insert_run r db) (\<lambda>(_, db'). Inr (r, db')))))"

definition coalesce :: "'a option \<Rightarrow> 'a option \<Rightarrow> 'a option" where
  "coalesce a b = (case a of None \<Rightarrow> b | Some x \<Rightarrow> Some x)"

definition finish_row ::
  "timestamp \<Rightarrow> run_status \<Rightarrow> ActionCounts \<Rightarrow> string option \<Rightarrow> string option \<Rightarrow> string option \<Rightarrow> string option \<Rightarrow>
   run_row \<Rightarrow> run_row" where
  "finish_row now status counts pdigest planner_version error_code error_message r =
     r\<lparr>r_finished_at := Some now, r_duration_ms := Some (max 0 ((now - r_started_at r) div 1000)), r_status := status,
       r_digest := coalesce pdigest (r_digest r), r_planner := coalesce planner_version (r_planner r),
       r_counts := counts, r_code := error_code, r_message := error_message\<rparr>"

definition validate_error :: "string option \<Rightarrow> string option \<Rightarrow> unit result" where
  "validate_error error_code error_message = (case error_code of
     Some c \<Rightarrow> bindr (require (c \<in> fst ` set SAFE_ERROR_MESSAGES) (ValueError ''invalid error_code'')) (\<lambda>_.
       require (error_message = Some (safe_error_message c)) (ValueError ''invalid safe error message''))
   | None \<Rightarrow> require (error_message = None) (ValueError ''safe error message requires an error code''))"

definition finish_run ::
  "timestamp \<Rightarrow> uuid \<Rightarrow> run_status \<Rightarrow> ActionCounts option \<Rightarrow> string option \<Rightarrow> string option \<Rightarrow> string option \<Rightarrow>
   string option \<Rightarrow> run_row txn" where
  "finish_run now run_id status counts pdigest planner_version error_code error_message db =
     bindr (require (status \<noteq> RUN_RUNNING) (ValueError ''terminal status required'')) (\<lambda>_.
     let c = (case counts of None \<Rightarrow> no_counts | Some c \<Rightarrow> c) in
     bindr (require (list_all (\<lambda>v. 0 \<le> v) (count_values c)) (ValueError ''counts must be non-negative integers'')) (\<lambda>_.
     bindr (validate_plan_columns pdigest planner_version) (\<lambda>_.
     bindr (validate_error error_code error_message) (\<lambda>_.
     let p = (\<lambda>r. r_id r = run_id \<and> r_status r = RUN_RUNNING);
         f = finish_row now status c pdigest planner_version error_code error_message
     in case List.find p (sync_runs db) of
          None \<Rightarrow> Inl (ValueError ''run is missing or already terminal'')
        | Some r \<Rightarrow> Inr (f r, db\<lparr>sync_runs := update_where p f (sync_runs db)\<rparr>)))))"

definition bind_plan :: "uuid \<Rightarrow> string \<Rightarrow> string \<Rightarrow> unit txn" where
  "bind_plan run_id digest version db =
     bindr (require (digest_ok digest) (ValueError ''invalid digest'')) (\<lambda>_.
     let p = (\<lambda>r. r_id r = run_id \<and> r_status r = RUN_RUNNING \<and> r_digest r = None) in
     bindr (require (list_ex p (sync_runs db)) (ValueError ''run already bound'')) (\<lambda>_.
       Inr ((), db\<lparr>sync_runs := update_where p (\<lambda>r. r\<lparr>r_digest := Some digest, r_planner := Some version\<rparr>) (sync_runs db)\<rparr>)))"

section \<open>Reading\<close>

definition reconciliation_required :: "registry \<Rightarrow> string \<Rightarrow> bool" where
  "reconciliation_required db source = run_unconfirmed db source"

text \<open>
  The view \<open>recovery_schedule_blocks\<close>: a source with a valid baseline decision after which no
  manual run has succeeded yet.
\<close>

definition recovery_schedule_block :: "registry \<Rightarrow> string \<Rightarrow> bool" where
  "recovery_schedule_block db source = list_ex (\<lambda>a. rr_instance a = source \<and> rr_valid a \<and>
     \<not> list_ex (\<lambda>r. r_instance r = source \<and> r_trigger r = MANUAL \<and> r_status r = RUN_SUCCEEDED \<and>
       rr_created_at a < r_started_at r) (sync_runs db)) (run_reconciliations db)"

definition scheduled_reconciliation_required :: "registry \<Rightarrow> string \<Rightarrow> bool" where
  "scheduled_reconciliation_required db source =
     (reconciliation_required db source \<or> recovery_schedule_block db source)"

definition run_order :: "run_row \<Rightarrow> timestamp \<times> uuid" where
  "run_order r = (r_started_at r, r_id r)"

definition newest_first :: "run_row list \<Rightarrow> run_row list" where
  "newest_first rows = rev (sort_key run_order rows)"

definition plan_run :: "registry \<Rightarrow> string \<Rightarrow> string \<Rightarrow> timestamp \<Rightarrow> uuid option" where
  "plan_run db source digest finished_at =
     (case newest_first (filter (\<lambda>r. r_instance r = source \<and> r_digest r = Some digest \<and> finished_at \<le> r_started_at r)
              (sync_runs db)) of [] \<Rightarrow> None | r # _ \<Rightarrow> Some (r_id r))"

definition plan_used :: "registry \<Rightarrow> string \<Rightarrow> string \<Rightarrow> timestamp \<Rightarrow> bool" where
  "plan_used db source digest finished_at = (plan_run db source digest finished_at \<noteq> None)"

definition get_run :: "registry \<Rightarrow> uuid \<Rightarrow> run_row option" where
  "get_run db run_id = List.find (\<lambda>r. r_id r = run_id) (sync_runs db)"

record run_filter =
  fl_source :: "string option"
  fl_type :: "string option"
  fl_trigger :: "run_trigger option"
  fl_status :: "run_status option"
  fl_cursor :: "uuid option"

definition before_cursor :: "registry \<Rightarrow> uuid option \<Rightarrow> run_row \<Rightarrow> bool" where
  "before_cursor db cursor r = (case cursor of None \<Rightarrow> True
     | Some c \<Rightarrow> (case get_run db c of None \<Rightarrow> False | Some s \<Rightarrow> run_order r < run_order s))"

definition run_selected :: "registry \<Rightarrow> run_filter \<Rightarrow> run_row \<Rightarrow> bool" where
  "run_selected db f r = (optional (\<lambda>s. r_instance r = s) (fl_source f) \<and> optional (\<lambda>t. r_type r = t) (fl_type f) \<and>
     optional (\<lambda>t. r_trigger r = t) (fl_trigger f) \<and> optional (\<lambda>s. r_status r = s) (fl_status f) \<and>
     before_cursor db (fl_cursor f) r)"

definition list_runs :: "registry \<Rightarrow> run_filter \<Rightarrow> int \<Rightarrow> run_row list result" where
  "list_runs db f limit =
     bindr (require (1 \<le> limit \<and> limit \<le> 200) (ValueError ''limit must be between 1 and 200'')) (\<lambda>_.
     bindr (require (optional source_instance_ok (fl_source f)) (ValueError ''invalid source_instance'')) (\<lambda>_.
     bindr (require (optional (\<lambda>t. t \<in> {''proxmox'', ''esxi''}) (fl_type f)) (ValueError ''invalid source_type'')) (\<lambda>_.
       Inr (take (nat limit) (newest_first (filter (run_selected db f) (sync_runs db)))))))"

definition latest_by_source :: "registry \<Rightarrow> run_trigger option \<Rightarrow> run_status option \<Rightarrow> run_row list" where
  "latest_by_source db trigger status =
     (let rows = newest_first (filter (\<lambda>r. optional (\<lambda>t. r_trigger r = t) trigger \<and> optional (\<lambda>s. r_status r = s) status)
                  (sync_runs db))
      in map (\<lambda>s. hd (filter (\<lambda>r. r_instance r = s) rows)) (sort (remdups (map r_instance rows))))"

definition stale_running :: "registry \<Rightarrow> timestamp \<Rightarrow> int \<Rightarrow> run_row list result" where
  "stale_running db started_before limit =
     bindr (require (1 \<le> limit \<and> limit \<le> 100) (ValueError ''valid stale boundary and limit required'')) (\<lambda>_.
       Inr (take (nat limit) (sort_key run_order
         (filter (\<lambda>r. r_status r = RUN_RUNNING \<and> r_started_at r < started_before) (sync_runs db)))))"

section \<open>Reading service\<close>

text \<open>\<open>RunHistoryService\<close>: invalid filters and failures of the reader become two stable codes.\<close>

definition service_list_runs :: "registry \<Rightarrow> run_filter \<Rightarrow> int \<Rightarrow> run_row list result" where
  "service_list_runs db f limit =
     (if \<not> optional source_instance_ok (fl_source f) \<or> \<not> optional (\<lambda>t. t \<in> {''proxmox'', ''esxi''}) (fl_type f) \<or>
         \<not> (1 \<le> limit \<and> limit \<le> 200)
      then Inl (RunReadError ''RUN_FILTER_INVALID'')
      else case list_runs db f limit of Inr rows \<Rightarrow> Inr rows
        | Inl (ValueError _) \<Rightarrow> Inl (RunReadError ''RUN_FILTER_INVALID'')
        | Inl _ \<Rightarrow> Inl (RunReadError ''RUN_HISTORY_UNAVAILABLE''))"

definition service_get_run :: "registry \<Rightarrow> uuid \<Rightarrow> run_row result" where
  "service_get_run db run_id = (case get_run db run_id of None \<Rightarrow> Inl (RunReadError ''RUN_NOT_FOUND'') | Some r \<Rightarrow> Inr r)"

section \<open>Properties\<close>

subsection \<open>Pages of the history\<close>

lemma newest_first_filter: "newest_first (filter p rows) = filter p (newest_first rows)"
  by (simp add: newest_first_def rev_filter[symmetric] filter_sort)

lemma set_newest_first [simp]: "set (newest_first rows) = set rows"
  by (simp add: newest_first_def)

lemma length_newest_first [simp]: "length (newest_first rows) = length rows"
  by (simp add: newest_first_def)

lemma newest_first_decreasing:
  assumes "distinct (map r_id rows)"
  shows "sorted_wrt (\<lambda>a b. run_order b < run_order a) (newest_first rows)"
proof -
  have "distinct (map run_order rows)"
    using assms by (auto simp: run_order_def distinct_map inj_on_def)
  then have "distinct (map run_order (sort_key run_order rows))"
    by (metis distinct_map distinct_sort set_sort)
  then have "sorted_wrt (\<lambda>a b. run_order a < run_order b) (sort_key run_order rows)"
    using sorted_sort_key[of run_order rows] strict_sorted_iff[of "map run_order (sort_key run_order rows)"]
    by (simp add: sorted_wrt_map)
  then show ?thesis by (simp add: newest_first_def sorted_wrt_rev)
qed

lemma decreasing_filter_drop:
  assumes "sorted_wrt (\<lambda>a b. f b < (f a :: 'b :: linorder)) rows" "n < length rows"
  shows "filter (\<lambda>r. f r < f (rows ! n)) rows = drop (Suc n) rows"
  using assms
proof (induction rows arbitrary: n)
  case (Cons a rows)
  show ?case
  proof (cases n)
    case 0
    then show ?thesis using Cons.prems by (auto simp: filter_id_conv)
  next
    case (Suc m)
    then have "\<not> f a < f (rows ! m)" using Cons.prems by (metis Suc_less_eq length_Cons not_less_iff_gr_or_eq nth_mem sorted_wrt.simps(2))
    then show ?thesis using Suc Cons by simp
  qed
qed simp

lemma run_selected_cursor:
  "run_selected db (f\<lparr>fl_cursor := c\<rparr>) r \<longleftrightarrow> run_selected db (f\<lparr>fl_cursor := None\<rparr>) r \<and> before_cursor db c r"
  by (auto simp: run_selected_def before_cursor_def)

lemma get_run_member: "distinct (map r_id (sync_runs db)) \<Longrightarrow> r \<in> set (sync_runs db) \<Longrightarrow> get_run db (r_id r) = Some r"
  by (simp add: get_run_def find_distinct)

lemma cursor_page:
  assumes d: "distinct (map r_id (sync_runs db))" and c: "fl_cursor f = None" and m: "0 < m"
    and all: "all = newest_first (filter (run_selected db f) (sync_runs db))" and ne: "take m all \<noteq> []"
  shows "newest_first (filter (run_selected db (f\<lparr>fl_cursor := Some (r_id (last (take m all)))\<rparr>)) (sync_runs db)) = drop m all"
proof -
  let ?i = "min m (length all) - 1"
  have f: "f\<lparr>fl_cursor := None\<rparr> = f" using c by simp
  have last: "last (take m all) = all ! ?i" and i: "?i < length all"
    using ne m by (auto simp: last_conv_nth min_def)
  have "all ! ?i \<in> set (sync_runs db)" using i nth_mem[of ?i all] by (auto simp: all)
  then have g: "before_cursor db (Some (r_id (all ! ?i))) r \<longleftrightarrow> run_order r < run_order (all ! ?i)" for r
    using get_run_member[OF d] by (simp add: before_cursor_def)
  have dd: "distinct (map r_id (filter (run_selected db f) (sync_runs db)))" using d by (rule distinct_map_filter)
  have "newest_first (filter (run_selected db (f\<lparr>fl_cursor := Some (r_id (last (take m all)))\<rparr>)) (sync_runs db)) =
      newest_first (filter (\<lambda>r. run_order r < run_order (all ! ?i)) (filter (run_selected db f) (sync_runs db)))"
    unfolding last run_selected_cursor[of db _ f] f g by (simp add: conj_commute)
  also have "\<dots> = filter (\<lambda>r. run_order r < run_order (all ! ?i)) all"
    unfolding newest_first_filter by (simp add: all newest_first_filter)
  also have "\<dots> = drop (Suc ?i) all"
    using decreasing_filter_drop[OF newest_first_decreasing[OF dd, folded all] i] .
  also have "\<dots> = drop m all" using m i by (auto simp: min_def)
  finally show ?thesis .
qed

lemma list_runs_Inr:
  "list_runs db f limit = Inr rows \<Longrightarrow> 1 \<le> limit \<and> limit \<le> 200 \<and>
     rows = take (nat limit) (newest_first (filter (run_selected db f) (sync_runs db)))"
  by (auto simp: list_runs_def)

text \<open>
  C29: Paging through the history loses and repeats nothing: a page followed by the page that
  starts at its last run is exactly the longer prefix of the selected runs, newest first, and
  no page holds more than the 200 runs a caller may ask for.
\<close>
theorem list_runs_pages:
  assumes "distinct (map r_id (sync_runs db))" "fl_cursor f = None" "list_runs db f m = Inr page" "page \<noteq> []"
    and "list_runs db (f\<lparr>fl_cursor := Some (r_id (last page))\<rparr>) n = Inr page2"
  shows "page @ page2 = take (nat (m + n)) (newest_first (filter (run_selected db f) (sync_runs db))) \<and>
    length page \<le> 200 \<and> length page2 \<le> 200"
proof -
  define all where "all = newest_first (filter (run_selected db f) (sync_runs db))"
  have m: "1 \<le> m" "m \<le> 200" "page = take (nat m) all" using list_runs_Inr[OF assms(3)] by (auto simp: all_def)
  have n: "1 \<le> n" "n \<le> 200" "page2 = take (nat n)
      (newest_first (filter (run_selected db (f\<lparr>fl_cursor := Some (r_id (last page))\<rparr>)) (sync_runs db)))"
    using list_runs_Inr[OF assms(5)] by auto
  have "page2 = take (nat n) (drop (nat m) all)"
    unfolding n(3) m(3) using cursor_page[OF assms(1,2), of "nat m" all] m(1) assms(4) by (simp add: all_def m(3))
  then show ?thesis using m n take_add[of "nat m" "nat n" all]
    by (auto simp: all_def[symmetric] nat_add_distrib min_def)
qed

definition history_run :: "nat \<Rightarrow> run_row" where
  "history_run i = (new_run (int i) (''run'' @ [char_of (48 + i)]) ''pve-a'' ''proxmox'' SCHEDULED ''scheduler'' None None)
     \<lparr>r_status := RUN_SUCCEEDED, r_finished_at := Some (int i + 1)\<rparr>"

definition history_registry :: registry where
  "history_registry = example_registry\<lparr>sync_runs := map history_run [0, 2, 1, 3]\<rparr>"

definition all_runs :: run_filter where
  "all_runs = \<lparr>fl_source = Some ''pve-a'', fl_type = None, fl_trigger = None, fl_status = None, fl_cursor = None\<rparr>"

theorem list_runs_pages_witness:
  "\<exists>page page2. list_runs history_registry all_runs 2 = Inr page \<and>
     list_runs history_registry (all_runs\<lparr>fl_cursor := Some (r_id (last page))\<rparr>) 2 = Inr page2 \<and>
     page @ page2 = map history_run [3, 2, 1, 0]"
proof -
  have d: "distinct (map r_id (sync_runs history_registry))" by code_simp
  have p: "list_runs history_registry all_runs 2 = Inr (map history_run [3, 2])" by code_simp
  have q: "list_runs history_registry (all_runs\<lparr>fl_cursor := Some (r_id (last (map history_run [3, 2])))\<rparr>) 2 =
    Inr (map history_run [1, 0])" by code_simp
  have "newest_first (filter (run_selected history_registry all_runs) (sync_runs history_registry)) = map history_run [3, 2, 1, 0]"
    by code_simp
  with p q list_runs_pages[OF d _ p _ q] show ?thesis by (intro exI) (auto simp: all_runs_def)
qed

subsection \<open>Finishing a run\<close>

lemma update_where_find:
  assumes "distinct (map k rows)" "List.find p rows = Some r" "\<And>x. p x \<Longrightarrow> k x = i" "\<And>x. k (f x) = k x"
  shows "List.find (\<lambda>x. k x = i) (update_where p f rows) = Some (f r)"
  using assms
proof (induction rows)
  case (Cons a rows)
  show ?case
  proof (cases "p a")
    case True
    then show ?thesis using Cons.prems by (simp add: update_where_def)
  next
    case False
    then have r: "List.find p rows = Some r" using Cons.prems(2) by simp
    then have "k r = i" "r \<in> set rows" using find_SomeD Cons.prems(3) by fastforce+
    then have "k a \<noteq> i" using Cons.prems(1) by auto
    then show ?thesis using Cons.IH[OF _ r] Cons.prems False by (simp add: update_where_def)
  qed
qed simp

lemma find_update_none: "(\<And>x. \<not> p (f x)) \<Longrightarrow> List.find p (update_where p f rows) = None"
  by (auto simp: find_none set_update_where)

lemma finish_run_found:
  assumes "finish_run now run_id st counts pd pv code msg db = Inr (r, db')"
  shows "\<exists>c q. st \<noteq> RUN_RUNNING \<and> List.find (\<lambda>r. r_id r = run_id \<and> r_status r = RUN_RUNNING) (sync_runs db) = Some q \<and>
    r = finish_row now st c pd pv code msg q \<and> validate_error code msg = Inr () \<and>
    db' = db\<lparr>sync_runs := update_where (\<lambda>r. r_id r = run_id \<and> r_status r = RUN_RUNNING)
       (finish_row now st c pd pv code msg) (sync_runs db)\<rparr>"
  using assms unfolding finish_run_def Let_def bindr_Inr_conv
  by (intro exI[of _ "case counts of None \<Rightarrow> no_counts | Some c \<Rightarrow> c"],
      cases "List.find (\<lambda>r. r_id r = run_id \<and> r_status r = RUN_RUNNING) (sync_runs db)") auto

lemma finish_run_refused:
  assumes "List.find (\<lambda>r. r_id r = run_id \<and> r_status r = RUN_RUNNING) (sync_runs db) = None"
  shows "\<exists>e. finish_run now run_id st counts pd pv code msg db = Inl e"
proof (cases "finish_run now run_id st counts pd pv code msg db")
  case (Inr a)
  then have "finish_run now run_id st counts pd pv code msg db = Inr (fst a, snd a)" by simp
  from finish_run_found[OF this] show ?thesis using assms by simp
qed simp

text \<open>
  C28: A run is finished once. Finishing it stores the returned record under its identifier, with
  the terminal status, a finish time, a duration that is never negative and a message that is
  the closed text of its error code, and leaves every other run as it was; finishing it again is
  refused, whatever the second outcome is.
\<close>
theorem finish_run_once:
  assumes "distinct (map r_id (sync_runs db))"
    and "finish_run now run_id st counts pd pv code msg db = Inr (r, db')"
  shows "get_run db' run_id = Some r \<and> r_status r = st \<and> st \<noteq> RUN_RUNNING \<and> r_finished_at r = Some now \<and>
    (\<exists>d. r_duration_ms r = Some d \<and> 0 \<le> d) \<and> r_message r = map_option safe_error_message (r_code r) \<and>
    filter (\<lambda>q. r_id q \<noteq> run_id) (sync_runs db') = filter (\<lambda>q. r_id q \<noteq> run_id) (sync_runs db) \<and>
    (\<exists>e. finish_run now2 run_id st2 counts2 pd2 pv2 code2 msg2 db' = Inl e)"
proof -
  let ?p = "\<lambda>r. r_id r = run_id \<and> r_status r = RUN_RUNNING"
  obtain c q where f: "st \<noteq> RUN_RUNNING" "List.find ?p (sync_runs db) = Some q"
    "r = finish_row now st c pd pv code msg q" "validate_error code msg = Inr ()"
    "db' = db\<lparr>sync_runs := update_where ?p (finish_row now st c pd pv code msg) (sync_runs db)\<rparr>"
    using finish_run_found[OF assms(2)] by (elim exE conjE) (rule that)
  have keys: "r_id (finish_row now st c pd pv code msg x) = r_id x" for x by (simp add: finish_row_def)
  have 1: "get_run db' run_id = Some r"
    using update_where_find[OF assms(1) f(2), of run_id "finish_row now st c pd pv code msg"] keys
    by (simp add: get_run_def f(3,5))
  have 2: "msg = map_option safe_error_message code"
    using f(4) by (auto simp: validate_error_def split: option.splits)
  have 3: "filter (\<lambda>q. r_id q \<noteq> run_id) (sync_runs db') = filter (\<lambda>q. r_id q \<noteq> run_id) (sync_runs db)"
    unfolding f(5) by (simp, rule filter_update_where) (auto simp: keys)
  have "List.find ?p (sync_runs db') = None"
    unfolding f(5) by (simp, rule find_update_none) (simp add: finish_row_def f(1))
  then have 4: "\<exists>e. finish_run now2 run_id st2 counts2 pd2 pv2 code2 msg2 db' = Inl e"
    by (rule finish_run_refused)
  have "r_status r = st" "r_finished_at r = Some now" "\<exists>d. r_duration_ms r = Some d \<and> 0 \<le> d" "r_message r = msg" "r_code r = code"
    by (simp_all add: f(3) finish_row_def)
  then show ?thesis using 1 2 3 4 f(1) by (intro conjI) simp_all
qed

definition running_registry :: registry where
  "running_registry = example_registry\<lparr>sync_runs := [new_run 5000 ''run1'' ''pve-a'' ''proxmox'' MANUAL ''admin'' None None]\<rparr>"

theorem finish_run_once_witness:
  "\<exists>r db'. finish_run 2000 ''run1'' RUN_SUCCEEDED None None None None None running_registry = Inr (r, db') \<and>
     get_run db' ''run1'' = Some r \<and> (\<exists>d. r_duration_ms r = Some d \<and> 0 \<le> d)"
proof -
  have "\<not> isl (finish_run 2000 ''run1'' RUN_SUCCEEDED None None None None None running_registry)" by code_simp
  then obtain r db' where f: "finish_run 2000 ''run1'' RUN_SUCCEEDED None None None None None running_registry = Inr (r, db')"
    by (cases "finish_run 2000 ''run1'' RUN_SUCCEEDED None None None None None running_registry") auto
  have "distinct (map r_id (sync_runs running_registry))" by (simp add: running_registry_def)
  then show ?thesis using finish_run_once[OF _ f] f by auto
qed


end
