(* ===== verification/Host_Identity.thy ===== *)
theory Host_Identity
  imports Retirement_Journal Run_History
begin

text \<open>
  \<open>host_registration.py\<close>, \<open>legacy_admission.py\<close> and \<open>source_identity_verification.py\<close>: the hardware
  identity of an ESXi source, its durable reservation before registration, and the two
  decisions an administrator can record for a source registered before identities existed.
  The pydantic models of the interface and the digest of \<open>uuid5\<close> are arguments; the outcome of
  the tried locks is an argument as well.
\<close>

section \<open>UUID texts\<close>

text \<open>\<open>text.replace(old, "")\<close>, \<open>int(text, 16)\<close> as the digits it reads, and \<open>UUID(text)\<close> as its canonical text.\<close>

function py_remove :: "string \<Rightarrow> string \<Rightarrow> string" where
  "py_remove old s = (if s = [] then []
     else if old \<noteq> [] \<and> take (length old) s = old then py_remove old (drop (length old) s)
     else hd s # py_remove old (tl s))"
  by pat_completeness auto
termination by (relation "measure (\<lambda>(old, s). length s)") auto

declare py_remove.simps [simp del]

definition hex_char :: "char \<Rightarrow> bool" where
  "hex_char c = (is_digit_char c \<or> char_in 97 102 c \<or> char_in 65 70 c)"

fun hex_groups :: "string \<Rightarrow> string option" where
  "hex_groups [] = None"
| "hex_groups [c] = (if hex_char c then Some [char_lower c] else None)"
| "hex_groups (c # d # cs) = (if hex_char c
     then map_option (\<lambda>ds. char_lower c # ds) (if d = CHR ''_'' then hex_groups cs else hex_groups (d # cs)) else None)"

definition unsigned_hex :: "string \<Rightarrow> string option" where
  "unsigned_hex s =
     (if take 2 s \<in> {''0x'', ''0X''} then hex_groups (if take 1 (drop 2 s) = ''_'' then drop 3 s else drop 2 s)
      else hex_groups s)"

definition hex_digits :: "string \<Rightarrow> string option" where
  "hex_digits text = (let s = py_strip text in unsigned_hex (if take 1 s = ''+'' then drop 1 s else s))"

definition uuid_text :: "string \<Rightarrow> uuid" where
  "uuid_text h = take 8 h @ ''-'' @ take 4 (drop 8 h) @ ''-'' @ take 4 (drop 12 h) @ ''-'' @ take 4 (drop 16 h) @ ''-'' @ drop 20 h"

definition strip_braces :: "string \<Rightarrow> string" where
  "strip_braces s = rev (dropWhile (\<lambda>c. c \<in> set ''{}'') (rev (dropWhile (\<lambda>c. c \<in> set ''{}'') s)))"

definition py_uuid :: "string \<Rightarrow> uuid result" where
  "py_uuid text = (let h = filter (\<lambda>c. c \<noteq> CHR ''-'') (strip_braces (py_remove ''uuid:'' (py_remove ''urn:'' text))) in
     if length h \<noteq> 32 then Inl (ValueError ''badly formed hexadecimal UUID string'')
     else case hex_digits h of
       None \<Rightarrow> Inl (ValueError ''invalid literal for int() with base 16'')
     | Some ds \<Rightarrow> Inr (uuid_text (replicate (32 - length ds) (CHR ''0'') @ ds)))"

text \<open>\<open>UUID(str(d[k]))\<close> succeeds.\<close>

definition uuid_member :: "pydict \<Rightarrow> string \<Rightarrow> bool" where
  "uuid_member d k = (case map_of d k of None \<Rightarrow> False
     | Some v \<Rightarrow> (case py_uuid (py_str v) of Inl _ \<Rightarrow> False | Inr _ \<Rightarrow> True))"

section \<open>Hardware identities\<close>

definition normalized_uuid :: "pyval \<Rightarrow> uuid option" where
  "normalized_uuid v = (if v = PNone then None else
     let candidate = py_strip (py_str v) in
     if candidate = [] then None else
     let inner = (if hd candidate = CHR ''{'' \<and> last candidate = CHR ''}'' then butlast (tl candidate) else candidate);
         compact = filter (\<lambda>c. c \<noteq> CHR '' '') (filter (\<lambda>c. c \<noteq> CHR ''-'') inner)
     in if \<not> (length compact = 32 \<and> list_all hex_char compact) then None
        else if list_all (\<lambda>c. c = CHR ''0'') compact then None
        else Some (uuid_text (py_lower compact)))"

definition HOST_UUID_SENTINELS :: "uuid list" where
  "HOST_UUID_SENTINELS = [''00000000-0000-0000-0000-000000000001'', ''ffffffff-ffff-ffff-ffff-ffffffffffff'']"

definition validated_host_hardware_uuid :: "pyval \<Rightarrow> uuid option" where
  "validated_host_hardware_uuid v = (case normalized_uuid v of None \<Rightarrow> None
     | Some candidate \<Rightarrow> if candidate \<in> set HOST_UUID_SENTINELS then None else Some candidate)"

definition host_conflict :: "string \<Rightarrow> string option \<Rightarrow> exn" where
  "host_conflict code source = HostRegistrationConflict code source [] False"

definition esxi_anchor :: "pyval \<Rightarrow> uuid result" where
  "esxi_anchor preview = (case preview of
     PDict p \<Rightarrow>
       if \<not> py_eq (dget p ''provider'') (PStr ''esxi'') then Inl (host_conflict ''HOST_IDENTITY_UNAVAILABLE'' None)
       else (case dget p ''hosts'' of
           PList [host] \<Rightarrow>
             (case validated_host_hardware_uuid (case host of PDict h \<Rightarrow> dget h ''id'' | _ \<Rightarrow> PNone) of
                None \<Rightarrow> Inl (host_conflict ''HOST_IDENTITY_UNAVAILABLE'' None) | Some anchor \<Rightarrow> Inr anchor)
         | _ \<Rightarrow> Inl (host_conflict ''HOST_IDENTITY_UNAVAILABLE'' None))
   | _ \<Rightarrow> Inl (host_conflict ''HOST_IDENTITY_UNAVAILABLE'' None))"

text \<open>The identity of an explicit verification, unless a recorded host shows another one.\<close>

definition host_agrees :: "uuid \<Rightarrow> pyval \<Rightarrow> bool" where
  "host_agrees anchor host = (case host of
     PDict h \<Rightarrow> (case validated_host_hardware_uuid (dget h ''id'') of None \<Rightarrow> True | Some r \<Rightarrow> r = anchor)
   | _ \<Rightarrow> False)"

definition proved_anchor :: "pyval \<Rightarrow> pyval \<Rightarrow> uuid option" where
  "proved_anchor pf mapping = (case pf of
     PDict p \<Rightarrow>
       if \<not> (py_eq (dget p ''provider'') (PStr ''esxi'') \<and> py_eq (dget p ''version'') (PInt 1)) then None
       else (case validated_host_hardware_uuid (dget p ''hardware_uuid'') of None \<Rightarrow> None
         | Some anchor \<Rightarrow> if \<not> uuid_member p ''verification_id'' then None
             else (case (case mapping of PDict m \<Rightarrow> dget_default m ''hosts'' (PList []) | _ \<Rightarrow> PList []) of
                 PList hosts \<Rightarrow> if list_all (host_agrees anchor) hosts then Some anchor else None
               | _ \<Rightarrow> None))
   | _ \<Rightarrow> None)"

definition legacy_anchor :: "pydict \<Rightarrow> uuid option" where
  "legacy_anchor settings =
     (let mapping = dget settings ''onboarding_mapping''; pf = dget settings ''provider_identity'' in
      if pf \<noteq> PNone then proved_anchor pf mapping
      else (case mapping of
          PDict m \<Rightarrow> (case esxi_anchor (PDict [(''provider'', PStr ''esxi''), (''hosts'', dget m ''hosts'')]) of
              Inl _ \<Rightarrow> None | Inr anchor \<Rightarrow> Some anchor)
        | _ \<Rightarrow> None))"

definition observed_anchor :: "pyval \<Rightarrow> uuid option" where
  "observed_anchor decision = (case decision of
     PDict d \<Rightarrow> if py_eq (dget d ''state'') (PStr ''OBSERVED_ENDPOINT'') \<and> uuid_member d ''operation_id''
         then validated_host_hardware_uuid (dget d ''observed_uuid'') else None
   | _ \<Rightarrow> None)"

definition registration_anchor :: "pydict \<Rightarrow> uuid option" where
  "registration_anchor settings = (case legacy_anchor settings of Some anchor \<Rightarrow> Some anchor
     | None \<Rightarrow> observed_anchor (dget_default settings ''legacy_admission'' (PDict [])))"

section \<open>Decisions on a source without an identity\<close>

text \<open>
  \<open>isolated\<close> parses the recorded operation without \<open>str\<close>: a value that is neither text nor null has
  no \<open>replace\<close>, which is not among the exceptions it handles.
\<close>

definition admission_of :: "source_row \<Rightarrow> pyval" where
  "admission_of row = dget_default (s_settings row) ''legacy_admission'' (PDict [])"

definition stopped :: "source_row \<Rightarrow> bool" where
  "stopped row = (\<not> s_enabled row \<and> \<not> s_sync_enabled row)"

definition isolated :: "source_row \<Rightarrow> bool result" where
  "isolated row = (case admission_of row of
     PDict d \<Rightarrow> (case map_of d ''operation_id'' of
         None \<Rightarrow> Inr False
       | Some PNone \<Rightarrow> Inr False
       | Some (PStr t) \<Rightarrow> (case py_uuid t of Inl _ \<Rightarrow> Inr False
           | Inr _ \<Rightarrow> Inr (py_eq (dget d ''state'') (PStr ''ISOLATED_UNPROVED'') \<and> stopped row))
       | Some _ \<Rightarrow> Inl (AttributeError ''replace''))
   | _ \<Rightarrow> Inr False)"

definition resolved_for_admission :: "source_row \<Rightarrow> bool result" where
  "resolved_for_admission row = bindr (isolated row) (\<lambda>i. Inr (i \<or> (case admission_of row of
     PDict d \<Rightarrow> py_eq (dget d ''state'') (PStr ''OBSERVED_ENDPOINT'') \<and>
       registration_anchor (s_settings row) \<noteq> None \<and> stopped row
   | _ \<Rightarrow> False)))"

section \<open>Reservations\<close>

definition live_rows :: "registry \<Rightarrow> source_row list result" where
  "live_rows db = (case sort (map a_instance (filter (\<lambda>a. a_verified_at a = None) (source_archives db))) of
     pending # _ \<Rightarrow> Inl (host_conflict ''HOST_ARCHIVE_RECHECK_REQUIRED'' (Some pending))
   | [] \<Rightarrow> Inr (filter (\<lambda>s. s_type s = ''esxi'' \<and> \<not> archived db (s_instance s)) (sources db)))"

text \<open>Enabled sources whose identity is unknown and on which no decision is recorded.\<close>

definition unknown_source :: "source_row \<Rightarrow> bool result" where
  "unknown_source row = (if s_enabled row \<and> legacy_anchor (s_settings row) = None
     then bindr (resolved_for_admission row) (\<lambda>r. Inr (\<not> r)) else Inr False)"

fun unknown_sources :: "source_row list \<Rightarrow> string list result" where
  "unknown_sources [] = Inr []"
| "unknown_sources (row # rows) = bindr (unknown_source row) (\<lambda>unknown.
     bindr (unknown_sources rows) (\<lambda>rest. Inr (if unknown then s_instance row # rest else rest)))"

text \<open>\<open>any(...)\<close> over the same test stops at the first such source: the sequence of an \<open>or\<close>.\<close>

definition some_unknown :: "source_row list \<Rightarrow> bool result" where
  "some_unknown rows = or_chain (map unknown_source rows)"

definition existing_conflict :: "registry \<Rightarrow> string list \<Rightarrow> exn" where
  "existing_conflict db existing = (case existing of
     [source] \<Rightarrow>
       if removed_row db source = None then host_conflict ''HOST_ALREADY_REGISTERED'' (Some source)
       else (case source_of db source of None \<Rightarrow> TypeError ''NoneType object is not subscriptable''
         | Some row \<Rightarrow> host_conflict
             (if legacy_anchor (s_settings row) = None \<or>
                 list_ex (\<lambda>r. ret_instance r = source \<and> ret_state r = RET_FINALIZED) (source_retirements db)
              then ''HOST_SOURCE_ARCHIVE_REQUIRED'' else ''HOST_SOURCE_REMOVED'') (Some source))
   | _ \<Rightarrow> HostRegistrationConflict ''HOST_IDENTITY_CONFLICT'' None
       (map (\<lambda>s. (s, if removed_row db s = None then ''REGISTERED'' else ''REMOVED'')) (take 100 existing))
       (100 < length existing))"

text \<open>The two refusals that precede a new reservation, in the order of \<open>check\<close> and \<open>reserve\<close>.\<close>

definition admissible :: "registry \<Rightarrow> uuid \<Rightarrow> unit result" where
  "admissible db anchor = bindr (live_rows db) (\<lambda>rows. bindr (unknown_sources rows) (\<lambda>unknown.
     let existing = sort (map s_instance (filter (\<lambda>s. registration_anchor (s_settings s) = Some anchor) rows)) in
     if existing \<noteq> [] then Inl (existing_conflict db existing)
     else case sort unknown of
       source # _ \<Rightarrow> Inl (host_conflict ''HOST_REGISTRY_REVIEW_REQUIRED'' (Some source))
     | [] \<Rightarrow> Inr ()))"

definition active_reservation :: "registry \<Rightarrow> uuid \<Rightarrow> reservation_row option" where
  "active_reservation db anchor = List.find (\<lambda>h. hr_provider h = ''esxi'' \<and> hr_anchor h = anchor \<and> hr_released_at h = None)
     (host_reservations db)"

definition check_host :: "registry \<Rightarrow> pyval \<Rightarrow> pydict option \<Rightarrow> string \<Rightarrow> unit result" where
  "check_host db preview resume actor = bindr (esxi_anchor preview) (\<lambda>anchor. bindr (admissible db anchor) (\<lambda>_.
     case active_reservation db anchor of
       Some h \<Rightarrow> bindr (case resume of None \<Rightarrow> Inr False
           | Some d \<Rightarrow> bindr (dindex d ''source_instance'') (\<lambda>source. bindr (dindex d ''registration_id'') (\<lambda>v.
               bindr (py_uuid (py_str v)) (\<lambda>operation.
                 Inr (py_eq source (PStr (hr_instance h)) \<and> operation = hr_operation h \<and> hr_actor h = actor))))) (\<lambda>same.
           require same (host_conflict ''HOST_REGISTRATION_RESERVED'' (Some (hr_instance h))))
     | None \<Rightarrow> require (resume = None) (host_conflict ''HOST_REGISTRATION_INVALID'' None)))"

text \<open>The unique keys of \<open>host_reservations\<close>.\<close>

definition insert_reservation :: "reservation_row \<Rightarrow> registry \<Rightarrow> registry result" where
  "insert_reservation h db = bindr (require (hr_instance h \<notin> hr_instance ` set (host_reservations db) \<and>
       active_reservation db (hr_anchor h) = None) (UniqueViolation ''host_reservations'')) (\<lambda>_.
     Inr (db\<lparr>host_reservations := host_reservations db @ [h]\<rparr>))"

text \<open>
  \<open>bind_intent\<close>. \<open>dto\<close> is what the registration model makes of a stored request: the request it
  would store again and its fingerprint. \<open>U\<close> is the text of \<open>uuid5\<close> in the fixed namespace.
\<close>

record broker_claim =
  credential_key :: string
  broker_operation :: string

definition claimed_by :: "registry \<Rightarrow> string \<Rightarrow> uuid \<Rightarrow> string \<Rightarrow> uuid \<Rightarrow> bool" where
  "claimed_by db source operation actor anchor = (case List.find (\<lambda>h. hr_instance h = source) (host_reservations db) of
     None \<Rightarrow> False | Some h \<Rightarrow> hr_operation h = operation \<and> hr_actor h = actor \<and> hr_anchor h = anchor)"

definition insert_intent :: "intent_row \<Rightarrow> registry \<Rightarrow> registry" where
  "insert_intent i db =
     (if list_ex (\<lambda>j. ri_instance j = ri_instance i \<or> ri_operation j = ri_operation i) (registration_intents db) then db
      else db\<lparr>registration_intents := registration_intents db @ [i]\<rparr>)"

definition bind_intent ::
  "(pydict \<Rightarrow> (pydict \<times> string) result) \<Rightarrow> (string \<Rightarrow> string) \<Rightarrow> timestamp \<Rightarrow> pyval \<Rightarrow> string \<Rightarrow> uuid \<Rightarrow> string \<Rightarrow> string \<Rightarrow>
   pydict option \<Rightarrow> broker_claim txn" where
  "bind_intent dto U now preview source operation actor fingerprint request db =
     bindr (require (digest_ok fingerprint) (host_conflict ''HOST_REGISTRATION_INVALID'' None)) (\<lambda>_.
     bindr (case request of None \<Rightarrow> Inr ()
       | Some d \<Rightarrow> bindr (dto d) (\<lambda>(durable, own). require (py_eq (PDict durable) (PDict d) \<and> own = fingerprint)
           (host_conflict ''HOST_REGISTRATION_INVALID'' None))) (\<lambda>_.
     bindr (esxi_anchor preview) (\<lambda>anchor.
     bindr (require (claimed_by db source operation actor anchor) (host_conflict ''HOST_REGISTRATION_INVALID'' None)) (\<lambda>_.
     let db1 = insert_intent \<lparr>ri_instance = source, ri_operation = operation, ri_actor = actor, ri_anchor = anchor,
           ri_fingerprint = fingerprint, ri_request = request, ri_created_at = now\<rparr> db
     in bindr (require (case List.find (\<lambda>i. ri_instance i = source) (registration_intents db1) of
            None \<Rightarrow> False
          | Some i \<Rightarrow> ri_operation i = operation \<and> ri_actor i = actor \<and> ri_anchor i = anchor \<and> ri_fingerprint i = fingerprint)
          (host_conflict ''HOST_REGISTRATION_INTENT_CHANGED'' None)) (\<lambda>_.
        let key = U (actor @ '':'' @ source @ '':'' @ operation)
        in Inr (\<lparr>credential_key = ''src-registration-'' @ key, broker_operation = key\<rparr>, db1))))))"

definition reserve ::
  "(pydict \<Rightarrow> (pydict \<times> string) result) \<Rightarrow> (string \<Rightarrow> string) \<Rightarrow> timestamp \<Rightarrow> bool \<Rightarrow> bool \<Rightarrow> pyval \<Rightarrow> string \<Rightarrow> pyval \<Rightarrow> string \<Rightarrow>
   (string \<times> pydict option) option \<Rightarrow> uuid txn" where
  "reserve dto U now admission_free host_free preview source operation_id actor intent db =
     bindr (esxi_anchor preview) (\<lambda>anchor.
     bindr (require (source_instance_ok source) (ValueError ''Invalid source identity'')) (\<lambda>_.
     bindr (case py_uuid (py_str operation_id) of Inl _ \<Rightarrow> Inl (host_conflict ''HOST_REGISTRATION_INVALID'' None)
            | Inr u \<Rightarrow> Inr u) (\<lambda>operation.
     bindr (require (actor \<noteq> [] \<and> length actor \<le> 200) (ValueError ''Invalid actor identity'')) (\<lambda>_.
     bindr (require (admission_free \<and> host_free) (host_conflict ''HOST_REGISTRATION_RESERVED'' None)) (\<lambda>_.
     bindr (admissible db anchor) (\<lambda>_.
     bindr (case active_reservation db anchor of
         Some h \<Rightarrow> bindr (require (hr_instance h = source \<and> hr_operation h = operation \<and> hr_actor h = actor)
           (host_conflict ''HOST_REGISTRATION_RESERVED'' (Some (hr_instance h)))) (\<lambda>_. Inr db)
       | None \<Rightarrow> insert_reservation \<lparr>hr_provider = ''esxi'', hr_anchor = anchor, hr_instance = source,
           hr_operation = operation, hr_actor = actor, hr_released_at = None\<rparr> db) (\<lambda>db1.
     bindr (case intent of None \<Rightarrow> Inr db1
       | Some (fingerprint, request) \<Rightarrow>
           bindr (bind_intent dto U now preview source operation actor fingerprint request db1) (\<lambda>(_, db2). Inr db2)) (\<lambda>db2.
       Inr (anchor, db2)))))))))"

text \<open>What an actor may learn of an attempt, and the check before the side effects of one.\<close>

definition registration_outcome :: "registry \<Rightarrow> string \<Rightarrow> pyval \<Rightarrow> string \<Rightarrow> string result" where
  "registration_outcome db source operation_id actor =
     bindr (case py_uuid (py_str operation_id) of Inl _ \<Rightarrow> Inl (host_conflict ''HOST_REGISTRATION_INVALID'' None)
            | Inr u \<Rightarrow> Inr u) (\<lambda>operation.
     Inr (case List.find (\<lambda>h. hr_instance h = source \<and> hr_operation h = operation \<and> hr_actor h = actor) (host_reservations db) of
       None \<Rightarrow> ''NO_BOUND_ATTEMPT''
     | Some h \<Rightarrow> if archived db source then ''GENERATION_CLOSED'' else
         (case source_of db source of None \<Rightarrow> ''OUTCOME_UNCERTAIN''
          | Some row \<Rightarrow> if legacy_anchor (s_settings row) \<noteq> Some (hr_anchor h) then ''IDENTITY_CONFLICT''
              else if removed_row db source \<noteq> None then ''RESTORE_REQUIRED'' else ''REGISTERED'')))"

definition registration_guard :: "bool \<Rightarrow> bool \<Rightarrow> registry \<Rightarrow> pyval \<Rightarrow> string \<Rightarrow> pyval \<Rightarrow> string \<Rightarrow> unit result" where
  "registration_guard admission_free host_free db preview source operation_id actor =
     bindr (esxi_anchor preview) (\<lambda>anchor.
     bindr (require admission_free (host_conflict ''HOST_REGISTRATION_RESERVED'' None)) (\<lambda>_.
     bindr (require host_free (host_conflict ''HOST_REGISTRATION_RESERVED'' (Some source))) (\<lambda>_.
     bindr (case active_reservation db anchor of None \<Rightarrow> Inr False
       | Some h \<Rightarrow> bindr (py_uuid (py_str operation_id)) (\<lambda>operation.
           Inr (hr_instance h = source \<and> hr_operation h = operation \<and> hr_actor h = actor))) (\<lambda>own.
     bindr (require own (host_conflict ''HOST_REGISTRATION_RESERVED'' (Some source))) (\<lambda>_.
     bindr (live_rows db) (\<lambda>rows.
     let existing = map s_instance (filter (\<lambda>s. registration_anchor (s_settings s) = Some anchor) rows) in
     if existing \<noteq> [] then Inl (existing_conflict db existing)
     else bindr (some_unknown rows) (\<lambda>unknown.
       require (\<not> unknown) (host_conflict ''HOST_REGISTRY_REVIEW_REQUIRED'' None))))))))"

definition pending_requests :: "(pydict \<Rightarrow> (pydict \<times> string) result) \<Rightarrow> registry \<Rightarrow> string \<Rightarrow> pydict list result" where
  "pending_requests dto db actor = mapr (\<lambda>i.
     bindr (case ri_request i of None \<Rightarrow> Inr PNone | Some d \<Rightarrow> bindr (dto d) (\<lambda>(durable, _). Inr (PDict durable))) (\<lambda>request.
       Inr [(''source_instance'', PStr (ri_instance i)), (''registration_id'', PStr (ri_operation i)),
            (''request'', request), (''created_at'', PStr (isoformat (ri_created_at i)))]))
     (take 100 (sort_key (\<lambda>i. - ri_created_at i)
       (filter (\<lambda>i. ri_actor i = actor \<and> source_of db (ri_instance i) = None) (registration_intents db))))"

section \<open>Claims on an identity\<close>

text \<open>The registry search both decisions make before they record an identity.\<close>

definition verified_archive :: "registry \<Rightarrow> string \<Rightarrow> bool" where
  "verified_archive db source = list_ex (\<lambda>a. a_instance a = source \<and> a_verified_at a \<noteq> None) (source_archives db)"

definition claims_identity :: "registry \<Rightarrow> uuid \<Rightarrow> source_row \<Rightarrow> bool" where
  "claims_identity db anchor s = (s_type s = ''esxi'' \<and> \<not> verified_archive db (s_instance s) \<and>
     registration_anchor (s_settings s) = Some anchor)"

definition claim_free :: "registry \<Rightarrow> string \<Rightarrow> uuid \<Rightarrow> bool" where
  "claim_free db source anchor = (\<not> list_ex (\<lambda>s. s_instance s \<noteq> source \<and> claims_identity db anchor s) (sources db) \<and>
     (case active_reservation db anchor of None \<Rightarrow> True | Some h \<Rightarrow> hr_instance h = source))"

definition stale_ready_plans :: "timestamp \<Rightarrow> string \<Rightarrow> registry \<Rightarrow> registry" where
  "stale_ready_plans now source db = db\<lparr>source_operations := update_where
     (\<lambda>r. o_instance r = source \<and> o_kind r = ''PLAN'' \<and> o_status r = OP_READY)
     (\<lambda>r. r\<lparr>o_status := OP_STALE, o_result := None, o_code := Some ''PLAN_STALE'', o_updated_at := now\<rparr>)
     (source_operations db)\<rparr>"

definition verification_of :: "registry \<Rightarrow> uuid \<Rightarrow> verification_row option" where
  "verification_of db operation = List.find (\<lambda>v. iv_id v = operation) (source_identity_verifications db)"

definition recovery_active :: "registry \<Rightarrow> string \<Rightarrow> bool" where
  "recovery_active db source =
     list_ex (\<lambda>r. rc_instance r = source \<and> rc_state r \<in> {REC_PREPARED, REC_CREDENTIALS_PENDING}) (source_recoveries db)"

definition source_quiet :: "registry \<Rightarrow> string \<Rightarrow> unit result" where
  "source_quiet db source =
     bindr (require (\<not> operation_running db source) (LifecycleError ''SOURCE_OPERATION_ACTIVE'')) (\<lambda>_.
       require (\<not> run_blocks db source) (LifecycleError ''SOURCE_APPLY_UNCONFIRMED''))"

definition same_verification :: "verification_row \<Rightarrow> string \<Rightarrow> string \<Rightarrow> string \<Rightarrow> pydict \<Rightarrow> bool" where
  "same_verification v source actor reviewed proof' = (iv_instance v = source \<and> iv_actor v = actor \<and> iv_revision v = reviewed \<and>
     py_eq (PDict (iv_proof v)) (PDict proof'))"

section \<open>Legacy admission\<close>

text \<open>\<open>LegacyAdmission._row\<close>: the source with the dates of its tombstone, which enter the revision.\<close>

definition opt_time :: "(timestamp \<Rightarrow> string) \<Rightarrow> timestamp option \<Rightarrow> pyval" where
  "opt_time fmt t = (case t of None \<Rightarrow> PNone | Some n \<Rightarrow> PStr (fmt n))"

definition legacy_row :: "registry \<Rightarrow> string \<Rightarrow> (source_row \<times> pydict) result" where
  "legacy_row db source = (case source_of db source of None \<Rightarrow> Inl (LifecycleError ''SOURCE_NOT_FOUND'')
     | Some row \<Rightarrow> bindr (require (s_type row = ''esxi'') (LifecycleError ''SOURCE_IDENTITY_UNSUPPORTED'')) (\<lambda>_.
         let t = List.find (\<lambda>t. t_instance t = source) (source_tombstones db)
         in Inr (row, source_dict row @ [(''removed_at'', opt_time datetime_str (map_option t_removed_at t)),
              (''restored_at'', opt_time datetime_str (Option.bind t t_restored_at))])))"

definition legacy_describe :: "(string \<Rightarrow> string) \<Rightarrow> registry \<Rightarrow> string \<Rightarrow> pydict result" where
  "legacy_describe H db source = bindr (legacy_row db source) (\<lambda>(row, columns). bindr (isolated row) (\<lambda>i.
     Inr [(''source_instance'', PStr source), (''name'', PStr (s_name row)), (''address'', dget columns ''address''),
          (''port'', dget_default (s_settings row) ''api_port'' (PInt 443)), (''verify_ssl'', dget columns ''verify_ssl''),
          (''revision'', PStr (revision H columns)),
          (''host_uuid'', (case registration_anchor (s_settings row) of None \<Rightarrow> PNone | Some a \<Rightarrow> PStr a)),
          (''state'', PStr (if removed_row db source \<noteq> None then ''REMOVED'' else if s_enabled row then ''ACTIVE'' else ''DISABLED'')),
          (''isolated'', PBool i), (''site_slug'', dget columns ''site_slug''), (''cluster_name'', dget columns ''cluster_name''),
          (''decision'', dget (s_settings row) ''legacy_admission'')]))"

definition legacy_status :: "registry \<Rightarrow> string \<Rightarrow> string \<Rightarrow> uuid \<Rightarrow> (string \<times> pydict) option" where
  "legacy_status db source actor operation =
     (case List.find (\<lambda>v. iv_id v = operation \<and> iv_instance v = source \<and> iv_actor v = actor) (source_identity_verifications db) of
        None \<Rightarrow> None
      | Some v \<Rightarrow> if py_eq (dget (iv_proof v) ''purpose'') (PStr ''LEGACY_ADMISSION'') then Some (iv_revision v, iv_proof v) else None)"

definition admission_proof :: "string \<Rightarrow> string \<Rightarrow> uuid option \<Rightarrow> pydict" where
  "admission_proof decision reason anchor = [(''purpose'', PStr ''LEGACY_ADMISSION''), (''decision'', PStr decision),
     (''reason'', PStr (py_strip reason)), (''anchor'', (case anchor of None \<Rightarrow> PNone | Some a \<Rightarrow> PStr a))]"

definition admission_decision :: "string \<Rightarrow> uuid \<Rightarrow> uuid option \<Rightarrow> pydict" where
  "admission_decision decision operation anchor =
     [(''state'', PStr (if decision = ''ISOLATE'' then ''ISOLATED_UNPROVED'' else ''OBSERVED_ENDPOINT'')),
      (''operation_id'', PStr operation), (''observed_uuid'', (case anchor of None \<Rightarrow> PNone | Some a \<Rightarrow> PStr a)),
      (''physical_identity_proved'', PBool False), (''object_ownership_proved'', PBool False)]"

text \<open>The checks before any lock: the identity an observation claims, none for an isolation.\<close>

definition admission_request :: "string \<Rightarrow> string \<Rightarrow> string \<Rightarrow> pyval \<Rightarrow> uuid option result" where
  "admission_request actor decision reason anchor =
     bindr (require (decision \<in> {''ISOLATE'', ''OBSERVE''} \<and> 1 \<le> length actor \<and> length actor \<le> 200 \<and>
         3 \<le> length (py_strip reason) \<and> length (py_strip reason) \<le> 500) (LifecycleError ''REQUEST_INVALID'')) (\<lambda>_.
     if decision = ''OBSERVE''
     then (case esxi_anchor (PDict [(''provider'', PStr ''esxi''), (''hosts'', PList [PDict [(''id'', anchor)]])]) of
         Inl _ \<Rightarrow> Inl (LifecycleError ''SOURCE_IDENTITY_UNPROVED'') | Inr a \<Rightarrow> Inr (Some a))
     else bindr (require (anchor = PNone) (LifecycleError ''REQUEST_INVALID'')) (\<lambda>_. Inr None))"

definition admission_check ::
  "(string \<Rightarrow> string) \<Rightarrow> registry \<Rightarrow> string \<Rightarrow> string \<Rightarrow> uuid option \<Rightarrow> source_row result" where
  "admission_check H db source expected_revision anchor =
     bindr (legacy_row db source) (\<lambda>(row, columns).
     bindr (require (revision H columns = expected_revision) (LifecycleError ''SOURCE_LIFECYCLE_CONFLICT'')) (\<lambda>_.
     bindr (require (registration_anchor (s_settings row) = None) (LifecycleError ''SOURCE_IDENTITY_CHANGED'')) (\<lambda>_.
     bindr (source_quiet db source) (\<lambda>_.
     bindr (require (\<not> recovery_active db source) (LifecycleError ''SOURCE_RECOVERY_ACTIVE'')) (\<lambda>_.
     bindr (case anchor of None \<Rightarrow> Inr ()
       | Some a \<Rightarrow> require (claim_free db source a) (LifecycleError ''SOURCE_IDENTITY_CONFLICT'')) (\<lambda>_. Inr row))))))"

definition legacy_confirm_txn ::
  "(string \<Rightarrow> string) \<Rightarrow> timestamp \<Rightarrow> string \<Rightarrow> string \<Rightarrow> uuid \<Rightarrow> string \<Rightarrow> string \<Rightarrow> string \<Rightarrow> uuid option \<Rightarrow> unit txn" where
  "legacy_confirm_txn H now source actor operation expected_revision decision reason anchor db =
     bindr (source_gate db source False False) (\<lambda>_.
     let proof' = admission_proof decision reason anchor in
     case verification_of db operation of
       Some v \<Rightarrow> bindr (require (same_verification v source actor expected_revision proof')
         (LifecycleError ''SOURCE_LIFECYCLE_CONFLICT'')) (\<lambda>_. Inr ((), db))
     | None \<Rightarrow> bindr (admission_check H db source expected_revision anchor) (\<lambda>row.
         let v = \<lparr>iv_id = operation, iv_instance = source, iv_actor = actor, iv_revision = expected_revision,
               iv_anchor = (case anchor of None \<Rightarrow> ''UNPROVED'' | Some a \<Rightarrow> a), iv_proof = proof'\<rparr>;
             settings = AList.update ''legacy_admission'' (PDict (admission_decision decision operation anchor)) (s_settings row);
             quarantine = (\<lambda>s. s\<lparr>s_settings := settings, s_enabled := False, s_sync_enabled := False\<rparr>)
         in Inr ((), stale_ready_plans now source (update_source source quarantine
              (db\<lparr>source_identity_verifications := source_identity_verifications db @ [v]\<rparr>)))))"

definition legacy_confirm ::
  "(string \<Rightarrow> string) \<Rightarrow> timestamp \<Rightarrow> bool \<Rightarrow> bool \<Rightarrow> string \<Rightarrow> string \<Rightarrow> uuid \<Rightarrow> string \<Rightarrow> string \<Rightarrow> string \<Rightarrow> pyval \<Rightarrow> unit proc" where
  "legacy_confirm H now apply_free admission_free source actor operation expected_revision decision reason anchor =
     bindp (pure (admission_request actor decision reason anchor)) (\<lambda>a.
     with_apply_lock apply_free (bindp (pure (require admission_free (LifecycleError ''SOURCE_LIFECYCLE_CONFLICT''))) (\<lambda>_.
       commit (legacy_confirm_txn H now source actor operation expected_revision decision reason a))))"

section \<open>Identity verification\<close>

text \<open>\<open>placement_control.row\<close> and the fresh discovery whose only host gives the identity.\<close>

definition active_row :: "registry \<Rightarrow> string \<Rightarrow> source_row result" where
  "active_row db source = (case source_of db source of
     Some row \<Rightarrow> if removed_row db source = None then Inr row else Inl (LifecycleError ''SOURCE_NOT_FOUND'')
   | None \<Rightarrow> Inl (LifecycleError ''SOURCE_NOT_FOUND''))"

definition fresh_discovery :: "timestamp \<Rightarrow> registry \<Rightarrow> string \<Rightarrow> operation_row option" where
  "fresh_discovery now db source = List.find (\<lambda>o'. o_instance o' = source \<and> o_kind o' = ''DISCOVERY'' \<and>
     o_status o' = OP_SUCCEEDED \<and> (case o_finished_at o' of None \<Rightarrow> False | Some t \<Rightarrow> now - seconds 600 < t)) (source_operations db)"

definition discovered_anchor :: "(pyval \<Rightarrow> pydict result) \<Rightarrow> string \<Rightarrow> pyval \<Rightarrow> uuid result" where
  "discovered_anchor host_dto source result =
     bindr (py_index result ''source_instance'') (\<lambda>s.
     bindr (require (py_eq s (PStr source)) (ValueError [])) (\<lambda>_.
     bindr (py_index result ''hosts'') (\<lambda>v. bindr (py_iter v) (\<lambda>items. bindr (mapr host_dto items) (\<lambda>hosts.
       esxi_anchor (PDict [(''provider'', PStr ''esxi''), (''hosts'', PList (map PDict hosts))]))))))"

record identity_evidence =
  ie_discovery :: uuid
  ie_host_uuid :: uuid
  ie_observed_at :: string

definition discovery_evidence ::
  "(pyval \<Rightarrow> pydict result) \<Rightarrow> timestamp \<Rightarrow> registry \<Rightarrow> string \<Rightarrow> identity_evidence result" where
  "discovery_evidence host_dto now db source = (case fresh_discovery now db source of
     None \<Rightarrow> Inl (LifecycleError ''SOURCE_DISCOVERY_REQUIRED'')
   | Some o' \<Rightarrow>
       (case discovered_anchor host_dto source (case o_result o' of None \<Rightarrow> PNone | Some d \<Rightarrow> PDict d) of
          Inl _ \<Rightarrow> Inl (LifecycleError ''SOURCE_DISCOVERY_REQUIRED'')
        | Inr anchor \<Rightarrow> (case o_finished_at o' of None \<Rightarrow> Inl (AttributeError ''isoformat'')
            | Some t \<Rightarrow> Inr \<lparr>ie_discovery = o_id o', ie_host_uuid = anchor, ie_observed_at = isoformat t\<rparr>)))"

definition describe_identity ::
  "(pyval \<Rightarrow> pydict result) \<Rightarrow> timestamp \<Rightarrow> registry \<Rightarrow> string \<Rightarrow> (source_row \<times> identity_evidence) result" where
  "describe_identity host_dto now db source =
     bindr (active_row db source) (\<lambda>row.
     bindr (require (s_type row = ''esxi'') (LifecycleError ''SOURCE_IDENTITY_UNSUPPORTED'')) (\<lambda>_.
     bindr (discovery_evidence host_dto now db source) (\<lambda>e. Inr (row, e))))"

text \<open>The ownership proof the guard read: bound to the source, its identity and its placement, without blockers.\<close>

definition owned_devices :: "pydict \<Rightarrow> nat result" where
  "owned_devices p = bindr (py_iter (dget_default p ''owned'' (PList []))) (\<lambda>items.
     bindr (mapr (\<lambda>i. py_get i ''kind'') items) (\<lambda>kinds. Inr (length (filter (\<lambda>k. py_eq k (PStr ''device'')) kinds))))"

definition proof_refusals :: "string \<Rightarrow> uuid \<Rightarrow> pydict \<Rightarrow> pydict \<Rightarrow> bool result list" where
  "proof_refusals source anchor columns p =
     [Inr (\<not> py_eq (dget p ''source_instance'') (PStr source)),
      Inr (\<not> py_eq (dget p ''host_uuid'') (PStr anchor)),
      Inr (\<not> py_eq (dget p ''blockers'') (PList [])),
      Inr (\<not> py_eq (dget p ''configured_target'')
         (PDict [(''site_slug'', dget columns ''site_slug''), (''cluster_name'', dget columns ''cluster_name'')])),
      Inr (\<not> positive_int (dget p ''site_id'') \<or> \<not> positive_int (dget p ''cluster_id'')),
      bindr (owned_devices p) (\<lambda>n. Inr (n \<noteq> 1))]"

definition verified_identity :: "uuid \<Rightarrow> uuid \<Rightarrow> pydict \<Rightarrow> pydict" where
  "verified_identity anchor operation p =
     [(''version'', PInt 1), (''provider'', PStr ''esxi''), (''hardware_uuid'', PStr anchor), (''verification_id'', PStr operation),
      (''site_id'', dget p ''site_id''), (''cluster_id'', dget p ''cluster_id'')]"

definition verify_identity_txn ::
  "(string \<Rightarrow> string) \<Rightarrow> (pyval \<Rightarrow> pydict result) \<Rightarrow> timestamp \<Rightarrow> bool \<Rightarrow> string \<Rightarrow> string \<Rightarrow> string \<Rightarrow> uuid \<Rightarrow> pyval \<Rightarrow> uuid txn" where
  "verify_identity_txn H host_dto now admission_free source actor expected_revision operation pf db =
     bindr (source_gate db source False False) (\<lambda>_.
     bindr (require admission_free (LifecycleError ''SOURCE_LIFECYCLE_CONFLICT'')) (\<lambda>_.
     case verification_of db operation of
       Some v \<Rightarrow> bindr (require (iv_instance v = source \<and> iv_actor v = actor \<and> iv_revision v = expected_revision \<and>
           py_eq (PDict (iv_proof v)) pf) (LifecycleError ''SOURCE_LIFECYCLE_CONFLICT'')) (\<lambda>_. Inr (iv_anchor v, db))
     | None \<Rightarrow>
         bindr (describe_identity host_dto now db source) (\<lambda>(row, e).
         let anchor = ie_host_uuid e in
         bindr (require (registration_anchor (s_settings row) \<in> {None, Some anchor}) (LifecycleError ''SOURCE_IDENTITY_CHANGED'')) (\<lambda>_.
         bindr (require (revision H (source_dict row) = expected_revision \<and> ie_discovery e = operation)
             (LifecycleError ''SOURCE_LIFECYCLE_CONFLICT'')) (\<lambda>_.
         bindr (source_quiet db source) (\<lambda>_.
         case pf of PDict p \<Rightarrow>
           bindr (refuse_if (proof_refusals source anchor (source_dict row) p) (LifecycleError ''SOURCE_IDENTITY_UNPROVED'')) (\<lambda>_.
           bindr (require (claim_free db source anchor) (LifecycleError ''SOURCE_IDENTITY_CONFLICT'')) (\<lambda>_.
           let v = \<lparr>iv_id = operation, iv_instance = source, iv_actor = actor, iv_revision = expected_revision,
                 iv_anchor = anchor, iv_proof = p\<rparr>;
               bind = (\<lambda>s. s\<lparr>s_settings := AList.update ''provider_identity'' (PDict (verified_identity anchor operation p))
                 (AList.delete ''legacy_admission'' (s_settings s))\<rparr>)
           in Inr (anchor, stale_ready_plans now source (update_source source bind
                (db\<lparr>source_identity_verifications := source_identity_verifications db @ [v]\<rparr>)))))
         | _ \<Rightarrow> Inl (LifecycleError ''SOURCE_IDENTITY_UNPROVED'')))))))"

definition verify_identity ::
  "(string \<Rightarrow> string) \<Rightarrow> (pyval \<Rightarrow> pydict result) \<Rightarrow> timestamp \<Rightarrow> bool \<Rightarrow> bool \<Rightarrow> string \<Rightarrow> string \<Rightarrow> string \<Rightarrow> uuid \<Rightarrow> pyval \<Rightarrow>
   uuid proc" where
  "verify_identity H host_dto now apply_free admission_free source actor expected_revision operation pf =
     bindp (pure (require (actor \<noteq> [] \<and> length actor \<le> 200) (LifecycleError ''REQUEST_INVALID''))) (\<lambda>_.
     with_apply_lock apply_free (commit (verify_identity_txn H host_dto now admission_free source actor expected_revision operation pf)))"

section \<open>Identities are their own text\<close>

lemma char_cases: "(\<forall>c :: char. P c) \<longleftrightarrow> list_all P Enum.enum"
  by (simp add: list_all_iff enum_UNIV)

lemma hex_char_lower:
  "hex_char c \<longrightarrow> hex_char (char_lower c) \<and> char_lower (char_lower c) = char_lower c \<and> \<not> py_space c \<and>
     char_lower c \<notin> set ''- {}'' \<and> (char_lower c = CHR ''0'' \<longrightarrow> c = CHR ''0'')"
proof -
  have "list_all (\<lambda>c. hex_char c \<longrightarrow> hex_char (char_lower c) \<and> char_lower (char_lower c) = char_lower c \<and> \<not> py_space c \<and>
     char_lower c \<notin> set ''- {}'' \<and> (char_lower c = CHR ''0'' \<longrightarrow> c = CHR ''0'')) Enum.enum"
    by code_simp
  then show ?thesis unfolding char_cases[symmetric] by blast
qed

lemma uuid_text_chars: "set (uuid_text h) \<subseteq> set h \<union> {CHR ''-''}"
  by (auto simp: uuid_text_def dest: in_set_takeD in_set_dropD)

lemma uuid_text_parts: "take 8 h @ take 4 (drop 8 h) @ take 4 (drop 12 h) @ take 4 (drop 16 h) @ drop 20 h = h"
proof -
  have "take 4 (drop n h) @ drop (n + 4) h = drop n h" for n
    using append_take_drop_id[of 4 "drop n h"] by (simp add: add.commute)
  from this[of 8] this[of 12] this[of 16] show ?thesis by (simp add: append_take_drop_id)
qed

lemma uuid_text_compact: "CHR ''-'' \<notin> set h \<Longrightarrow> filter (\<lambda>c. c \<noteq> CHR ''-'') (uuid_text h) = h"
proof -
  assume h: "CHR ''-'' \<notin> set h"
  have t: "filter (\<lambda>c. c \<noteq> CHR ''-'') (take n (drop k h)) = take n (drop k h)" "filter (\<lambda>c. c \<noteq> CHR ''-'') (drop k h) = drop k h" for n k
    using h by (auto intro!: filter_True dest: in_set_takeD in_set_dropD)
  show ?thesis using t(1)[of 8 0] by (simp add: uuid_text_def t uuid_text_parts)
qed

lemma py_strip_solid: "s \<noteq> [] \<Longrightarrow> \<not> py_space (hd s) \<Longrightarrow> \<not> py_space (last s) \<Longrightarrow> py_strip s = s"
proof -
  assume s: "s \<noteq> []" "\<not> py_space (hd s)" "\<not> py_space (last s)"
  then have 1: "dropWhile py_space s = s" by (cases s) auto
  have 2: "dropWhile py_space (rev s) = rev s" using s by (cases "rev s") (auto simp: hd_rev[symmetric] simp del: hd_rev)
  show ?thesis by (simp add: py_strip_def 1 2)
qed

lemma normalized_uuid_text:
  assumes h: "length h = 32" "list_all hex_char h" "\<not> list_all (\<lambda>c. c = CHR ''0'') h"
  shows "normalized_uuid (PStr (uuid_text (py_lower h))) = Some (uuid_text (py_lower h))"
proof -
  let ?l = "py_lower h" let ?u = "uuid_text ?l"
  have other: "\<forall>c \<in> set ?l. c \<notin> set ''- {}''" using h(2) hex_char_lower by (simp add: py_lower_def list_all_iff)
  have l: "length ?l = 32" "list_all hex_char ?l" "\<not> list_all (\<lambda>c. c = CHR ''0'') ?l" "py_lower ?l = ?l"
    using h hex_char_lower by (auto simp: py_lower_def list_all_iff)
  have "CHR ''-'' \<notin> set ?l" "CHR '' '' \<notin> set ?l" "CHR ''{'' \<notin> set ?l" using other by auto
  note l = l this
  have ne: "?l \<noteq> []" using l(1) by auto
  have u: "?u \<noteq> []" "hd ?u = hd ?l" "last ?u = last ?l"
    using l(1) by (auto simp: uuid_text_def hd_append last_drop hd_take split: if_splits)
  have ends: "hex_char (hd ?l)" "hex_char (last ?l)" using l(2) ne by (auto simp: list_all_iff)
  then have sp: "\<not> py_space (hd ?u)" "\<not> py_space (last ?u)" using u hex_char_lower by auto
  have "hd ?u \<noteq> CHR ''{''" using u(2) l(7) hd_in_set[OF ne] by metis
  moreover have "filter (\<lambda>c. c \<noteq> CHR '' '') ?l = ?l" using l(6) by (auto intro!: filter_True)
  ultimately show ?thesis
    using l u py_strip_solid[OF u(1) sp] by (simp add: normalized_uuid_def Let_def uuid_text_compact del: filter_filter)
qed

lemma normalized_uuid_again: "normalized_uuid v = Some u \<Longrightarrow> normalized_uuid (PStr u) = Some u"
  by (auto simp: normalized_uuid_def[of v] Let_def split: if_splits intro: normalized_uuid_text)

lemma validated_again: "validated_host_hardware_uuid v = Some u \<Longrightarrow> validated_host_hardware_uuid (PStr u) = Some u"
  by (auto simp: validated_host_hardware_uuid_def normalized_uuid_again split: option.splits if_splits)

lemma esxi_anchor_again: "esxi_anchor v = Inr u \<Longrightarrow> validated_host_hardware_uuid (PStr u) = Some u"
  by (auto simp: esxi_anchor_def split: pyval.splits if_splits list.splits option.splits intro: validated_again)

section \<open>Decisions record exactly the reviewed identity\<close>

lemma dget_delete [simp]: "dget (AList.delete k d) k' = (if k' = k then PNone else dget d k')"
  by (auto simp: dget_def AList.delete_conv')

lemma dget_default_delete [simp]: "dget_default (AList.delete k d) k' v = (if k' = k then v else dget_default d k' v)"
  by (auto simp: dget_default_def AList.delete_conv')

lemma legacy_anchor_admission [simp]: "legacy_anchor (AList.update ''legacy_admission'' v settings) = legacy_anchor settings"
  by (simp add: legacy_anchor_def)

lemma admission_request_Inr:
  assumes "admission_request actor decision reason v = Inr anchor"
  shows "decision = ''ISOLATE'' \<and> anchor = None \<or>
    decision = ''OBSERVE'' \<and> (\<exists>a. anchor = Some a \<and> validated_host_hardware_uuid (PStr a) = Some a)"
  using assms esxi_anchor_again unfolding admission_request_def bind_require_Inr_iff
  by (auto split: if_splits sum.splits)

lemma decision_anchor:
  assumes "admission_request actor decision reason v = Inr anchor"
  shows "observed_anchor (PDict (admission_decision decision operation anchor)) =
    (if uuid_member (admission_decision decision operation anchor) ''operation_id'' then anchor else None)"
  using admission_request_Inr[OF assms]
  by (auto simp: observed_anchor_def admission_decision_def dget_def)

lemma admission_check_Inr:
  assumes "admission_check H db source expected anchor = Inr row"
  shows "source_of db source = Some row \<and> s_type row = ''esxi'' \<and> registration_anchor (s_settings row) = None \<and>
    legacy_anchor (s_settings row) = None \<and> \<not> operation_running db source \<and> \<not> run_blocks db source \<and> \<not> recovery_active db source \<and>
    (\<forall>a. anchor = Some a \<longrightarrow> claim_free db source a)"
proof -
  obtain columns where l: "legacy_row db source = Inr (row, columns)" and r: "registration_anchor (s_settings row) = None"
    and rest: "source_quiet db source = Inr ()" "\<not> recovery_active db source" "\<forall>a. anchor = Some a \<longrightarrow> claim_free db source a"
    using assms unfolding admission_check_def by (cases anchor) (force simp: bindr_Inr_conv)+
  have "legacy_anchor (s_settings row) = None" using r by (simp add: registration_anchor_def split: option.splits)
  then show ?thesis using l r rest
    by (auto simp: legacy_row_def source_quiet_def bindr_Inr_conv Let_def split: option.splits)
qed

definition quarantined :: "string \<Rightarrow> uuid \<Rightarrow> uuid option \<Rightarrow> source_row \<Rightarrow> source_row \<Rightarrow> source_row" where
  "quarantined decision operation anchor row s = s\<lparr>s_settings :=
     AList.update ''legacy_admission'' (PDict (admission_decision decision operation anchor)) (s_settings row),
     s_enabled := False, s_sync_enabled := False\<rparr>"

lemma legacy_confirm_Inr:
  assumes "legacy_confirm_txn H now source actor operation expected decision reason anchor db = Inr (u, db')"
  shows "db' = db \<or> (\<exists>row v. admission_check H db source expected anchor = Inr row \<and>
    db' = stale_ready_plans now source (update_source source (quarantined decision operation anchor row)
      (db\<lparr>source_identity_verifications := source_identity_verifications db @ [v]\<rparr>)))"
  using assms unfolding legacy_confirm_txn_def bindr_Inr_conv Let_def quarantined_def[abs_def]
  by (auto simp: bindr_Inr_conv split: option.splits)

lemma verify_identity_Inr:
  assumes "verify_identity_txn H host_dto now free source actor expected operation pf db = Inr (anchor, db')"
  shows "db' = db \<or> (\<exists>row p v. source_of db source = Some row \<and> claim_free db source anchor \<and>
    validated_host_hardware_uuid (PStr anchor) = Some anchor \<and> registration_anchor (s_settings row) \<in> {None, Some anchor} \<and>
    \<not> operation_running db source \<and> \<not> run_blocks db source \<and>
    db' = stale_ready_plans now source (update_source source (\<lambda>s. s\<lparr>s_settings := AList.update ''provider_identity''
      (PDict (verified_identity anchor operation p)) (AList.delete ''legacy_admission'' (s_settings s))\<rparr>)
      (db\<lparr>source_identity_verifications := source_identity_verifications db @ [v]\<rparr>)))"
proof (cases "verification_of db operation")
  case (Some v)
  then show ?thesis using assms unfolding verify_identity_txn_def by (auto simp: bindr_Inr_conv)
next
  case None
  obtain row e p where d: "describe_identity host_dto now db source = Inr (row, e)" and a: "anchor = ie_host_uuid e"
    and r: "registration_anchor (s_settings row) \<in> {None, Some anchor}" and q: "source_quiet db source = Inr ()"
    and c: "claim_free db source anchor" and pf: "pf = PDict p" and db': "db' = stale_ready_plans now source (update_source source
      (\<lambda>s. s\<lparr>s_settings := AList.update ''provider_identity''
        (PDict (verified_identity anchor operation p)) (AList.delete ''legacy_admission'' (s_settings s))\<rparr>)
      (db\<lparr>source_identity_verifications := source_identity_verifications db @ [\<lparr>iv_id = operation, iv_instance = source,
        iv_actor = actor, iv_revision = expected, iv_anchor = anchor, iv_proof = p\<rparr>]\<rparr>))"
    using assms None unfolding verify_identity_txn_def
    by (cases pf) (auto simp: bindr_Inr_conv Let_def simp del: refuse_if_Inr_iff bind_refuse_if_Inr_iff)
  have "source_of db source = Some row" "validated_host_hardware_uuid (PStr anchor) = Some anchor"
    using d a unfolding describe_identity_def discovery_evidence_def active_row_def discovered_anchor_def
    by (auto simp: bindr_Inr_conv split: option.splits if_splits sum.splits intro: esxi_anchor_again)
  then show ?thesis using r q c db' by (auto simp: source_quiet_def)
qed

lemma find_update_where_key:
  "(\<And>r. k (f r) = k r) \<Longrightarrow> List.find (\<lambda>r. k r = x) (update_where (\<lambda>r. k r = y) f rows) =
     map_option (\<lambda>r. if x = y then f r else r) (List.find (\<lambda>r. k r = x) rows)"
  by (induction rows) (auto simp: update_where_def)

lemma source_of_update:
  "(\<And>r. s_instance (f r) = s_instance r) \<Longrightarrow>
     source_of (update_source source f db) other = map_option (\<lambda>r. if other = source then f r else r) (source_of db other)"
  by (simp add: source_of_def update_source_def find_update_where_key)

lemma source_gate_tables:
  assumes "source_archives db' = source_archives db" "source_retirements db' = source_retirements db"
    "source_removal_requests db' = source_removal_requests db"
  shows "source_gate db' = source_gate db"
  using assms by (simp add: fun_eq_iff source_gate_def archived_def request_of_def)

lemma py_eq_refl_str [simp]: "py_eq (PStr s) (PStr t) \<longleftrightarrow> s = t"
  by auto

lemma same_verification_again:
  "same_verification \<lparr>iv_id = operation, iv_instance = source, iv_actor = actor, iv_revision = expected, iv_anchor = x,
     iv_proof = admission_proof decision reason anchor\<rparr> source actor expected (admission_proof decision reason anchor)"
  by (cases anchor) (simp_all add: same_verification_def admission_proof_def)

lemma update_where_none: "(\<And>r. p r \<Longrightarrow> \<not> p (f r)) \<Longrightarrow> r \<in> set (update_where p f rows) \<Longrightarrow> \<not> p r"
  by (auto simp: set_update_where split: if_splits)

lemma stale_ready_plans_none:
  assumes "r \<in> set (source_operations (stale_ready_plans now source db))"
  shows "\<not> (o_instance r = source \<and> o_kind r = ''PLAN'' \<and> o_status r = OP_READY)"
proof -
  let ?p = "\<lambda>r. o_instance r = source \<and> o_kind r = ''PLAN'' \<and> o_status r = OP_READY"
  let ?f = "\<lambda>r. r\<lparr>o_status := OP_STALE, o_result := None, o_code := Some ''PLAN_STALE'', o_updated_at := now\<rparr>"
  have "r \<in> set (update_where ?p ?f (source_operations db))" using assms by (simp add: stale_ready_plans_def)
  then show ?thesis by (rule update_where_none[of ?p ?f, rotated]) simp
qed

lemma stale_ready_plans_frame [simp]:
  "source_archives (stale_ready_plans now source db) = source_archives db"
  "source_retirements (stale_ready_plans now source db) = source_retirements db"
  "source_removal_requests (stale_ready_plans now source db) = source_removal_requests db"
  "source_identity_verifications (stale_ready_plans now source db) = source_identity_verifications db"
  "sources (stale_ready_plans now source db) = sources db"
  "source_of (stale_ready_plans now source db) = source_of db"
  by (simp_all add: stale_ready_plans_def fun_eq_iff source_of_def)

lemma update_source_frame [simp]:
  "source_archives (update_source source f db) = source_archives db"
  "source_retirements (update_source source f db) = source_retirements db"
  "source_removal_requests (update_source source f db) = source_removal_requests db"
  "source_identity_verifications (update_source source f db) = source_identity_verifications db"
  by (simp_all add: update_source_def)

lemma admission_decision_get:
  "dget (admission_decision decision operation anchor) ''state'' =
     PStr (if decision = ''ISOLATE'' then ''ISOLATED_UNPROVED'' else ''OBSERVED_ENDPOINT'')"
  "map_of (admission_decision decision operation anchor) ''operation_id'' = Some (PStr operation)"
  by (simp_all add: admission_decision_def dget_def)

lemma decision_resolves:
  assumes "admission_of row = PDict (admission_decision decision operation anchor)" "stopped row" "py_uuid operation = Inr operation"
    and "decision \<noteq> ''ISOLATE'' \<Longrightarrow> registration_anchor (s_settings row) \<noteq> None"
  shows "resolved_for_admission row = Inr True"
proof (cases "decision = ''ISOLATE''")
  case True
  then have "isolated row = Inr True" by (simp add: isolated_def assms(1-3) admission_decision_get)
  then show ?thesis by (simp add: resolved_for_admission_def)
next
  case False
  then have "isolated row = Inr False" by (simp add: isolated_def assms(1,3) admission_decision_get)
  then show ?thesis using False assms(4)[OF False] by (simp add: resolved_for_admission_def assms(1,2) admission_decision_get)
qed

text \<open>
  C20: An accepted decision on a source without an identity stops the source and takes it off the
  list of unresolved ones, records exactly the observed identity and none for an isolation,
  leaves no plan of the source ready and no other source changed. Repeating the request with the
  same operation is accepted without a further change.
\<close>
theorem admission_recorded:
  assumes request: "admission_request actor decision reason v = Inr anchor"
    and confirmed: "legacy_confirm_txn H now source actor operation expected decision reason anchor db = Inr (u, db')"
    and fresh: "verification_of db operation = None" and canonical: "py_uuid operation = Inr operation"
  shows "(\<exists>row. source_of db' source = Some row \<and> stopped row \<and> registration_anchor (s_settings row) = anchor \<and>
      resolved_for_admission row = Inr True) \<and>
    (\<forall>r \<in> set (source_operations db'). o_instance r = source \<longrightarrow> o_kind r = ''PLAN'' \<longrightarrow> o_status r \<noteq> OP_READY) \<and>
    (\<forall>other. other \<noteq> source \<longrightarrow> source_of db' other = source_of db other) \<and>
    legacy_confirm_txn H later source actor operation expected decision reason anchor db' = Inr ((), db')"
proof -
  let ?d = "admission_decision decision operation anchor"
  let ?v = "\<lparr>iv_id = operation, iv_instance = source, iv_actor = actor, iv_revision = expected,
    iv_anchor = (case anchor of None \<Rightarrow> ''UNPROVED'' | Some a \<Rightarrow> a), iv_proof = admission_proof decision reason anchor\<rparr>"
  obtain row where gate: "source_gate db source False False = Inr ()" and c: "admission_check H db source expected anchor = Inr row"
    and db': "db' = stale_ready_plans now source (update_source source (quarantined decision operation anchor row)
      (db\<lparr>source_identity_verifications := source_identity_verifications db @ [?v]\<rparr>))"
    using confirmed fresh unfolding legacy_confirm_txn_def bindr_Inr_conv Let_def quarantined_def[abs_def]
    by (auto simp: bindr_Inr_conv)
  note row = admission_check_Inr[OF c]
  have key: "s_instance (quarantined decision operation anchor row s) = s_instance s" for s by (simp add: quarantined_def)
  let ?q = "quarantined decision operation anchor row row"
  have sources: "source_of db' other = (if other = source then Some ?q else source_of db other)" for other
    using row source_of_update[OF key, of source "db\<lparr>source_identity_verifications := source_identity_verifications db @ [?v]\<rparr>" other]
    unfolding db' by (auto simp: source_of_def option.map_ident)
  have member: "uuid_member ?d ''operation_id''" using canonical by (simp add: uuid_member_def admission_decision_def)
  have adm: "admission_of ?q = PDict ?d" "stopped ?q" by (simp_all add: admission_of_def quarantined_def stopped_def)
  have anchor: "registration_anchor (s_settings ?q) = anchor"
    using row decision_anchor[OF request] member by (simp add: registration_anchor_def quarantined_def)
  have some: "decision \<noteq> ''ISOLATE'' \<Longrightarrow> anchor \<noteq> None" using admission_request_Inr[OF request] by blast
  have resolved: "resolved_for_admission ?q = Inr True"
  proof (rule decision_resolves)
    show "admission_of ?q = PDict ?d" "stopped ?q" "py_uuid operation = Inr operation" by (fact adm canonical)+
    show "decision \<noteq> ''ISOLATE'' \<Longrightarrow> registration_anchor (s_settings ?q) \<noteq> None" unfolding anchor by (rule some)
  qed
  have "verification_of db' operation = Some ?v"
    unfolding db' using fresh by (simp add: verification_of_def find_append)
  moreover have "source_gate db' = source_gate db"
    unfolding db' by (rule source_gate_tables) simp_all
  ultimately have repeat: "legacy_confirm_txn H later source actor operation expected decision reason anchor db' = Inr ((), db')"
    using gate same_verification_again unfolding legacy_confirm_txn_def by (simp del: source_gate_False_iff add: Let_def)
  show ?thesis
  proof (intro conjI exI[of _ ?q])
    show "\<forall>r \<in> set (source_operations db'). o_instance r = source \<longrightarrow> o_kind r = ''PLAN'' \<longrightarrow> o_status r \<noteq> OP_READY"
      unfolding db' using stale_ready_plans_none by blast
  qed (use sources adm anchor resolved repeat in \<open>simp_all\<close>)
qed

definition example_esxi :: source_row where
  "example_esxi = example_source\<lparr>s_instance := ''esx-a'', s_type := ''esxi'', s_settings := []\<rparr>"

definition host_registry :: registry where
  "host_registry = example_registry\<lparr>sources := [example_source, example_esxi], source_operations := [example_plan\<lparr>o_instance := ''esx-a''\<rparr>]\<rparr>"

definition example_hardware :: pyval where
  "example_hardware = PStr ''{4C4C4544-0042-3510-8052-B4C04F4E3432}''"

theorem admission_recorded_witness:
  "\<exists>db' row. legacy_confirm_txn (\<lambda>_. ''h'') 5 ''esx-a'' ''admin'' ''11111111-2222-3333-4444-555555555555'' ''h'' ''OBSERVE'' ''seen on console''
       (Some ''4c4c4544-0042-3510-8052-b4c04f4e3432'') host_registry = Inr ((), db') \<and>
     source_of db' ''esx-a'' = Some row \<and> stopped row \<and>
     registration_anchor (s_settings row) = Some ''4c4c4544-0042-3510-8052-b4c04f4e3432''"
proof -
  have request: "admission_request ''admin'' ''OBSERVE'' ''seen on console'' example_hardware = Inr (Some ''4c4c4544-0042-3510-8052-b4c04f4e3432'')"
    by code_simp
  define res where "res = legacy_confirm_txn (\<lambda>_. ''h'') 5 ''esx-a'' ''admin'' ''11111111-2222-3333-4444-555555555555'' ''h'' ''OBSERVE'' ''seen on console''
       (Some ''4c4c4544-0042-3510-8052-b4c04f4e3432'') host_registry"
  have "case res of Inr _ \<Rightarrow> True | _ \<Rightarrow> False" unfolding res_def by code_simp
  then obtain db' where "res = Inr ((), db')" by (cases res) auto
  note confirmed = this[unfolded res_def]
  have "verification_of host_registry ''11111111-2222-3333-4444-555555555555'' = None"
    "py_uuid ''11111111-2222-3333-4444-555555555555'' = Inr ''11111111-2222-3333-4444-555555555555''" by code_simp+
  from admission_recorded[OF request confirmed this] confirmed show ?thesis by blast
qed

section \<open>A reservation excludes every other claim\<close>

lemma sort_key_Nil_iff [simp]: "sort_key f xs = [] \<longleftrightarrow> xs = []"
  by (metis length_0_conv length_sort)

lemma bind_intent_Inr:
  "bind_intent dto U now preview source operation actor fingerprint request db = Inr (claim, db') \<Longrightarrow>
     \<exists>intents. db' = db\<lparr>registration_intents := intents\<rparr>"
proof -
  assume "bind_intent dto U now preview source operation actor fingerprint request db = Inr (claim, db')"
  then obtain i where "db' = insert_intent i db" unfolding bind_intent_def bindr_Inr_conv Let_def by blast
  then show ?thesis by (auto simp: insert_intent_def intro: exI[of _ "registration_intents db"])
qed

lemma reserve_Inr:
  assumes "reserve dto U now af hf preview source operation_id actor intent db = Inr (anchor, db')"
  shows "esxi_anchor preview = Inr anchor \<and> admissible db anchor = Inr () \<and>
    (\<exists>h. active_reservation db' anchor = Some h \<and> hr_instance h = source \<and> hr_actor h = actor) \<and>
    (\<exists>hs intents. db' = db\<lparr>host_reservations := hs, registration_intents := intents\<rparr>)"
proof -
  obtain operation db1 where a: "esxi_anchor preview = Inr anchor" "admissible db anchor = Inr ()"
    and d1: "(case active_reservation db anchor of
         Some h \<Rightarrow> bindr (require (hr_instance h = source \<and> hr_operation h = operation \<and> hr_actor h = actor)
           (host_conflict ''HOST_REGISTRATION_RESERVED'' (Some (hr_instance h)))) (\<lambda>_. Inr db)
       | None \<Rightarrow> insert_reservation \<lparr>hr_provider = ''esxi'', hr_anchor = anchor, hr_instance = source,
           hr_operation = operation, hr_actor = actor, hr_released_at = None\<rparr> db) = Inr db1"
    and d2: "(case intent of None \<Rightarrow> Inr db1
       | Some (fingerprint, request) \<Rightarrow>
           bindr (bind_intent dto U now preview source operation actor fingerprint request db1) (\<lambda>(_, db2). Inr db2)) = Inr db'"
    using assms unfolding reserve_def bindr_Inr_conv by (auto simp: bindr_Inr_conv)
  have i: "\<exists>intents. db' = db1\<lparr>registration_intents := intents\<rparr>"
  proof (cases intent)
    case None
    then show ?thesis using d2 by (auto intro: exI[of _ "registration_intents db1"])
  next
    case (Some p)
    then show ?thesis using d2 bind_intent_Inr by (auto simp: bindr_Inr_conv split: prod.splits)
  qed
  have own: "\<exists>h. active_reservation db1 anchor = Some h \<and> hr_instance h = source \<and> hr_actor h = actor"
    using d1 by (auto simp: insert_reservation_def active_reservation_def find_append split: option.splits)
  have "\<exists>hs. db1 = db\<lparr>host_reservations := hs\<rparr>"
    using d1 by (auto simp: insert_reservation_def split: option.splits intro: exI[of _ "host_reservations db"])
  then show ?thesis using a i own by (auto simp: active_reservation_def)
qed

lemma unclaimed_live:
  assumes "admissible db anchor = Inr ()" "s \<in> set (sources db)" "s_type s = ''esxi''" "\<not> archived db (s_instance s)"
  shows "registration_anchor (s_settings s) \<noteq> Some anchor"
proof -
  obtain rows where r: "live_rows db = Inr rows"
    and n: "filter (\<lambda>s. registration_anchor (s_settings s) = Some anchor) rows = []"
    using assms(1) unfolding admissible_def bindr_Inr_conv Let_def by (auto simp: bindr_Inr_conv split: if_splits list.splits)
  have "s \<in> set rows" using r assms(2-4) by (auto simp: live_rows_def split: list.splits)
  then show ?thesis using n by (simp add: filter_empty_conv)
qed


definition example_preview :: pyval where
  "example_preview = PDict [(''provider'', PStr ''esxi''), (''hosts'', PList [PDict [(''id'', example_hardware)]])]"


end
