(* ===== verification/Source_Registry.thy ===== *)
theory Source_Registry
  imports Source_Config Host_Identity
begin

text \<open>
  \<open>source_registry.py\<close>: storing validated configurations in the table of sources and reading them
  back, with the trigger that keeps the credential references of removed sources reserved. The
  columns no other component reads are those of \<open>s_columns\<close>.
\<close>

section \<open>Validation\<close>

text \<open>\<open>str.casefold\<close> among the code points below 256; the micro sign folds outside of them.\<close>

definition casefold :: "string \<Rightarrow> string" where
  "casefold s = concat (map (\<lambda>c. let n = of_char c :: int in
     if 65 \<le> n \<and> n \<le> 90 \<or> 192 \<le> n \<and> n \<le> 222 \<and> n \<noteq> 215 then [char_of (n + 32)] else if n = 223 then ''ss'' else [c]) s)"

definition contains_text :: "string \<Rightarrow> string \<Rightarrow> bool" where
  "contains_text part s = list_ex (\<lambda>i. take (length part) (drop i s) = part) [0..<Suc (length s)]"

definition secret_setting :: "string \<Rightarrow> bool" where
  "secret_setting key = list_ex (\<lambda>part. contains_text part (casefold key)) [''password'', ''secret'', ''token_value'']"

definition provider_supported :: "SecretReference \<Rightarrow> unit result" where
  "provider_supported ref = require (sr_provider ref \<in> {''env'', ''file''})
     (ValueError (''unsupported secret provider: '' @ repr_str (sr_provider ref)))"

definition validate_config :: "SourceConfig \<Rightarrow> unit result" where
  "validate_config c =
     bindr (require (cfg_type c \<in> {''esxi'', ''proxmox''}) (ValueError (''unsupported source_type: '' @ repr_str (cfg_type c)))) (\<lambda>_.
     bindr (require (\<not> (cfg_type c = ''esxi'' \<and> cfg_legacy_owner c)) (ValueError ''ESXi cannot be a legacy identity owner'')) (\<lambda>_.
     bindr (provider_supported (sc_token_id (cfg_credentials c))) (\<lambda>_.
     bindr (provider_supported (sc_token_secret (cfg_credentials c))) (\<lambda>_.
       require (\<not> list_ex (\<lambda>p. secret_setting (fst p)) (cfg_settings c))
         (ValueError ''secret values are not allowed in source settings'')))))"

section \<open>Rows\<close>

text \<open>The columns of type text and boolean that are kept together.\<close>

definition text_column :: "source_row \<Rightarrow> string \<Rightarrow> string" where
  "text_column r k = (case dget (s_columns r) k of PStr t \<Rightarrow> t | _ \<Rightarrow> [])"

definition bool_column :: "source_row \<Rightarrow> string \<Rightarrow> bool" where
  "bool_column r k = (dget (s_columns r) k = PBool True)"

record SourceRecord =
  rec_config :: SourceConfig
  rec_created_at :: pyval
  rec_updated_at :: pyval

definition row_target :: "source_row \<Rightarrow> NetBoxTargetConfig result" where
  "row_target r = new_NetBoxTargetConfig \<lparr>site_slug = text_column r ''site_slug'', device_role_slug = text_column r ''device_role_slug'',
     platform_slug = text_column r ''platform_slug'', device_type_slug = text_column r ''device_type_slug'',
     cluster_type_slug = text_column r ''cluster_type_slug'', cluster_name = text_column r ''cluster_name'', onboarding_mapping = []\<rparr>"

definition row_credentials :: "source_row \<Rightarrow> SourceCredentials result" where
  "row_credentials r =
     bindr (new_SecretReference (fst (s_token_id r)) (snd (s_token_id r))) (\<lambda>token_id.
     bindr (new_SecretReference (fst (s_token_secret r)) (snd (s_token_secret r))) (\<lambda>token_secret.
       new_SourceCredentials (text_column r ''username'') token_id token_secret))"

definition row_to_record :: "source_row \<Rightarrow> SourceRecord result" where
  "row_to_record r =
     bindr (row_target r) (\<lambda>target. bindr (row_credentials r) (\<lambda>credentials.
     let calendar = (case s_calendar r of None \<Rightarrow> PNone | Some d \<Rightarrow> PDict d) in
     bindr (new_SourceConfig \<lparr>cfg_id = text_column r ''id'', cfg_instance = s_instance r, cfg_name = s_name r, cfg_type = s_type r,
         cfg_address = text_column r ''address'', cfg_enabled = s_enabled r, cfg_sync_enabled = s_sync_enabled r,
         cfg_interval = s_interval r, cfg_verify_ssl = bool_column r ''verify_ssl'', cfg_target = target,
         cfg_credentials = credentials, cfg_calendar = calendar,
         cfg_schedule_changed_at = (if py_truth calendar then Some (s_schedule_changed_at r) else None),
         cfg_legacy_owner = bool_column r ''legacy_identity_owner'', cfg_settings = s_settings r\<rparr>) (\<lambda>config.
     bindr (validate_config config) (\<lambda>_.
       Inr \<lparr>rec_config = config, rec_created_at = dget (s_columns r) ''created_at'', rec_updated_at = dget (s_columns r) ''updated_at''\<rparr>))))"

text \<open>The row of a configuration: calendar and schedule date take their defaults.\<close>

definition config_columns :: "SourceConfig \<Rightarrow> pydict" where
  "config_columns c =
     [(''id'', PStr (cfg_id c)), (''address'', PStr (cfg_address c)), (''verify_ssl'', PBool (cfg_verify_ssl c)),
      (''site_slug'', PStr (site_slug (cfg_target c))), (''device_role_slug'', PStr (device_role_slug (cfg_target c))),
      (''platform_slug'', PStr (platform_slug (cfg_target c))), (''device_type_slug'', PStr (device_type_slug (cfg_target c))),
      (''cluster_type_slug'', PStr (cluster_type_slug (cfg_target c))), (''cluster_name'', PStr (cluster_name (cfg_target c))),
      (''username'', PStr (sc_username (cfg_credentials c))), (''legacy_identity_owner'', PBool (cfg_legacy_owner c))]"

definition reference_pair :: "SecretReference \<Rightarrow> string \<times> string" where
  "reference_pair ref = (sr_provider ref, sr_key ref)"

definition create_row :: "timestamp \<Rightarrow> SourceConfig \<Rightarrow> source_row" where
  "create_row now c = \<lparr>s_instance = cfg_instance c, s_name = cfg_name c, s_type = cfg_type c, s_enabled = cfg_enabled c,
     s_sync_enabled = cfg_sync_enabled c, s_interval = cfg_interval c, s_calendar = None, s_schedule_changed_at = now,
     s_token_id = reference_pair (sc_token_id (cfg_credentials c)), s_token_secret = reference_pair (sc_token_secret (cfg_credentials c)),
     s_settings = cfg_settings c,
     s_columns = config_columns c @ [(''created_at'', PStr (datetime_str now)), (''updated_at'', PStr (datetime_str now))]\<rparr>"

section \<open>Credential references\<close>

text \<open>The trigger \<open>source_credential_refs_guard\<close> of the table of sources, on the new row.\<close>

definition refs_reserved :: "registry \<Rightarrow> source_row \<Rightarrow> bool" where
  "refs_reserved db r = list_ex (\<lambda>s. list_ex (\<lambda>t. t_instance t = s_instance s) (source_tombstones db) \<and>
     (s_token_id s \<in> {s_token_id r, s_token_secret r} \<or> s_token_secret s \<in> {s_token_id r, s_token_secret r})) (sources db)"

definition guard_source_credential_refs :: "registry \<Rightarrow> source_row option \<Rightarrow> source_row \<Rightarrow> unit result" where
  "guard_source_credential_refs db old new =
     (case old of
        Some r \<Rightarrow> if s_token_id r = s_token_id new \<and> s_token_secret r = s_token_secret new then Inr ()
          else require (\<not> refs_reserved db new) (CheckViolation ''Credential reference is reserved'')
      | None \<Rightarrow> require (\<not> refs_reserved db new) (CheckViolation ''Credential reference is reserved''))"

section \<open>Operations\<close>

definition insert_source :: "SourceConfig \<Rightarrow> source_row \<Rightarrow> unit txn" where
  "insert_source config row db =
     bindr (guard_source_credential_refs db None row) (\<lambda>_.
     bindr (require (cfg_id config \<notin> (\<lambda>r. text_column r ''id'') ` set (sources db) \<and> cfg_instance config \<notin> s_instance ` set (sources db))
       (SourceConflictError ''duplicate source id or source_instance'')) (\<lambda>_.
       Inr ((), db\<lparr>sources := sources db @ [row]\<rparr>)))"

definition create_source :: "timestamp \<Rightarrow> SourceConfig \<Rightarrow> SourceRecord proc" where
  "create_source now config =
     bindp (pure (validate_config config)) (\<lambda>_.
     bindp (commit (insert_source config (create_row now config))) (\<lambda>_. pure (row_to_record (create_row now config))))"

definition read_record :: "source_row option \<Rightarrow> SourceRecord option result" where
  "read_record row = (case row of None \<Rightarrow> Inr None | Some r \<Rightarrow> bindr (row_to_record r) (\<lambda>x. Inr (Some x)))"

definition get_source :: "registry \<Rightarrow> string \<Rightarrow> SourceRecord option result" where
  "get_source db source_id = read_record (List.find (\<lambda>r. text_column r ''id'' = source_id) (sources db))"

definition get_by_source_instance :: "registry \<Rightarrow> string \<Rightarrow> SourceRecord option result" where
  "get_by_source_instance db source = read_record (source_of db source)"

definition rows_by_id :: "registry \<Rightarrow> source_row list" where
  "rows_by_id db = sort_key (\<lambda>r. text_column r ''id'') (sources db)"

definition list_sources :: "registry \<Rightarrow> SourceRecord list result" where
  "list_sources db = mapr row_to_record (rows_by_id db)"

definition list_sources_isolated :: "registry \<Rightarrow> SourceRecord option list" where
  "list_sources_isolated db = map (\<lambda>r. case row_to_record r of Inl _ \<Rightarrow> None | Inr x \<Rightarrow> Some x) (rows_by_id db)"

definition list_runnable_sources :: "registry \<Rightarrow> SourceConfig list result" where
  "list_runnable_sources db = mapr (\<lambda>r. bindr (row_to_record r) (\<lambda>x. Inr (rec_config x)))
     (filter (\<lambda>r. s_enabled r \<and> s_sync_enabled r) (rows_by_id db))"

text \<open>The check before any write of a source at run time.\<close>

definition assert_exclusive_host :: "registry \<Rightarrow> SourceConfig \<Rightarrow> unit result" where
  "assert_exclusive_host db c =
     bindr (require (\<not> archived db (cfg_instance c)) (host_conflict ''SOURCE_ARCHIVED'' (Some (cfg_instance c)))) (\<lambda>_.
     if cfg_type c \<noteq> ''esxi'' then Inr () else
     bindr (py_get (dget_default (cfg_settings c) ''legacy_admission'' (PDict [])) ''state'') (\<lambda>state.
     bindr (require (\<not> (py_eq state (PStr ''ISOLATED_UNPROVED'') \<or> py_eq state (PStr ''OBSERVED_ENDPOINT'')))
       (host_conflict ''HOST_REGISTRY_REVIEW_REQUIRED'' (Some (cfg_instance c)))) (\<lambda>_.
     case registration_anchor (cfg_settings c) of None \<Rightarrow> Inr ()
     | Some anchor \<Rightarrow> require (\<not> list_ex (\<lambda>r. s_type r = ''esxi'' \<and> s_enabled r \<and> s_instance r \<noteq> cfg_instance c \<and>
           registration_anchor (s_settings r) = Some anchor) (sources db)) (host_conflict ''HOST_IDENTITY_CONFLICT'' None))))"

section \<open>Updates\<close>

text \<open>
  \<open>update_source(source_id, **changes)\<close>: the names of the changed fields, and the configuration that
  \<open>dataclasses.replace\<close> builds from them. The read and the update are two transactions; the update
  is conditional on the date of the row that was read.
\<close>

definition MUTABLE_UPDATE_FIELDS :: "string list" where
  "MUTABLE_UPDATE_FIELDS = [''name'', ''address'', ''enabled'', ''sync_enabled'', ''sync_interval_seconds'', ''verify_ssl'',
     ''target'', ''credentials'', ''legacy_identity_owner'', ''settings'']"

definition IMMUTABLE_UPDATE_FIELDS :: "string list" where
  "IMMUTABLE_UPDATE_FIELDS = [''id'', ''source_instance'', ''source_type'']"

definition pick_field :: "string list \<Rightarrow> string \<Rightarrow> 'a \<Rightarrow> 'a \<Rightarrow> 'a" where
  "pick_field changed k new old = (if k \<in> set changed then new else old)"

definition replaced :: "string list \<Rightarrow> SourceConfig \<Rightarrow> SourceConfig \<Rightarrow> SourceConfig" where
  "replaced changed new old = old\<lparr>cfg_name := pick_field changed ''name'' (cfg_name new) (cfg_name old),
     cfg_address := pick_field changed ''address'' (cfg_address new) (cfg_address old),
     cfg_enabled := pick_field changed ''enabled'' (cfg_enabled new) (cfg_enabled old),
     cfg_sync_enabled := pick_field changed ''sync_enabled'' (cfg_sync_enabled new) (cfg_sync_enabled old),
     cfg_interval := pick_field changed ''sync_interval_seconds'' (cfg_interval new) (cfg_interval old),
     cfg_verify_ssl := pick_field changed ''verify_ssl'' (cfg_verify_ssl new) (cfg_verify_ssl old),
     cfg_target := pick_field changed ''target'' (cfg_target new) (cfg_target old),
     cfg_credentials := pick_field changed ''credentials'' (cfg_credentials new) (cfg_credentials old),
     cfg_legacy_owner := pick_field changed ''legacy_identity_owner'' (cfg_legacy_owner new) (cfg_legacy_owner old),
     cfg_settings := pick_field changed ''settings'' (cfg_settings new) (cfg_settings old)\<rparr>"

definition update_row :: "timestamp \<Rightarrow> SourceConfig \<Rightarrow> source_row \<Rightarrow> source_row" where
  "update_row now c r = r\<lparr>s_name := cfg_name c, s_enabled := cfg_enabled c, s_sync_enabled := cfg_sync_enabled c,
     s_interval := cfg_interval c, s_token_id := reference_pair (sc_token_id (cfg_credentials c)),
     s_token_secret := reference_pair (sc_token_secret (cfg_credentials c)), s_settings := cfg_settings c,
     s_columns := dict_merge (s_columns r) (config_columns c @ [(''updated_at'', PStr (datetime_str now))])\<rparr>"

definition store_update :: "timestamp \<Rightarrow> SourceConfig \<Rightarrow> pyval \<Rightarrow> source_row txn" where
  "store_update now candidate expected_updated_at db =
     (let p = (\<lambda>r. text_column r ''id'' = cfg_id candidate \<and> dget (s_columns r) ''updated_at'' = expected_updated_at) in
      case List.find p (sources db) of
        None \<Rightarrow> Inl (SourceConcurrentUpdateError ''source changed during transactional update'')
      | Some r \<Rightarrow> let r' = update_row now candidate r in
          bindr (guard_source_credential_refs db (Some r) r') (\<lambda>_. Inr (r', db\<lparr>sources := update_where p (update_row now candidate) (sources db)\<rparr>)))"

text \<open>\<open>==\<close> on configurations compares their mappings as dictionaries.\<close>

definition same_config :: "SourceConfig \<Rightarrow> SourceConfig \<Rightarrow> bool" where
  "same_config a b = (let bare = (\<lambda>c. c\<lparr>cfg_settings := [], cfg_target := (cfg_target c)\<lparr>onboarding_mapping := []\<rparr>\<rparr>) in
     bare a = bare b \<and> py_eq (PDict (cfg_settings a)) (PDict (cfg_settings b)) \<and>
     py_eq (PDict (onboarding_mapping (cfg_target a))) (PDict (onboarding_mapping (cfg_target b))))"

definition update_candidate :: "string list \<Rightarrow> SourceConfig \<Rightarrow> registry \<Rightarrow> string \<Rightarrow> (SourceRecord \<times> SourceConfig option) result" where
  "update_candidate changed new db source_id =
     (let forbidden = filter (\<lambda>k. k \<in> set IMMUTABLE_UPDATE_FIELDS) changed;
          unknown = filter (\<lambda>k. k \<notin> set MUTABLE_UPDATE_FIELDS) changed in
      bindr (require (forbidden = []) (ValueError (''immutable source fields cannot be updated: '' @ joined '', '' (sort forbidden)))) (\<lambda>_.
      bindr (require (unknown = []) (ValueError (''unsupported source update fields: '' @ py_repr (PList (map PStr (sort unknown)))))) (\<lambda>_.
      bindr (get_source db source_id) (\<lambda>found. case found of
        None \<Rightarrow> Inl (KeyError source_id)
      | Some existing \<Rightarrow> if changed = [] then Inr (existing, None) else
          bindr (new_SourceConfig (replaced changed new (rec_config existing))) (\<lambda>candidate.
          bindr (validate_config candidate) (\<lambda>_.
            Inr (existing, if same_config candidate (rec_config existing) then None else Some candidate)))))))"

definition update_source_record ::
  "timestamp \<Rightarrow> (registry \<Rightarrow> registry) \<Rightarrow> string list \<Rightarrow> SourceConfig \<Rightarrow> string \<Rightarrow> SourceRecord proc" where
  "update_source_record now others changed new source_id db = (case update_candidate changed new db source_id of
     Inl e \<Rightarrow> (Inl e, db)
   | Inr (existing, None) \<Rightarrow> (Inr existing, db)
   | Inr (existing, Some candidate) \<Rightarrow>
       bindp (commit (store_update now candidate (rec_updated_at existing))) (\<lambda>row. pure (row_to_record row)) (others db))"

section \<open>Round trip\<close>

lemma create_row_columns:
  "text_column (create_row now c) ''id'' = cfg_id c" "text_column (create_row now c) ''address'' = cfg_address c"
  "text_column (create_row now c) ''site_slug'' = site_slug (cfg_target c)"
  "text_column (create_row now c) ''device_role_slug'' = device_role_slug (cfg_target c)"
  "text_column (create_row now c) ''platform_slug'' = platform_slug (cfg_target c)"
  "text_column (create_row now c) ''device_type_slug'' = device_type_slug (cfg_target c)"
  "text_column (create_row now c) ''cluster_type_slug'' = cluster_type_slug (cfg_target c)"
  "text_column (create_row now c) ''cluster_name'' = cluster_name (cfg_target c)"
  "text_column (create_row now c) ''username'' = sc_username (cfg_credentials c)"
  "bool_column (create_row now c) ''verify_ssl'' = cfg_verify_ssl c"
  "bool_column (create_row now c) ''legacy_identity_owner'' = cfg_legacy_owner c"
  by (simp_all add: text_column_def bool_column_def create_row_def config_columns_def dget_def)

text \<open>What a stored configuration is read as: the mapping of its target is that of its settings.\<close>

definition stored_form :: "SourceConfig \<Rightarrow> SourceConfig" where
  "stored_form c = mapped (c\<lparr>cfg_target := (cfg_target c)\<lparr>onboarding_mapping := []\<rparr>, cfg_calendar := PNone, cfg_schedule_changed_at := None\<rparr>)"

lemma row_target_create:
  "row_target (create_row now c) = Inr t \<Longrightarrow> t = (cfg_target c)\<lparr>onboarding_mapping := []\<rparr> \<and> target_ok (cfg_target c)"
  unfolding row_target_def create_row_columns new_target_Inr by (simp add: target_ok_def)

lemma row_credentials_create: "row_credentials (create_row now c) = Inr k \<Longrightarrow> k = cfg_credentials c"
  unfolding row_credentials_def create_row_columns
  by (auto simp: create_row_def reference_pair_def new_SecretReference_def new_SourceCredentials_def require_text_def bindr_Inr_conv)

lemma row_to_record_create:
  assumes "row_to_record (create_row now c) = Inr r"
  shows "rec_config r = stored_form c"
proof -
  have cal: "s_calendar (create_row now c) = None" by (simp add: create_row_def)
  obtain t k config where t: "row_target (create_row now c) = Inr t" and k: "row_credentials (create_row now c) = Inr k"
    and n: "new_SourceConfig \<lparr>cfg_id = cfg_id c, cfg_instance = cfg_instance c, cfg_name = cfg_name c, cfg_type = cfg_type c,
         cfg_address = cfg_address c, cfg_enabled = cfg_enabled c, cfg_sync_enabled = cfg_sync_enabled c,
         cfg_interval = cfg_interval c, cfg_verify_ssl = cfg_verify_ssl c, cfg_target = t,
         cfg_credentials = k, cfg_calendar = PNone, cfg_schedule_changed_at = None,
         cfg_legacy_owner = cfg_legacy_owner c, cfg_settings = cfg_settings c\<rparr> = Inr config" and r: "rec_config r = config"
    using assms unfolding row_to_record_def create_row_columns cal bindr_Inr_conv Let_def by (auto simp: create_row_def)
  note t = row_target_create[OF t] and k = row_credentials_create[OF k]
  have "\<lparr>cfg_id = cfg_id c, cfg_instance = cfg_instance c, cfg_name = cfg_name c, cfg_type = cfg_type c,
         cfg_address = cfg_address c, cfg_enabled = cfg_enabled c, cfg_sync_enabled = cfg_sync_enabled c,
         cfg_interval = cfg_interval c, cfg_verify_ssl = cfg_verify_ssl c, cfg_target = t,
         cfg_credentials = k, cfg_calendar = PNone, cfg_schedule_changed_at = None,
         cfg_legacy_owner = cfg_legacy_owner c, cfg_settings = cfg_settings c\<rparr> =
      c\<lparr>cfg_target := (cfg_target c)\<lparr>onboarding_mapping := []\<rparr>, cfg_calendar := PNone, cfg_schedule_changed_at := None\<rparr>"
    using t k by simp
  with n have "new_SourceConfig (c\<lparr>cfg_target := (cfg_target c)\<lparr>onboarding_mapping := []\<rparr>, cfg_calendar := PNone,
      cfg_schedule_changed_at := None\<rparr>) = Inr config" by simp
  then have "config = stored_form c" unfolding stored_form_def using t by (subst (asm) new_SourceConfig_Inr) simp_all
  with r show ?thesis by simp
qed

text \<open>
  C21: A created source reads back, by its identifier and by its instance, as the configuration
  that was given, with the mapping of its settings in its target and without a calendar. The
  record of every other source stays what it was, and none of the credential references of the
  new source belongs to a source that has been removed.
\<close>
theorem created_source_reads_back:
  assumes "create_source now c db = (Inr r, db')"
  shows "rec_config r = stored_form c \<and> get_source db' (cfg_id c) = Inr (Some r) \<and> get_by_source_instance db' (cfg_instance c) = Inr (Some r) \<and>
    (\<forall>i. i \<noteq> cfg_id c \<longrightarrow> get_source db' i = get_source db i) \<and>
    (\<forall>s \<in> set (sources db). (\<exists>t \<in> set (source_tombstones db). t_instance t = s_instance s) \<longrightarrow>
       {s_token_id s, s_token_secret s} \<inter> {reference_pair (sc_token_id (cfg_credentials c)), reference_pair (sc_token_secret (cfg_credentials c))} = {})"
proof -
  let ?row = "create_row now c"
  have i: "insert_source c ?row db = Inr ((), db')" and r: "row_to_record ?row = Inr r"
    using assms unfolding create_source_def bindp_def pure_def commit_def by (auto split: sum.splits prod.splits)
  have fresh: "cfg_id c \<notin> (\<lambda>r. text_column r ''id'') ` set (sources db)" "cfg_instance c \<notin> s_instance ` set (sources db)"
    and free: "\<not> refs_reserved db ?row" and db': "db' = db\<lparr>sources := sources db @ [?row]\<rparr>"
    using i unfolding insert_source_def guard_source_credential_refs_def by auto
  have none: "List.find (\<lambda>r. text_column r ''id'' = cfg_id c) (sources db) = None"
    "List.find (\<lambda>r. s_instance r = cfg_instance c) (sources db) = None"
    unfolding find_none using fresh by (metis imageI)+
  have id: "text_column ?row ''id'' = cfg_id c" "s_instance ?row = cfg_instance c"
    by (simp add: create_row_columns, simp add: create_row_def)
  have "List.find (\<lambda>r. text_column r ''id'' = i) (sources db') = List.find (\<lambda>r. text_column r ''id'' = i) (sources db)" if "i \<noteq> cfg_id c" for i
    using that id by (simp add: db' find_append split: option.splits)
  then have "\<forall>i. i \<noteq> cfg_id c \<longrightarrow> get_source db' i = get_source db i" by (simp add: get_source_def)
  moreover have "get_source db' (cfg_id c) = Inr (Some r)" "get_by_source_instance db' (cfg_instance c) = Inr (Some r)"
    using none id r by (simp_all add: get_source_def get_by_source_instance_def source_of_def read_record_def db' find_append)
  moreover have "{s_token_id s, s_token_secret s} \<inter> {s_token_id ?row, s_token_secret ?row} = {}"
    if "s \<in> set (sources db)" "t \<in> set (source_tombstones db)" "t_instance t = s_instance s" for s t
    using free that unfolding refs_reserved_def list_ex_iff by blast
  moreover have "s_token_id ?row = reference_pair (sc_token_id (cfg_credentials c))" "s_token_secret ?row = reference_pair (sc_token_secret (cfg_credentials c))"
    by (simp_all add: create_row_def)
  ultimately show ?thesis using row_to_record_create[OF r] by (intro conjI ballI impI) (simp_all, metis)
qed

definition example_new_config :: SourceConfig where
  "example_new_config = example_config\<lparr>cfg_id := ''7'', cfg_credentials := \<lparr>sc_username = ''sync@pve'',
     sc_token_id = \<lparr>sr_provider = ''file'', sr_key = ''k1''\<rparr>, sc_token_secret = \<lparr>sr_provider = ''file'', sr_key = ''k2''\<rparr>\<rparr>\<rparr>"

theorem created_source_reads_back_witness:
  "\<exists>r db'. create_source 5 example_new_config example_registry = (Inr r, db') \<and> get_source db' ''7'' = Inr (Some r) \<and>
     rec_config r = example_new_config"
proof -
  define res where "res = create_source 5 example_new_config example_registry"
  have "case res of (Inr _, _) \<Rightarrow> True | _ \<Rightarrow> False" unfolding res_def by code_simp
  then obtain r db' where "res = (Inr r, db')" by (cases res; cases "fst res") auto
  note created = this[unfolded res_def]
  have "stored_form example_new_config = example_new_config" "cfg_id example_new_config = ''7''" by code_simp+
  with created_source_reads_back[OF created] created show ?thesis by auto
qed

end
