(* ===== verification/Source_Recovery.thy ===== *)
theory Source_Recovery
  imports Source_Registry Retirement_Coordinator
begin

text \<open>
  \<open>source_recovery.py\<close>: the recovery of a removed source into the same namespace. An attempt is
  prepared against reviewed evidence, then holds its credentials, and completes only after the
  evidence was read again and the broker confirmed the credential. The broker's answer is the
  argument \<open>verify_owned\<close>; the remote guard is the one of the retirement.
\<close>

section \<open>Attempts\<close>

definition recovery_source :: "registry \<Rightarrow> string \<Rightarrow> source_row result" where
  "recovery_source db source = (case source_of db source of None \<Rightarrow> Inl (LifecycleError ''SOURCE_NOT_FOUND'') | Some r \<Rightarrow> Inr r)"

definition recovery_of :: "registry \<Rightarrow> uuid \<Rightarrow> recovery_row option" where
  "recovery_of db operation = List.find (\<lambda>r. rc_id r = operation) (source_recoveries db)"

definition recovery_attempt :: "registry \<Rightarrow> string \<Rightarrow> uuid \<Rightarrow> string \<Rightarrow> recovery_row result" where
  "recovery_attempt db source operation actor =
     (case List.find (\<lambda>r. rc_id r = operation \<and> rc_instance r = source \<and> rc_actor r = actor) (source_recoveries db) of
        None \<Rightarrow> Inl (LifecycleError ''SOURCE_RECOVERY_NOT_FOUND'') | Some r \<Rightarrow> Inr r)"

definition update_recovery :: "uuid \<Rightarrow> (recovery_row \<Rightarrow> recovery_row) \<Rightarrow> registry \<Rightarrow> registry" where
  "update_recovery operation f db = db\<lparr>source_recoveries := update_where (\<lambda>r. rc_id r = operation) f (source_recoveries db)\<rparr>"

text \<open>The latest finalized retirement no completed recovery has superseded.\<close>

definition later_restore :: "registry \<Rightarrow> retirement_row \<Rightarrow> bool" where
  "later_restore db r = list_ex (\<lambda>c. rc_instance c = ret_instance r \<and> rc_state c = REC_RESTORED \<and>
     (case (rc_finished_at c, ret_finished_at r) of (Some a, Some b) \<Rightarrow> b \<le> a | _ \<Rightarrow> False)) (source_recoveries db)"

definition finalized_retirement :: "registry \<Rightarrow> string \<Rightarrow> retirement_row option" where
  "finalized_retirement db source = (case sort_key (\<lambda>r. case ret_finished_at r of None \<Rightarrow> 0 | Some t \<Rightarrow> - t)
       (filter (\<lambda>r. ret_instance r = source \<and> removed_row db source \<noteq> None \<and> ret_state r = RET_FINALIZED \<and>
          ret_finished_at r \<noteq> None \<and> \<not> later_restore db r) (source_retirements db)) of
     [] \<Rightarrow> None | r # _ \<Rightarrow> Some r)"

section \<open>The guard\<close>

definition digest_text :: "pyval \<Rightarrow> bool result" where
  "digest_text v = (case v of PStr d \<Rightarrow> Inr (digest_ok d) | _ \<Rightarrow> Inl (TypeError ''expected string or bytes-like object''))"

definition evidence_refusals :: "source_row \<Rightarrow> pyval \<Rightarrow> pyval \<Rightarrow> uuid \<Rightarrow> pydict \<Rightarrow> bool result list" where
  "evidence_refusals row site cluster anchor p =
     [Inr (\<not> py_eq (dget p ''source_instance'') (PStr (s_instance row))),
      Inr (\<not> py_eq (dget p ''host_uuid'') (PStr anchor)),
      Inr (\<not> py_eq (dget p ''blockers'') (PList [])),
      bindr (digest_text (dget_default p ''digest'' (PStr []))) (\<lambda>ok. Inr (\<not> ok)),
      Inr (\<not> py_eq (dget p ''site_id'') site),
      Inr (\<not> py_eq (dget p ''cluster_id'') cluster)]"

definition retirement_matches :: "retirement_row option \<Rightarrow> pydict \<Rightarrow> bool" where
  "retirement_matches r p = (case r of None \<Rightarrow> False
     | Some r \<Rightarrow> py_eq (dget p ''retirement_id'') (PStr (ret_id r)) \<and> py_eq (dget p ''guard_instance'') (PStr (ret_guard r)) \<and>
         py_eq (dget p ''owned'') (PList []) \<and> py_eq (dget p ''retained_manual'') (PList []))"

text \<open>The identity-bound evidence of a removed source: its document, unless it is refused.\<close>

definition recovery_evidence :: "registry \<Rightarrow> source_row \<Rightarrow> pyval \<Rightarrow> (pydict \<times> uuid) result" where
  "recovery_evidence db row pf =
     bindr (identity_placement (s_settings row)) (\<lambda>(site, cluster).
     case (s_type row = ''esxi'', legacy_anchor (s_settings row), pf) of
       (True, Some anchor, PDict p) \<Rightarrow>
         bindr (refuse_if (evidence_refusals row site cluster anchor p) (LifecycleError ''SOURCE_RECOVERY_IDENTITY_REVIEW'')) (\<lambda>_.
         bindr (require (\<not> py_eq (dget p ''mode'') (PStr ''RETIRED_EMPTY'') \<or> retirement_matches (finalized_retirement db (s_instance row)) p)
           (LifecycleError ''SOURCE_RECOVERY_EVIDENCE_CHANGED'')) (\<lambda>_. Inr (p, anchor)))
     | _ \<Rightarrow> Inl (LifecycleError ''SOURCE_RECOVERY_IDENTITY_REVIEW''))"

text \<open>A registered source of the same provider, of unknown or of the same identity.\<close>

definition rival :: "registry \<Rightarrow> string \<Rightarrow> uuid \<Rightarrow> source_row \<Rightarrow> bool" where
  "rival db source anchor s = (s_type s = ''esxi'' \<and> s_instance s \<noteq> source \<and> removed_row db (s_instance s) = None \<and>
     legacy_anchor (s_settings s) \<in> {None, Some anchor})"

definition recovery_guard :: "(string \<Rightarrow> string) \<Rightarrow> registry \<Rightarrow> source_row \<Rightarrow> string \<Rightarrow> pyval \<Rightarrow> (tombstone_row \<times> pydict) result" where
  "recovery_guard H db row expected_revision pf =
     bindr (require (revision H (source_dict row) = expected_revision) (LifecycleError ''SOURCE_LIFECYCLE_CONFLICT'')) (\<lambda>_.
     case removed_row db (s_instance row) of None \<Rightarrow> Inl (LifecycleError ''SOURCE_RECOVERY_NOT_REMOVED'')
     | Some t \<Rightarrow>
         bindr (require (\<not> s_enabled row) (LifecycleError ''SOURCE_RECOVERY_NOT_REMOVED'')) (\<lambda>_.
         bindr (source_quiet db (s_instance row)) (\<lambda>_.
         bindr (recovery_evidence db row pf) (\<lambda>(p, anchor).
         bindr (require (\<not> list_ex (rival db (s_instance row) anchor) (sources db)) (LifecycleError ''SOURCE_RECOVERY_IDENTITY_CONFLICT'')) (\<lambda>_.
           Inr (t, p))))))"

section \<open>Preparing\<close>

definition tombstone_dict :: "tombstone_row \<Rightarrow> pydict" where
  "tombstone_dict t = [(''source_instance'', PStr (t_instance t)), (''display_name'', PStr (t_display_name t)),
     (''removed_at'', PStr (isoformat (t_removed_at t))), (''credential_state'', PStr (t_credential_state t)),
     (''restored_at'', PNone)]"

definition uuid_hex :: "uuid \<Rightarrow> string" where
  "uuid_hex u = filter (\<lambda>c. c \<noteq> CHR ''-'') u"

definition recovery_plan :: "uuid \<Rightarrow> source_row \<Rightarrow> tombstone_row \<Rightarrow> pydict \<Rightarrow> pydict" where
  "recovery_plan operation row t p =
     [(''proof'', PDict p), (''removal'', PDict (tombstone_dict t)),
      (''credential_key'', PStr (''src-recovery-'' @ uuid_hex operation)), (''broker_operation'', PStr (uuid_hex operation)),
      (''previous_credentials'', PDict [(''token_id_provider'', PStr (fst (s_token_id row))), (''token_id_key'', PStr (snd (s_token_id row))),
         (''token_secret_provider'', PStr (fst (s_token_secret row))), (''token_secret_key'', PStr (snd (s_token_secret row)))])]"

definition prepare_recovery_txn ::
  "(string \<Rightarrow> string) \<Rightarrow> string \<Rightarrow> uuid \<Rightarrow> string \<Rightarrow> string \<Rightarrow> pyval \<Rightarrow> recovery_row txn" where
  "prepare_recovery_txn H source operation actor expected_revision pf db =
     bindr (source_gate db source False False) (\<lambda>_.
     case recovery_of db operation of
       Some r \<Rightarrow> bindr (dindex (rc_plan r) ''proof'') (\<lambda>reviewed.
         bindr (require (rc_instance r = source \<and> rc_actor r = actor \<and> rc_revision r = expected_revision \<and> py_eq reviewed pf)
           (LifecycleError ''SOURCE_LIFECYCLE_CONFLICT'')) (\<lambda>_. Inr (r, db)))
     | None \<Rightarrow> bindr (recovery_source db source) (\<lambda>row.
         bindr (recovery_guard H db row expected_revision pf) (\<lambda>(t, p).
         bindr (require (\<not> recovery_active db source) (LifecycleError ''SOURCE_RECOVERY_ACTIVE'')) (\<lambda>_.
         let r = \<lparr>rc_id = operation, rc_instance = source, rc_actor = actor, rc_revision = expected_revision,
               rc_plan = recovery_plan operation row t p, rc_state = REC_PREPARED, rc_finished_at = None\<rparr>
         in Inr (r, db\<lparr>source_recoveries := source_recoveries db @ [r]\<rparr>)))))"

definition prepare_recovery ::
  "surroundings \<Rightarrow> string \<Rightarrow> uuid \<Rightarrow> string \<Rightarrow> string \<Rightarrow> pyval \<Rightarrow> recovery_row proc" where
  "prepare_recovery env source operation actor expected_revision pf =
     bindp (pure (require (actor \<noteq> [] \<and> length actor \<le> 200) (LifecycleError ''REQUEST_INVALID''))) (\<lambda>_.
     with_apply_lock (env_apply_free env) (commit (prepare_recovery_txn (env_hash env) source operation actor expected_revision pf)))"

section \<open>Credentials\<close>

definition begin_credentials_txn :: "(string \<Rightarrow> string) \<Rightarrow> string \<Rightarrow> uuid \<Rightarrow> string \<Rightarrow> recovery_row txn" where
  "begin_credentials_txn H source operation actor db =
     bindr (source_gate db source False False) (\<lambda>_.
     bindr (recovery_attempt db source operation actor) (\<lambda>r.
     if rc_state r = REC_RESTORED then Inr (r, db) else
     bindr (require (rc_state r \<in> {REC_PREPARED, REC_CREDENTIALS_PENDING}) (LifecycleError ''SOURCE_LIFECYCLE_CONFLICT'')) (\<lambda>_.
     bindr (recovery_source db source) (\<lambda>row.
     bindr (dindex (rc_plan r) ''proof'') (\<lambda>reviewed.
     bindr (recovery_guard H db row (rc_revision r) reviewed) (\<lambda>_.
       let f = (\<lambda>x. x\<lparr>rc_state := REC_CREDENTIALS_PENDING\<rparr>) in Inr (f r, update_recovery operation f db)))))))"

definition begin_credentials :: "surroundings \<Rightarrow> string \<Rightarrow> uuid \<Rightarrow> string \<Rightarrow> recovery_row proc" where
  "begin_credentials env source operation actor =
     with_apply_lock (env_apply_free env) (commit (begin_credentials_txn (env_hash env) source operation actor))"

definition abandon_recovery_txn :: "timestamp \<Rightarrow> string \<Rightarrow> uuid \<Rightarrow> string \<Rightarrow> recovery_row txn" where
  "abandon_recovery_txn now source operation actor db =
     bindr (source_gate db source False False) (\<lambda>_.
     bindr (recovery_attempt db source operation actor) (\<lambda>r.
     if rc_state r = REC_ABANDONED then Inr (r, db) else
     bindr (require (rc_state r = REC_PREPARED) (LifecycleError ''SOURCE_RECOVERY_OUTCOME_UNCERTAIN'')) (\<lambda>_.
       Inr (r\<lparr>rc_state := REC_ABANDONED\<rparr>,
         update_recovery operation (\<lambda>x. x\<lparr>rc_state := REC_ABANDONED, rc_finished_at := Some now\<rparr>) db))))"

definition abandon_recovery :: "surroundings \<Rightarrow> string \<Rightarrow> uuid \<Rightarrow> string \<Rightarrow> recovery_row proc" where
  "abandon_recovery env source operation actor =
     with_apply_lock (env_apply_free env) (commit (abandon_recovery_txn (env_now env) source operation actor))"

section \<open>Completion\<close>

record probe_metadata =
  pm_username :: string
  pm_address :: pyval
  pm_verify_ssl :: bool
  pm_port :: pyval

definition checked_metadata :: "pyval \<Rightarrow> probe_metadata result" where
  "checked_metadata metadata = (case metadata of
     PDict m \<Rightarrow> (case (dget m ''username'', dget m ''verify_ssl'') of
         (PStr (c # cs), PBool b) \<Rightarrow>
           bindr (require (set (map fst m) = {''username'', ''address'', ''verify_ssl'', ''port''}) (LifecycleError ''REQUEST_INVALID'')) (\<lambda>_.
           bindr (source_port ''esxi'' (dget m ''port'')) (\<lambda>_.
             Inr \<lparr>pm_username = c # cs, pm_address = dget m ''address'', pm_verify_ssl = b, pm_port = dget m ''port''\<rparr>))
       | _ \<Rightarrow> Inl (LifecycleError ''REQUEST_INVALID''))
   | _ \<Rightarrow> Inl (LifecycleError ''REQUEST_INVALID''))"

text \<open>The configuration the recovered source will have; the source stays out of the schedule.\<close>

definition recovered_config :: "source_row \<Rightarrow> probe_metadata \<Rightarrow> string \<Rightarrow> SourceConfig result" where
  "recovered_config row m key =
     bindr (row_to_record row) (\<lambda>found.
     bindr (new_SecretReference ''file'' key) (\<lambda>ref.
     bindr (new_SourceCredentials (pm_username m) ref ref) (\<lambda>credentials.
     case pm_address m of PStr address \<Rightarrow>
       let c = rec_config found in
       bindr (new_SourceConfig (c\<lparr>cfg_enabled := True, cfg_sync_enabled := False, cfg_address := address,
         cfg_verify_ssl := pm_verify_ssl m,
         cfg_settings := AList.update ''api_port'' (py_or (pm_port m) (PInt 443)) (cfg_settings c), cfg_credentials := credentials\<rparr>)) (\<lambda>config.
       bindr (validate_config config) (\<lambda>_. Inr config))
     | _ \<Rightarrow> Inl (ValueError ''address must be a non-empty string''))))"

definition recovered_row :: "SourceConfig \<Rightarrow> probe_metadata \<Rightarrow> string \<Rightarrow> source_row \<Rightarrow> source_row" where
  "recovered_row c m key r = r\<lparr>s_enabled := True, s_sync_enabled := False, s_token_id := (''file'', key), s_token_secret := (''file'', key),
     s_settings := cfg_settings c,
     s_columns := dict_merge (s_columns r) [(''address'', PStr (cfg_address c)), (''verify_ssl'', PBool (cfg_verify_ssl c)),
       (''username'', PStr (pm_username m))]\<rparr>"

definition restore_tombstone :: "timestamp \<Rightarrow> string \<Rightarrow> registry \<Rightarrow> registry" where
  "restore_tombstone now source db = db\<lparr>source_tombstones := update_where
     (\<lambda>t. t_instance t = source \<and> t_restored_at t = None) (\<lambda>t. t\<lparr>t_restored_at := Some now\<rparr>) (source_tombstones db)\<rparr>"

definition text_member :: "pydict \<Rightarrow> string \<Rightarrow> string result" where
  "text_member d k = bindr (dindex d k) (\<lambda>v. case v of PStr t \<Rightarrow> Inr t | _ \<Rightarrow> Inl (TypeError k))"

definition complete_recovery_txn ::
  "(string \<Rightarrow> string) \<Rightarrow> timestamp \<Rightarrow> (string \<Rightarrow> string \<Rightarrow> bool result) \<Rightarrow> string \<Rightarrow> uuid \<Rightarrow> string \<Rightarrow> pyval \<Rightarrow> probe_metadata \<Rightarrow> recovery_row txn" where
  "complete_recovery_txn H now verify_owned source operation actor pf m db =
     bindr (source_gate db source False False) (\<lambda>_.
     bindr (recovery_attempt db source operation actor) (\<lambda>r.
     if rc_state r = REC_RESTORED then Inr (r, db) else
     bindr (require (rc_state r = REC_CREDENTIALS_PENDING) (LifecycleError ''SOURCE_LIFECYCLE_CONFLICT'')) (\<lambda>_.
     bindr (dindex (rc_plan r) ''proof'') (\<lambda>reviewed.
     bindr (require (py_eq pf reviewed) (LifecycleError ''SOURCE_RECOVERY_EVIDENCE_CHANGED'')) (\<lambda>_.
     bindr (recovery_source db source) (\<lambda>row.
     bindr (recovery_guard H db row (rc_revision r) pf) (\<lambda>_.
     bindr (text_member (rc_plan r) ''credential_key'') (\<lambda>key.
     bindr (text_member (rc_plan r) ''broker_operation'') (\<lambda>broker.
     bindr (verify_owned key broker) (\<lambda>owned.
     bindr (require owned (LifecycleError ''SOURCE_RECOVERY_CREDENTIALS_UNCONFIRMED'')) (\<lambda>_.
     bindr (recovered_config row m key) (\<lambda>config.
     bindr (guard_source_credential_refs db (Some row) (recovered_row config m key row)) (\<lambda>_.
       Inr (r\<lparr>rc_state := REC_RESTORED\<rparr>,
         update_recovery operation (\<lambda>x. x\<lparr>rc_state := REC_RESTORED, rc_finished_at := Some now\<rparr>)
           (stale_ready_plans now source (restore_tombstone now source (update_source source (recovered_row config m key) db)))))))))))))))))"

definition complete_recovery ::
  "surroundings \<Rightarrow> (string \<Rightarrow> string \<Rightarrow> bool result) \<Rightarrow> string \<Rightarrow> uuid \<Rightarrow> string \<Rightarrow> pyval \<Rightarrow> pyval \<Rightarrow> recovery_row proc" where
  "complete_recovery env verify_owned source operation actor pf metadata =
     bindp (pure (checked_metadata metadata)) (\<lambda>m.
     with_apply_lock (env_apply_free env)
       (commit (complete_recovery_txn (env_hash env) (env_now env) verify_owned source operation actor pf m)))"

section \<open>Reads\<close>

definition recovery_status :: "registry \<Rightarrow> string \<Rightarrow> uuid \<Rightarrow> string \<Rightarrow> (recovery_state \<times> bool) result" where
  "recovery_status db source operation actor =
     bindr (source_gate db source False False) (\<lambda>_.
     bindr (recovery_attempt db source operation actor) (\<lambda>r.
     bindr (recovery_source db source) (\<lambda>row. Inr (rc_state r, s_enabled row))))"

record recovery_view =
  rv_source :: string
  rv_name :: string
  rv_revision :: string
  rv_pending :: "uuid option"
  rv_host_uuid :: "uuid option"
  rv_site :: pyval
  rv_cluster :: pyval
  rv_completed_retirement :: bool

definition describe_recovery :: "(string \<Rightarrow> string) \<Rightarrow> registry \<Rightarrow> string \<Rightarrow> string \<Rightarrow> recovery_view result" where
  "describe_recovery H db source actor =
     bindr (source_gate db source False False) (\<lambda>_.
     bindr (recovery_source db source) (\<lambda>row.
     bindr (require (removed_row db source \<noteq> None) (LifecycleError ''SOURCE_RECOVERY_NOT_REMOVED'')) (\<lambda>_.
     bindr (identity_placement (s_settings row)) (\<lambda>(site, cluster).
     bindr (require (s_type row = ''esxi'' \<and> positive_int site \<and> positive_int cluster) (LifecycleError ''SOURCE_RECOVERY_IDENTITY_REVIEW'')) (\<lambda>_.
       Inr \<lparr>rv_source = source, rv_name = s_name row, rv_revision = revision H (source_dict row),
            rv_pending = map_option rc_id (List.find (\<lambda>r. rc_instance r = source \<and> rc_actor r = actor \<and>
              rc_state r \<in> {REC_PREPARED, REC_CREDENTIALS_PENDING}) (source_recoveries db)),
            rv_host_uuid = legacy_anchor (s_settings row), rv_site = site, rv_cluster = cluster,
            rv_completed_retirement = (finalized_retirement db source \<noteq> None)\<rparr>)))))"

definition recovery_inventory :: "surroundings \<Rightarrow> 'r remote \<Rightarrow> string \<Rightarrow> uuid \<Rightarrow> (registry \<times> 'r, pydict) action" where
  "recovery_inventory env remote source operation w =
     (if \<not> env_apply_free env then (Inl (LifecycleError ''SOURCE_APPLY_ACTIVE''), w)
      else bindp (on_db (\<lambda>db. (recovery_source db source, db))) (\<lambda>_.
        bindp (call remote ''audit'' operation [(''source_instance'', PStr source)]) (\<lambda>(_, result). pure (Inr result))) w)"

text \<open>The evidence of a source whose objects a retirement has removed.\<close>

definition present_objects :: "pydict \<Rightarrow> bool result" where
  "present_objects result = bindr (dindex result ''objects'') (\<lambda>v. bindr (py_iter v) (\<lambda>items.
     or_chain (map (\<lambda>i. bindr (py_index i ''present'') (\<lambda>b. Inr (py_truth b))) items)))"

definition retired_document ::
  "string \<Rightarrow> source_row \<Rightarrow> retirement_row \<Rightarrow> pyval \<Rightarrow> pyval \<Rightarrow> bool \<Rightarrow> pyval \<Rightarrow> pydict" where
  "retired_document source row r site cluster present digest =
     [(''source_instance'', PStr source), (''host_uuid'', (case legacy_anchor (s_settings row) of None \<Rightarrow> PNone | Some a \<Rightarrow> PStr a)),
      (''site_id'', site), (''cluster_id'', cluster), (''mode'', PStr ''RETIRED_EMPTY''), (''retirement_id'', PStr (ret_id r)),
      (''guard_instance'', PStr (ret_guard r)), (''owned'', PList []), (''retained_manual'', PList []),
      (''blockers'', PList (if present then [PStr ''RETIRED_OBJECTS_PRESENT''] else [])),
      (''inventory_digest'', digest), (''placement_requires_review'', PBool True)]"

definition canonical_fingerprint :: "(string \<Rightarrow> string) \<Rightarrow> pydict \<Rightarrow> string" where
  "canonical_fingerprint H d = H (dumps_compact (PDict d))"

definition retired_state :: "registry \<Rightarrow> string \<Rightarrow> (source_row \<times> retirement_row \<times> pyval \<times> pyval) result" where
  "retired_state db source =
     bindr (source_gate db source False False) (\<lambda>_.
     bindr (recovery_source db source) (\<lambda>row. case finalized_retirement db source of
       None \<Rightarrow> Inl (LifecycleError ''SOURCE_RECOVERY_IDENTITY_REVIEW'')
     | Some r \<Rightarrow> bindr (identity_placement (s_settings row)) (\<lambda>(site, cluster). Inr (row, r, site, cluster))))"

definition retired_evidence :: "surroundings \<Rightarrow> 'r remote \<Rightarrow> string \<Rightarrow> uuid \<Rightarrow> (registry \<times> 'r, pydict) action" where
  "retired_evidence env remote source operation w =
     (if \<not> env_apply_free env then (Inl (LifecycleError ''SOURCE_APPLY_ACTIVE''), w)
      else bindp (on_db (\<lambda>db. (retired_state db source, db))) (\<lambda>(row, r, site, cluster).
        bindp (call remote ''receipt'' (ret_id r) []) (\<lambda>(guard_instance, receipt).
        bindp (pure (require (guard_instance = ret_guard r \<and>
              py_eq (PDict receipt) (case ret_receipt r of None \<Rightarrow> PNone | Some d \<Rightarrow> PDict d) \<and>
              py_eq (dget receipt ''status'') (PStr ''SUCCEEDED'')) (LifecycleError ''SOURCE_RECOVERY_EVIDENCE_CHANGED''))) (\<lambda>_.
        bindp (call remote ''audit'' operation [(''source_instance'', PStr source)]) (\<lambda>(audited, result).
        bindp (pure (require (audited = ret_guard r) (LifecycleError ''SOURCE_RECOVERY_EVIDENCE_CHANGED''))) (\<lambda>_.
        pure (bindr (present_objects result) (\<lambda>present. bindr (dindex result ''digest'') (\<lambda>digest.
          let d = retired_document source row r site cluster present digest
          in Inr (d @ [(''digest'', PStr (canonical_fingerprint (env_hash env) d))]))))))))) w)"

section \<open>What a completed recovery relies on\<close>

lemma new_SourceConfig_settings: "new_SourceConfig c = Inr c' \<Longrightarrow> cfg_settings c' = cfg_settings c"
  unfolding new_SourceConfig_def bindr_Inr_conv bind_require_Inr_iff Let_def
  by (auto simp: bindr_Inr_conv split: if_splits pyval.splits)

lemma row_to_record_settings: "row_to_record r = Inr x \<Longrightarrow> cfg_settings (rec_config x) = s_settings r"
  unfolding row_to_record_def bindr_Inr_conv Let_def by (auto dest: new_SourceConfig_settings)

lemma recovered_settings:
  assumes "recovered_config row m key = Inr c"
  shows "cfg_settings c = AList.update ''api_port'' (py_or (pm_port m) (PInt 443)) (s_settings row)"
proof -
  obtain found where "row_to_record row = Inr found"
    "cfg_settings c = AList.update ''api_port'' (py_or (pm_port m) (PInt 443)) (cfg_settings (rec_config found))"
    using assms unfolding recovered_config_def bindr_Inr_conv Let_def
    by (cases "pm_address m") (auto simp: bindr_Inr_conv dest!: new_SourceConfig_settings)
  then show ?thesis by (simp add: row_to_record_settings)
qed

lemma anchor_api_port [simp]:
  "legacy_anchor (AList.update ''api_port'' v settings) = legacy_anchor settings"
  "registration_anchor (AList.update ''api_port'' v settings) = registration_anchor settings"
proof -
  show l: "legacy_anchor (AList.update ''api_port'' v settings) = legacy_anchor settings" by (simp add: legacy_anchor_def)
  have "dget_default (AList.update ''api_port'' v settings) ''legacy_admission'' w = dget_default settings ''legacy_admission'' w" for w by simp
  then show "registration_anchor (AList.update ''api_port'' v settings) = registration_anchor settings"
    by (simp only: registration_anchor_def l)
qed

lemma recovery_evidence_Inr:
  assumes "recovery_evidence db row pf = Inr (p, anchor)"
  shows "s_type row = ''esxi'' \<and> pf = PDict p \<and> legacy_anchor (s_settings row) = Some anchor \<and>
    py_eq (dget p ''source_instance'') (PStr (s_instance row)) \<and> py_eq (dget p ''host_uuid'') (PStr anchor) \<and> py_eq (dget p ''blockers'') (PList [])"
proof (cases "s_type row = ''esxi''")
  case True
  then show ?thesis using assms unfolding recovery_evidence_def
    by (cases "legacy_anchor (s_settings row)"; cases pf)
      (auto simp: bindr_Inr_conv evidence_refusals_def split: prod.splits)
next
  case False
  then show ?thesis using assms unfolding recovery_evidence_def by (auto simp: bindr_Inr_conv split: prod.splits)
qed

lemma recovery_guard_Inr:
  assumes "recovery_guard H db row expected pf = Inr (t, p)" "s_instance row = source"
  shows "revision H (source_dict row) = expected \<and> removed_row db source = Some t \<and> \<not> s_enabled row \<and>
    \<not> operation_running db source \<and> \<not> run_blocks db source \<and>
    (\<exists>anchor. recovery_evidence db row pf = Inr (p, anchor) \<and> \<not> list_ex (rival db source anchor) (sources db))"
  using assms unfolding recovery_guard_def
  by (auto simp: bindr_Inr_conv source_quiet_def split: option.splits prod.splits)

definition restored_db :: "timestamp \<Rightarrow> string \<Rightarrow> uuid \<Rightarrow> SourceConfig \<Rightarrow> probe_metadata \<Rightarrow> string \<Rightarrow> registry \<Rightarrow> registry" where
  "restored_db now source operation config m key db =
     update_recovery operation (\<lambda>x. x\<lparr>rc_state := REC_RESTORED, rc_finished_at := Some now\<rparr>)
       (stale_ready_plans now source (restore_tombstone now source (update_source source (recovered_row config m key) db)))"

lemma complete_recovery_Inr:
  assumes "complete_recovery_txn H now verify_owned source operation actor pf m db = Inr (r', db')"
    "recovery_attempt db source operation actor = Inr r" "rc_state r \<noteq> REC_RESTORED"
  obtains row reviewed key config t p where "source_gate db source False False = Inr ()" "rc_state r = REC_CREDENTIALS_PENDING"
    "dindex (rc_plan r) ''proof'' = Inr reviewed" "py_eq pf reviewed" "source_of db source = Some row"
    "recovery_guard H db row (rc_revision r) pf = Inr (t, p)" "recovered_config row m key = Inr config"
    "db' = restored_db now source operation config m key db"
  using assms unfolding complete_recovery_txn_def bindr_Inr_conv restored_db_def recovery_source_def
  by (auto simp: bindr_Inr_conv split: option.splits)

lemma restored_sources:
  assumes "source_of db source = Some row"
  shows "source_of (restored_db now source operation config m key db) source = Some (recovered_row config m key row)"
  using assms source_of_update[of "recovered_row config m key" source db source]
  by (simp add: restored_db_def update_recovery_def restore_tombstone_def recovered_row_def source_of_def)

lemma restored_tombstone: "removed_row (restored_db now source operation config m key db) source = None"
proof -
  let ?p = "\<lambda>t. t_instance t = source \<and> t_restored_at t = None" and ?f = "\<lambda>t. t\<lparr>t_restored_at := Some now\<rparr>"
  have t: "source_tombstones (restored_db now source operation config m key db) = update_where ?p ?f (source_tombstones db)"
    by (simp add: restored_db_def update_recovery_def stale_ready_plans_def restore_tombstone_def update_source_def)
  have "\<not> ?p t" if "t \<in> set (update_where ?p ?f (source_tombstones db))" for t
    using that by (rule update_where_none[of ?p ?f, rotated]) simp
  then show ?thesis unfolding removed_row_def find_none t by blast
qed

text \<open>
  C7: A recovery completes only from an attempt that holds its credentials, on exactly the
  evidence that was reviewed when it was prepared, for a source that is still removed, disabled
  and idle, at the reviewed revision, and whose hardware identity no registered source has or
  might have. The source then is enabled under the same identity, out of the schedule, without a
  ready plan, and may be synchronized.
\<close>
theorem recovery_restores_reviewed:
  assumes completed: "complete_recovery_txn H now verify_owned source operation actor pf m db = Inr (r', db')"
    and attempt: "recovery_attempt db source operation actor = Inr r" "rc_state r \<noteq> REC_RESTORED"
  shows "rc_state r = REC_CREDENTIALS_PENDING \<and> (\<exists>reviewed. dindex (rc_plan r) ''proof'' = Inr reviewed \<and> py_eq pf reviewed) \<and>
    removed_row db source \<noteq> None \<and> \<not> operation_running db source \<and> \<not> run_blocks db source \<and>
    (\<exists>row row' anchor. source_of db source = Some row \<and> \<not> s_enabled row \<and> revision H (source_dict row) = rc_revision r \<and>
       legacy_anchor (s_settings row) = Some anchor \<and> (\<forall>s \<in> set (sources db). \<not> rival db source anchor s) \<and>
       source_of db' source = Some row' \<and> s_enabled row' \<and> \<not> s_sync_enabled row' \<and> legacy_anchor (s_settings row') = Some anchor) \<and>
    removed_row db' source = None \<and> guard_run_source db' source = Inr () \<and>
    (\<forall>o' \<in> set (source_operations db'). \<not> (o_instance o' = source \<and> o_kind o' = ''PLAN'' \<and> o_status o' = OP_READY))"
proof -
  obtain row reviewed key config t p where gate: "source_gate db source False False = Inr ()"
    and st: "rc_state r = REC_CREDENTIALS_PENDING" "dindex (rc_plan r) ''proof'' = Inr reviewed" "py_eq pf reviewed"
    and row: "source_of db source = Some row" and g: "recovery_guard H db row (rc_revision r) pf = Inr (t, p)"
    and c: "recovered_config row m key = Inr config" and db': "db' = restored_db now source operation config m key db"
    by (rule complete_recovery_Inr[OF completed attempt])
  have inst: "s_instance row = source" using source_of_Some[OF row] by simp
  note g = recovery_guard_Inr[OF g inst]
  obtain anchor where e: "recovery_evidence db row pf = Inr (p, anchor)" and rival: "\<not> list_ex (rival db source anchor) (sources db)"
    using g by blast
  let ?row = "recovered_row config m key row"
  have row': "source_of db' source = Some ?row" unfolding db' by (rule restored_sources[OF row])
  have gone: "removed_row db' source = None" unfolding db' by (rule restored_tombstone)
  have a: "legacy_anchor (s_settings row) = Some anchor" using recovery_evidence_Inr[OF e] by simp
  have r': "s_enabled ?row" "\<not> s_sync_enabled ?row" "legacy_anchor (s_settings ?row) = Some anchor"
    using a by (simp_all add: recovered_row_def recovered_settings[OF c])
  have "source_archives db' = source_archives db" "source_retirements db' = source_retirements db"
    by (simp_all add: db' restored_db_def update_recovery_def restore_tombstone_def)
  then have run: "guard_run_source db' source = Inr ()"
    using gate row' gone by (auto simp: guard_run_source_def archived_def inflight_def list_ex_iff)
  have plans: "\<not> (o_instance o' = source \<and> o_kind o' = ''PLAN'' \<and> o_status o' = OP_READY)" if "o' \<in> set (source_operations db')" for o'
    using that stale_ready_plans_none by (simp add: db' restored_db_def update_recovery_def)
  show ?thesis using st g row row' a rival r' gone run plans by (auto simp: list_ex_iff)
qed

definition recovering_source :: source_row where
  "recovering_source = example_esxi\<lparr>s_enabled := False, s_sync_enabled := False,
     s_settings := [(''provider_identity'', PDict (verified_identity ''4c4c4544-0042-3510-8052-b4c04f4e3432'' ''11111111-2222-3333-4444-555555555555''
       [(''site_id'', PInt 3), (''cluster_id'', PInt 7)]))],
     s_columns := config_columns (example_config\<lparr>cfg_legacy_owner := False\<rparr>)\<rparr>"

definition reviewed_evidence :: pydict where
  "reviewed_evidence = [(''source_instance'', PStr ''esx-a''), (''host_uuid'', PStr ''4c4c4544-0042-3510-8052-b4c04f4e3432''),
     (''blockers'', PList []), (''digest'', PStr (replicate 64 (CHR ''a''))), (''site_id'', PInt 3), (''cluster_id'', PInt 7)]"

definition removal_tombstone :: tombstone_row where
  "removal_tombstone = \<lparr>t_instance = ''esx-a'', t_display_name = ''ESX A'', t_removed_at = 0, t_restored_at = None, t_credential_state = ''REMOVED''\<rparr>"

definition pending_recovery :: recovery_row where
  "pending_recovery = \<lparr>rc_id = ''op-1'', rc_instance = ''esx-a'', rc_actor = ''admin'', rc_revision = ''h'',
     rc_plan = recovery_plan ''op-1'' recovering_source removal_tombstone reviewed_evidence,
     rc_state = REC_CREDENTIALS_PENDING, rc_finished_at = None\<rparr>"

definition recovering_registry :: registry where
  "recovering_registry = host_registry\<lparr>sources := [example_source, recovering_source], source_tombstones := [removal_tombstone],
     source_recoveries := [pending_recovery]\<rparr>"

definition example_metadata :: probe_metadata where
  "example_metadata = \<lparr>pm_username = ''root'', pm_address = PStr ''esx.example'', pm_verify_ssl = True, pm_port = PNone\<rparr>"

theorem recovery_restores_reviewed_witness:
  "\<exists>r' db'. complete_recovery_txn (\<lambda>_. ''h'') 9 (\<lambda>_ _. Inr True) ''esx-a'' ''op-1'' ''admin'' (PDict reviewed_evidence) example_metadata
       recovering_registry = Inr (r', db') \<and> removed_row db' ''esx-a'' = None \<and> guard_run_source db' ''esx-a'' = Inr ()"
proof -
  define res where "res = complete_recovery_txn (\<lambda>_. ''h'') 9 (\<lambda>_ _. Inr True) ''esx-a'' ''op-1'' ''admin'' (PDict reviewed_evidence) example_metadata
    recovering_registry"
  have "case res of Inr _ \<Rightarrow> True | _ \<Rightarrow> False" unfolding res_def by code_simp
  then obtain r' db' where "res = Inr (r', db')" by (cases res) auto
  note completed = this[unfolded res_def]
  have "recovery_attempt recovering_registry ''esx-a'' ''op-1'' ''admin'' = Inr pending_recovery" "rc_state pending_recovery \<noteq> REC_RESTORED"
    by code_simp+
  from recovery_restores_reviewed[OF completed this] completed show ?thesis by blast
qed

end
