(* ===== verification/Run_Reconciliation.thy ===== *)
theory Run_Reconciliation
  imports Source_Recovery
begin

text \<open>
  \<open>run_reconciliation.py\<close> and the administrative half of \<open>source_archive.py\<close>: accepting the present
  inventory as a new baseline after runs of unknown outcome, verifying an archive again after a
  restore of the database, and the inventory of all generations of sources. A baseline never
  changes the history: it is recorded beside the runs and lifts their blocking.
\<close>

section \<open>Runs of unknown outcome\<close>

fun run_status_text :: "run_status \<Rightarrow> string" where
  "run_status_text RUN_RUNNING = ''RUNNING''"
| "run_status_text RUN_SUCCEEDED = ''SUCCEEDED''"
| "run_status_text RUN_FAILED_BEFORE_WRITE = ''FAILED_BEFORE_WRITE''"
| "run_status_text RUN_PARTIALLY_APPLIED = ''PARTIALLY_APPLIED''"
| "run_status_text RUN_OUTCOME_UNCERTAIN = ''OUTCOME_UNCERTAIN''"
| "run_status_text RUN_BLOCKED = ''BLOCKED''"
| "run_status_text RUN_LOCKED = ''LOCKED''"
| "run_status_text RUN_FAILED = ''FAILED''"

definition opt_text :: "string option \<Rightarrow> pyval" where
  "opt_text t = (case t of None \<Rightarrow> PNone | Some s \<Rightarrow> PStr s)"

definition run_evidence :: "run_row \<Rightarrow> pydict" where
  "run_evidence r = [(''run_id'', PStr (r_id r)), (''status'', PStr (run_status_text (r_status r))),
     (''finished_at'', opt_time isoformat (r_finished_at r)), (''plan_digest'', opt_text (r_digest r)),
     (''planner_version'', opt_text (r_planner r)), (''error_code'', opt_text (r_code r))]"

definition unconfirmed_runs :: "registry \<Rightarrow> string \<Rightarrow> run_row list" where
  "unconfirmed_runs db source = take 101 (sort_key r_id
     (filter (\<lambda>r. r_instance r = source \<and> unconfirmed_status (r_status r)) (blocking_runs db)))"

definition baseline_local :: "registry \<Rightarrow> string \<Rightarrow> (source_row \<times> run_row list) result" where
  "baseline_local db source = (case source_of db source of None \<Rightarrow> Inl (LifecycleError ''SOURCE_NOT_FOUND'')
     | Some row \<Rightarrow>
         bindr (require (\<not> run_running db source) (LifecycleError ''SOURCE_OPERATION_ACTIVE'')) (\<lambda>_.
         bindr (require (\<not> operation_running db source) (LifecycleError ''SOURCE_OPERATION_ACTIVE'')) (\<lambda>_.
         let runs = unconfirmed_runs db source in
         bindr (require (length runs \<le> 100 \<and> list_all (\<lambda>r. r_finished_at r \<noteq> None) runs)
           (LifecycleError ''RUN_RECONCILIATION_UNAVAILABLE'')) (\<lambda>_. Inr (row, runs)))))"

section \<open>Review\<close>

text \<open>The earlier decisions on the source, one entry per operation, actor, date and validity.\<close>

definition decision_key :: "reconciliation_row \<Rightarrow> uuid \<times> string \<times> timestamp \<times> bool" where
  "decision_key a = (rr_operation a, rr_actor a, rr_created_at a, rr_valid a)"

definition decision_view :: "reconciliation_row list \<Rightarrow> uuid \<times> string \<times> timestamp \<times> bool \<Rightarrow> pyval" where
  "decision_view rows key = (case key of (operation, actor, created, valid) \<Rightarrow>
     PDict [(''operation_id'', PStr operation), (''actor_id'', PStr actor), (''created_at'', PStr (isoformat created)),
       (''valid'', PBool valid), (''runs'', PList (map PStr (sort (map rr_run_id (filter (\<lambda>a. decision_key a = key) rows))))),
       (''historical_outcome'', PStr ''UNPROVED'')])"

definition earlier_decisions :: "registry \<Rightarrow> string \<Rightarrow> pyval" where
  "earlier_decisions db source = (let rows = filter (\<lambda>a. rr_instance a = source) (run_reconciliations db) in
     PList (map (decision_view rows) (take 100 (sort_key (\<lambda>(_, _, created, _). - created) (remdups (map decision_key rows))))))"

record baseline_review =
  br_revision :: string
  br_runs :: "pydict list"
  br_document :: pydict
  br_digest :: string

definition baseline_read :: "(string \<Rightarrow> string) \<Rightarrow> string \<Rightarrow> registry \<Rightarrow> (string \<times> pydict list \<times> pyval) result" where
  "baseline_read H source db =
     bindr (source_gate db source False True) (\<lambda>_.
     bindr (baseline_local db source) (\<lambda>(row, runs).
       Inr (revision H (source_dict row), map run_evidence runs, earlier_decisions db source)))"

definition baseline_document :: "string \<Rightarrow> string \<Rightarrow> pydict list \<Rightarrow> pyval \<Rightarrow> pyval \<Rightarrow> pyval \<Rightarrow> pydict" where
  "baseline_document source reviewed runs decisions guard_instance inventory =
     [(''source_instance'', PStr source), (''revision'', PStr reviewed), (''runs'', PList (map PDict runs)),
      (''decisions'', decisions), (''guard_instance'', guard_instance), (''inventory'', inventory),
      (''decision'', PStr ''ACCEPT_CURRENT_BASELINE''), (''historical_outcome'', PStr ''UNPROVED''), (''schedule_after'', PBool False)]"

definition observed_inventory :: "'r remote \<Rightarrow> string \<Rightarrow> uuid \<Rightarrow> pydict list \<Rightarrow> (registry \<times> 'r, pyval \<times> pyval) action" where
  "observed_inventory remote source operation runs =
     (if runs = [] then pure (Inr (PNone, PDict [(''source_instance'', PStr source), (''objects'', PList []), (''historical_outcome'', PStr ''UNPROVED'')]))
      else bindp (call remote ''audit'' operation [(''source_instance'', PStr source)]) (\<lambda>(guard_instance, result).
        pure (Inr (PStr guard_instance, PDict result))))"

definition baseline_review_locked :: "surroundings \<Rightarrow> 'r remote \<Rightarrow> string \<Rightarrow> uuid \<Rightarrow> (registry \<times> 'r, baseline_review) action" where
  "baseline_review_locked env remote source operation =
     bindp (on_db (\<lambda>db. (baseline_read (env_hash env) source db, db))) (\<lambda>(reviewed, runs, decisions).
     bindp (observed_inventory remote source operation runs) (\<lambda>(guard_instance, inventory).
       let d = baseline_document source reviewed runs decisions guard_instance inventory
       in pure (Inr \<lparr>br_revision = reviewed, br_runs = runs, br_document = d, br_digest = canonical_fingerprint (env_hash env) d\<rparr>)))"

text \<open>
  \<open>_waiting_lock\<close>: the intent lock is tried once, the apply lock for ten seconds. Whether they are
  obtained is given; waiting changes nothing.
\<close>

definition waiting_lock :: "bool \<Rightarrow> bool \<Rightarrow> ('s, 'a) action \<Rightarrow> ('s, 'a) action" where
  "waiting_lock intent_free apply_free p =
     (if intent_free \<and> apply_free then p else pure (Inl (LifecycleError ''SOURCE_APPLY_ACTIVE'')))"

definition review_baseline :: "surroundings \<Rightarrow> bool \<Rightarrow> 'r remote \<Rightarrow> string \<Rightarrow> uuid \<Rightarrow> (registry \<times> 'r, baseline_review) action" where
  "review_baseline env intent_free remote source operation =
     waiting_lock intent_free (env_apply_free env) (baseline_review_locked env remote source operation)"

section \<open>Confirmation\<close>

definition ACKNOWLEDGEMENTS :: "string list" where
  "ACKNOWLEDGEMENTS = [''old_writes_stopped'', ''outcome_stays_unknown'', ''fresh_plan_required'']"

definition acknowledged :: "pyval \<Rightarrow> bool" where
  "acknowledged v = (case v of
     PDict d \<Rightarrow> list_all (\<lambda>p. snd p \<in> {PBool True, PBool False}) d \<and>
       py_eq v (PDict (map (\<lambda>k. (k, PBool True)) ACKNOWLEDGEMENTS))
   | _ \<Rightarrow> False)"

definition reconciliation :: "timestamp \<Rightarrow> string \<Rightarrow> string \<Rightarrow> uuid \<Rightarrow> pydict \<Rightarrow> run_row \<Rightarrow> reconciliation_row" where
  "reconciliation now source actor operation decision r = \<lparr>rr_run_id = r_id r, rr_instance = source, rr_actor = actor, rr_operation = operation,
     rr_run_status = r_status r, rr_run_finished_at = (case r_finished_at r of None \<Rightarrow> 0 | Some t \<Rightarrow> t),
     rr_decision = decision, rr_valid = True, rr_created_at = now\<rparr>"

text \<open>The primary key and the unique index on valid decisions.\<close>

definition reconcilable :: "registry \<Rightarrow> uuid \<Rightarrow> run_row \<Rightarrow> bool" where
  "reconcilable db operation r =
     (\<not> list_ex (\<lambda>a. rr_run_id a = r_id r \<and> (rr_operation a = operation \<or> rr_valid a)) (run_reconciliations db))"

definition baseline_txn ::
  "(string \<Rightarrow> string) \<Rightarrow> timestamp \<Rightarrow> string \<Rightarrow> uuid \<Rightarrow> string \<Rightarrow> baseline_review \<Rightarrow> pyval \<Rightarrow> unit txn" where
  "baseline_txn H now source operation actor reviewed acknowledgements db =
     bindr (source_gate db source False True) (\<lambda>_.
     bindr (baseline_local db source) (\<lambda>(row, runs).
     bindr (require (revision H (source_dict row) = br_revision reviewed \<and> map run_evidence runs = br_runs reviewed)
       (LifecycleError ''SOURCE_LIFECYCLE_CONFLICT'')) (\<lambda>_.
     bindr (require (list_all (reconcilable db operation) runs) (UniqueViolation ''run_reconciliations'')) (\<lambda>_.
     let decision = br_document reviewed @ [(''digest'', PStr (br_digest reviewed)), (''acknowledgements'', acknowledgements)];
         db1 = db\<lparr>run_reconciliations := run_reconciliations db @ map (reconciliation now source actor operation decision) runs\<rparr>
     in Inr ((), stale_ready_plans now source (update_source source (\<lambda>s. s\<lparr>s_sync_enabled := False\<rparr>) db1))))))"

definition earlier_acceptance :: "registry \<Rightarrow> string \<Rightarrow> uuid \<Rightarrow> string \<Rightarrow> string \<Rightarrow> bool result" where
  "earlier_acceptance db source operation actor digest = (case List.find (\<lambda>a. rr_operation a = operation) (run_reconciliations db) of
     None \<Rightarrow> Inr False
   | Some a \<Rightarrow>
       bindr (require (rr_valid a) (LifecycleError ''SOURCE_LIFECYCLE_CONFLICT'')) (\<lambda>_.
       bindr (dindex (rr_decision a) ''digest'') (\<lambda>d.
       bindr (require (rr_actor a = actor \<and> rr_instance a = source \<and> py_eq d (PStr digest)) (LifecycleError ''SOURCE_LIFECYCLE_CONFLICT'')) (\<lambda>_.
         Inr True))))"

definition confirm_baseline ::
  "surroundings \<Rightarrow> bool \<Rightarrow> 'r remote \<Rightarrow> string \<Rightarrow> uuid \<Rightarrow> string \<Rightarrow> string \<Rightarrow> pyval \<Rightarrow> (registry \<times> 'r, unit) action" where
  "confirm_baseline env intent_free remote source operation actor digest acknowledgements =
     bindp (pure (require (actor \<noteq> [] \<and> length actor \<le> 200 \<and> acknowledged acknowledgements) (LifecycleError ''REQUEST_INVALID''))) (\<lambda>_.
     waiting_lock intent_free (env_apply_free env) (
       bindp (on_db (\<lambda>db. (earlier_acceptance db source operation actor digest, db))) (\<lambda>accepted.
       if accepted then pure (Inr ()) else
       bindp (baseline_review_locked env remote source operation) (\<lambda>reviewed.
       bindp (pure (require (br_digest reviewed = digest \<and> br_runs reviewed \<noteq> []) (LifecycleError ''SOURCE_LIFECYCLE_CONFLICT''))) (\<lambda>_.
         on_db (commit (baseline_txn (env_hash env) (env_now env) source operation actor reviewed acknowledgements)))))))"

section \<open>Archives\<close>

definition verify_archive :: "timestamp \<Rightarrow> bool \<Rightarrow> string \<Rightarrow> pydict \<Rightarrow> unit txn" where
  "verify_archive now admission_free source receipt db =
     bindr (require admission_free (LifecycleError ''SOURCE_LIFECYCLE_CONFLICT'')) (\<lambda>_.
       Inr ((), db\<lparr>source_archives := update_where (\<lambda>a. a_instance a = source \<and> py_eq (PDict (a_receipt a)) (PDict receipt))
         (\<lambda>a. a\<lparr>a_verified_at := Some now\<rparr>) (source_archives db)\<rparr>))"

definition recheck :: "surroundings \<Rightarrow> 'r remote \<Rightarrow> string \<Rightarrow> (registry \<times> 'r, unit) action" where
  "recheck env remote source w =
     (if \<not> env_apply_free env then (Inl (LifecycleError ''SOURCE_APPLY_ACTIVE''), w)
      else case List.find (\<lambda>a. a_instance a = source) (source_archives (fst w)) of
        None \<Rightarrow> (Inl (LifecycleError ''SOURCE_ARCHIVE_REVIEW_REQUIRED''), w)
      | Some a \<Rightarrow> bindp (call remote ''receipt'' (a_id a) []) (\<lambda>(guard_instance, result).
          bindp (pure (require (guard_instance = a_guard a \<and> py_eq (PDict result) (PDict (a_receipt a)) \<and>
              dget result ''generation_closed'' = PBool True) (LifecycleError ''RETIREMENT_CONFLICT''))) (\<lambda>_.
            on_db (commit (verify_archive (env_now env) (env_admission_free env) source (a_receipt a))))) w)"

section \<open>The inventory of generations\<close>

record generation =
  g_source :: string
  g_name :: string
  g_type :: string
  g_state :: string
  g_archive_mode :: "string option"
  g_requires_recheck :: bool
  g_removed :: bool
  g_observed :: "uuid option"
  g_verified :: bool
  g_credential_state :: "string option"
  g_conflicts :: "string list"
  g_needs_review :: bool

definition archive_of :: "registry \<Rightarrow> string \<Rightarrow> archive_row option" where
  "archive_of db source = List.find (\<lambda>a. a_instance a = source) (source_archives db)"

definition generation_state :: "registry \<Rightarrow> source_row \<Rightarrow> string" where
  "generation_state db s = (let source = s_instance s in
     if archived db source then ''ARCHIVED''
     else if list_ex (\<lambda>r. ret_instance r = source \<and> inflight r) (source_retirements db) then ''REMOVING''
     else if run_blocks db source \<or> operation_running db source then ''UNRESOLVED''
     else if recovery_active db source then ''RECOVERY_PENDING''
     else if removed_row db source \<noteq> None then ''RETAINED''
     else if s_enabled s then ''ACTIVE'' else ''DISABLED'')"

definition source_generation :: "registry \<Rightarrow> source_row \<Rightarrow> generation" where
  "source_generation db s = (let a = archive_of db (s_instance s); t = removed_row db (s_instance s) in
     \<lparr>g_source = s_instance s, g_name = s_name s, g_type = s_type s, g_state = generation_state db s,
      g_archive_mode = map_option a_mode a,
      g_requires_recheck = (case a of None \<Rightarrow> False | Some a \<Rightarrow> a_verified_at a = None), g_removed = (t \<noteq> None),
      g_observed = (if s_type s = ''esxi'' then registration_anchor (s_settings s) else None),
      g_verified = (legacy_anchor (s_settings s) \<noteq> None), g_credential_state = map_option t_credential_state t,
      g_conflicts = [], g_needs_review = False\<rparr>)"

definition reserved_generation :: "reservation_row \<Rightarrow> generation" where
  "reserved_generation h = \<lparr>g_source = hr_instance h, g_name = hr_instance h, g_type = hr_provider h, g_state = ''REGISTRATION_PENDING'',
     g_archive_mode = None, g_requires_recheck = False, g_removed = False, g_observed = Some (hr_anchor h), g_verified = False,
     g_credential_state = None, g_conflicts = [], g_needs_review = False\<rparr>"

text \<open>Everyone with a claim on an identity: live sources of the provider and active reservations.\<close>

definition claimants :: "generation list \<Rightarrow> reservation_row list \<Rightarrow> string \<Rightarrow> uuid \<Rightarrow> string list" where
  "claimants gs reservations provider anchor =
     (if provider = ''esxi'' then map g_source (filter (\<lambda>g. g_state g \<noteq> ''ARCHIVED'' \<and> g_observed g = Some anchor) gs) else []) @
     map hr_instance (filter (\<lambda>h. hr_provider h = provider \<and> hr_anchor h = anchor) reservations)"

definition reviewed_generation :: "generation list \<Rightarrow> reservation_row list \<Rightarrow> generation \<Rightarrow> generation" where
  "reviewed_generation gs reservations g =
     (let conflicts = (if g_state g = ''ARCHIVED'' then [] else case g_observed g of None \<Rightarrow> []
        | Some anchor \<Rightarrow> sort (remdups (filter (\<lambda>s. s \<noteq> g_source g) (claimants gs reservations (g_type g) anchor))))
      in g\<lparr>g_conflicts := conflicts, g_needs_review := (g_state g \<noteq> ''ACTIVE'' \<or> conflicts \<noteq> [] \<or> g_type g = ''esxi'' \<and> \<not> g_verified g)\<rparr>)"

definition generations :: "registry \<Rightarrow> generation list result" where
  "generations db =
     (let rows = sort_key s_instance (sources db);
          reservations = sort_key hr_instance (filter (\<lambda>h. hr_released_at h = None) (host_reservations db)) in
      bindr (require (length rows \<le> 1000) (LifecycleError ''SOURCE_LIFECYCLE_REVIEW_LIMIT'')) (\<lambda>_.
      bindr (require (length reservations \<le> 1000) (LifecycleError ''SOURCE_LIFECYCLE_REVIEW_LIMIT'')) (\<lambda>_.
      let gs = map (source_generation db) rows;
          pending = filter (\<lambda>h. hr_instance h \<notin> s_instance ` set rows) reservations
      in Inr (map (reviewed_generation gs reservations) (gs @ map reserved_generation pending)))))"

section \<open>What an accepted baseline changes\<close>

lemma unconfirmed_runs_all:
  assumes "length (unconfirmed_runs db source) \<le> 100"
  shows "set (unconfirmed_runs db source) = {r \<in> set (sync_runs db). r_instance r = source \<and> unconfirmed_status (r_status r) \<and> \<not> reconciled db r}"
proof -
  let ?rows = "filter (\<lambda>r. r_instance r = source \<and> unconfirmed_status (r_status r)) (blocking_runs db)"
  have "length ?rows \<le> 100" using assms by (simp add: unconfirmed_runs_def)
  then have "unconfirmed_runs db source = sort_key r_id ?rows" by (simp add: unconfirmed_runs_def)
  then show ?thesis by (auto simp: blocking_runs_def)
qed

lemma baseline_local_Inr:
  assumes "baseline_local db source = Inr (row, runs)"
  shows "source_of db source = Some row \<and> runs = unconfirmed_runs db source \<and> length runs \<le> 100 \<and>
    (\<forall>r \<in> set runs. r_finished_at r \<noteq> None) \<and> \<not> run_running db source \<and> \<not> operation_running db source"
  using assms unfolding baseline_local_def by (auto simp: bindr_Inr_conv Let_def list_all_iff split: option.splits)

definition accepted_db :: "timestamp \<Rightarrow> string \<Rightarrow> string \<Rightarrow> uuid \<Rightarrow> pydict \<Rightarrow> run_row list \<Rightarrow> registry \<Rightarrow> registry" where
  "accepted_db now source actor operation decision runs db =
     stale_ready_plans now source (update_source source (\<lambda>s. s\<lparr>s_sync_enabled := False\<rparr>)
       (db\<lparr>run_reconciliations := run_reconciliations db @ map (reconciliation now source actor operation decision) runs\<rparr>))"

lemma baseline_txn_Inr:
  assumes "baseline_txn H now source operation actor reviewed acks db = Inr (u, db')"
  shows "\<exists>row runs decision. source_gate db source False True = Inr () \<and> baseline_local db source = Inr (row, runs) \<and>
    map run_evidence runs = br_runs reviewed \<and> db' = accepted_db now source actor operation decision runs db"
  using assms unfolding baseline_txn_def bindr_Inr_conv Let_def accepted_db_def by (auto simp: bindr_Inr_conv)

lemma accepted_db_fields:
  "sync_runs (accepted_db now source actor operation decision runs db) = sync_runs db"
  "run_reconciliations (accepted_db now source actor operation decision runs db) =
     run_reconciliations db @ map (reconciliation now source actor operation decision) runs"
  "source_retirements (accepted_db now source actor operation decision runs db) = source_retirements db"
  by (simp_all add: accepted_db_def stale_ready_plans_def update_source_def)

lemma accepted_reconciled:
  "reconciled (accepted_db now source actor operation decision runs db) r \<longleftrightarrow> reconciled db r \<or>
     (r_instance r = source \<and> (\<exists>q \<in> set runs. r_id q = r_id r \<and> r_status q = r_status r \<and>
        Some (case r_finished_at q of None \<Rightarrow> 0 | Some t \<Rightarrow> t) = r_finished_at r))"
  unfolding reconciled_def accepted_db_fields list_ex_append by (auto simp: list_ex_iff reconciliation_def)

lemma accepted_unblocks:
  assumes "baseline_local db source = Inr (row, runs)"
  shows "\<not> reconciliation_required (accepted_db now source actor operation decision runs db) source"
proof -
  let ?db = "accepted_db now source actor operation decision runs db"
  note l = baseline_local_Inr[OF assms]
  have runs: "set runs = {r \<in> set (sync_runs db). r_instance r = source \<and> unconfirmed_status (r_status r) \<and> \<not> reconciled db r}"
    using l unconfirmed_runs_all[of db source] by metis
  have "reconciled ?db r" if r: "r \<in> set (sync_runs db)" "r_instance r = source" "unconfirmed_status (r_status r)" for r
  proof (cases "reconciled db r")
    case False
    then have "r \<in> set runs" using r runs by simp
    then show ?thesis using l r(2) unfolding accepted_reconciled by force
  qed (simp add: accepted_reconciled)
  then show ?thesis
    by (auto simp: reconciliation_required_def run_unconfirmed_def blocking_runs_def accepted_db_fields list_ex_iff)
qed

lemma accepted_others:
  assumes "other \<noteq> source"
  shows "reconciliation_required (accepted_db now source actor operation decision runs db) other = reconciliation_required db other"
  using assms by (auto simp: reconciliation_required_def run_unconfirmed_def blocking_runs_def accepted_db_fields accepted_reconciled list_ex_iff)

lemma accepted_schedule_block:
  assumes "runs \<noteq> []" "\<forall>r \<in> set (sync_runs db). r_instance r = source \<longrightarrow> r_started_at r \<le> now"
  shows "scheduled_reconciliation_required (accepted_db now source actor operation decision runs db) source"
proof -
  obtain q where "q \<in> set runs" using assms(1) by (cases runs) auto
  then have "reconciliation now source actor operation decision q \<in>
      set (run_reconciliations (accepted_db now source actor operation decision runs db))" by (simp add: accepted_db_fields)
  moreover have "\<not> list_ex (\<lambda>r. r_instance r = source \<and> r_trigger r = MANUAL \<and> r_status r = RUN_SUCCEEDED \<and> now < r_started_at r)
      (sync_runs (accepted_db now source actor operation decision runs db))"
    using assms(2) by (auto simp: accepted_db_fields list_ex_iff)
  ultimately show ?thesis
    unfolding scheduled_reconciliation_required_def recovery_schedule_block_def list_ex_iff by (force simp: reconciliation_def)
qed

lemma baseline_review_Inr:
  assumes "baseline_review_locked env remote source operation (db, w) = (Inr reviewed, (db', w'))"
  shows "db' = db \<and> br_digest reviewed = canonical_fingerprint (env_hash env) (br_document reviewed) \<and>
    dget (br_document reviewed) ''runs'' = PList (map PDict (br_runs reviewed))"
proof -
  have o: "snd (observed_inventory remote source operation runs (db, w)) = (db'', w'') \<Longrightarrow> db'' = db" for runs db'' w''
    by (auto simp: observed_inventory_def pure_def bindp_def call_def split: if_splits prod.splits sum.splits)
  obtain rv runs decisions where b: "baseline_read (env_hash env) source db = Inr (rv, runs, decisions)"
    using assms by (cases "baseline_read (env_hash env) source db") (auto simp: baseline_review_locked_def bindp_def on_db_def)
  obtain res db1 w1 where c: "observed_inventory remote source operation runs (db, w) = (res, (db1, w1))"
    by (cases "observed_inventory remote source operation runs (db, w)") auto
  have "db1 = db" using o[of runs db1 w1] c by simp
  then show ?thesis using assms b c
    by (cases res) (auto simp: baseline_review_locked_def bindp_def on_db_def pure_def Let_def baseline_document_def dget_def)
qed

lemma confirm_baseline_Inr:
  assumes "confirm_baseline env intent_free remote source operation actor digest acks (db, w) = (Inr (), (db', w'))"
    and "earlier_acceptance db source operation actor digest = Inr False"
  obtains reviewed where "br_digest reviewed = digest" "br_runs reviewed \<noteq> []"
    "br_digest reviewed = canonical_fingerprint (env_hash env) (br_document reviewed)"
    "dget (br_document reviewed) ''runs'' = PList (map PDict (br_runs reviewed))"
    "baseline_txn (env_hash env) (env_now env) source operation actor reviewed acks db = Inr ((), db')"
proof -
  obtain res db1 w1 where r: "baseline_review_locked env remote source operation (db, w) = (res, (db1, w1))"
    by (cases "baseline_review_locked env remote source operation (db, w)") auto
  obtain reviewed where res: "res = Inr reviewed" "br_digest reviewed = digest" "br_runs reviewed \<noteq> []"
    and c: "on_db (commit (baseline_txn (env_hash env) (env_now env) source operation actor reviewed acks)) (db1, w1) = (Inr (), (db', w'))"
    using assms r unfolding confirm_baseline_def
    by (cases res) (auto simp: bindp_def pure_def waiting_lock_def on_db_def require_def split: if_splits)
  note v = baseline_review_Inr[OF r[unfolded res(1)]]
  have "baseline_txn (env_hash env) (env_now env) source operation actor reviewed acks db = Inr ((), db')"
    using c v by (auto simp: on_db_def commit_def split: sum.splits prod.splits)
  then show thesis using that res v by blast
qed

text \<open>
  C6: An accepted baseline covers exactly the runs of unknown outcome the administrator reviewed:
  the presented digest is that of a document that lists all of them. The source is then no
  longer blocked by its history, which is unchanged, but it has left the schedule, has no ready
  plan, and scheduled runs stay refused until a manual run that starts later succeeds. The
  blocking of every other source is what it was.
\<close>
theorem baseline_covers_reviewed:
  assumes confirmed: "confirm_baseline env intent_free remote source operation actor digest acks (db, w) = (Inr (), (db', w'))"
    and new: "earlier_acceptance db source operation actor digest = Inr False"
    and past: "\<forall>r \<in> set (sync_runs db). r_instance r = source \<longrightarrow> r_started_at r \<le> env_now env"
  shows "(\<exists>d runs. canonical_fingerprint (env_hash env) d = digest \<and> dget d ''runs'' = PList (map (PDict \<circ> run_evidence) runs) \<and>
      set runs = {r \<in> set (sync_runs db). r_instance r = source \<and> unconfirmed_status (r_status r) \<and> \<not> reconciled db r}) \<and>
    sync_runs db' = sync_runs db \<and> \<not> reconciliation_required db' source \<and> scheduled_reconciliation_required db' source \<and>
    (\<forall>s. source_of db' source = Some s \<longrightarrow> \<not> s_sync_enabled s) \<and>
    (\<forall>o' \<in> set (source_operations db'). \<not> (o_instance o' = source \<and> o_kind o' = ''PLAN'' \<and> o_status o' = OP_READY)) \<and>
    (\<forall>other. other \<noteq> source \<longrightarrow> reconciliation_required db' other = reconciliation_required db other)"
proof -
  obtain reviewed where v: "br_digest reviewed = digest" "br_runs reviewed \<noteq> []"
      "br_digest reviewed = canonical_fingerprint (env_hash env) (br_document reviewed)"
      "dget (br_document reviewed) ''runs'' = PList (map PDict (br_runs reviewed))"
    and t: "baseline_txn (env_hash env) (env_now env) source operation actor reviewed acks db = Inr ((), db')"
    by (rule confirm_baseline_Inr[OF confirmed new])
  obtain row runs decision where l: "baseline_local db source = Inr (row, runs)" and runs: "map run_evidence runs = br_runs reviewed"
    and db': "db' = accepted_db (env_now env) source actor operation decision runs db"
    using baseline_txn_Inr[OF t] by blast
  note local = baseline_local_Inr[OF l]
  have "runs \<noteq> []" using v(2) runs by auto
  note block = accepted_schedule_block[OF this past]
  have off: "\<not> s_sync_enabled s" if "source_of db' source = Some s" for s
  proof -
    have "source_of db' source = map_option (\<lambda>s. s\<lparr>s_sync_enabled := False\<rparr>) (source_of db source)"
      unfolding db' accepted_db_def stale_ready_plans_frame by (subst source_of_update) (simp_all add: source_of_def)
    then show ?thesis using that by (cases "source_of db source") auto
  qed
  have plans: "\<not> (o_instance o' = source \<and> o_kind o' = ''PLAN'' \<and> o_status o' = OP_READY)" if "o' \<in> set (source_operations db')" for o'
    using that stale_ready_plans_none unfolding db' accepted_db_def by blast
  have doc: "canonical_fingerprint (env_hash env) (br_document reviewed) = digest" "dget (br_document reviewed) ''runs'' = PList (map (PDict \<circ> run_evidence) runs)"
    using v runs by (simp_all flip: map_map)
  have all: "set runs = {r \<in> set (sync_runs db). r_instance r = source \<and> unconfirmed_status (r_status r) \<and> \<not> reconciled db r}"
    using local unconfirmed_runs_all[of db source] by metis
  show ?thesis
  proof (intro conjI)
    show "sync_runs db' = sync_runs db" by (simp add: db' accepted_db_fields)
    show "\<not> reconciliation_required db' source" unfolding db' by (rule accepted_unblocks[OF l])
    show "scheduled_reconciliation_required db' source" unfolding db' by (rule block)
    show "\<forall>other. other \<noteq> source \<longrightarrow> reconciliation_required db' other = reconciliation_required db other"
      unfolding db' using accepted_others by blast
  qed (use doc all off plans in blast)+
qed

definition uncertain_run :: run_row where
  "uncertain_run = \<lparr>r_id = ''r1'', r_instance = ''pve-a'', r_type = ''proxmox'', r_trigger = SCHEDULED, r_started_at = 1, r_finished_at = Some 2,
     r_duration_ms = Some 1, r_status = RUN_OUTCOME_UNCERTAIN, r_digest = None, r_planner = None, r_counts = no_counts,
     r_code = Some ''OUTCOME_UNCERTAIN'', r_message = None, r_created_by = ''scheduler''\<rparr>"

definition uncertain_registry :: registry where
  "uncertain_registry = example_registry\<lparr>source_operations := [example_plan], sync_runs := [uncertain_run]\<rparr>"

definition baseline_env :: surroundings where
  "baseline_env = \<lparr>env_hash = \<lambda>_. ''h'', env_now = 8, env_apply_free = True, env_admission_free = True, env_cleanup = \<lambda>_. Inr True\<rparr>"

definition baseline_guard :: "unit remote" where
  "baseline_guard r name operation args = (Inr (''guard'', [(''objects'', PList [])]), r)"

definition all_acknowledged :: pyval where
  "all_acknowledged = PDict (map (\<lambda>k. (k, PBool True)) ACKNOWLEDGEMENTS)"

theorem baseline_covers_reviewed_witness:
  "\<exists>db' w'. confirm_baseline baseline_env True baseline_guard ''pve-a'' ''op-1'' ''admin'' ''h'' all_acknowledged (uncertain_registry, ()) = (Inr (), (db', w')) \<and>
     reconciliation_required uncertain_registry ''pve-a'' \<and> \<not> reconciliation_required db' ''pve-a'' \<and> scheduled_reconciliation_required db' ''pve-a''"
proof -
  define res where "res = confirm_baseline baseline_env True baseline_guard ''pve-a'' ''op-1'' ''admin'' ''h'' all_acknowledged (uncertain_registry, ())"
  have "case fst res of Inr _ \<Rightarrow> True | _ \<Rightarrow> False" unfolding res_def by code_simp
  then obtain db' w' where "res = (Inr (), (db', w'))" by (cases res; cases "fst res") auto
  note confirmed = this[unfolded res_def]
  have new: "earlier_acceptance uncertain_registry ''pve-a'' ''op-1'' ''admin'' ''h'' = Inr False" by code_simp
  have past: "\<forall>r \<in> set (sync_runs uncertain_registry). r_instance r = ''pve-a'' \<longrightarrow> r_started_at r \<le> env_now baseline_env" by code_simp
  have "reconciliation_required uncertain_registry ''pve-a''" by code_simp
  with baseline_covers_reviewed[OF confirmed new past] confirmed show ?thesis by blast
qed

end
