(* ===== verification/Lifecycle_Invariant.thy ===== *)
theory Lifecycle_Invariant
  imports Removal_Queue Run_Reconciliation
begin

text \<open>
  The invariant the registry keeps whatever sequence of transactions the
  services commit: keys are unique, a run is finished exactly when it has left
  RUNNING, at most one retirement of a source is in flight, a source with a
  retirement in flight is disabled and nothing runs on it, and the receipt of
  a finished retirement has passed every check against the plan that was
  reviewed.  One preservation lemma per transaction.
\<close>

section \<open>Invariant of the registry\<close>

definition disabled_source :: "registry \<Rightarrow> string \<Rightarrow> bool" where
  "disabled_source db source = (case source_of db source of None \<Rightarrow> False | Some s \<Rightarrow> \<not> s_enabled s \<and> \<not> s_sync_enabled s)"

text \<open>A source on which nothing runs and nothing can be scheduled.\<close>

definition quiet :: "registry \<Rightarrow> string \<Rightarrow> bool" where
  "quiet db source = (disabled_source db source \<and> \<not> operation_running db source \<and> \<not> run_running db source)"

text \<open>The receipt of a finished retirement has passed every check against the reviewed plan.\<close>

definition receipt_ok :: "retirement_row \<Rightarrow> bool" where
  "receipt_ok r = (case (ret_receipt r, plan_remote (ret_plan r)) of
     (Some d, Inr expected) \<Rightarrow> list_all (\<lambda>m. m = Inr False) (receipt_refusals r (ret_instance r) (ret_guard r) expected d)
   | _ \<Rightarrow> False)"

definition ret_row_ok :: "retirement_row \<Rightarrow> bool" where
  "ret_row_ok r = (ret_state r \<in> {RET_SUCCEEDED, RET_FINALIZED} \<longrightarrow> receipt_ok r)"

definition registry_keys :: "registry \<Rightarrow> bool" where
  "registry_keys db = (distinct (map s_instance (sources db)) \<and> distinct (map t_instance (source_tombstones db)) \<and>
     distinct (map ret_id (source_retirements db)) \<and> distinct (map r_id (sync_runs db)))"

definition runs_ok :: "registry \<Rightarrow> bool" where
  "runs_ok db = list_all (\<lambda>r. (r_status r = RUN_RUNNING) = (r_finished_at r = None)) (sync_runs db)"

definition inflight_quiet :: "registry \<Rightarrow> bool" where
  "inflight_quiet db = (\<forall>r \<in> set (source_retirements db). inflight r \<longrightarrow> quiet db (ret_instance r))"

definition lifecycle_inv :: "registry \<Rightarrow> bool" where
  "lifecycle_inv db = (registry_keys db \<and> runs_ok db \<and> retirement_inflight_source (source_retirements db) \<and>
     inflight_quiet db \<and> list_all ret_row_ok (source_retirements db))"

lemmas lifecycle_defs = lifecycle_inv_def registry_keys_def runs_ok_def

subsection \<open>Tables the invariant does not read\<close>

lemma quiet_frame [simp]:
  "quiet (db\<lparr>source_tombstones := x1\<rparr>) = quiet db"
  "quiet (db\<lparr>source_recoveries := x2\<rparr>) = quiet db"
  "quiet (db\<lparr>source_retirements := x3\<rparr>) = quiet db"
  "quiet (db\<lparr>source_removal_requests := x4\<rparr>) = quiet db"
  "quiet (db\<lparr>source_archives := x5\<rparr>) = quiet db"
  "quiet (db\<lparr>host_reservations := x6\<rparr>) = quiet db"
  "quiet (db\<lparr>held := x7\<rparr>) = quiet db"
  "quiet (db\<lparr>run_reconciliations := x8\<rparr>) = quiet db"
  "quiet (db\<lparr>source_identity_verifications := x9\<rparr>) = quiet db"
  "quiet (db\<lparr>registration_intents := x10\<rparr>) = quiet db"
  by (simp_all add: fun_eq_iff quiet_def disabled_source_def run_running_def operation_running_def source_of_def)

lemma lifecycle_inv_frame [simp]:
  "lifecycle_inv (db\<lparr>source_recoveries := x1\<rparr>) = lifecycle_inv db"
  "lifecycle_inv (db\<lparr>source_removal_requests := x2\<rparr>) = lifecycle_inv db"
  "lifecycle_inv (db\<lparr>source_archives := x3\<rparr>) = lifecycle_inv db"
  "lifecycle_inv (db\<lparr>host_reservations := x4\<rparr>) = lifecycle_inv db"
  "lifecycle_inv (db\<lparr>held := x5\<rparr>) = lifecycle_inv db"
  "lifecycle_inv (db\<lparr>run_reconciliations := x6\<rparr>) = lifecycle_inv db"
  "lifecycle_inv (db\<lparr>source_identity_verifications := x7\<rparr>) = lifecycle_inv db"
  "lifecycle_inv (db\<lparr>registration_intents := x8\<rparr>) = lifecycle_inv db"
  by (simp_all add: lifecycle_defs inflight_quiet_def)

subsection \<open>Changes of one table\<close>

lemma lifecycle_inv_tombstones:
  "lifecycle_inv db \<Longrightarrow> distinct (map t_instance ts) \<Longrightarrow> lifecycle_inv (db\<lparr>source_tombstones := ts\<rparr>)"
  by (simp add: lifecycle_defs inflight_quiet_def)

lemma lifecycle_inv_operations:
  assumes "lifecycle_inv db"
    and "\<And>r. r \<in> set ops \<Longrightarrow> o_status r = OP_RUNNING \<Longrightarrow> operation_running db (o_instance r) \<or>
      (\<forall>q \<in> set (source_retirements db). ret_instance q = o_instance r \<longrightarrow> \<not> inflight q)"
  shows "lifecycle_inv (db\<lparr>source_operations := ops\<rparr>)"
proof -
  have "quiet (db\<lparr>source_operations := ops\<rparr>) (ret_instance q)"
    if "q \<in> set (source_retirements db)" "inflight q" for q
  proof -
    have "quiet db (ret_instance q)" using assms(1) that by (simp add: lifecycle_inv_def inflight_quiet_def)
    then show ?thesis using assms(2) that
      by (fastforce simp: quiet_def disabled_source_def run_running_def operation_running_def source_of_def list_ex_iff)
  qed
  then show ?thesis using assms(1) by (simp add: lifecycle_defs inflight_quiet_def)
qed

lemma lifecycle_inv_runs:
  assumes "lifecycle_inv db" "distinct (map r_id rs)"
    and "\<And>r. r \<in> set rs \<Longrightarrow> (r_status r = RUN_RUNNING) = (r_finished_at r = None)"
    and "\<And>r. r \<in> set rs \<Longrightarrow> r_status r = RUN_RUNNING \<Longrightarrow> run_running db (r_instance r) \<or>
      (\<forall>q \<in> set (source_retirements db). ret_instance q = r_instance r \<longrightarrow> \<not> inflight q)"
  shows "lifecycle_inv (db\<lparr>sync_runs := rs\<rparr>)"
proof -
  have "quiet (db\<lparr>sync_runs := rs\<rparr>) (ret_instance q)"
    if "q \<in> set (source_retirements db)" "inflight q" for q
  proof -
    have "quiet db (ret_instance q)" using assms(1) that by (simp add: lifecycle_inv_def inflight_quiet_def)
    then show ?thesis using assms(4) that
      by (fastforce simp: quiet_def disabled_source_def run_running_def operation_running_def source_of_def list_ex_iff)
  qed
  then show ?thesis using assms(1-3) by (auto simp: lifecycle_defs inflight_quiet_def list_all_iff)
qed

lemma find_update_where:
  "(\<And>r. p r \<Longrightarrow> k (f r) = k r) \<Longrightarrow> List.find (\<lambda>r. k r = x) (update_where p f rows) =
     map_option (\<lambda>r. if p r then f r else r) (List.find (\<lambda>r. k r = x) rows)"
  by (induction rows) (auto simp: update_where_def)

lemma lifecycle_inv_sources:
  assumes inv: "lifecycle_inv db" and key: "\<And>s. p s \<Longrightarrow> s_instance (f s) = s_instance s"
    and off: "\<And>s. p s \<Longrightarrow> \<not> s_enabled s \<Longrightarrow> \<not> s_sync_enabled s \<Longrightarrow> \<not> s_enabled (f s) \<and> \<not> s_sync_enabled (f s) \<or>
      (\<forall>q \<in> set (source_retirements db). ret_instance q = s_instance s \<longrightarrow> \<not> inflight q)"
  shows "lifecycle_inv (db\<lparr>sources := update_where p f (sources db)\<rparr>)"
proof -
  have "quiet (db\<lparr>sources := update_where p f (sources db)\<rparr>) (ret_instance q)"
    if q: "q \<in> set (source_retirements db)" "inflight q" for q
  proof -
    have "quiet db (ret_instance q)" using inv q by (simp add: lifecycle_inv_def inflight_quiet_def)
    then obtain s where s: "source_of db (ret_instance q) = Some s" "\<not> s_enabled s" "\<not> s_sync_enabled s"
      and rest: "\<not> operation_running db (ret_instance q)" "\<not> run_running db (ret_instance q)"
      by (auto simp: quiet_def disabled_source_def split: option.splits)
    have "source_of (db\<lparr>sources := update_where p f (sources db)\<rparr>) (ret_instance q) = Some (if p s then f s else s)"
      using s(1) find_update_where[of p s_instance f "ret_instance q" "sources db"] key by (simp add: source_of_def)
    moreover have "p s \<Longrightarrow> \<not> s_enabled (f s) \<and> \<not> s_sync_enabled (f s)"
      using off[of s] s q source_of_Some[OF s(1)] by auto
    ultimately show ?thesis using rest s
      by (auto simp: quiet_def disabled_source_def operation_running_def run_running_def)
  qed
  then show ?thesis using inv key by (simp add: lifecycle_defs inflight_quiet_def)
qed

lemma lifecycle_inv_retirements:
  assumes "lifecycle_inv db" "distinct (map ret_id rs)" "retirement_inflight_source rs"
    and "\<And>r. r \<in> set rs \<Longrightarrow> ret_row_ok r" "\<And>r. r \<in> set rs \<Longrightarrow> inflight r \<Longrightarrow> quiet db (ret_instance r)"
  shows "lifecycle_inv (db\<lparr>source_retirements := rs\<rparr>)"
  using assms by (auto simp: lifecycle_defs inflight_quiet_def list_all_iff)

section \<open>The retirement journal keeps the invariant\<close>

subsection \<open>Changes of one retirement\<close>

lemma index_update:
  assumes "retirement_inflight_source rows" "\<And>r. r \<in> set rows \<Longrightarrow> p r \<Longrightarrow> inflight (f r) \<Longrightarrow> inflight r"
    "\<And>r. r \<in> set rows \<Longrightarrow> p r \<Longrightarrow> ret_instance (f r) = ret_instance r"
  shows "retirement_inflight_source (update_where p f rows)"
  using assms
proof (induction rows)
  case Nil
  then show ?case by (simp add: retirement_inflight_source_def update_where_def)
next
  case (Cons r rows)
  have sub: "ret_instance ` set (filter inflight (update_where p f rows)) \<subseteq> ret_instance ` set (filter inflight rows)"
    using Cons.prems(2,3) by (force simp: update_where_def)
  have "retirement_inflight_source (update_where p f rows)"
    using Cons by (auto simp: retirement_inflight_source_def split: if_splits)
  then show ?case
    using Cons.prems sub by (auto simp: retirement_inflight_source_def update_where_def split: if_splits)
qed

lemma lifecycle_inv_update_retirement:
  assumes inv: "lifecycle_inv db"
    and key: "\<And>x. ret_id (f x) = ret_id x" "\<And>x. ret_instance (f x) = ret_instance x"
    and ok: "\<And>x. x \<in> set (source_retirements db) \<Longrightarrow> p x \<Longrightarrow> ret_row_ok x \<Longrightarrow> ret_row_ok (f x)"
    and fl: "\<And>x. x \<in> set (source_retirements db) \<Longrightarrow> p x \<Longrightarrow> inflight (f x) \<Longrightarrow> inflight x \<or> quiet db (ret_instance x)"
    and idx: "retirement_inflight_source (update_where p f (source_retirements db))"
  shows "lifecycle_inv (db\<lparr>source_retirements := update_where p f (source_retirements db)\<rparr>)"
proof (rule lifecycle_inv_retirements[OF inv _ idx])
  show "distinct (map ret_id (update_where p f (source_retirements db)))"
    using inv key by (simp add: lifecycle_defs)
  fix r assume "r \<in> set (update_where p f (source_retirements db))"
  then obtain x where x: "x \<in> set (source_retirements db)" "r = (if p x then f x else x)"
    by (auto simp: set_update_where)
  show "ret_row_ok r" using x inv ok by (auto simp: lifecycle_inv_def list_all_iff)
  assume "inflight r"
  then show "quiet db (ret_instance r)"
    using x inv fl key(2) by (auto simp: lifecycle_inv_def inflight_quiet_def split: if_splits)
qed

lemma indexed_Inr [simp]: "indexed db = Inr db' \<longleftrightarrow> retirement_inflight_source (source_retirements db) \<and> db' = db"
  by (auto simp: indexed_def)

lemma journal_record_Inr:
  assumes "journal_record db source operation actor = Inr r"
  shows "r \<in> set (source_retirements db) \<and> ret_id r = operation \<and> ret_instance r = source \<and> ret_actor r = actor"
  using assms by (auto simp: journal_record_def dest: find_SomeD split: option.splits)

lemma retirement_unique:
  "lifecycle_inv db \<Longrightarrow> r \<in> set (source_retirements db) \<Longrightarrow> x \<in> set (source_retirements db) \<Longrightarrow>
     ret_id x = ret_id r \<Longrightarrow> x = r"
  by (auto simp: lifecycle_defs distinct_map dest: inj_onD)

lemma journal_guard_Inr:
  assumes "journal_guard H db source expected flags archive = Inr (row, cluster, generation)"
  shows "source_of db source = Some row \<and> \<not> operation_running db source \<and> \<not> run_blocks db source \<and>
    \<not> recovery_pending db source \<and> generation = generation_of db source \<and>
    (flags \<noteq> None \<longrightarrow> \<not> s_enabled row \<and> \<not> s_sync_enabled row)"
proof (cases "source_of db source")
  case None
  then show ?thesis using assms by (simp add: journal_guard_def)
next
  case (Some s)
  then show ?thesis using assms
    by (auto simp: journal_guard_def bindr_Inr_conv checked_row_def split: option.splits)
qed

lemma running_not_reconciled:
  "runs_ok db \<Longrightarrow> \<not> run_blocks db source \<Longrightarrow> \<not> run_running db source"
  by (fastforce simp: runs_ok_def run_blocks_def run_running_def blocking_runs_def blocking_status_def reconciled_def
      list_ex_iff list_all_iff)

lemma guard_quiet:
  assumes "lifecycle_inv db" "journal_guard H db source expected (Some flags) archive = Inr (row, cluster, generation)"
  shows "quiet db source"
  using assms journal_guard_Inr[OF assms(2)] running_not_reconciled[of db source]
  by (simp add: quiet_def disabled_source_def lifecycle_inv_def)

lemma update_retirement_flags:
  assumes "lifecycle_inv db"
    and "\<And>x. ret_id (f x) = ret_id x" "\<And>x. ret_instance (f x) = ret_instance x" "\<And>x. ret_state (f x) = ret_state x"
      "\<And>x. ret_superseded_by (f x) = ret_superseded_by x" "\<And>x. ret_row_ok x \<Longrightarrow> ret_row_ok (f x)"
  shows "lifecycle_inv (update_retirement operation f db)"
  unfolding update_retirement_def
proof (rule lifecycle_inv_update_retirement)
  have "inflight (f x) \<longleftrightarrow> inflight x" for x using assms by (simp add: inflight_def dispatched_def)
  then show "retirement_inflight_source (update_where (\<lambda>r. ret_id r = operation) f (source_retirements db))"
    "inflight (f x) \<Longrightarrow> inflight x \<or> quiet db (ret_instance x)" for x
    using assms by (auto intro!: index_update simp: lifecycle_inv_def)
qed (use assms in auto)

text \<open>A retirement that was dispatched stays so, with a new undecided outcome.\<close>

lemma update_retirement_outcome:
  assumes inv: "lifecycle_inv db" and r: "r \<in> set (source_retirements db)"
    and f: "\<And>x. ret_id (f x) = ret_id x" "\<And>x. ret_instance (f x) = ret_instance x"
    and ok: "ret_row_ok (f r)" and fl: "inflight (f r) \<Longrightarrow> inflight r \<or> quiet db (ret_instance r)"
    and idx: "retirement_inflight_source (source_retirements (update_retirement (ret_id r) f db))"
  shows "lifecycle_inv (update_retirement (ret_id r) f db)"
  unfolding update_retirement_def
  using retirement_unique[OF inv r] f ok fl idx
  by (intro lifecycle_inv_update_retirement[OF inv]) (auto simp: update_retirement_def)

subsection \<open>The journal keeps the invariant\<close>

lemma prepare_new:
  assumes "prepare H now source operation actor expected guard_instance remote db = Inr (r, db')" "retirement_of db operation = None"
  shows "ret_id r = operation \<and> ret_state r = RET_READY \<and> ret_instance r = source \<and>
    db' = db\<lparr>source_retirements := source_retirements db @ [r]\<rparr>"
  using assms unfolding prepare_def bindr_Inr_conv by (clarsimp simp: Let_def)

lemma prepare_again:
  assumes "prepare H now source operation actor expected guard_instance remote db = Inr (r, db')" "retirement_of db operation = Some q"
  shows "r = q \<and> db' = db"
  using assms unfolding prepare_def bindr_Inr_conv by (clarsimp simp: Let_def)

lemma prepare_inv:
  assumes inv: "lifecycle_inv db" and p: "prepare H now source operation actor expected guard_instance remote db = Inr (r, db')"
  shows "lifecycle_inv db'"
proof (cases "retirement_of db operation")
  case None
  note n = prepare_new[OF p None]
  then have fresh: "ret_id r \<notin> ret_id ` set (source_retirements db)"
    using None by (auto simp: retirement_of_def find_none)
  have ready: "\<not> inflight r" "ret_row_ok r" using n by (simp_all add: inflight_def dispatched_def ret_row_ok_def)
  have "lifecycle_inv (db\<lparr>source_retirements := source_retirements db @ [r]\<rparr>)"
    using inv fresh ready
    by (intro lifecycle_inv_retirements) (auto simp: lifecycle_defs retirement_inflight_source_def inflight_quiet_def list_all_iff)
  with n show ?thesis by simp
qed (use inv prepare_again[OF p] in auto)

lemma uncertain_inv:
  assumes inv: "lifecycle_inv db" and u: "uncertain source operation actor code db = Inr (x, db')"
  shows "lifecycle_inv db'"
proof -
  let ?f = "\<lambda>x. x\<lparr>ret_state := RET_UNCERTAIN, ret_code := Some code\<rparr>"
  obtain r where r: "journal_record db source operation actor = Inr r" "ret_state r \<in> {RET_SENDING, RET_UNCERTAIN}"
    "db' = update_retirement (ret_id r) ?f db" "retirement_inflight_source (source_retirements db')"
    using u unfolding uncertain_def bindr_Inr_conv by auto
  then show ?thesis using update_retirement_outcome[OF inv, of r ?f] journal_record_Inr[OF r(1)]
    by (auto simp: ret_row_ok_def inflight_def dispatched_def)
qed

lemma blocked_inv:
  assumes inv: "lifecycle_inv db" and u: "blocked source operation actor code db = Inr (x, db')"
  shows "lifecycle_inv db'"
proof -
  let ?f = "\<lambda>x. x\<lparr>ret_state := RET_BLOCKED, ret_code := Some code\<rparr>"
  obtain r where r: "journal_record db source operation actor = Inr r" "db' = update_retirement (ret_id r) ?f db"
    using u unfolding blocked_def bindr_Inr_conv by auto
  have "retirement_inflight_source (source_retirements (update_retirement (ret_id r) ?f db))"
    using inv by (auto simp: update_retirement_def lifecycle_inv_def inflight_def dispatched_def intro!: index_update)
  then show ?thesis using update_retirement_outcome[OF inv, of r ?f] journal_record_Inr[OF r(1)] r(2)
    by (auto simp: ret_row_ok_def inflight_def dispatched_def)
qed

lemma resolve_inv:
  assumes inv: "lifecycle_inv db" and u: "resolve now source operation actor guard_instance receipt db = Inr (x, db')"
  shows "lifecycle_inv db'"
proof -
  let ?f = "\<lambda>x. x\<lparr>ret_state := RET_SUCCEEDED, ret_receipt := Some receipt, ret_code := None, ret_finished_at := Some now\<rparr>"
  obtain r expected where r: "journal_record db source operation actor = Inr r" "plan_remote (ret_plan r) = Inr expected"
    "\<forall>m \<in> set (receipt_refusals r source guard_instance expected receipt). m = Inr False"
    "db' = db \<or> ret_state r \<in> {RET_SENDING, RET_UNCERTAIN} \<and> db' = update_retirement (ret_id r) ?f db \<and>
       retirement_inflight_source (source_retirements db')"
    using u unfolding resolve_def bindr_Inr_conv by (auto simp: Let_def bindr_Inr_conv split: if_splits)
  have g: "guard_instance = ret_guard r" and s: "ret_instance r = source"
    using r(3) journal_record_Inr[OF r(1)] by (auto simp: receipt_refusals_def)
  have "receipt_refusals (?f r) source (ret_guard r) expected receipt = receipt_refusals r source (ret_guard r) expected receipt"
    by (simp add: receipt_refusals_def)
  then have "ret_row_ok (?f r)"
    using r(2,3) g s by (simp add: ret_row_ok_def receipt_ok_def list_all_iff)
  then show ?thesis using r(4) update_retirement_outcome[OF inv, of r ?f] journal_record_Inr[OF r(1)] inv
    by (auto simp: inflight_def dispatched_def)
qed

lemma resume_inv:
  assumes inv: "lifecycle_inv db" and u: "resume_legacy_busy H source operation actor db = Inr (x, db')"
  shows "lifecycle_inv db'"
proof -
  let ?f = "\<lambda>x. x\<lparr>ret_state := RET_UNCERTAIN, ret_code := Some ''RETIREMENT_SERVER_BUSY''\<rparr>"
  obtain r flags g where r: "journal_record db source operation actor = Inr r"
    "journal_guard H db source (ret_revision r) (Some flags) False = Inr g"
    "db' = update_retirement (ret_id r) ?f db" "retirement_inflight_source (source_retirements db')"
    using u unfolding resume_legacy_busy_def bindr_Inr_conv by auto
  have "quiet db source" using guard_quiet[OF inv] r(2) by (cases g) auto
  then show ?thesis using r update_retirement_outcome[OF inv, of r ?f] journal_record_Inr[OF r(1)]
    by (auto simp: ret_row_ok_def)
qed

subsection \<open>Opening and closing a generation\<close>

lemma receipt_ok_cong:
  assumes "ret_id r' = ret_id r" "ret_instance r' = ret_instance r" "ret_guard r' = ret_guard r" "ret_plan r' = ret_plan r"
    "ret_receipt r' = ret_receipt r"
  shows "receipt_ok r' = receipt_ok r"
proof -
  have refusals: "receipt_refusals r' = receipt_refusals r"
    using assms by (simp add: fun_eq_iff receipt_refusals_def)
  show ?thesis unfolding receipt_ok_def refusals assms ..
qed

lemma receipt_ok_flags [simp]:
  "receipt_ok (x\<lparr>ret_remove_credentials := c\<rparr>) = receipt_ok x"
  "receipt_ok (x\<lparr>ret_superseded_by := s\<rparr>) = receipt_ok x"
  "receipt_ok (x\<lparr>ret_code := e\<rparr>) = receipt_ok x"
  "receipt_ok (x\<lparr>ret_cleanup_verified := v\<rparr>) = receipt_ok x"
  "receipt_ok (x\<lparr>ret_state := st\<rparr>) = receipt_ok x"
  by (rule receipt_ok_cong; simp)+

lemma ret_row_ok_flags [simp]:
  "ret_row_ok (x\<lparr>ret_remove_credentials := c\<rparr>) = ret_row_ok x"
  "ret_row_ok (x\<lparr>ret_superseded_by := s\<rparr>) = ret_row_ok x"
  "ret_row_ok (x\<lparr>ret_code := e\<rparr>) = ret_row_ok x"
  "ret_row_ok (x\<lparr>ret_cleanup_verified := v\<rparr>) = ret_row_ok x"
  by (simp_all add: ret_row_ok_def)

lemma begin_again_inv:
  assumes inv: "lifecycle_inv db" and b: "begin_again r c db = Inr (x, db')"
  shows "lifecycle_inv db'"
proof -
  let ?f = "\<lambda>x. x\<lparr>ret_remove_credentials := Some True\<rparr>"
  have "db' = db \<or> db' = update_retirement (ret_id r) ?f db"
    using b by (auto simp: begin_again_def split: if_splits)
  then show ?thesis using inv update_retirement_flags[OF inv, of ?f] by auto
qed

lemma disable_source_inv: "lifecycle_inv db \<Longrightarrow> lifecycle_inv (disable_source source db)"
  unfolding disable_source_def update_source_def by (rule lifecycle_inv_sources) auto

lemma supersede_inv:
  assumes inv: "lifecycle_inv db"
  shows "lifecycle_inv (supersede operation source db)"
  unfolding supersede_def using inv
  by (intro lifecycle_inv_update_retirement[OF inv]) (auto simp: inflight_def lifecycle_inv_def intro!: index_update)

lemma dispatch_inv:
  assumes inv: "lifecycle_inv db" and r: "r \<in> set (source_retirements db)" "ret_instance r = source" "ret_state r = RET_READY"
    and g: "source_of db source \<noteq> None" "\<not> operation_running db source" "\<not> run_blocks db source"
    and d: "dispatch now source r archive c db = Inr (x, db')"
  shows "lifecycle_inv db'"
proof -
  let ?send = "\<lambda>x. x\<lparr>ret_state := RET_SENDING, ret_remove_credentials := Some c\<rparr>"
  define db1 where "db1 = (if archive then supersede (ret_id r) source db else db)"
  define db2 where "db2 = disable_source source (abandon_prepared now source db1)"
  have db': "db' = update_retirement (ret_id r) ?send db2" "retirement_inflight_source (source_retirements db')"
    using d by (auto simp: dispatch_def Let_def db1_def db2_def bindr_Inr_conv)
  have inv1: "lifecycle_inv db1" using inv supersede_inv by (simp add: db1_def)
  then have inv2: "lifecycle_inv db2" by (simp add: db2_def abandon_prepared_def disable_source_inv)
  have r2: "r \<in> set (source_retirements db2)"
    using r by (force simp: db2_def db1_def disable_source_def update_source_def abandon_prepared_def supersede_def set_update_where)
  have same: "sources db1 = sources db" "source_operations db1 = source_operations db" "sync_runs db1 = sync_runs db"
    by (simp_all add: db1_def supersede_def)
  have "source_of db2 source = map_option (\<lambda>s. if s_instance s = source then s\<lparr>s_enabled := False, s_sync_enabled := False\<rparr> else s)
      (source_of db source)"
    using find_update_where[of "\<lambda>s. s_instance s = source" s_instance
        "\<lambda>s. s\<lparr>s_enabled := False, s_sync_enabled := False\<rparr>" source "sources db"]
    by (simp add: db2_def disable_source_def update_source_def abandon_prepared_def source_of_def same)
  then have "disabled_source db2 source"
    using g(1) source_of_Some[of db source] by (auto simp: disabled_source_def)
  moreover have "\<not> run_running db source" using running_not_reconciled g(3) inv by (simp add: lifecycle_inv_def)
  ultimately have "quiet db2 source"
    using g(2) by (simp add: quiet_def db2_def disable_source_def update_source_def abandon_prepared_def
        operation_running_def run_running_def same)
  then show ?thesis using db' update_retirement_outcome[OF inv2 r2, of ?send] r(2) by (simp add: ret_row_ok_def)
qed

lemma begin_Inr:
  assumes "begin_retirement H now source operation actor digest confirmed c db = Inr (x, db')"
  obtains r flags archive row cluster generation where "journal_record db source operation actor = Inr r"
    "ret_superseded_by r = None" "plan_format_is 4 (ret_plan r) = Inr archive"
    "journal_guard H db source (ret_revision r) flags archive = Inr (row, cluster, generation)"
    "confirmed = s_name row"
    "(if ret_state r \<noteq> RET_READY then begin_again r c db else dispatch now source r archive c db) = Inr (x, db')"
  using assms unfolding begin_retirement_def bindr_Inr_conv by (auto simp: bind_refuse_if_Inr_iff)

lemma begin_inv:
  assumes inv: "lifecycle_inv db" and b: "begin_retirement H now source operation actor digest confirmed c db = Inr (x, db')"
  shows "lifecycle_inv db'"
  using b
proof (rule begin_Inr)
  fix r flags archive row cluster generation
  assume r: "journal_record db source operation actor = Inr r"
    and g: "journal_guard H db source (ret_revision r) flags archive = Inr (row, cluster, generation)"
    and e: "(if ret_state r \<noteq> RET_READY then begin_again r c db else dispatch now source r archive c db) = Inr (x, db')"
  show ?thesis
  proof (cases "ret_state r = RET_READY")
    case True
    then show ?thesis
      using e journal_guard_Inr[OF g] journal_record_Inr[OF r] dispatch_inv[OF inv, of r source now archive c x db'] by auto
  next
    case False
    then show ?thesis using e begin_again_inv[OF inv] by auto
  qed
qed

subsection \<open>Closing and purging keep the invariant\<close>

lemma stale_plans_inv: "lifecycle_inv db \<Longrightarrow> lifecycle_inv (stale_plans now source db)"
  unfolding stale_plans_def
  by (rule lifecycle_inv_operations) (auto simp: set_update_where operation_running_def list_ex_iff)

lemma close_generation_Inr:
  assumes "close_generation now r db = Inr db'"
  shows "\<exists>archives reservations. db' = stale_plans now (ret_instance r)
    (db\<lparr>source_archives := archives, host_reservations := reservations\<rparr>)"
proof -
  obtain a where db': "db' = stale_plans now (ret_instance r) (release_reservations now (ret_instance r) (insert_archive a db))"
    using assms unfolding close_generation_def Let_def bindr_Inr_conv
    by (auto simp: bindr_Inr_conv split: option.splits)
  have "release_reservations now (ret_instance r) (insert_archive a db) = db\<lparr>source_archives := source_archives (insert_archive a db),
      host_reservations := host_reservations (release_reservations now (ret_instance r) db)\<rparr>"
    by (simp add: insert_archive_def release_reservations_def)
  then show ?thesis unfolding db' by metis
qed

lemma close_generation_inv: "lifecycle_inv db \<Longrightarrow> close_generation now r db = Inr db' \<Longrightarrow> lifecycle_inv db'"
  using stale_plans_inv[of "db\<lparr>source_archives := _, host_reservations := _\<rparr>"] by (auto dest!: close_generation_Inr)

lemma close_generation_retirements: "close_generation now r db = Inr db' \<Longrightarrow> source_retirements db' = source_retirements db"
  by (auto dest!: close_generation_Inr simp: stale_plans_def)

section \<open>Purging, operations, runs and lifecycle commands\<close>

lemma find_filter_other:
  "source \<noteq> x \<Longrightarrow> List.find (\<lambda>r. k r = x) (filter (\<lambda>r. k r \<noteq> source) rows) = List.find (\<lambda>r. k r = x) rows"
  by (induction rows) auto

lemma purge_rows_quiet:
  "source \<noteq> x \<Longrightarrow> quiet db x \<Longrightarrow> quiet (purge_rows source auth db) x"
  by (simp add: quiet_def disabled_source_def source_of_def purge_rows_def find_filter_other operation_running_def
      run_running_def list_ex_iff)

lemma purge_rows_inv:
  assumes inv: "lifecycle_inv db"
  shows "lifecycle_inv (purge_rows source auth db)"
proof -
  have "inflight_quiet (purge_rows source auth db)"
    using inv purge_rows_quiet[of source] by (auto simp: lifecycle_inv_def inflight_quiet_def purge_rows_def)
  moreover have "retirement_inflight_source (filter (\<lambda>r. ret_instance r \<noteq> source) (source_retirements db))"
  proof -
    have eq: "filter inflight (filter (\<lambda>r. ret_instance r \<noteq> source) rows) = filter (\<lambda>r. ret_instance r \<noteq> source) (filter inflight rows)"
      for rows by (induction rows) auto
    show ?thesis unfolding retirement_inflight_source_def eq
      by (rule distinct_map_filter, rule inv[unfolded lifecycle_inv_def retirement_inflight_source_def, THEN conjunct2, THEN conjunct2, THEN conjunct1])
  qed
  ultimately show ?thesis using inv
    by (auto simp: lifecycle_inv_def registry_keys_def runs_ok_def purge_rows_def distinct_map_filter list_all_iff)
qed

lemma purge_Inr:
  assumes "purge_retired_source source operation actor db = Inr db'"
  shows "\<exists>auth. db' = purge_rows source auth db"
  using assms by (auto simp: purge_retired_source_def bindr_Inr_conv split: option.splits)

lemma finalized_inv:
  assumes inv: "lifecycle_inv db" and f: "finalized now free source operation actor db = Inr (x, db')"
  shows "lifecycle_inv db'"
proof -
  let ?f = "\<lambda>x. x\<lparr>ret_state := RET_FINALIZED, ret_code := None\<rparr>"
  obtain r where r: "journal_record db source operation actor = Inr r" "ret_state r \<in> {RET_SUCCEEDED, RET_FINALIZED}"
    "purge_retired_source source (ret_id r) actor db = Inr db' \<or>
     (\<exists>db1. close_generation now r db = Inr db1 \<and> db' = update_retirement (ret_id r) ?f db1)"
    using f unfolding finalized_def bindr_Inr_conv by (auto simp: bindr_Inr_conv split: if_splits)
  from r(3) show ?thesis
  proof (elim disjE exE conjE)
    assume "purge_retired_source source (ret_id r) actor db = Inr db'"
    then show ?thesis using purge_Inr purge_rows_inv[OF inv] by blast
  next
    fix db1 assume c: "close_generation now r db = Inr db1" and db': "db' = update_retirement (ret_id r) ?f db1"
    have inv1: "lifecycle_inv db1" by (rule close_generation_inv[OF inv c])
    have r1: "r \<in> set (source_retirements db1)"
      using journal_record_Inr[OF r(1)] by (simp add: close_generation_retirements[OF c])
    have "ret_row_ok r" using inv journal_record_Inr[OF r(1)] by (simp add: lifecycle_inv_def list_all_iff)
    then have "ret_row_ok (?f r)" using r(2) by (auto simp: ret_row_ok_def)
    moreover have "retirement_inflight_source (source_retirements (update_retirement (ret_id r) ?f db1))"
      using inv1 by (auto simp: update_retirement_def lifecycle_inv_def inflight_def dispatched_def intro!: index_update)
    ultimately show ?thesis using update_retirement_outcome[OF inv1 r1, of ?f] db'
      by (auto simp: inflight_def dispatched_def)
  qed
qed

subsection \<open>Operations, runs and the lifecycle store keep the invariant\<close>

lemma gate_no_inflight:
  "source_gate db source False w = Inr u \<Longrightarrow> q \<in> set (source_retirements db) \<Longrightarrow> ret_instance q = source \<Longrightarrow> \<not> inflight q"
  by (auto simp: source_gate_def inflight_def list_ex_iff)

lemma reconcile_row_inv: "lifecycle_inv db \<Longrightarrow> lifecycle_inv (reconcile_row now row db)"
  unfolding reconcile_row_def
  by (auto intro!: lifecycle_inv_operations simp: set_update_where interrupt_def expire_def operation_running_def list_ex_iff split: if_splits)

lemma latest_inv: "lifecycle_inv db \<Longrightarrow> latest now source db = Inr (rows, db') \<Longrightarrow> lifecycle_inv db'"
proof -
  have "lifecycle_inv db \<Longrightarrow> lifecycle_inv (fold (reconcile_row now) rows db)" for rows
    by (induction rows arbitrary: db) (auto simp: reconcile_row_inv)
  then show "lifecycle_inv db \<Longrightarrow> latest now source db = Inr (rows, db') \<Longrightarrow> lifecycle_inv db'"
    by (auto simp: latest_def Let_def)
qed

lemma admit_inv:
  assumes inv: "lifecycle_inv db" and a: "admit now uuid source kind db = Inr ((row, new), db')"
  shows "lifecycle_inv db'"
  using a
proof (rule admit_Inr)
  assume g: "source_gate db source False False = Inr ()"
    and d: "new \<and> row = fresh_row now uuid source kind \<and> db' = upsert_operation row db \<and>
      (source, kind) \<notin> set (held db) \<and> uuid \<notin> o_id ` set (source_operations db)
      \<or> \<not> new \<and> db' = db \<and> slot_of db source kind = Some row \<and> o_status row = OP_RUNNING"
  have "lifecycle_inv (upsert_operation (fresh_row now uuid source kind) db)"
    unfolding upsert_operation_def using gate_no_inflight[OF g]
    by (intro lifecycle_inv_operations[OF inv])
      (auto simp: set_update_where fresh_row_def operation_running_def list_ex_iff split: if_splits)
  with d inv show ?thesis by auto
qed

lemma execute_finish_status: "completion H dto host_dto kind source outcome = (st, result, code) \<Longrightarrow> st \<noteq> OP_RUNNING"
  by (auto simp: completion_def Let_def split: sum.splits if_splits)

lemma execute_finish_inv:
  assumes inv: "lifecycle_inv db"
  shows "lifecycle_inv (execute_finish H dto host_dto now operation outcome db)"
proof -
  obtain st result code where c:
    "completion H dto host_dto (o_kind operation) (o_instance operation) outcome = (st, result, code)"
    by (cases "completion H dto host_dto (o_kind operation) (o_instance operation) outcome")
  show ?thesis
    unfolding execute_finish_def c prod.case lifecycle_inv_frame using execute_finish_status[OF c]
    by (intro lifecycle_inv_operations[OF inv]) (auto simp: set_update_where operation_running_def list_ex_iff)
qed

lemma execute_begin_inv: "lifecycle_inv db \<Longrightarrow> lifecycle_inv (snd (execute_begin operation db))"
  by (auto simp: execute_begin_def Let_def split: option.splits)

lemma invalidate_plan_inv:
  "lifecycle_inv db \<Longrightarrow> invalidate_plan now source operation_id db = Inr (u, db') \<Longrightarrow> lifecycle_inv db'"
  unfolding invalidate_plan_def bindr_Inr_conv
  by (auto intro!: lifecycle_inv_operations simp: set_update_where operation_running_def list_ex_iff)

lemma reconcile_abandoned_inv: "lifecycle_inv db \<Longrightarrow> lifecycle_inv (reconcile_abandoned_reads now source db)"
  unfolding reconcile_abandoned_reads_def
  by (auto intro!: lifecycle_inv_operations simp: set_update_where interrupt_def operation_running_def list_ex_iff)

lemma start_run_inv:
  assumes inv: "lifecycle_inv db" and s: "start_run now run_id source source_type trigger creator pd pv db = Inr (r, db')"
  shows "lifecycle_inv db'"
proof -
  have i: "insert_run (new_run now run_id source source_type trigger creator pd pv) db = Inr ((), db')"
    using s by (auto simp: start_run_def bindr_Inr_conv Let_def)
  have "lifecycle_inv (db\<lparr>sync_runs := sync_runs db @ [new_run now run_id source source_type trigger creator pd pv]\<rparr>)"
    using inv i
    by (intro lifecycle_inv_runs)
      (auto simp: insert_run_def bindr_Inr_conv guard_run_source_def lifecycle_defs list_all_iff list_ex_iff new_run_def run_running_def)
  then show ?thesis using i by (auto simp: insert_run_def bindr_Inr_conv)
qed

lemma lifecycle_inv_run_update:
  assumes inv: "lifecycle_inv db" and "\<And>r. p r \<Longrightarrow> r_id (f r) = r_id r \<and> r_instance (f r) = r_instance r"
    and "\<And>r. p r \<Longrightarrow> (r_status r = RUN_RUNNING) = (r_finished_at r = None) \<Longrightarrow> (r_status (f r) = RUN_RUNNING) = (r_finished_at (f r) = None)"
    and "\<And>r. p r \<Longrightarrow> r_status (f r) = RUN_RUNNING \<Longrightarrow> r_status r = RUN_RUNNING"
  shows "lifecycle_inv (db\<lparr>sync_runs := update_where p f (sync_runs db)\<rparr>)"
proof (rule lifecycle_inv_runs[OF inv])
  show "distinct (map r_id (update_where p f (sync_runs db)))"
    using inv assms(2) by (simp add: lifecycle_defs)
  fix r assume "r \<in> set (update_where p f (sync_runs db))"
  then obtain x where x: "x \<in> set (sync_runs db)" "r = (if p x then f x else x)" by (auto simp: set_update_where)
  have "(r_status x = RUN_RUNNING) = (r_finished_at x = None)" using inv x by (simp add: lifecycle_defs list_all_iff)
  then show "(r_status r = RUN_RUNNING) = (r_finished_at r = None)" using x assms(3) by auto
  assume "r_status r = RUN_RUNNING"
  then have "r_status x = RUN_RUNNING" "r_instance r = r_instance x" using x assms(2,4) by (auto split: if_splits)
  then show "run_running db (r_instance r) \<or> (\<forall>q \<in> set (source_retirements db). ret_instance q = r_instance r \<longrightarrow> \<not> inflight q)"
    using x by (auto simp: run_running_def list_ex_iff)
qed

lemma finish_run_Inr:
  assumes "finish_run now run_id st counts pd pv code msg db = Inr (r, db')"
  shows "\<exists>c. st \<noteq> RUN_RUNNING \<and> db' = db\<lparr>sync_runs := update_where (\<lambda>r. r_id r = run_id \<and> r_status r = RUN_RUNNING)
    (finish_row now st c pd pv code msg) (sync_runs db)\<rparr>"
  using assms unfolding finish_run_def bindr_Inr_conv Let_def by (auto simp: bindr_Inr_conv split: option.splits)

lemma finish_run_inv:
  "lifecycle_inv db \<Longrightarrow> finish_run now run_id st counts pd pv code msg db = Inr (r, db') \<Longrightarrow> lifecycle_inv db'"
  by (auto dest!: finish_run_Inr intro!: lifecycle_inv_run_update simp: finish_row_def)

lemma bind_plan_inv:
  "lifecycle_inv db \<Longrightarrow> bind_plan run_id digest version db = Inr (u, db') \<Longrightarrow> lifecycle_inv db'"
  unfolding bind_plan_def Let_def bindr_Inr_conv by (auto intro!: lifecycle_inv_run_update)

lemma rename_inv: "lifecycle_inv db \<Longrightarrow> rename_txn H source expected name db = Inr (u, db') \<Longrightarrow> lifecycle_inv db'"
  unfolding rename_txn_def bindr_Inr_conv update_source_def
  by (auto intro!: lifecycle_inv_sources split: option.splits)

lemma set_credential_state_inv: "lifecycle_inv db \<Longrightarrow> lifecycle_inv (set_credential_state source state db)"
  unfolding set_credential_state_def by (rule lifecycle_inv_tombstones) (simp_all add: lifecycle_defs)

lemma cleanup_open_inv: "lifecycle_inv db \<Longrightarrow> cleanup_open source db = Inr (x, db') \<Longrightarrow> lifecycle_inv db'"
  by (auto simp: cleanup_open_def set_credential_state_inv split: option.splits if_splits)

lemma cleanup_files_inv: "lifecycle_inv db \<Longrightarrow> cleanup_files cleanup source row db = Inr (x, db') \<Longrightarrow> lifecycle_inv db'"
  by (auto simp: cleanup_files_def bindr_Inr_conv set_credential_state_inv)

lemma upsert_tombstone_inv: "lifecycle_inv db \<Longrightarrow> lifecycle_inv (upsert_tombstone now source name state db)"
  unfolding upsert_tombstone_def Let_def
  by (rule lifecycle_inv_tombstones) (auto simp: lifecycle_defs list_ex_iff)

lemma remove_inv: "lifecycle_inv db \<Longrightarrow> remove_txn H now source expected confirmed c operation db = Inr (x, db') \<Longrightarrow> lifecycle_inv db'"
  by (auto simp: remove_txn_def bindr_Inr_conv upsert_tombstone_inv disable_source_inv)

lemma schedule_inv:
  assumes inv: "lifecycle_inv db" and s: "schedule_update now q db = Inr (x, db')"
  shows "lifecycle_inv db'"
proof -
  have g: "source_gate db (sq_instance q) False False = Inr ()" and db':
    "db' = db\<lparr>sources := update_where (schedule_matches q) (apply_schedule now q) (sources db)\<rparr>"
    using s by (auto simp: schedule_update_def schedule_store_update_def Let_def simp del: source_gate_False_iff
        split: sum.splits option.splits)
  show ?thesis unfolding db' using gate_no_inflight[OF g]
    by (intro lifecycle_inv_sources[OF inv]) (auto simp: apply_schedule_def schedule_matches_def)
qed

lemma enqueue_inv:
  assumes inv: "lifecycle_inv db" and e: "enqueue H source operation actor expected confirmed db = Inr (x, db')"
  shows "lifecycle_inv db'"
proof -
  have p: "lifecycle_inv (update_source source (\<lambda>r. r\<lparr>s_sync_enabled := False\<rparr>) db)"
    unfolding update_source_def using inv by (rule lifecycle_inv_sources) auto
  have "db' = db \<or> (\<exists>rs. db' = update_source source (\<lambda>r. r\<lparr>s_sync_enabled := False\<rparr>) db\<lparr>source_removal_requests := rs\<rparr>)"
    using e by (auto simp: enqueue_def enqueue_new_def Let_def store_request_def bindr_Inr_conv split: option.splits if_splits)
  then show ?thesis using inv p by auto
qed

section \<open>Identities, recoveries and accepted baselines keep the invariant\<close>

lemma stale_ready_plans_inv: "lifecycle_inv db \<Longrightarrow> lifecycle_inv (stale_ready_plans now source db)"
  unfolding stale_ready_plans_def
  by (rule lifecycle_inv_operations) (auto simp: set_update_where operation_running_def list_ex_iff)

text \<open>A change of one source that does not enable it, or whose source has no retirement in flight.\<close>

lemma update_source_inv:
  assumes "lifecycle_inv db" "\<And>s. s_instance (f s) = s_instance s"
    and "(\<forall>s :: source_row. (s_enabled (f s) \<longrightarrow> s_enabled s) \<and> (s_sync_enabled (f s) \<longrightarrow> s_sync_enabled s)) \<or> source_gate db source False w = Inr ()"
  shows "lifecycle_inv (update_source source f db)"
  unfolding update_source_def
proof (rule lifecycle_inv_sources[OF assms(1)])
  fix s :: source_row assume s: "s_instance s = source"
  show "s_instance (f s) = s_instance s" by (rule assms(2))
  assume "\<not> s_enabled s" "\<not> s_sync_enabled s"
  then show "\<not> s_enabled (f s) \<and> \<not> s_sync_enabled (f s) \<or> (\<forall>q \<in> set (source_retirements db). ret_instance q = s_instance s \<longrightarrow> \<not> inflight q)"
    using assms(3) gate_no_inflight[of db source w] s by blast
qed

lemma legacy_confirm_inv:
  assumes inv: "lifecycle_inv db" and c: "legacy_confirm_txn H now source actor operation expected decision reason anchor db = Inr (u, db')"
  shows "lifecycle_inv db'"
  using legacy_confirm_Inr[OF c]
proof (elim disjE exE conjE)
  fix row v
  assume db': "db' = stale_ready_plans now source (update_source source (quarantined decision operation anchor row)
      (db\<lparr>source_identity_verifications := source_identity_verifications db @ [v]\<rparr>))"
  show ?thesis unfolding db' using inv
    by (intro stale_ready_plans_inv update_source_inv) (simp_all add: quarantined_def)
qed (simp add: inv)

lemma verify_identity_inv:
  assumes inv: "lifecycle_inv db" and c: "verify_identity_txn H host_dto now free source actor expected operation pf db = Inr (anchor, db')"
  shows "lifecycle_inv db'"
  using verify_identity_Inr[OF c]
proof (elim disjE exE conjE)
  fix row p v
  assume db': "db' = stale_ready_plans now source (update_source source (\<lambda>s. s\<lparr>s_settings := AList.update ''provider_identity''
      (PDict (verified_identity anchor operation p)) (AList.delete ''legacy_admission'' (s_settings s))\<rparr>)
      (db\<lparr>source_identity_verifications := source_identity_verifications db @ [v]\<rparr>))"
  show ?thesis unfolding db' using inv by (intro stale_ready_plans_inv update_source_inv) simp_all
qed (simp add: inv)

lemma reserve_inv:
  "lifecycle_inv db \<Longrightarrow> reserve dto U now af hf preview source operation_id actor intent db = Inr (anchor, db') \<Longrightarrow> lifecycle_inv db'"
  by (auto dest!: reserve_Inr)

lemma bind_intent_inv:
  "lifecycle_inv db \<Longrightarrow> bind_intent dto U now preview source operation actor digest request db = Inr (claim, db') \<Longrightarrow> lifecycle_inv db'"
  by (auto dest!: bind_intent_Inr)

lemma recovery_rows:
  "prepare_recovery_txn H source operation actor expected pf db = Inr (r, db') \<Longrightarrow> \<exists>rs. db' = db\<lparr>source_recoveries := rs\<rparr>"
  "begin_credentials_txn H source operation actor db = Inr (r, db') \<Longrightarrow> \<exists>rs. db' = db\<lparr>source_recoveries := rs\<rparr>"
  "abandon_recovery_txn now source operation actor db = Inr (r, db') \<Longrightarrow> \<exists>rs. db' = db\<lparr>source_recoveries := rs\<rparr>"
proof -
  have same: "\<exists>rs. db = db\<lparr>source_recoveries := rs\<rparr>" by (rule exI[of _ "source_recoveries db"]) simp
  show "prepare_recovery_txn H source operation actor expected pf db = Inr (r, db') \<Longrightarrow> \<exists>rs. db' = db\<lparr>source_recoveries := rs\<rparr>"
    using same by (auto simp: prepare_recovery_txn_def bindr_Inr_conv Let_def split: option.splits)
  show "begin_credentials_txn H source operation actor db = Inr (r, db') \<Longrightarrow> \<exists>rs. db' = db\<lparr>source_recoveries := rs\<rparr>"
    using same by (auto simp: begin_credentials_txn_def bindr_Inr_conv Let_def update_recovery_def split: if_splits)
  show "abandon_recovery_txn now source operation actor db = Inr (r, db') \<Longrightarrow> \<exists>rs. db' = db\<lparr>source_recoveries := rs\<rparr>"
    using same by (auto simp: abandon_recovery_txn_def bindr_Inr_conv Let_def update_recovery_def split: if_splits)
qed

lemma recovery_inv:
  "lifecycle_inv db \<Longrightarrow> prepare_recovery_txn H source operation actor expected pf db = Inr (r, db') \<Longrightarrow> lifecycle_inv db'"
  "lifecycle_inv db \<Longrightarrow> begin_credentials_txn H source operation actor db = Inr (r, db') \<Longrightarrow> lifecycle_inv db'"
  "lifecycle_inv db \<Longrightarrow> abandon_recovery_txn now source operation actor db = Inr (r, db') \<Longrightarrow> lifecycle_inv db'"
  by (auto dest!: recovery_rows)

lemma complete_recovery_cases:
  assumes "complete_recovery_txn H now verify_owned source operation actor pf m db = Inr (r', db')"
  shows "db' = db \<or> (\<exists>row key config. source_gate db source False False = Inr () \<and> source_of db source = Some row \<and>
    recovered_config row m key = Inr config \<and> db' = restored_db now source operation config m key db)"
proof -
  obtain r where r: "recovery_attempt db source operation actor = Inr r"
    using assms unfolding complete_recovery_txn_def by (auto simp: bindr_Inr_conv)
  show ?thesis
  proof (cases "rc_state r = REC_RESTORED")
    case True
    then show ?thesis using assms r unfolding complete_recovery_txn_def by (auto simp: bindr_Inr_conv)
  next
    case False
    then show ?thesis by (rule complete_recovery_Inr[OF assms r]) blast
  qed
qed

lemma complete_recovery_inv:
  assumes inv: "lifecycle_inv db" and c: "complete_recovery_txn H now verify_owned source operation actor pf m db = Inr (r', db')"
  shows "lifecycle_inv db'"
  using complete_recovery_cases[OF c]
proof (elim disjE exE conjE)
  fix row key config
  assume g: "source_gate db source False False = Inr ()" and db': "db' = restored_db now source operation config m key db"
  have "lifecycle_inv (update_source source (recovered_row config m key) db)"
    using inv by (rule update_source_inv[where w = False]) (use g in \<open>simp_all add: recovered_row_def\<close>)
  then have "lifecycle_inv (restore_tombstone now source (update_source source (recovered_row config m key) db))"
    unfolding restore_tombstone_def by (rule lifecycle_inv_tombstones) (use inv in \<open>simp add: lifecycle_defs update_source_def\<close>)
  then show ?thesis unfolding db' restored_db_def update_recovery_def lifecycle_inv_frame by (rule stale_ready_plans_inv)
qed (simp add: inv)

lemma baseline_inv:
  assumes inv: "lifecycle_inv db" and c: "baseline_txn H now source operation actor reviewed acks db = Inr (u, db')"
  shows "lifecycle_inv db'"
proof -
  obtain runs decision where db': "db' = accepted_db now source actor operation decision runs db" using baseline_txn_Inr[OF c] by blast
  show ?thesis unfolding db' accepted_db_def using inv by (intro stale_ready_plans_inv update_source_inv) simp_all
qed

lemma verify_archive_inv: "lifecycle_inv db \<Longrightarrow> verify_archive now free source receipt db = Inr (u, db') \<Longrightarrow> lifecycle_inv db'"
  by (auto simp: verify_archive_def bindr_Inr_conv)

end
