(* ===== verification/Lifecycle_System.thy ===== *)
theory Lifecycle_System
  imports Lifecycle_Invariant
begin

text \<open>
  The services as one system: a step relation with a rule for every transaction they commit, the
  admission and execution of operations interleaved with it, and the proof that every
  procedure of the lifecycle, retirement and queue services, whatever the remote guard, the clock,
  the locks and the file cleanup answer, is a sequence of these steps. What every transaction
  keeps is then kept by every procedure and in every reachable state.
\<close>

section \<open>Committed transactions\<close>

text \<open>
  One rule for every transaction the services commit on the registry, with any arguments. The
  admission and execution of operations follow below, because they are bound to identifiers
  handed out earlier.
\<close>

inductive db_step :: "(string \<Rightarrow> string) \<Rightarrow> registry \<Rightarrow> registry \<Rightarrow> bool" for H where
  latest: "latest now source db = Inr (rows, db') \<Longrightarrow> db_step H db db'"
| invalidate_plan: "invalidate_plan now source operation db = Inr (u, db') \<Longrightarrow> db_step H db db'"
| rename: "rename_txn H source expected name db = Inr (u, db') \<Longrightarrow> db_step H db db'"
| cleanup_open: "cleanup_open source db = Inr (x, db') \<Longrightarrow> db_step H db db'"
| cleanup_files: "cleanup_files cleanup source row db = Inr (u, db') \<Longrightarrow> db_step H db db'"
| remove: "remove_txn H now source expected confirmed c operation db = Inr (u, db') \<Longrightarrow> db_step H db db'"
| schedule: "schedule_update now q db = Inr (srow, db') \<Longrightarrow> db_step H db db'"
| prepare: "prepare H now source operation actor expected guard_instance remote db = Inr (r, db') \<Longrightarrow> db_step H db db'"
| begin_retirement: "begin_retirement H now source operation actor digest confirmed c db = Inr (p, db') \<Longrightarrow> db_step H db db'"
| resume: "resume_legacy_busy H source operation actor db = Inr (u, db') \<Longrightarrow> db_step H db db'"
| uncertain: "uncertain source operation actor code db = Inr (u, db') \<Longrightarrow> db_step H db db'"
| resolve: "resolve now source operation actor guard_instance receipt db = Inr (r, db') \<Longrightarrow> db_step H db db'"
| blocked: "blocked source operation actor code db = Inr (u, db') \<Longrightarrow> db_step H db db'"
| finalized: "finalized now free source operation actor db = Inr (u, db') \<Longrightarrow> db_step H db db'"
| set_code: "db_step H db (snd (set_code operation code db))"
| cleanup_verified: "db_step H db (update_retirement operation (\<lambda>x. x\<lparr>ret_cleanup_verified := True\<rparr>) db)"
| enqueue: "enqueue H source operation actor expected ok db = Inr (qv, db') \<Longrightarrow> db_step H db db'"
| abandoned: "db_step H db (reconcile_abandoned_reads now source db)"
| block_request: "db_step H db (block_request qr code db)"
| start_run: "start_run now run_id source source_type trigger creator pd pv db = Inr (run, db') \<Longrightarrow> db_step H db db'"
| finish_run: "finish_run now run_id st counts pd pv code_opt msg db = Inr (run, db') \<Longrightarrow> db_step H db db'"
| bind_plan: "bind_plan run_id d v db = Inr (u, db') \<Longrightarrow> db_step H db db'"
| reserve: "reserve dto U now af hf preview source operation_id actor intent db = Inr (anchor, db') \<Longrightarrow> db_step H db db'"
| bind_intent: "bind_intent dto U now preview source operation actor digest request db = Inr (claim, db') \<Longrightarrow> db_step H db db'"
| legacy_confirm: "admission_request actor decision reason claimed = Inr a \<Longrightarrow>
    legacy_confirm_txn H now source actor operation expected decision reason a db = Inr (u, db') \<Longrightarrow> db_step H db db'"
| verify_identity: "verify_identity_txn H host_dto now free source actor expected operation pf db = Inr (anchor, db') \<Longrightarrow> db_step H db db'"
| prepare_recovery: "prepare_recovery_txn H source operation actor expected pf db = Inr (rec, db') \<Longrightarrow> db_step H db db'"
| begin_credentials: "begin_credentials_txn H source operation actor db = Inr (rec, db') \<Longrightarrow> db_step H db db'"
| abandon_recovery: "abandon_recovery_txn now source operation actor db = Inr (rec, db') \<Longrightarrow> db_step H db db'"
| complete_recovery: "complete_recovery_txn H now verify_owned source operation actor pf m db = Inr (rec, db') \<Longrightarrow> db_step H db db'"
| accept_baseline: "baseline_txn H now source operation actor reviewed acks db = Inr (u, db') \<Longrightarrow> db_step H db db'"
| verify_archive: "verify_archive now free source receipt db = Inr (u, db') \<Longrightarrow> db_step H db db'"

lemma set_code_inv: "lifecycle_inv db \<Longrightarrow> lifecycle_inv (snd (set_code operation code db))"
  by (simp add: set_code_def update_retirement_flags)

lemma block_request_inv: "lifecycle_inv db \<Longrightarrow> lifecycle_inv (block_request q code db)"
  by (simp add: block_request_def)

lemmas lifecycle_transactions = latest_inv invalidate_plan_inv rename_inv cleanup_open_inv cleanup_files_inv remove_inv
  schedule_inv prepare_inv begin_inv resume_inv uncertain_inv resolve_inv blocked_inv finalized_inv enqueue_inv
  start_run_inv finish_run_inv bind_plan_inv reserve_inv bind_intent_inv legacy_confirm_inv verify_identity_inv recovery_inv
  complete_recovery_inv baseline_inv verify_archive_inv

lemma db_step_inv: "db_step H db db' \<Longrightarrow> lifecycle_inv db \<Longrightarrow> lifecycle_inv db'"
  by (induction rule: db_step.induct) 
    (rule lifecycle_transactions, assumption, assumption |
     simp add: set_code_inv update_retirement_flags reconcile_abandoned_inv block_request_inv)+

section \<open>Run records\<close>

definition absent :: "registry \<Rightarrow> string \<Rightarrow> bool" where
  "absent db source = (source_of db source = None \<and> (\<forall>r \<in> set (sync_runs db). r_instance r \<noteq> source))"

definition history :: "registry \<Rightarrow> registry \<Rightarrow> bool" where
  "history db db' = ((\<forall>s. absent db s \<longrightarrow> absent db' s) \<and>
     (\<forall>r \<in> set (sync_runs db). r_status r \<noteq> RUN_RUNNING \<longrightarrow> r \<in> set (sync_runs db') \<or> absent db' (r_instance r)))"

definition same_runs :: "registry \<Rightarrow> registry \<Rightarrow> bool" where
  "same_runs db db' = (sync_runs db' = sync_runs db \<and> map s_instance (sources db') = map s_instance (sources db))"

lemma source_of_keys: "source_of db s = None \<longleftrightarrow> s \<notin> set (map s_instance (sources db))"
  by (auto simp: source_of_def find_none)

lemma same_runs_history: "same_runs db db' \<Longrightarrow> history db db'"
  by (auto simp: same_runs_def history_def absent_def source_of_keys simp del: set_map list.set_map)

lemma same_runs_refl [simp]: "same_runs db db" by (simp add: same_runs_def)

lemma same_runs_trans: "same_runs a b \<Longrightarrow> same_runs b c \<Longrightarrow> same_runs a c" by (simp add: same_runs_def)

lemma same_runs_operations [simp]: "same_runs db (db\<lparr>source_operations := x\<rparr>)"
  by (simp add: same_runs_def)

text \<open>A transaction that touches neither runs nor operations nor the set of sources.\<close>

definition same_tables :: "registry \<Rightarrow> registry \<Rightarrow> bool" where
  "same_tables db db' = (same_runs db db' \<and> source_operations db' = source_operations db)"

lemma same_tables_refl [simp]: "same_tables db db" by (simp add: same_tables_def)

lemma same_tables_update [simp]:
  "same_tables db (db\<lparr>source_tombstones := x1\<rparr>)" "same_tables db (db\<lparr>source_recoveries := x3\<rparr>)"
  "same_tables db (db\<lparr>source_retirements := x4\<rparr>)" "same_tables db (db\<lparr>source_removal_requests := x5\<rparr>)"
  "same_tables db (db\<lparr>host_reservations := x6, registration_intents := x7\<rparr>)" "same_tables db (db\<lparr>registration_intents := x8\<rparr>)"
  "same_tables db (db\<lparr>source_archives := x9\<rparr>)"
  by (simp_all add: same_tables_def same_runs_def)

lemma update_source_tables: "(\<And>r. s_instance (f r) = s_instance r) \<Longrightarrow> same_tables db (update_source source f db)"
  by (simp add: same_tables_def same_runs_def update_source_def)

lemma reconcile_row_runs: "same_runs db (reconcile_row now row db)"
  by (simp add: reconcile_row_def)

lemma fold_runs: "(\<And>x d. same_runs d (f x d)) \<Longrightarrow> same_runs db (fold f xs db)"
  by (induction xs arbitrary: db) (auto intro: same_runs_trans)

lemma latest_runs: "latest now source db = Inr (rows, db') \<Longrightarrow> same_runs db db'"
  by (auto simp: latest_def Let_def fold_runs reconcile_row_runs)

lemma invalidate_plan_runs: "invalidate_plan now source operation db = Inr (u, db') \<Longrightarrow> same_runs db db'"
  by (auto simp: invalidate_plan_def bindr_Inr_conv)

lemma lifecycle_tables:
  "rename_txn H source expected name db = Inr (u, db') \<Longrightarrow> same_tables db db'"
  "cleanup_open source db = Inr (x, db') \<Longrightarrow> same_tables db db'"
  "cleanup_files cleanup source row db = Inr (u, db') \<Longrightarrow> same_tables db db'"
  by (auto simp: rename_txn_def cleanup_open_def cleanup_files_def bindr_Inr_conv set_credential_state_def
      update_source_tables split: option.splits if_splits)

lemma remove_tables: "remove_txn H now source expected confirmed c operation db = Inr (u, db') \<Longrightarrow> same_tables db db'"
  by (auto simp: remove_txn_def bindr_Inr_conv disable_source_def upsert_tombstone_def Let_def update_source_def same_tables_def same_runs_def)

lemma schedule_tables: "schedule_update now q db = Inr (srow, db') \<Longrightarrow> same_tables db db'"
  by (auto simp: schedule_update_def schedule_store_update_def Let_def apply_schedule_def same_tables_def same_runs_def bindr_Inr_conv
      split: sum.splits option.splits)

lemma prepare_tables: "prepare H now source operation actor expected guard_instance remote db = Inr (r, db') \<Longrightarrow> same_tables db db'"
  by (cases "retirement_of db operation") (auto dest: prepare_new prepare_again)

lemma dispatch_tables: "dispatch now source r archive c db = Inr (x, db') \<Longrightarrow> same_tables db db'"
  by (auto simp: dispatch_def Let_def bindr_Inr_conv same_tables_def same_runs_def update_retirement_def disable_source_def update_source_def
      abandon_prepared_def supersede_def)

lemma begin_tables: "begin_retirement H now source operation actor digest confirmed c db = Inr (p, db') \<Longrightarrow> same_tables db db'"
  by (erule begin_Inr) (auto simp: begin_again_def update_retirement_def bindr_Inr_conv split: if_splits dest: dispatch_tables)

lemma update_retirement_tables [simp]: "same_tables db (update_retirement operation f db)"
  by (simp add: update_retirement_def)

lemma journal_tables:
  "resume_legacy_busy H source operation actor db = Inr (u, db') \<Longrightarrow> same_tables db db'"
  "uncertain source operation actor code db = Inr (u, db') \<Longrightarrow> same_tables db db'"
  "blocked source operation actor code db = Inr (u, db') \<Longrightarrow> same_tables db db'"
  by (auto simp: resume_legacy_busy_def uncertain_def blocked_def bindr_Inr_conv
      simp del: bind_refuse_if_Inr_iff refuse_if_Inr_iff)

lemma resolve_tables: "resolve now source operation actor guard_instance receipt db = Inr (r, db') \<Longrightarrow> same_tables db db'"
  unfolding resolve_def bindr_Inr_conv Let_def
  by (elim exE conjE, split if_split_asm) (auto simp: bindr_Inr_conv simp del: refuse_if_Inr_iff)

lemma enqueue_tables: "enqueue H source operation actor expected ok db = Inr (qv, db') \<Longrightarrow> same_tables db db'"
  by (auto simp: enqueue_def enqueue_new_def store_request_def Let_def bindr_Inr_conv same_tables_def same_runs_def update_source_def
      split: option.splits if_splits)

lemma decision_tables:
  "reserve dto U now af hf preview source operation_id actor intent db = Inr (anchor, db') \<Longrightarrow> same_tables db db'"
  "bind_intent dto U now preview source operation actor digest request db = Inr (claim, db') \<Longrightarrow> same_tables db db'"
  "prepare_recovery_txn H source operation actor expected pf db = Inr (rec, db') \<Longrightarrow> same_tables db db'"
  "begin_credentials_txn H source operation actor db = Inr (rec, db') \<Longrightarrow> same_tables db db'"
  "abandon_recovery_txn now source operation actor db = Inr (rec, db') \<Longrightarrow> same_tables db db'"
  "verify_archive now free source receipt db = Inr (u, db') \<Longrightarrow> same_tables db db'"
  by (auto simp: verify_archive_def bindr_Inr_conv dest!: reserve_Inr bind_intent_Inr recovery_rows)

text \<open>A decision on one source changes its row and retires its ready plans.\<close>

definition retires_plans :: "registry \<Rightarrow> registry \<Rightarrow> bool" where
  "retires_plans db db' = (same_runs db db' \<and> (source_operations db' = source_operations db \<or>
     (\<exists>now source. source_operations db' = source_operations (stale_ready_plans now source db))))"

lemma retires_plansI:
  assumes "sync_runs d = sync_runs db" "map s_instance (sources d) = map s_instance (sources db)" "source_operations d = source_operations db"
  shows "retires_plans db (stale_ready_plans now source d)"
  unfolding retires_plans_def using assms
  by (auto simp: same_runs_def stale_ready_plans_def intro!: exI[of _ now] exI[of _ source])

lemma retires_plans_refl [simp]: "retires_plans db db"
  by (simp add: retires_plans_def)

lemma legacy_confirm_plans:
  assumes "legacy_confirm_txn H now source actor operation expected decision reason a db = Inr (u, db')"
  shows "retires_plans db db'"
  using legacy_confirm_Inr[OF assms]
  by (elim disjE exE conjE) (auto simp: update_source_def quarantined_def intro: retires_plansI)

lemma verify_identity_plans:
  assumes "verify_identity_txn H host_dto now free source actor expected operation pf db = Inr (anchor, db')"
  shows "retires_plans db db'"
  using verify_identity_Inr[OF assms]
  by (elim disjE exE conjE) (auto simp: update_source_def intro: retires_plansI)

lemma complete_recovery_plans:
  assumes "complete_recovery_txn H now verify_owned source operation actor pf m db = Inr (rec, db')"
  shows "retires_plans db db'"
  using complete_recovery_cases[OF assms]
proof (elim disjE exE conjE)
  fix row key config assume db': "db' = restored_db now source operation config m key db"
  have "retires_plans db (stale_ready_plans now source (restore_tombstone now source (update_source source (recovered_row config m key) db)))"
    by (rule retires_plansI) (simp_all add: restore_tombstone_def update_source_def recovered_row_def)
  then show ?thesis by (simp add: db' restored_db_def update_recovery_def retires_plans_def same_runs_def)
qed simp

lemma baseline_plans:
  assumes "baseline_txn H now source operation actor reviewed acks db = Inr (u, db')"
  shows "retires_plans db db'"
  using baseline_txn_Inr[OF assms] by (auto simp: accepted_db_def update_source_def intro: retires_plansI)

lemmas plans_retired = legacy_confirm_plans verify_identity_plans complete_recovery_plans baseline_plans

lemma retires_plans_history: "retires_plans db db' \<Longrightarrow> history db db'"
  by (simp add: retires_plans_def same_runs_history)

lemma purge_rows_history: "history db (purge_rows source auth db)"
  by (auto simp: history_def absent_def purge_rows_def source_of_def find_none)

lemma close_generation_runs: "close_generation now r db = Inr db' \<Longrightarrow> same_runs db db'"
  by (auto dest!: close_generation_Inr simp: stale_plans_def same_runs_def)

lemma finalized_history: "finalized now free source operation actor db = Inr (u, db') \<Longrightarrow> history db db'"
  by (auto simp: finalized_def bindr_Inr_conv split: if_splits dest!: purge_Inr close_generation_runs
      intro: purge_rows_history same_runs_history same_runs_trans[OF _ update_retirement_tables[unfolded same_tables_def, THEN conjunct1]])

lemma start_run_history:
  "start_run now run_id source source_type trigger creator pd pv db = Inr (run, db') \<Longrightarrow> history db db'"
  by (auto simp: start_run_def insert_run_def new_run_def Let_def bindr_Inr_conv guard_run_source_def history_def absent_def source_of_def)

lemma run_update_history:
  assumes "\<And>r. p r \<Longrightarrow> r_status r = RUN_RUNNING" "\<And>r. p r \<Longrightarrow> r_instance (f r) = r_instance r"
  shows "history db (db\<lparr>sync_runs := update_where p f (sync_runs db)\<rparr>)"
  using assms by (force simp: history_def absent_def set_update_where source_of_def)

lemma finish_run_history:
  "finish_run now run_id st counts pd pv code_opt msg db = Inr (run, db') \<Longrightarrow> history db db'"
  by (auto dest!: finish_run_Inr intro!: run_update_history simp: finish_row_def)

lemma bind_plan_history: "bind_plan run_id d v db = Inr (u, db') \<Longrightarrow> history db db'"
  by (auto simp: bind_plan_def Let_def bindr_Inr_conv intro!: run_update_history)

lemma history_trans: "history a b \<Longrightarrow> history b c \<Longrightarrow> history a c"
  unfolding history_def by blast

lemmas unchanged_tables = lifecycle_tables remove_tables schedule_tables prepare_tables begin_tables journal_tables resolve_tables
  enqueue_tables decision_tables

lemma same_tables_history: "same_tables db db' \<Longrightarrow> history db db'"
  by (simp add: same_tables_def same_runs_history)

lemma db_step_history: "db_step H db db' \<Longrightarrow> history db db'"
  by (induction rule: db_step.induct)
    (rule unchanged_tables[THEN same_tables_history] latest_runs[THEN same_runs_history]
       invalidate_plan_runs[THEN same_runs_history] plans_retired[THEN retires_plans_history] finalized_history start_run_history finish_run_history bind_plan_history, assumption |
     simp add: same_tables_history same_runs_history set_code_def reconcile_abandoned_reads_def block_request_def)+

section \<open>Procedures are sequences of transactions\<close>

text \<open>
  An action follows a step relation when the database it leaves, whether it returns or raises, is
  reached from the one it found by a sequence of steps.
\<close>

definition follows :: "(registry \<Rightarrow> registry \<Rightarrow> bool) \<Rightarrow> ('s \<Rightarrow> registry) \<Rightarrow> ('s, 'a) action \<Rightarrow> bool" where
  "follows step view p = (\<forall>s. step\<^sup>*\<^sup>* (view s) (view (snd (p s))))"

named_theorems follows_intro

lemma follows_pure [follows_intro]: "follows step view (pure r)"
  by (simp add: follows_def pure_def)

lemma follows_bindp [follows_intro]:
  assumes "follows step view p" "\<And>a. follows step view (f a)"
  shows "follows step view (bindp p f)"
  unfolding follows_def
proof
  fix s
  obtain res s' where p: "p s = (res, s')" by (cases "p s")
  have 1: "step\<^sup>*\<^sup>* (view s) (view s')" using assms(1) p by (metis follows_def snd_conv)
  show "step\<^sup>*\<^sup>* (view s) (view (snd (bindp p f s)))"
  proof (cases res)
    case (Inl e)
    then show ?thesis using 1 p by (simp add: bindp_def)
  next
    case (Inr a)
    then show ?thesis using rtranclp_trans[OF 1] assms(2)[of a] p by (simp add: bindp_def follows_def)
  qed
qed

lemma follows_if [follows_intro]: "follows step view p \<Longrightarrow> follows step view q \<Longrightarrow> follows step view (if b then p else q)"
  by simp

lemma follows_prod [follows_intro]: "(\<And>a b. follows step view (f a b)) \<Longrightarrow> follows step view (case x of (a, b) \<Rightarrow> f a b)"
  by (cases x) simp

lemma follows_call [follows_intro]: "follows step fst (call remote name operation args)"
  by (simp add: follows_def call_def split: prod.splits)

lemma follows_on_db [follows_intro]: "follows step (\<lambda>db. db) p \<Longrightarrow> follows step fst (on_db p)"
  unfolding follows_def on_db_def by (auto split: prod.splits) (metis snd_conv)

lemma follows_commit [follows_intro]: "(\<And>db a db'. t db = Inr (a, db') \<Longrightarrow> step db db') \<Longrightarrow> follows step (\<lambda>db. db) (commit t)"
  by (auto simp: follows_def commit_def split: sum.splits)

lemma follows_read [follows_intro]: "follows step view (\<lambda>s. (f s, s))"
  by (simp add: follows_def)

lemma follows_test [follows_intro]:
  "follows step view p \<Longrightarrow> follows step view q \<Longrightarrow> follows step view (\<lambda>s. if b s then p s else q s)"
  by (simp add: follows_def)

lemma follows_sum [follows_intro]:
  "(\<And>e. follows step view (f e)) \<Longrightarrow> (\<And>a. follows step view (g a)) \<Longrightarrow> follows step view (case x of Inl e \<Rightarrow> f e | Inr a \<Rightarrow> g a)"
  by (cases x) simp_all

lemma follows_sum_at [follows_intro]:
  "(\<And>e. follows step view (f e)) \<Longrightarrow> (\<And>a. follows step view (g a)) \<Longrightarrow>
     follows step view (\<lambda>s. case x of Inl e \<Rightarrow> f e s | Inr a \<Rightarrow> g a s)"
  by (cases x) simp_all

lemma follows_then [follows_intro]:
  assumes "follows step view p" "\<And>res. follows step view (f res)"
  shows "follows step view (\<lambda>s. case p s of (res, s') \<Rightarrow> f res s')"
  using assms unfolding follows_def by (auto split: prod.splits) (metis rtranclp_trans snd_conv)

lemma follows_let [follows_intro]:
  assumes "follows step view p" "follows step view q"
  shows "follows step view (\<lambda>s. let s' = snd (p s) in q s')"
  using assms unfolding follows_def Let_def by (metis rtranclp_trans)

lemma follows_write [follows_intro]: "(\<And>db. step db (f db)) \<Longrightarrow> follows step (\<lambda>db. db) (\<lambda>db. (x, f db))"
  by (auto simp: follows_def)

text \<open>What every committed transaction keeps, every procedure keeps, whatever its environment answers.\<close>

locale kept_relation =
  fixes step :: "registry \<Rightarrow> registry \<Rightarrow> bool" and kept :: "registry \<Rightarrow> registry \<Rightarrow> bool"
  assumes kept_refl: "kept db db"
    and kept_trans: "kept a b \<Longrightarrow> kept b c \<Longrightarrow> kept a c"
    and kept_step: "step db db' \<Longrightarrow> kept db db'"
begin

lemma kept_steps: "step\<^sup>*\<^sup>* db db' \<Longrightarrow> kept db db'"
  by (induction rule: rtranclp_induct) (auto intro: kept_refl kept_trans kept_step)

lemma kept_action: "follows step view p \<Longrightarrow> kept (view s) (view (snd (p s)))"
  by (simp add: follows_def kept_steps)

end

interpretation invariant_kept: kept_relation "db_step H" "\<lambda>db db'. lifecycle_inv db \<longrightarrow> lifecycle_inv db'" for H
  by unfold_locales (auto intro: db_step_inv)

interpretation history_kept: kept_relation "db_step H" history for H
  by unfold_locales (auto simp: same_runs_history intro: history_trans db_step_history)

subsection \<open>Lifecycle commands\<close>

lemma read_source_db: "read_source H source db = Inr (v, db') \<Longrightarrow> db' = db"
  by (auto simp: read_source_def split: option.splits)

lemma credential_state_db: "credential_state source db = Inr (v, db') \<Longrightarrow> db' = db"
  by (auto simp: credential_state_def split: option.splits)

lemma commit_reads: "(\<And>db v db'. t db = Inr (v, db') \<Longrightarrow> db' = db) \<Longrightarrow> follows step (\<lambda>db. db) (commit t)"
  by (fastforce simp: follows_def commit_def split: sum.splits)

lemma reads_follow [follows_intro]:
  "follows step (\<lambda>db. db) (commit (read_source H source))"
  "follows step (\<lambda>db. db) (commit (credential_state source))"
  by (auto intro: commit_reads read_source_db credential_state_db)

lemma rename_follows [follows_intro]: "follows (db_step H) (\<lambda>db. db) (rename H free source expected name)"
  unfolding rename_def with_apply_lock_def by (intro follows_intro) (rule db_step.rename)

lemma cleanup_credentials_follows [follows_intro]:
  "follows (db_step H) (\<lambda>db. db) (cleanup_credentials cleanup source)"
  unfolding cleanup_credentials_def by (intro follows_intro) (rule db_step.cleanup_open db_step.cleanup_files, assumption)+

lemma remove_locked_follows [follows_intro]:
  "follows (db_step H) (\<lambda>db. db) (remove_locked H now cleanup source expected confirmed c operation)"
  unfolding remove_locked_def by (intro follows_intro) (rule db_step.remove)

lemma remove_follows: "follows (db_step H) (\<lambda>db. db) (remove H free now cleanup source expected confirmed c)"
  unfolding remove_def with_apply_lock_def by (intro follows_intro)

subsection \<open>Retirement\<close>

lemma set_code_follows [follows_intro]: "follows (db_step H) (\<lambda>db. db) (set_code operation code)"
  using db_step.set_code by (fastforce simp: follows_def)

lemma completed_follows [follows_intro]: "follows step fst (completed remote source operation)"
  unfolding completed_def[abs_def] by (intro follows_intro)

lemma status_follows [follows_intro]: "follows step fst (status remote source operation actor)"
  unfolding status_def[abs_def] by (intro follows_intro)

lemma review_follows [follows_intro]:
  "follows (db_step (env_hash env)) fst (review env remote source operation actor expected archive queued)"
  unfolding review_def[abs_def] by (intro follows_intro) (rule db_step.prepare)

lemma cleanup_pending_follows [follows_intro]:
  "follows (db_step H) fst (cleanup_pending remote source operation actor)"
  unfolding cleanup_pending_def by (intro follows_intro)

lemma purge_local_follows [follows_intro]: "follows (db_step H) fst (purge_local remote r source digest)"
  unfolding purge_local_def by (intro follows_intro) (rule db_step.cleanup_verified)

lemma finish_follows [follows_intro]: "follows (db_step H) fst (finish env remote source operation actor)"
  unfolding finish_def[abs_def] by (intro follows_intro) (rule db_step.finalized)

lemma finish_exclusive_db: "finish_exclusive_credentials env source db = Inr (u, db') \<Longrightarrow> db' = db"
  by (auto simp: finish_exclusive_credentials_def Let_def bindr_Inr_conv split: option.splits if_splits)

lemma finish_exclusive_follows [follows_intro]: "follows step (\<lambda>db. db) (commit (finish_exclusive_credentials env source))"
  by (auto intro: commit_reads finish_exclusive_db)

lemma complete_follows [follows_intro]:
  "follows (db_step (env_hash env)) fst (complete env remote r source actor digest confirmed c)"
  unfolding complete_def by (intro follows_intro)

lemma attempt_db: "fst (snd (attempt remote r digest sent resume w)) = fst w"
  by (auto simp: attempt_def call_def Let_def split: prod.splits sum.splits if_splits)

lemma settle_follows [follows_intro]:
  "follows (db_step (env_hash env)) fst (settle env remote r source actor digest confirmed c sent outcome)"
proof (cases outcome)
  case (Inl e)
  show ?thesis
  proof (cases "\<exists>code. e = ControlError code")
    case True
    then show ?thesis unfolding settle_def Inl
      by (auto intro!: follows_intro intro: db_step.blocked db_step.uncertain split: if_splits)
  next
    case False
    then have "settle env remote r source actor digest confirmed c sent outcome = pure (Inl e)"
      unfolding settle_def Inl by (cases e) auto
    then show ?thesis by (simp add: follows_pure)
  qed
next
  case (Inr a)
  then show ?thesis unfolding settle_def by (auto intro!: follows_intro intro: db_step.uncertain db_step.resolve split: prod.splits)
qed

lemma begin_follows [follows_intro]:
  "follows (db_step H) (\<lambda>db. db) (commit (begin_retirement H now source operation actor digest confirmed c))"
  by (intro follows_intro) (rule db_step.begin_retirement)

lemma execute_attempt_follows [follows_intro]:
  "follows (db_step (env_hash env)) fst (\<lambda>w1. case attempt remote r digest sent resume w1 of ((sent', outcome), w2) \<Rightarrow>
     settle env remote r source actor digest confirmed c sent' outcome w2)"
  unfolding follows_def
proof
  fix w
  obtain sent' outcome w2 where a: "attempt remote r digest sent resume w = ((sent', outcome), w2)"
    by (metis surj_pair)
  have "(db_step (env_hash env))\<^sup>*\<^sup>* (fst w2) (fst (snd (settle env remote r source actor digest confirmed c sent' outcome w2)))"
    using settle_follows unfolding follows_def by blast
  moreover have "fst w2 = fst w" using attempt_db a by (metis snd_conv)
  ultimately show "(db_step (env_hash env))\<^sup>*\<^sup>* (fst w) (fst (snd (case attempt remote r digest sent resume w of ((sent', outcome), w2) \<Rightarrow>
     settle env remote r source actor digest confirmed c sent' outcome w2)))"
    using a by simp
qed

lemma execute_follows [follows_intro]:
  "follows (db_step (env_hash env)) fst (execute env remote source operation actor digest confirmed c resume)"
  unfolding execute_def[abs_def]
  by (intro follows_intro) (rule db_step.resume db_step.resolve, assumption)+

subsection \<open>Background work\<close>

lemma follows_option_at [follows_intro]:
  assumes "follows step view p" "\<And>a. follows step view (q a)"
  shows "follows step view (\<lambda>s. (case c s of None \<Rightarrow> p | Some a \<Rightarrow> q a) s)"
  using assms by (auto simp: follows_def split: option.splits)

lemma advance_follows [follows_intro]: "follows (db_step (env_hash env)) fst (advance_request env remote q)"
  unfolding advance_request_def Let_def by (intro follows_intro) (rule db_step.abandoned)

lemma tick_follows: "(db_step (env_hash env))\<^sup>*\<^sup>* (fst w) (fst (snd (tick env remote after w)))"
proof (cases "next_request after (fst w)")
  case (Some q)
  obtain res w1 where a: "advance_request env remote q w = (res, w1)" by (cases "advance_request env remote q w")
  have 1: "(db_step (env_hash env))\<^sup>*\<^sup>* (fst w) (fst w1)"
    using advance_follows[of env remote q] a unfolding follows_def by (metis snd_conv)
  have "snd (tick env remote after w) = w1 \<or> (\<exists>code. snd (tick env remote after w) = (block_request q code (fst w1), snd w1))"
    using a Some by (auto simp: tick_def split: sum.splits exn.splits)
  then show ?thesis using 1 db_step.block_request rtranclp.rtrancl_into_rtrancl[OF 1] by force
qed (simp add: tick_def)

lemma continue_one_follows: "follows (db_step (env_hash env)) fst (continue_one env remote r name)"
  unfolding continue_one_def by (intro follows_intro)

lemma continuation_follows: "(db_step (env_hash env))\<^sup>*\<^sup>* (fst w) (fst (snd (continuation env remote cursors w)))"
proof -
  obtain q w1 where t: "tick env remote (fst cursors) w = (q, w1)" by (cases "tick env remote (fst cursors) w")
  have 1: "(db_step (env_hash env))\<^sup>*\<^sup>* (fst w) (fst w1)" using tick_follows t by (metis snd_conv)
  have 2: "(db_step (env_hash env))\<^sup>*\<^sup>* (fst w1) (fst (snd (continue_one env remote r name w1)))" for r name
    using continue_one_follows unfolding follows_def by blast
  show ?thesis using 1 rtranclp_trans[OF 1 2] t
    by (auto simp: continuation_def split: option.splits)
qed

section \<open>The system with executing operations\<close>

text \<open>
  The state is the registry and the operation rows handed out by admissions: an execution holds
  the row it was started with. Identifiers of admissions are new ones of \<open>uuid4\<close>.
\<close>

type_synonym system = "registry \<times> operation_row list"

inductive sys_step :: "(string \<Rightarrow> string) \<Rightarrow> system \<Rightarrow> system \<Rightarrow> bool" for H where
  transaction: "db_step H db db' \<Longrightarrow> sys_step H (db, issued) (db', issued)"
| admit: "admit now uuid source kind db = Inr ((row, new), db') \<Longrightarrow> uuid \<notin> o_id ` set issued \<Longrightarrow>
    sys_step H (db, issued) (db', row # issued)"
| execute_begin: "operation \<in> set issued \<Longrightarrow> sys_step H (db, issued) (snd (execute_begin operation db), issued)"
| execute_finish: "operation \<in> set issued \<Longrightarrow>
    sys_step H (db, issued) (execute_finish H dto host_dto now operation outcome db, issued)"

inductive_cases sys_stepE: "sys_step H s s'"

definition issued_ok :: "system \<Rightarrow> bool" where
  "issued_ok s = (\<forall>r \<in> set (source_operations (fst s)). \<forall>q \<in> set (snd s). o_id r = o_id q \<longrightarrow> op_key r = op_key q)"

definition system_inv :: "(string \<Rightarrow> string) \<Rightarrow> system \<Rightarrow> bool" where
  "system_inv H s = (lifecycle_inv (fst s) \<and> op_inv H (fst s) \<and> issued_ok s)"

subsection \<open>Transactions and operation rows\<close>

text \<open>
  Every transaction keeps the rows of other sources' slots, and changes a row only by the
  transitions of its status: the identifiers and keys it leaves are among those it found.
\<close>

definition op_keeps :: "(string \<Rightarrow> string) \<Rightarrow> registry \<Rightarrow> registry \<Rightarrow> bool" where
  "op_keeps H db db' = ((op_inv H db \<longrightarrow> op_inv H db') \<and>
     (\<lambda>r. (o_id r, op_key r)) ` set (source_operations db') \<subseteq> (\<lambda>r. (o_id r, op_key r)) ` set (source_operations db))"

lemma op_keeps_same: "source_operations db' = source_operations db \<Longrightarrow> op_keeps H db db'"
  by (simp add: op_keeps_def op_inv_def)

lemma op_keeps_update:
  assumes "\<And>r. p r \<Longrightarrow> op_key (f r) = op_key r" "\<And>r. p r \<Longrightarrow> o_id (f r) = o_id r"
    "\<And>r. p r \<Longrightarrow> op_row_ok H r \<Longrightarrow> op_row_ok H (f r)"
    "source_operations db' = update_where p f (source_operations db)"
  shows "op_keeps H db db'"
  using assms op_inv_update[OF _ assms(4), of H] by (auto simp: op_keeps_def set_update_where)

lemma op_keeps_trans: "op_keeps H a b \<Longrightarrow> op_keeps H b c \<Longrightarrow> op_keeps H a c"
  unfolding op_keeps_def by blast

lemma op_keeps_updateI:
  assumes "\<And>r. p r \<Longrightarrow> op_key (f r) = op_key r" "\<And>r. p r \<Longrightarrow> o_id (f r) = o_id r"
    "\<And>r. p r \<Longrightarrow> op_row_ok H r \<Longrightarrow> op_row_ok H (f r)"
  shows "op_keeps H db (db\<lparr>source_operations := update_where p f (source_operations db)\<rparr>)"
  using assms by (rule op_keeps_update[where p = p and f = f]) auto

lemma reconcile_row_keeps: "op_keeps H db (reconcile_row now row db)"
  by (auto simp: reconcile_row_def interrupt_ok expire_ok op_keeps_same intro!: op_keeps_updateI)

lemma latest_keeps: "latest now source db = Inr (rows, db') \<Longrightarrow> op_keeps H db db'"
proof -
  have "op_keeps H db (fold (reconcile_row now) rs db)" for rs
    by (induction rs arbitrary: db) (auto simp: op_keeps_same intro: op_keeps_trans reconcile_row_keeps)
  then show "latest now source db = Inr (rows, db') \<Longrightarrow> op_keeps H db db'" by (auto simp: latest_def Let_def)
qed

lemma stale_keeps: "op_keeps H db (stale_plans now source db)"
  unfolding stale_plans_def
  by (rule op_keeps_update) (auto simp: op_key_def op_row_ok_def split: option.splits)

lemma retires_plans_keeps: "retires_plans db db' \<Longrightarrow> op_keeps H db db'"
proof -
  have "op_keeps H db (stale_ready_plans now source db)" for now source
    unfolding stale_ready_plans_def by (rule op_keeps_update) (auto simp: op_key_def op_row_ok_def split: option.splits)
  then show "retires_plans db db' \<Longrightarrow> op_keeps H db db'"
    by (auto simp: retires_plans_def op_keeps_same) (simp add: op_keeps_def op_inv_def)
qed

lemma purge_keeps: "op_keeps H db (purge_rows source auth db)"
  by (auto simp: op_keeps_def purge_rows_def op_inv_def distinct_map_filter list_all_iff)

lemma invalidate_keeps: "invalidate_plan now source operation db = Inr (u, db') \<Longrightarrow> op_keeps H db db'"
  by (auto simp: invalidate_plan_def bindr_Inr_conv op_key_def op_row_ok_def intro!: op_keeps_updateI)

lemma abandoned_keeps: "op_keeps H db (reconcile_abandoned_reads now source db)"
  unfolding reconcile_abandoned_reads_def by (rule op_keeps_update) (auto simp: interrupt_ok)

lemma finalized_keeps:
  assumes "finalized now free source operation actor db = Inr (u, db')"
  shows "op_keeps H db db'"
proof -
  have "(\<exists>auth. db' = purge_rows source auth db) \<or> (\<exists>src. source_operations db' = source_operations (stale_plans now src db))"
    using assms by (auto simp: finalized_def bindr_Inr_conv update_retirement_def stale_plans_def split: if_splits
      dest!: purge_Inr close_generation_Inr)
  then show ?thesis
    using purge_keeps stale_keeps op_keeps_trans[OF stale_keeps op_keeps_same] by blast
qed

lemma same_tables_keeps: "same_tables db db' \<Longrightarrow> op_keeps H db db'"
  by (simp add: same_tables_def op_keeps_same)

lemma run_keeps:
  "start_run now run_id source source_type trigger creator pd pv db = Inr (run, db') \<Longrightarrow> op_keeps H db db'"
  "finish_run now run_id st counts pd pv code_opt msg db = Inr (run, db') \<Longrightarrow> op_keeps H db db'"
  "bind_plan run_id d v db = Inr (u, db') \<Longrightarrow> op_keeps H db db'"
  by (auto simp: start_run_def insert_run_def bind_plan_def Let_def bindr_Inr_conv op_keeps_same dest!: finish_run_Inr)

lemma db_step_keeps: "db_step H db db' \<Longrightarrow> op_keeps H db db'"
  by (induction rule: db_step.induct)
    (rule unchanged_tables[THEN same_tables_keeps] latest_keeps invalidate_keeps finalized_keeps run_keeps
       plans_retired[THEN retires_plans_keeps], assumption |
     simp add: same_tables_keeps set_code_def abandoned_keeps block_request_def)+

subsection \<open>Every step keeps the invariant\<close>

lemma execute_finish_ids:
  "r \<in> set (source_operations (execute_finish H dto host_dto now operation outcome db)) \<Longrightarrow>
     \<exists>q \<in> set (source_operations db). o_id r = o_id q \<and> op_key r = op_key q"
  by (auto simp: execute_finish_def set_update_where op_key_def split: prod.splits if_splits) (metis+)

lemma admit_ids:
  assumes a: "admit now uuid source kind db = Inr ((row, new), db')" and r: "r \<in> set (source_operations db')"
  shows "r \<in> set (source_operations db) \<or> r = row \<and> o_id row = uuid"
  using a
proof (rule admit_Inr)
  assume "new \<and> row = fresh_row now uuid source kind \<and> db' = upsert_operation row db \<and>
       (source, kind) \<notin> set (held db) \<and> uuid \<notin> o_id ` set (source_operations db)
     \<or> \<not> new \<and> db' = db \<and> slot_of db source kind = Some row \<and> o_status row = OP_RUNNING"
  then show ?thesis using r by (auto simp: upsert_operation_def set_update_where fresh_row_def split: if_splits)
qed

lemma admit_row: "admit now uuid source kind db = Inr ((row, new), db') \<Longrightarrow> row \<in> set (source_operations db')"
  by (erule admit_Inr) (auto simp: upsert_member slot_of_def dest: find_SomeD)

lemma admit_issued:
  assumes inv: "system_inv H (db, issued)" and a: "admit now uuid source kind db = Inr ((row, new), db')"
    and fresh: "uuid \<notin> o_id ` set issued"
  shows "issued_ok (db', row # issued)"
proof -
  have inv': "op_inv H db'" using inv a admit_op_inv by (auto simp: system_inv_def)
  have "op_key r = op_key q" if r: "r \<in> set (source_operations db')" and q: "q \<in> set issued" and "o_id r = o_id q" for r q
    using admit_ids[OF a r] inv that fresh by (auto simp: system_inv_def issued_ok_def image_iff)
  moreover have "r = row" if "r \<in> set (source_operations db')" "o_id r = o_id row" for r
    using inv' that admit_row[OF a] by (auto simp: op_inv_def distinct_map dest: inj_onD)
  ultimately show ?thesis by (auto simp: issued_ok_def)
qed

lemma sys_step_inv: "sys_step H s s' \<Longrightarrow> system_inv H s \<Longrightarrow> system_inv H s'"
proof (induction rule: sys_step.induct)
  case (transaction db db' issued)
  then have k: "op_keeps H db db'" by (simp add: db_step_keeps)
  have "issued_ok (db', issued)"
    unfolding issued_ok_def
  proof (intro ballI impI)
    fix r q assume r: "r \<in> set (source_operations (fst (db', issued)))" and q: "q \<in> set (snd (db', issued))" "o_id r = o_id q"
    have "(o_id r, op_key r) \<in> (\<lambda>r. (o_id r, op_key r)) ` set (source_operations db)"
      using k r unfolding op_keeps_def by auto
    then show "op_key r = op_key q" using q transaction by (auto simp: system_inv_def issued_ok_def)
  qed
  then show ?case using transaction k db_step_inv by (auto simp: system_inv_def op_keeps_def)
next
  case (admit now uuid source kind db row new db' issued)
  then show ?case using admit_issued admit_inv admit_op_inv unfolding system_inv_def by fastforce
next
  case (execute_begin operation issued db)
  then show ?case by (auto simp: system_inv_def execute_begin_inv issued_ok_def op_inv_def)
next
  case (execute_finish operation issued db dto host_dto now outcome)
  then have "issued_ok (execute_finish H dto host_dto now operation outcome db, issued)"
    using execute_finish_ids by (fastforce simp: system_inv_def issued_ok_def)
  then show ?case using execute_finish
    by (auto simp: system_inv_def execute_finish_inv issued_ok_def intro!: execute_finish_op_inv)
qed

lemma reachable_inv: "(sys_step H)\<^sup>*\<^sup>* s s' \<Longrightarrow> system_inv H s \<Longrightarrow> system_inv H s'"
  by (induction rule: rtranclp_induct) (auto intro: sys_step_inv)

lemma initial_inv: "lifecycle_inv db \<Longrightarrow> op_inv H db \<Longrightarrow> system_inv H (db, [])"
  by (simp add: system_inv_def issued_ok_def)

section \<open>Properties of the system\<close>

subsection \<open>A concrete retirement\<close>

definition retire_registry :: registry where
  "retire_registry = example_registry\<lparr>source_operations := []\<rparr>"

definition guard_manifest :: pydict where
  "guard_manifest = [(''format'', PInt 2), (''cluster_id'', PInt 7),
     (''objects'', PList [PList [PStr ''vm:2''], PList [PStr ''vm:1'']])]"

definition guard_review :: pydict where
  "guard_review = [(''nonce'', PStr ''op1''), (''source_instance'', PStr ''pve-a''), (''status'', PStr ''REVIEWED''),
     (''digest'', PStr ''d1''), (''manifest'', PDict guard_manifest)]"

definition guard_receipt :: pydict where
  "guard_receipt = [(''nonce'', PStr ''op1''), (''source_instance'', PStr ''pve-a''), (''status'', PStr ''SUCCEEDED''),
     (''digest'', PStr ''d1''), (''manifest'', PDict guard_manifest), (''generation_closed'', PBool True),
     (''deleted'', PList [PStr ''vm:1'', PStr ''vm:2''])]"

definition reviewed_row :: retirement_row where
  "reviewed_row = \<lparr>ret_id = ''op1'', ret_instance = ''pve-a'', ret_actor = ''admin'',
     ret_revision = ''h'', ret_guard = ''guard'',
     ret_plan = review_plan guard_review PNone example_source, ret_state = RET_READY, ret_receipt = None, ret_code = None,
     ret_remove_credentials = None, ret_created_at = 5, ret_finished_at = None, ret_superseded_by = None,
     ret_cleanup_verified = False\<rparr>"

definition sent_row :: retirement_row where
  "sent_row = reviewed_row\<lparr>ret_state := RET_SENDING, ret_remove_credentials := Some True\<rparr>"

definition succeeded_row :: retirement_row where
  "succeeded_row = sent_row\<lparr>ret_state := RET_SUCCEEDED, ret_receipt := Some guard_receipt, ret_finished_at := Some 7\<rparr>"

definition retiring :: "retirement_row \<Rightarrow> registry" where
  "retiring r = retire_registry\<lparr>source_retirements := [r],
     sources := [example_source\<lparr>s_enabled := ret_state r = RET_READY, s_sync_enabled := ret_state r = RET_READY\<rparr>]\<rparr>"

lemma example_registry_inv: "lifecycle_inv retire_registry" "op_inv (\<lambda>_. ''h'') retire_registry"
  by code_simp+

lemma example_prepare: "prepare (\<lambda>_. ''h'') 5 ''pve-a'' ''op1'' ''admin'' ''h'' ''guard''
   guard_review retire_registry = Inr (reviewed_row, retiring reviewed_row)"
  by code_simp

lemma example_begin: "begin_retirement (\<lambda>_. ''h'') 6 ''pve-a'' ''op1'' ''admin'' (PStr ''d1'') ''PVE A'' True (retiring reviewed_row) =
  Inr ((sent_row, True), retiring sent_row)"
  by code_simp

lemma example_resolve: "resolve 7 ''pve-a'' ''op1'' ''admin'' ''guard'' guard_receipt (retiring sent_row) =
  Inr (succeeded_row, retiring succeeded_row)"
  by code_simp

lemma example_steps:
  "(sys_step (\<lambda>_. ''h''))\<^sup>*\<^sup>* (retire_registry, []) (retiring sent_row, [])"
  "(sys_step (\<lambda>_. ''h''))\<^sup>*\<^sup>* (retire_registry, []) (retiring succeeded_row, [])"
  using sys_step.transaction[OF db_step.prepare[OF example_prepare]] sys_step.transaction[OF db_step.begin_retirement[OF example_begin]]
    sys_step.transaction[OF db_step.resolve[OF example_resolve]]
  by (meson rtranclp.rtrancl_into_rtrancl rtranclp.rtrancl_refl)+

text \<open>
  C1: In every state the services can reach, a source has at most one retirement in flight, and
  while it has one the source is disabled, is not scheduled, and neither an operation nor a
  synchronization run is running on it.
\<close>
theorem retirement_exclusive:
  assumes "lifecycle_inv db0" "op_inv H db0" "(sys_step H)\<^sup>*\<^sup>* (db0, []) (db, issued)"
    and "r \<in> set (source_retirements db)" "inflight r"
  shows "(\<forall>q \<in> set (source_retirements db). inflight q \<and> ret_instance q = ret_instance r \<longrightarrow> q = r) \<and>
    (\<exists>s. source_of db (ret_instance r) = Some s \<and> \<not> s_enabled s \<and> \<not> s_sync_enabled s) \<and>
    (\<forall>o' \<in> set (source_operations db). o_instance o' = ret_instance r \<longrightarrow> o_status o' \<noteq> OP_RUNNING) \<and>
    (\<forall>n \<in> set (sync_runs db). r_instance n = ret_instance r \<longrightarrow> r_status n \<noteq> RUN_RUNNING)"
proof -
  have inv: "lifecycle_inv db" using reachable_inv[OF assms(3) initial_inv[OF assms(1,2)]] by (simp add: system_inv_def)
  then have "quiet db (ret_instance r)" using assms(4,5) by (simp add: lifecycle_inv_def inflight_quiet_def)
  moreover have "inj_on ret_instance (set (filter inflight (source_retirements db)))"
    using inv by (auto simp: lifecycle_inv_def retirement_inflight_source_def distinct_map)
  ultimately show ?thesis using assms(4,5)
    by (auto simp: quiet_def disabled_source_def operation_running_def run_running_def list_ex_iff inj_on_def split: option.splits)
qed

theorem retirement_exclusive_witness:
  "inflight sent_row \<and> (\<exists>s. source_of (retiring sent_row) ''pve-a'' = Some s \<and> \<not> s_enabled s)"
  using retirement_exclusive[OF example_registry_inv example_steps(1), of sent_row]
  by (auto simp: retiring_def inflight_def dispatched_def sent_row_def reviewed_row_def)



lemma followsD: "follows step view p \<Longrightarrow> step\<^sup>*\<^sup>* (view s) (view (snd (p s)))"
  by (simp add: follows_def)

lemma sys_step_history: "sys_step H s s' \<Longrightarrow> history (fst s) (fst s')"
proof (induction rule: sys_step.induct)
  case (admit now uuid source kind db row new db' issued)
  then have "same_runs db db'" by (elim admit_Inr) (auto simp: upsert_operation_def)
  then show ?case by (simp add: same_runs_history)
next
  case (execute_begin operation issued db)
  have "same_runs db (snd (execute_begin operation db))"
    by (auto simp: execute_begin_def Let_def same_runs_def split: option.splits)
  then show ?case by (simp add: same_runs_history)
next
  case (execute_finish operation issued db dto host_dto now outcome)
  have "same_runs db (execute_finish H dto host_dto now operation outcome db)"
    by (auto simp: execute_finish_def same_runs_def split: prod.splits)
  then show ?case by (simp add: same_runs_history)
qed (simp add: db_step_history)

text \<open>
  C10: The record of a finished run is never changed: in every later state it is still there as it
  was, unless the source itself has been purged, and then no run of the source is left.
\<close>
theorem terminal_runs_immutable:
  assumes "(sys_step H)\<^sup>*\<^sup>* (db, issued) (db', issued')" "r \<in> set (sync_runs db)" "r_status r \<noteq> RUN_RUNNING"
  shows "r \<in> set (sync_runs db') \<or>
    source_of db' (r_instance r) = None \<and> (\<forall>q \<in> set (sync_runs db'). r_instance q \<noteq> r_instance r)"
proof -
  have "history db db'"
    using assms(1)
    by (induction "(db', issued')" arbitrary: db' issued' rule: rtranclp_induct)
      (auto simp: same_runs_history dest!: sys_step_history intro: history_trans)
  then show ?thesis using assms(2,3) by (auto simp: history_def absent_def)
qed

definition example_run :: run_row where
  "example_run = new_run 0 ''run1'' ''pve-a'' ''proxmox'' MANUAL ''admin'' None None"

definition example_finished :: run_row where
  "example_finished = finish_row 9 RUN_SUCCEEDED no_counts None None None None example_run"

definition run_registry :: "run_row list \<Rightarrow> registry" where
  "run_registry rs = retire_registry\<lparr>sync_runs := rs\<rparr>"

theorem terminal_runs_immutable_witness:
  "\<exists>db'. (sys_step (\<lambda>_. ''h''))\<^sup>*\<^sup>* (run_registry [example_finished], []) (db', []) \<and> length (sync_runs db') = 2 \<and>
     example_finished \<in> set (sync_runs db')"
proof -
  have s: "start_run 20 ''run2'' ''pve-a'' ''proxmox'' MANUAL ''admin'' None None (run_registry [example_finished]) =
      Inr (new_run 20 ''run2'' ''pve-a'' ''proxmox'' MANUAL ''admin'' None None,
        run_registry [example_finished, new_run 20 ''run2'' ''pve-a'' ''proxmox'' MANUAL ''admin'' None None])"
    by code_simp
  have steps: "(sys_step (\<lambda>_. ''h''))\<^sup>*\<^sup>* (run_registry [example_finished], [])
      (run_registry [example_finished, new_run 20 ''run2'' ''pve-a'' ''proxmox'' MANUAL ''admin'' None None], [])"
    using sys_step.transaction[OF db_step.start_run[OF s]] by blast
  have "r_status example_finished \<noteq> RUN_RUNNING" "source_of (run_registry rs) (r_instance example_finished) \<noteq> None" for rs
    by (simp_all add: example_finished_def finish_row_def example_run_def new_run_def run_registry_def retire_registry_def
        example_registry_def example_source_def source_of_def)
  then have "example_finished \<in> set (sync_runs (run_registry [example_finished,
      new_run 20 ''run2'' ''pve-a'' ''proxmox'' MANUAL ''admin'' None None]))"
    using terminal_runs_immutable[OF steps, of example_finished] by (auto simp: run_registry_def)
  then show ?thesis using steps by (intro exI[of _ "run_registry [example_finished,
      new_run 20 ''run2'' ''pve-a'' ''proxmox'' MANUAL ''admin'' None None]"]) (simp add: run_registry_def)
qed

text \<open>
  C11: In every reachable state there is at most one operation row for a source and kind, every
  identifier belongs to one row, and a plan that is ready for review is a document of its own
  source that carries the digest of its own content, whatever the providers returned and
  whenever the executions finished.
\<close>
theorem reachable_plans:
  assumes "lifecycle_inv db0" "op_inv H db0" "(sys_step H)\<^sup>*\<^sup>* (db0, []) (db, issued)"
    and "r \<in> set (source_operations db)"
  shows "(\<forall>q \<in> set (source_operations db). (o_instance q, o_kind q) = (o_instance r, o_kind r) \<or> o_id q = o_id r \<longrightarrow> q = r) \<and>
    (o_status r = OP_READY \<longrightarrow> o_kind r = ''PLAN'' \<and> (\<exists>d. o_result r = Some d \<and>
      dget d ''source_instance'' = PStr (o_instance r) \<and> dget d ''digest'' = PStr (plan_digest H d)))"
proof -
  have inv: "op_inv H db" using reachable_inv[OF assms(3) initial_inv[OF assms(1,2)]] by (simp add: system_inv_def)
  then have "op_row_ok H r" "inj_on op_key (set (source_operations db))" "inj_on o_id (set (source_operations db))"
    using assms(4) by (auto simp: op_inv_def list_all_iff distinct_map)
  then show ?thesis using assms(4)
    by (auto simp: op_row_ok_def result_source_def op_key_def inj_on_def split: option.splits)
qed

text \<open>An admission, the read of the provider and its completion with a document.\<close>

definition planned_row :: operation_row where
  "planned_row = fresh_row 5 ''u1'' ''pve-a'' ''PLAN''"

definition planned_document :: pydict where
  "planned_document = [(''source_instance'', PStr ''pve-a''), (''digest'', PStr ''h'')]"

definition planned_registry :: registry where
  "planned_registry = retire_registry\<lparr>source_operations := [planned_row\<lparr>o_status := OP_READY, o_result := Some planned_document,
     o_updated_at := 9, o_finished_at := Some 9\<rparr>]\<rparr>"

lemma planned_steps: "(sys_step (\<lambda>_. ''h''))\<^sup>*\<^sup>* (retire_registry, []) (planned_registry, [planned_row])"
proof -
  let ?db1 = "retire_registry\<lparr>source_operations := [planned_row]\<rparr>"
  let ?db2 = "?db1\<lparr>held := [(''pve-a'', ''PLAN'')]\<rparr>"
  have a: "admit 5 ''u1'' ''pve-a'' ''PLAN'' retire_registry = Inr ((planned_row, True), ?db1)" by code_simp
  have b: "snd (execute_begin planned_row ?db1) = ?db2" by code_simp
  have f: "execute_finish (\<lambda>_. ''h'') (\<lambda>_ _. True) (\<lambda>_. Inr []) 9 planned_row (Inr (PDict planned_document)) ?db2 = planned_registry"
    by code_simp
  have 1: "sys_step (\<lambda>_. ''h'') (retire_registry, []) (?db1, [planned_row])" using a by (rule sys_step.admit) simp
  have 2: "sys_step (\<lambda>_. ''h'') (?db1, [planned_row]) (?db2, [planned_row])"
    using sys_step.execute_begin[of planned_row "[planned_row]" _ ?db1] b by simp
  have 3: "sys_step (\<lambda>_. ''h'') (?db2, [planned_row]) (planned_registry, [planned_row])"
    using sys_step.execute_finish[of planned_row "[planned_row]" "\<lambda>_. ''h''" ?db2] f by (metis list.set_intros(1))
  show ?thesis
    using 1 2 3 by (meson rtranclp.rtrancl_into_rtrancl rtranclp.rtrancl_refl)
qed

theorem reachable_plans_witness:
  "\<exists>r d. source_operations planned_registry = [r] \<and> o_result r = Some d \<and> dget d ''digest'' = PStr (plan_digest (\<lambda>_. ''h'') d)"
  using reachable_plans[OF example_registry_inv planned_steps, of "planned_row\<lparr>o_status := OP_READY,
     o_result := Some planned_document, o_updated_at := 9, o_finished_at := Some 9\<rparr>"]
  by (simp add: planned_registry_def)


text \<open>A guard that has executed the retirement, and surroundings in which nothing is locked.\<close>

definition example_guard :: "unit remote" where
  "example_guard u name operation args =
     (Inr (''guard'', if name = ''purge_local'' then [(''local_cleanup_verified'', PBool True)] else guard_receipt), u)"

definition example_env :: surroundings where
  "example_env = \<lparr>env_hash = \<lambda>_. ''h'', env_now = 8, env_apply_free = True, env_admission_free = True, env_cleanup = \<lambda>_. Inr True\<rparr>"


end
