(* ===== verification/Scheduling.thy ===== *)
theory Scheduling
  imports Source_Config Run_History
begin

text \<open>
  \<open>application/scheduling.py\<close>: the cadence policy shared by the scheduler and the diagnostics. A
  source is due when its interval has passed since its last scheduled run, or when the next slot
  of its calendar has come.
\<close>

definition MIN_SYNC_INTERVAL :: int where "MIN_SYNC_INTERVAL = 60"
definition MAX_SYNC_INTERVAL :: int where "MAX_SYNC_INTERVAL = 86400"

text \<open>\<open>int(value)\<close> of a configured value; a failing conversion falls back to the default.\<close>

definition stale_threshold :: "pyval \<Rightarrow> int" where
  "stale_threshold v = (case (case v of PInt n \<Rightarrow> Some n | PBool b \<Rightarrow> Some (if b then 1 else 0) | PStr s \<Rightarrow> py_int s | _ \<Rightarrow> None) of
     None \<Rightarrow> 7200 | Some parsed \<Rightarrow> if 300 \<le> parsed \<and> parsed \<le> 604800 then parsed else 7200)"

datatype SchedulerState = ST_DISABLED | ST_WAITING | ST_DUE | ST_RUNNING | ST_DELAYED

datatype ScheduleEvaluationStatus = EVAL_OK | EVAL_FAILED

record ScheduleDecision =
  sd_source :: "string option"
  sd_state :: "SchedulerState option"
  sd_last :: "timestamp option"
  sd_next :: "timestamp option"
  sd_status :: ScheduleEvaluationStatus
  sd_error :: "string option"

definition decision :: "string \<Rightarrow> SchedulerState \<Rightarrow> timestamp option \<Rightarrow> timestamp option \<Rightarrow> ScheduleDecision" where
  "decision source state reference expected = \<lparr>sd_source = Some source, sd_state = Some state, sd_last = reference,
     sd_next = expected, sd_status = EVAL_OK, sd_error = None\<rparr>"

definition eligible :: "ScheduleDecision \<Rightarrow> bool" where
  "eligible d = (sd_status d = EVAL_OK \<and> sd_state d \<in> {Some ST_DUE, Some ST_DELAYED})"

definition failed_decision :: "string option \<Rightarrow> ScheduleDecision" where
  "failed_decision source = \<lparr>sd_source = source, sd_state = None, sd_last = None, sd_next = None,
     sd_status = EVAL_FAILED, sd_error = Some ''SCHEDULE_EVALUATION_FAILED''\<rparr>"

definition validate_interval :: "pyval \<Rightarrow> bool \<Rightarrow> int result" where
  "validate_interval v current = (case v of
     PInt n \<Rightarrow> bindr (require ((if current then 1 else MIN_SYNC_INTERVAL) \<le> n \<and>
         n \<le> (if current then 2147483647 else MAX_SYNC_INTERVAL)) (ValueError ''invalid synchronization interval'')) (\<lambda>_. Inr n)
   | _ \<Rightarrow> Inl (ValueError ''invalid synchronization interval''))"

definition expected_at :: "SourceConfig \<Rightarrow> timestamp option \<Rightarrow> timestamp \<Rightarrow> timestamp result" where
  "expected_at source reference now =
     (if cfg_calendar source \<noteq> PNone then
        let anchor = (case cfg_schedule_changed_at source of None \<Rightarrow> now | Some t \<Rightarrow> t) in
        next_slot (cfg_calendar source) (case reference of None \<Rightarrow> anchor | Some r \<Rightarrow> max r anchor)
      else Inr (case reference of None \<Rightarrow> now | Some r \<Rightarrow> r + seconds (cfg_interval source)))"

definition cadence :: "SourceConfig \<Rightarrow> timestamp option \<Rightarrow> timestamp \<Rightarrow> timestamp \<Rightarrow> SchedulerState" where
  "cadence source reference next_expected now =
     (if now < next_expected then ST_WAITING
      else case reference of None \<Rightarrow> ST_DUE
        | Some r \<Rightarrow> if now = next_expected then ST_DUE
            else if now - r > seconds (max (cfg_interval source * 2) 1800) then ST_DELAYED else ST_DUE)"

definition evaluate_schedule ::
  "SourceConfig \<Rightarrow> run_row option \<Rightarrow> run_row option \<Rightarrow> timestamp \<Rightarrow> int \<Rightarrow> ScheduleDecision result" where
  "evaluate_schedule source latest_scheduled latest_running now stale_seconds =
     (let reference = map_option r_started_at latest_scheduled in
      if \<not> cfg_enabled source \<or> \<not> cfg_sync_enabled source
      then Inr (decision (cfg_instance source) ST_DISABLED reference None)
      else bindr (expected_at source reference now) (\<lambda>next_expected.
        case latest_running of
          Some r \<Rightarrow> if now - r_started_at r \<le> seconds stale_seconds
            then Inr (decision (cfg_instance source) ST_RUNNING reference (Some next_expected))
            else Inr (decision (cfg_instance source) (cadence source reference next_expected now) reference (Some next_expected))
        | None \<Rightarrow> Inr (decision (cfg_instance source) (cadence source reference next_expected now) reference (Some next_expected))))"

section \<open>When a source is due\<close>

text \<open>
  The schedule of a source asks for a run at \<open>now\<close>: without a calendar, on the first evaluation and
  whenever the interval has passed since the last scheduled run; with a calendar, when one of its
  occurrences lies after both the last scheduled run and the last change of the schedule.
\<close>

definition asks_for_run :: "SourceConfig \<Rightarrow> timestamp option \<Rightarrow> timestamp \<Rightarrow> bool" where
  "asks_for_run source reference now = (case cfg_calendar source of
     PDict cal \<Rightarrow>
       (\<exists>t \<le> now. occurrence cal t \<and> (case reference of None \<Rightarrow> True | Some r \<Rightarrow> r < t) \<and>
          (case cfg_schedule_changed_at source of None \<Rightarrow> now < t | Some c \<Rightarrow> c < t))
   | _ \<Rightarrow> (case reference of None \<Rightarrow> True | Some r \<Rightarrow> r + seconds (cfg_interval source) \<le> now))"

lemma cadence_eligible:
  "eligible (decision s (cadence source reference n now) r e) \<longleftrightarrow> n \<le> now"
  by (auto simp: eligible_def decision_def cadence_def split: option.splits)

lemma config_calendar:
  assumes "config_ok source"
  shows "cfg_calendar source = PNone \<or> (\<exists>cal. cfg_calendar source = PDict cal \<and> validate_calendar (PDict cal) = Inr (Some cal))"
proof -
  obtain v where v: "validate_calendar (cfg_calendar source) = Inr v"
    using assms by (auto simp: config_ok_def split: sum.splits)
  show ?thesis
  proof (cases v)
    case None
    then show ?thesis using v by (cases "cfg_calendar source") (simp_all add: validate_calendar_def Let_def)
  next
    case (Some cal)
    then show ?thesis using v validate_calendar_Some[of "cfg_calendar source" cal] by auto
  qed
qed

lemma expected_at_exact:
  assumes "config_ok source"
  shows "\<exists>n. expected_at source reference now = Inr n \<and> (n \<le> now \<longleftrightarrow> asks_for_run source reference now)"
proof (cases "cfg_calendar source = PNone")
  case True
  then show ?thesis by (auto simp: expected_at_def asks_for_run_def split: option.splits)
next
  case False
  then obtain cal where cal: "cfg_calendar source = PDict cal" "validate_calendar (PDict cal) = Inr (Some cal)"
    using config_calendar[OF assms] by auto
  define anchor where "anchor = (case cfg_schedule_changed_at source of None \<Rightarrow> now | Some t \<Rightarrow> t)"
  define after where "after = (case reference of None \<Rightarrow> anchor | Some r \<Rightarrow> max r anchor)"
  obtain n where n: "next_slot (PDict cal) after = Inr n" "after < n" "occurrence cal n"
      "\<forall>t. after < t \<and> occurrence cal t \<longrightarrow> n \<le> t"
    using next_slot_spec[OF cal(2)] by blast
  have e: "expected_at source reference now = Inr n"
    using n(1) unfolding after_def anchor_def expected_at_def cal(1) Let_def by simp
  have "asks_for_run source reference now \<longleftrightarrow> (\<exists>t \<le> now. occurrence cal t \<and> after < t)"
    unfolding asks_for_run_def cal(1) pyval.case after_def anchor_def by (auto split: option.splits)
  moreover have "(\<exists>t \<le> now. occurrence cal t \<and> after < t) \<longleftrightarrow> n \<le> now" using n(2-4) by (meson order_trans)
  ultimately show ?thesis using e by blast
qed

definition still_running :: "run_row option \<Rightarrow> timestamp \<Rightarrow> int \<Rightarrow> bool" where
  "still_running running now stale_seconds = (case running of None \<Rightarrow> False
     | Some r \<Rightarrow> now - r_started_at r \<le> seconds stale_seconds)"

lemma evaluate_schedule_exact:
  assumes "config_ok source"
  shows "\<exists>d. evaluate_schedule source newest running now stale_seconds = Inr d \<and> sd_source d = Some (cfg_instance source) \<and>
    sd_status d = EVAL_OK \<and>
    (eligible d \<longleftrightarrow> cfg_enabled source \<and> cfg_sync_enabled source \<and> \<not> still_running running now stale_seconds \<and>
       asks_for_run source (map_option r_started_at newest) now)"
proof -
  obtain n where n: "expected_at source (map_option r_started_at newest) now = Inr n"
      "n \<le> now \<longleftrightarrow> asks_for_run source (map_option r_started_at newest) now"
    using expected_at_exact[OF assms] by blast
  have plain: "sd_source (decision s st r e) = Some s" "sd_status (decision s st r e) = EVAL_OK"
    "\<not> eligible (decision s ST_DISABLED r e)" "\<not> eligible (decision s ST_RUNNING r e)" for s st r e
    by (simp_all add: decision_def eligible_def)
  show ?thesis
  proof (cases "cfg_enabled source \<and> cfg_sync_enabled source")
    case False
    then show ?thesis using plain by (auto simp: evaluate_schedule_def Let_def)
  next
    case True
    then show ?thesis
      by (cases running) (auto simp: evaluate_schedule_def Let_def n cadence_eligible still_running_def plain)
  qed
qed

text \<open>
  C31: The cadence policy never fails on a checked configuration, and it selects a source exactly
  when the source is enabled, its schedule is enabled, no scheduled run of it is still within the
  staleness bound, and its interval or its calendar asks for a run. Occurrences of a calendar that
  were missed are caught up by one run, however late the scheduler looks.
\<close>
theorem schedule_selects_exactly:
  assumes "config_ok source"
  shows "\<exists>d. evaluate_schedule source newest running now stale_seconds = Inr d \<and> sd_source d = Some (cfg_instance source) \<and>
    sd_status d = EVAL_OK \<and>
    (eligible d \<longleftrightarrow> cfg_enabled source \<and> cfg_sync_enabled source \<and> \<not> still_running running now stale_seconds \<and>
       asks_for_run source (map_option r_started_at newest) now)"
  by (rule evaluate_schedule_exact[OF assms])

lemma example_config_ok: "config_ok example_config"
  by code_simp

theorem schedule_selects_exactly_witness:
  "config_ok example_config \<and>
   (\<exists>d. evaluate_schedule example_config None None 0 7200 = Inr d \<and> sd_source d = Some ''pve-01'' \<and> sd_status d = EVAL_OK \<and> eligible d)"
proof -
  have "cfg_enabled example_config \<and> cfg_sync_enabled example_config \<and> cfg_instance example_config = ''pve-01'' \<and>
      asks_for_run example_config None 0"
    by (simp add: example_config_def asks_for_run_def)
  then show ?thesis
    using example_config_ok schedule_selects_exactly[OF example_config_ok, of None None 0 7200] by (auto simp: still_running_def)
qed

end
