(* ===== verification/Orchestrator.thy ===== *)
theory Orchestrator
  imports Lifecycle_System Scheduling
begin

text \<open>
  \<open>orchestrator.py\<close>, \<open>scheduler_runtime.py\<close> and the execution evidence of \<open>scheduled_failure.py\<close>:
  one scheduler tick selects the due sources and runs them one after the other, each recorded in
  the run history before its executor is called. The executor, which reads the provider and
  writes NetBox, is an argument with a state of its own; it reads the registry and does not
  write it. What other processes commit while it runs is an argument as well.
\<close>

section \<open>Execution evidence\<close>

definition STAGES :: "string list" where
  "STAGES = [''dispatch'', ''credentials'', ''provider'', ''netbox'', ''legacy_read'', ''planning'', ''apply'']"

record ExecutionEvidence =
  ev_stage :: string
  ev_plan :: "(string \<times> string) option"
  ev_writes_possible :: bool
  ev_run_id :: "uuid option"

definition begin_evidence :: "uuid option \<Rightarrow> ExecutionEvidence" where
  "begin_evidence run_id = \<lparr>ev_stage = ''dispatch'', ev_plan = None, ev_writes_possible = False, ev_run_id = run_id\<rparr>"

definition mark :: "string \<Rightarrow> (string \<times> string) option \<Rightarrow> ExecutionEvidence \<Rightarrow> ExecutionEvidence result" where
  "mark stage plan evid =
     bindr (require (stage \<in> set STAGES) (ValueError ''Unknown scheduled stage'')) (\<lambda>_.
       Inr (evid\<lparr>ev_stage := stage, ev_plan := (if plan \<noteq> None then plan else ev_plan evid),
         ev_writes_possible := (ev_writes_possible evid \<or> stage = ''apply'')\<rparr>))"

section \<open>Results\<close>

datatype HistoryStatus = NOT_REQUESTED | RECORDED | START_FAILED | FINALIZE_FAILED

definition HISTORY_UNAVAILABLE :: string where
  "HISTORY_UNAVAILABLE = ''RUN_HISTORY_UNAVAILABLE''"

record SourceRunResult =
  res_id :: string
  res_instance :: string
  res_type :: string
  res_success :: bool
  res_started_at :: timestamp
  res_finished_at :: timestamp
  res_error_type :: "string option"
  res_error_summary :: "string option"
  res_history_status :: HistoryStatus
  res_history_error_code :: "string option"

definition total :: "SourceRunResult list \<Rightarrow> nat" where
  "total results = length results"

definition succeeded :: "SourceRunResult list \<Rightarrow> nat" where
  "succeeded results = length (filter res_success results)"

definition failed :: "SourceRunResult list \<Rightarrow> nat" where
  "failed results = total results - succeeded results"

definition history_failures :: "SourceRunResult list \<Rightarrow> nat" where
  "history_failures results = length (filter (\<lambda>r. res_history_error_code r \<noteq> None) results)"

section \<open>One source\<close>

text \<open>
  A call of the run repository answers, fails without effect, or commits and then loses its
  answer. The record holds the answers of the surroundings during one attempt: the two clocks,
  the new run identifier, the fate of the three repository calls, and what other processes
  commit to the registry while the executor runs.
\<close>

datatype fault = Answers | Fails exn | Loses exn

definition faulty :: "fault \<Rightarrow> 'a txn \<Rightarrow> 'a proc" where
  "faulty f t db = (case f of Answers \<Rightarrow> commit t db | Fails e \<Rightarrow> (Inl e, db)
     | Loses e \<Rightarrow> (case t db of Inl e' \<Rightarrow> (Inl e', db) | Inr (a, db') \<Rightarrow> (Inl e, db')))"

record attempt_env =
  at_started_at :: timestamp
  at_finished_at :: timestamp
  at_run_id :: uuid
  at_db_started :: timestamp
  at_db_finished :: timestamp
  at_start :: fault
  at_check :: "exn option"
  at_finish :: fault
  at_meanwhile :: "registry \<Rightarrow> registry"

text \<open>What the orchestrator reads of an executor's result: the actions of its items, its digest and version.\<close>

record execution =
  ex_actions :: "string list"
  ex_digest :: "string option"
  ex_planner :: "string option"

type_synonym 'w executor =
  "SourceConfig \<Rightarrow> registry \<Rightarrow> ExecutionEvidence \<Rightarrow> 'w \<Rightarrow> (execution result \<times> ExecutionEvidence) \<times> 'w"

text \<open>\<open>getattr(exc, "code", None)\<close> and \<open>type(exc).__name__\<close>.\<close>

fun code_attribute :: "exn \<Rightarrow> string option" where
  "code_attribute (OperationError c) = Some c"
| "code_attribute (LifecycleError c) = Some c"
| "code_attribute (ControlError c) = Some c"
| "code_attribute (ProbeError c) = Some c"
| "code_attribute (HostRegistrationConflict c _ _ _) = Some c"
| "code_attribute (ConfirmationError c) = Some c"
| "code_attribute (ManualSyncError c) = Some c"
| "code_attribute (RunReadError c) = Some c"
| "code_attribute (ScheduleWorkerError c) = Some c"
| "code_attribute (SystemExit c) = Some c"
| "code_attribute (ScheduledPlanBlocked _) = Some ''PLAN_BLOCKED''"
| "code_attribute (SourceReconciliationRequired _) = Some ''SOURCE_RECONCILIATION_REQUIRED''"
| "code_attribute _ = None"

fun class_name :: "exn \<Rightarrow> string" where
  "class_name (ValueError _) = ''ValueError''"
| "class_name (TypeError _) = ''TypeError''"
| "class_name (KeyError _) = ''KeyError''"
| "class_name (RuntimeError _) = ''RuntimeError''"
| "class_name (AttributeError _) = ''AttributeError''"
| "class_name (NetworkScopeError _) = ''NetworkScopeError''"
| "class_name (ConfirmationError _) = ''ConfirmationError''"
| "class_name (ManualSyncError _) = ''ManualSyncError''"
| "class_name (LifecycleError _) = ''LifecycleError''"
| "class_name (OperationError _) = ''OperationError''"
| "class_name (RunReadError _) = ''RunReadError''"
| "class_name (ScheduledPlanBlocked _) = ''ScheduledPlanBlocked''"
| "class_name (SourceReconciliationRequired _) = ''SourceReconciliationRequired''"
| "class_name (ScheduleWorkerError _) = ''ScheduleWorkerError''"
| "class_name (ControlError _) = ''ControlError''"
| "class_name (HostRegistrationConflict _ _ _ _) = ''HostRegistrationConflict''"
| "class_name (ProbeError _) = ''ProbeError''"
| "class_name (SourceRegistryError _) = ''SourceRegistryError''"
| "class_name (SourceConflictError _) = ''SourceConflictError''"
| "class_name (SourceConcurrentUpdateError _) = ''SourceConcurrentUpdateError''"
| "class_name (UniqueViolation _) = ''UniqueViolation''"
| "class_name (CheckViolation _) = ''CheckViolation''"
| "class_name (RaiseException _) = ''RaiseException''"
| "class_name (SystemExit _) = ''SystemExit''"

definition outcome_code :: "exn \<Rightarrow> ExecutionEvidence \<Rightarrow> string" where
  "outcome_code exc evid = (let code = safe_error_code (code_attribute exc) in
     if code = ''APPLY_FAILED'' \<and> ev_writes_possible evid then ''OUTCOME_UNCERTAIN''
     else if code = ''APPLY_FAILED'' \<and> ev_stage evid = ''planning'' then ''FAILED_BEFORE_WRITE''
     else code)"

definition source_result ::
  "attempt_env \<Rightarrow> SourceConfig \<Rightarrow> bool \<Rightarrow> string option \<Rightarrow> string option \<Rightarrow> HistoryStatus \<Rightarrow> string option \<Rightarrow> SourceRunResult" where
  "source_result a source success error_type error_summary outcome_status code =
     \<lparr>res_id = cfg_id source, res_instance = cfg_instance source, res_type = cfg_type source, res_success = success,
      res_started_at = at_started_at a, res_finished_at = at_finished_at a, res_error_type = error_type,
      res_error_summary = error_summary, res_history_status = outcome_status, res_history_error_code = code\<rparr>"

definition start_failed :: "attempt_env \<Rightarrow> SourceConfig \<Rightarrow> SourceRunResult" where
  "start_failed a source = source_result a source False (Some ''HistoryPersistenceError'')
     (Some ''source execution skipped because run history is unavailable'') START_FAILED (Some HISTORY_UNAVAILABLE)"

definition open_run :: "bool \<Rightarrow> attempt_env \<Rightarrow> SourceConfig \<Rightarrow> run_row option proc" where
  "open_run with_history a source = (if with_history then
     bindp (faulty (at_start a) (start_run (at_db_started a) (at_run_id a) (cfg_instance source) (cfg_type source) SCHEDULED
       ''system/scheduler'' None None)) (\<lambda>run. pure (Inr (Some run)))
     else pure (Inr None))"

definition perform ::
  "bool \<Rightarrow> attempt_env \<Rightarrow> 'w executor \<Rightarrow> SourceConfig \<Rightarrow> registry \<Rightarrow> ExecutionEvidence \<Rightarrow> 'w \<Rightarrow>
   (execution result \<times> ExecutionEvidence) \<times> 'w" where
  "perform with_history a execute_source source db evid w =
     (if with_history then
        case at_check a of Some e \<Rightarrow> ((Inl e, evid), w)
        | None \<Rightarrow> if scheduled_reconciliation_required db (cfg_instance source)
            then ((Inl (SourceReconciliationRequired ''Previous outcome requires reconciliation''), evid), w)
            else execute_source source db evid w
      else execute_source source db evid w)"

definition close_run ::
  "attempt_env \<Rightarrow> run_row option \<Rightarrow> run_status \<Rightarrow> ActionCounts option \<Rightarrow> string option \<Rightarrow> string option \<Rightarrow> string option \<Rightarrow>
   string option \<Rightarrow> registry \<Rightarrow> HistoryStatus \<times> registry" where
  "close_run a run outcome_status counts pdigest planner error_code message db = (case run of None \<Rightarrow> (NOT_REQUESTED, db)
     | Some r \<Rightarrow> (case faulty (at_finish a)
           (finish_run (at_db_finished a) (r_id r) outcome_status counts pdigest planner error_code message) db of
         (Inl _, db') \<Rightarrow> (FINALIZE_FAILED, db') | (Inr _, db') \<Rightarrow> (RECORDED, db')))"

definition history_error_code :: "HistoryStatus \<Rightarrow> string option" where
  "history_error_code outcome_status = (if outcome_status = FINALIZE_FAILED then Some HISTORY_UNAVAILABLE else None)"

definition run_source ::
  "bool \<Rightarrow> attempt_env \<Rightarrow> 'w executor \<Rightarrow> SourceConfig \<Rightarrow> registry \<times> 'w \<Rightarrow> SourceRunResult \<times> (registry \<times> 'w)" where
  "run_source with_history a execute_source source s =
     (case open_run with_history a source (fst s) of
        (Inl _, db1) \<Rightarrow> (start_failed a source, (db1, snd s))
      | (Inr run, db1) \<Rightarrow>
          (case perform with_history a execute_source source db1 (begin_evidence (map_option r_id run)) (snd s) of
             ((Inl exc, evid), w) \<Rightarrow>
               let code = outcome_code exc evid in
               (case close_run a run (terminal_status code) None (map_option fst (ev_plan evid))
                       (map_option snd (ev_plan evid)) (Some code) (Some (safe_error_message code)) (at_meanwhile a db1) of
                  (outcome_status, db2) \<Rightarrow> (source_result a source False (Some (class_name exc)) (Some ''source execution failed'')
                     outcome_status (history_error_code outcome_status), (db2, w)))
           | ((Inr x, evid), w) \<Rightarrow>
               (case close_run a run RUN_SUCCEEDED (Some (from_items (ex_actions x))) (ex_digest x) (ex_planner x) None None
                       (at_meanwhile a db1) of
                  (outcome_status, db2) \<Rightarrow> (source_result a source True None None outcome_status (history_error_code outcome_status), (db2, w)))))"

text \<open>\<open>run_sources\<close>: in the order of the source identifiers, whatever happens to one of them.\<close>

fun run_each ::
  "bool \<Rightarrow> (SourceConfig \<Rightarrow> attempt_env) \<Rightarrow> 'w executor \<Rightarrow> SourceConfig list \<Rightarrow> registry \<times> 'w \<Rightarrow>
   SourceRunResult list \<times> (registry \<times> 'w)" where
  "run_each with_history env execute_source [] s = ([], s)"
| "run_each with_history env execute_source (source # rest) s =
     (case run_source with_history (env source) execute_source source s of (r, s1) \<Rightarrow>
        (case run_each with_history env execute_source rest s1 of (rs, s2) \<Rightarrow> (r # rs, s2)))"

definition run_sources ::
  "bool \<Rightarrow> (SourceConfig \<Rightarrow> attempt_env) \<Rightarrow> 'w executor \<Rightarrow> SourceConfig list \<Rightarrow> registry \<times> 'w \<Rightarrow>
   SourceRunResult list \<times> (registry \<times> 'w)" where
  "run_sources with_history env execute_source configs s =
     run_each with_history env execute_source (sort_key cfg_id configs) s"

section \<open>The scheduler tick\<close>

record SchedulerTickResult =
  tick_decisions :: "ScheduleDecision list"
  tick_execution :: "SourceRunResult list"

definition state_count :: "SchedulerTickResult \<Rightarrow> SchedulerState \<Rightarrow> nat" where
  "state_count outcome state =
     length (filter (\<lambda>d. sd_status d = EVAL_OK \<and> sd_state d = Some state) (tick_decisions outcome))"

definition evaluation_failed :: "SchedulerTickResult \<Rightarrow> nat" where
  "evaluation_failed outcome = length (filter (\<lambda>d. sd_status d = EVAL_FAILED) (tick_decisions outcome))"

definition tick_failed :: "SchedulerTickResult \<Rightarrow> bool" where
  "tick_failed outcome = (evaluation_failed outcome \<noteq> 0 \<or> failed (tick_execution outcome) \<noteq> 0 \<or> history_failures (tick_execution outcome) \<noteq> 0)"

definition scheduler_summary_lines :: "SchedulerTickResult \<Rightarrow> string list" where
  "scheduler_summary_lines outcome = (let line = (\<lambda>name n. name @ ''='' @ dec_int (int n)) in
     [''SCHEDULER SUMMARY'', line ''sources'' (length (tick_decisions outcome)), line ''due'' (state_count outcome ST_DUE),
      line ''delayed'' (state_count outcome ST_DELAYED), line ''waiting'' (state_count outcome ST_WAITING),
      line ''running'' (state_count outcome ST_RUNNING), line ''disabled'' (state_count outcome ST_DISABLED),
      line ''evaluation_failed'' (evaluation_failed outcome), line ''executed'' (total (tick_execution outcome)),
      line ''failed'' (failed (tick_execution outcome)), line ''history_failures'' (history_failures (tick_execution outcome))])"

definition evaluate_source ::
  "(string \<Rightarrow> run_row option) \<Rightarrow> (string \<Rightarrow> run_row option) \<Rightarrow> timestamp \<Rightarrow> int \<Rightarrow> SourceConfig \<Rightarrow> ScheduleDecision" where
  "evaluate_source scheduled running now stale_seconds source =
     (case evaluate_schedule source (scheduled (cfg_instance source)) (running (cfg_instance source)) now stale_seconds of
        Inl _ \<Rightarrow> failed_decision (Some (cfg_instance source)) | Inr d \<Rightarrow> d)"

definition evaluate_sources ::
  "SourceConfig list \<Rightarrow> (string \<Rightarrow> run_row option) \<Rightarrow> (string \<Rightarrow> run_row option) \<Rightarrow> timestamp \<Rightarrow> int \<Rightarrow>
   ScheduleDecision list \<times> SourceConfig list" where
  "evaluate_sources configs scheduled running now stale_seconds =
     (map (evaluate_source scheduled running now stale_seconds) configs,
      filter (\<lambda>c. eligible (evaluate_source scheduled running now stale_seconds c)) configs)"

text \<open>\<open>{run.source_instance: run for run in rows}\<close>.\<close>

definition by_source :: "run_row list \<Rightarrow> string \<Rightarrow> run_row option" where
  "by_source rows = map_of (rev (map (\<lambda>r. (r_instance r, r)) rows))"

text \<open>An entry is a configuration, or None for a registry row that could not be converted.\<close>

definition tick_configs :: "SourceConfig option list \<Rightarrow> SourceConfig list" where
  "tick_configs entries = sort_key cfg_id (map the (filter (\<lambda>e. e \<noteq> None) entries))"

definition due_sources :: "registry \<Rightarrow> SourceConfig option list \<Rightarrow> timestamp \<Rightarrow> int \<Rightarrow> ScheduleDecision list \<times> SourceConfig list" where
  "due_sources db entries now stale_seconds =
     evaluate_sources (tick_configs entries) (by_source (latest_by_source db (Some SCHEDULED) None))
       (by_source (latest_by_source db (Some SCHEDULED) (Some RUN_RUNNING))) now stale_seconds"

definition run_scheduler_tick ::
  "(SourceConfig \<Rightarrow> attempt_env) \<Rightarrow> 'w executor \<Rightarrow> SourceConfig option list \<Rightarrow> timestamp \<Rightarrow> int \<Rightarrow> bool \<Rightarrow> registry \<times> 'w \<Rightarrow>
   SchedulerTickResult \<times> (registry \<times> 'w)" where
  "run_scheduler_tick env execute_source entries now stale_seconds execute_due s =
     (case due_sources (fst s) entries now stale_seconds of (evaluated, chosen) \<Rightarrow>
        (case run_sources execute_due env execute_source (if execute_due then chosen else []) s of
           (results, s') \<Rightarrow>
             (\<lparr>tick_decisions = map (\<lambda>_. failed_decision None) (filter (\<lambda>e. e = None) entries) @ evaluated,
               tick_execution = results\<rparr>, s')))"

section \<open>Properties\<close>

subsection \<open>Closed sources\<close>

lemma start_run_closed:
  assumes "source_of db source = None \<or> removed_row db source \<noteq> None \<or> archived db source \<or>
    list_ex (\<lambda>r. ret_instance r = source \<and> inflight r) (source_retirements db) \<or> request_of db source \<noteq> None"
  shows "\<exists>e. start_run now run_id source ty trigger creator pd pv db = Inl e"
proof -
  have "insert_run (new_run now run_id source ty trigger creator pd pv) db \<noteq> Inr x" for x
    using assms by (auto simp: insert_run_def guard_run_source_def guard_queued_run_def new_run_def bindr_Inr_conv)
  then have "start_run now run_id source ty trigger creator pd pv db \<noteq> Inr x" for x
    by (auto simp: start_run_def Let_def bindr_Inr_conv)
  then show ?thesis by (cases "start_run now run_id source ty trigger creator pd pv db") auto
qed

text \<open>
  C15: A source that is unknown, removed, archived, being retired or queued for removal is never
  synchronized by the scheduler: its attempt ends before the executor is called, changes nothing,
  and is reported as a failure of the history, whatever the surroundings answer.
\<close>
theorem closed_source_not_synchronized:
  assumes "source_of db (cfg_instance source) = None \<or> removed_row db (cfg_instance source) \<noteq> None \<or>
    archived db (cfg_instance source) \<or>
    list_ex (\<lambda>r. ret_instance r = cfg_instance source \<and> inflight r) (source_retirements db) \<or>
    request_of db (cfg_instance source) \<noteq> None"
  shows "run_source True a execute_source source (db, w) = (start_failed a source, (db, w))"
proof -
  obtain e where e: "start_run (at_db_started a) (at_run_id a) (cfg_instance source) (cfg_type source) SCHEDULED
      ''system/scheduler'' None None db = Inl e"
    using start_run_closed[OF assms] by blast
  have "\<exists>e'. open_run True a source db = (Inl e', db)"
    by (cases "at_start a") (simp_all add: open_run_def bindp_def faulty_def commit_def e)
  then show ?thesis by (auto simp: run_source_def)
qed

definition quiet_attempt :: attempt_env where
  "quiet_attempt = \<lparr>at_started_at = 10, at_finished_at = 20, at_run_id = ''run1'', at_db_started = 11, at_db_finished = 19,
     at_start = Answers, at_check = None, at_finish = Answers, at_meanwhile = (\<lambda>db. db)\<rparr>"

theorem closed_source_not_synchronized_witness:
  "run_source True quiet_attempt (\<lambda>c db ev w. ((Inr \<lparr>ex_actions = [], ex_digest = None, ex_planner = None\<rparr>, ev), Suc w)) example_config
     (example_registry, 0) = (start_failed quiet_attempt example_config, (example_registry, 0))"
proof -
  have "source_of example_registry (cfg_instance example_config) = None" by code_simp
  then show ?thesis by (intro closed_source_not_synchronized disjI1)
qed

subsection \<open>Uncertain writes\<close>

lemma open_run_Inr:
  assumes "open_run True a source db = (Inr run, db1)"
  shows "\<exists>r. run = Some r \<and> at_start a = Answers \<and> db1 = db\<lparr>sync_runs := sync_runs db @ [r]\<rparr> \<and> r_id r = at_run_id a \<and>
    r_instance r = cfg_instance source \<and> r_status r = RUN_RUNNING \<and> r_id r \<notin> r_id ` set (sync_runs db)"
proof (cases "start_run (at_db_started a) (at_run_id a) (cfg_instance source) (cfg_type source) SCHEDULED ''system/scheduler'' None None db")
  case (Inl e)
  then show ?thesis
    using assms by (cases "at_start a") (simp_all add: open_run_def bindp_def faulty_def commit_def pure_def)
next
  case (Inr rd)
  obtain r db' where rd: "rd = (r, db')" by (cases rd)
  have "at_start a = Answers" "run = Some r" "db1 = db'"
    using assms Inr rd by (cases "at_start a"; simp add: open_run_def bindp_def faulty_def commit_def pure_def)+
  moreover have "db' = db\<lparr>sync_runs := sync_runs db @ [r]\<rparr> \<and> r = new_run (at_db_started a) (at_run_id a) (cfg_instance source)
      (cfg_type source) SCHEDULED ''system/scheduler'' None None \<and> r_id r \<notin> r_id ` set (sync_runs db)"
    using Inr rd by (auto simp: start_run_def insert_run_def Let_def bindr_Inr_conv)
  ultimately show ?thesis by (auto simp: new_run_def)
qed

lemma run_unconfirmed_append: "run_unconfirmed db source \<Longrightarrow> run_unconfirmed (db\<lparr>sync_runs := sync_runs db @ rs\<rparr>) source"
  by (auto simp: run_unconfirmed_def blocking_runs_def reconciled_def list_ex_iff)

text \<open>A source that needs reconciliation is not executed.\<close>

lemma reconciliation_blocks:
  assumes "reconciliation_required db (cfg_instance source)"
  shows "case run_source True a execute_source source (db, w) of (r, (db', w')) \<Rightarrow> w' = w \<and> \<not> res_success r"
proof (cases "open_run True a source db")
  case (Pair opened db1)
  show ?thesis
  proof (cases opened)
    case (Inl e)
    then show ?thesis by (simp add: run_source_def Pair start_failed_def source_result_def)
  next
    case (Inr run)
    obtain r where r: "run = Some r" "db1 = db\<lparr>sync_runs := sync_runs db @ [r]\<rparr>"
      using open_run_Inr[OF Pair[unfolded Inr]] by blast
    have "scheduled_reconciliation_required db1 (cfg_instance source)"
      using assms run_unconfirmed_append by (simp add: r scheduled_reconciliation_required_def reconciliation_required_def)
    then obtain exc where "perform True a execute_source source db1 ev w = ((Inl exc, ev), w)" for ev
      by (cases "at_check a") (auto simp: perform_def)
    then show ?thesis
      by (auto simp: run_source_def Pair Inr Let_def source_result_def split: prod.splits)
  qed
qed

lemma update_where_mem: "r \<in> set rows \<Longrightarrow> p r \<Longrightarrow> f r \<in> set (update_where p f rows)"
  by (force simp: set_update_where)

lemma finish_uncertain:
  assumes run: "run \<in> set (sync_runs db)" "r_status run = RUN_RUNNING"
    and cols: "validate_plan_columns pd pv = Inr ()"
    and fresh: "\<forall>rr \<in> set (run_reconciliations db). rr_run_id rr \<noteq> r_id run"
  shows "\<exists>r db'. finish_run now (r_id run) (terminal_status ''OUTCOME_UNCERTAIN'') None pd pv (Some ''OUTCOME_UNCERTAIN'')
      (Some (safe_error_message ''OUTCOME_UNCERTAIN'')) db = Inr (r, db') \<and> reconciliation_required db' (r_instance run)"
proof -
  let ?p = "\<lambda>r. r_id r = r_id run \<and> r_status r = RUN_RUNNING"
  let ?f = "finish_row now RUN_OUTCOME_UNCERTAIN no_counts pd pv (Some ''OUTCOME_UNCERTAIN'') (Some (safe_error_message ''OUTCOME_UNCERTAIN''))"
  have closed: "terminal_status ''OUTCOME_UNCERTAIN'' = RUN_OUTCOME_UNCERTAIN"
    "validate_error (Some ''OUTCOME_UNCERTAIN'') (Some (safe_error_message ''OUTCOME_UNCERTAIN'')) = Inr ()"
    by code_simp+
  obtain q where q: "List.find ?p (sync_runs db) = Some q" using run by (cases "List.find ?p (sync_runs db)") (auto simp: find_none)
  define db' where "db' = db\<lparr>sync_runs := update_where ?p ?f (sync_runs db)\<rparr>"
  have f: "finish_run now (r_id run) (terminal_status ''OUTCOME_UNCERTAIN'') None pd pv (Some ''OUTCOME_UNCERTAIN'')
      (Some (safe_error_message ''OUTCOME_UNCERTAIN'')) db = Inr (?f q, db')"
    unfolding finish_run_def closed option.case Let_def cols q db'_def bindr_simps(2) by (simp add: count_values_def no_counts_def)
  have "?f run \<in> set (sync_runs db')"
    using update_where_mem[of run "sync_runs db" ?p ?f] run by (simp add: db'_def)
  moreover have "\<not> reconciled db' (?f run)"
    using fresh by (auto simp: reconciled_def db'_def list_ex_iff finish_row_def)
  moreover have "unconfirmed_status (r_status (?f run))" "r_instance (?f run) = r_instance run"
    by (simp_all add: finish_row_def unconfirmed_status_def)
  ultimately have "reconciliation_required db' (r_instance run)"
    unfolding reconciliation_required_def run_unconfirmed_def list_ex_iff blocking_runs_def by (intro bexI[of _ "?f run"]) simp_all
  then show ?thesis using f by blast
qed


definition writing_executor :: "nat executor" where
  "writing_executor c db evid w =
     (case mark ''apply'' None evid of Inl e \<Rightarrow> ((Inl e, evid), w) | Inr evid' \<Rightarrow> ((Inl (RuntimeError ''lost''), evid'), Suc w))"

definition admitted_registry :: registry where
  "admitted_registry = example_registry\<lparr>sources := [example_source\<lparr>s_instance := ''pve-01''\<rparr>]\<rparr>"


subsection \<open>The tick as a sequence of transactions\<close>

lemma faulty_steps:
  assumes "\<And>a db'. t db = Inr (a, db') \<Longrightarrow> step db db'"
  shows "step\<^sup>*\<^sup>* db (snd (faulty f t db))"
  using assms by (cases f; cases "t db") (auto simp: faulty_def commit_def)

lemma open_run_steps: "(db_step H)\<^sup>*\<^sup>* db (snd (open_run with_history a source db))"
proof -
  let ?t = "start_run (at_db_started a) (at_run_id a) (cfg_instance source) (cfg_type source) SCHEDULED ''system/scheduler'' None None"
  have "(db_step H)\<^sup>*\<^sup>* db (snd (faulty (at_start a) ?t db))" by (rule faulty_steps) (rule db_step.start_run)
  then show ?thesis by (auto simp: open_run_def bindp_def pure_def split: prod.splits sum.splits)
qed

lemma close_run_steps: "(db_step H)\<^sup>*\<^sup>* db (snd (close_run a run st counts pd pv code msg db))"
proof (cases run)
  case (Some r)
  let ?t = "finish_run (at_db_finished a) (r_id r) st counts pd pv code msg"
  have "(db_step H)\<^sup>*\<^sup>* db (snd (faulty (at_finish a) ?t db))" by (rule faulty_steps) (rule db_step.finish_run)
  then show ?thesis by (auto simp: close_run_def Some split: prod.splits sum.splits)
qed (simp add: close_run_def)

lemma run_source_steps:
  assumes "\<And>db. (db_step H)\<^sup>*\<^sup>* db (at_meanwhile a db)"
  shows "(db_step H)\<^sup>*\<^sup>* (fst s) (fst (snd (run_source with_history a execute_source source s)))"
proof (cases "open_run with_history a source (fst s)")
  case (Pair opened db1)
  have 1: "(db_step H)\<^sup>*\<^sup>* (fst s) db1" using open_run_steps[of H "fst s" with_history a source] Pair by simp
  show ?thesis
  proof (cases opened)
    case (Inl e)
    then show ?thesis using 1 by (simp add: run_source_def Pair)
  next
    case (Inr run)
    obtain out ev w where p: "perform with_history a execute_source source db1 (begin_evidence (map_option r_id run)) (snd s) = ((out, ev), w)"
      by (metis prod.exhaust)
    have 2: "(db_step H)\<^sup>*\<^sup>* (fst s) (snd (close_run a run st counts pd pv code msg (at_meanwhile a db1)))" for st counts pd pv code msg
      using 1 assms[of db1] close_run_steps by (meson rtranclp_trans)
    show ?thesis
    proof (cases out)
      case (Inl exc)
      then show ?thesis using 2 by (simp add: run_source_def Pair Inr p Let_def split: prod.splits) (metis snd_conv)
    next
      fix x assume "out = Inr x"
      then show ?thesis using 2 by (simp add: run_source_def Pair Inr p split: prod.splits) (metis snd_conv)
    qed
  qed
qed

lemma run_source_instance: "res_instance (fst (run_source with_history a execute_source source s)) = cfg_instance source"
  by (auto simp: run_source_def start_failed_def source_result_def Let_def split: prod.splits sum.splits)

lemma run_each_steps:
  assumes "\<And>c db. (db_step H)\<^sup>*\<^sup>* db (at_meanwhile (env c) db)"
  shows "(db_step H)\<^sup>*\<^sup>* (fst s) (fst (snd (run_each with_history env execute_source configs s)))"
proof (induction configs arbitrary: s)
  case (Cons c configs)
  obtain r s1 where r: "run_source with_history (env c) execute_source c s = (r, s1)"
    by (cases "run_source with_history (env c) execute_source c s")
  have "(db_step H)\<^sup>*\<^sup>* (fst s) (fst s1)" using run_source_steps[OF assms[of _ c], of s with_history execute_source c] r by simp
  then show ?case using Cons.IH[of s1] by (simp add: r split_beta)
qed simp

lemma run_each_instances: "map res_instance (fst (run_each with_history env execute_source configs s)) = map cfg_instance configs"
proof (induction configs arbitrary: s)
  case (Cons c configs)
  obtain r s1 where r: "run_source with_history (env c) execute_source c s = (r, s1)"
    by (cases "run_source with_history (env c) execute_source c s")
  show ?case using Cons.IH[of s1] run_source_instance[of with_history "env c" execute_source c s] by (simp add: r split_beta)
qed simp

lemma due_sources_sorted: "sort_key cfg_id (snd (due_sources db entries now stale_seconds)) = snd (due_sources db entries now stale_seconds)"
  unfolding due_sources_def evaluate_sources_def tick_configs_def snd_conv by (intro sort_key_id_if_sorted sorted_filter sorted_sort_key)

text \<open>
  C14: A scheduler tick attempts every due source exactly once, in the order of the source
  identifiers and whatever happens to the others, and it changes the registry only by a sequence
  of the committed transactions of the system, for every executor, every failing repository call
  and everything other processes commit meanwhile. A dry run attempts nothing.
\<close>
theorem scheduler_tick_refines:
  assumes "\<forall>c db. (db_step H)\<^sup>*\<^sup>* db (at_meanwhile (env c) db)"
  shows "(db_step H)\<^sup>*\<^sup>* (fst s) (fst (snd (run_scheduler_tick env execute_source entries now stale_seconds execute_due s))) \<and>
    map res_instance (tick_execution (fst (run_scheduler_tick env execute_source entries now stale_seconds execute_due s))) =
      (if execute_due then map cfg_instance (snd (due_sources (fst s) entries now stale_seconds)) else [])"
proof -
  obtain evaluated chosen where d: "due_sources (fst s) entries now stale_seconds = (evaluated, chosen)" by force
  have sorted: "sort_key cfg_id chosen = chosen" using due_sources_sorted[of "fst s" entries now stale_seconds] d by simp
  let ?c = "if execute_due then chosen else []"
  have t: "snd (run_scheduler_tick env execute_source entries now stale_seconds execute_due s) = snd (run_each execute_due env execute_source ?c s)"
    "tick_execution (fst (run_scheduler_tick env execute_source entries now stale_seconds execute_due s)) = fst (run_each execute_due env execute_source ?c s)"
    using sorted by (simp_all add: run_scheduler_tick_def d run_sources_def split: prod.splits)
  show ?thesis
    unfolding t run_each_instances d using run_each_steps[of H env s execute_due execute_source ?c] assms by simp
qed

definition idle_entries :: "SourceConfig option list" where
  "idle_entries = [Some example_config, None]"

theorem scheduler_tick_refines_witness:
  "(db_step id)\<^sup>*\<^sup>* admitted_registry
     (fst (snd (run_scheduler_tick (\<lambda>c. quiet_attempt) writing_executor idle_entries 100 7200 True (admitted_registry, 0)))) \<and>
   map res_instance (tick_execution (fst (run_scheduler_tick (\<lambda>c. quiet_attempt) writing_executor idle_entries 100 7200 True
     (admitted_registry, 0)))) = [''pve-01'']"
proof -
  have "\<forall>c db. (db_step id)\<^sup>*\<^sup>* db (at_meanwhile ((\<lambda>c :: SourceConfig. quiet_attempt) c) db)" by (simp add: quiet_attempt_def)
  note t = scheduler_tick_refines[OF this, of "(admitted_registry, 0)" writing_executor idle_entries 100 7200 True]
  have "map cfg_instance (snd (due_sources admitted_registry idle_entries 100 7200)) = [''pve-01'']" by code_simp
  then show ?thesis using t by simp
qed

subsection \<open>No early run\<close>

lemma latest_by_source_newest:
  assumes "r \<in> set (sync_runs db)" "optional (\<lambda>t. r_trigger r = t) trigger" "optional (\<lambda>t. r_status r = t) st"
  shows "\<exists>q. by_source (latest_by_source db trigger st) (r_instance r) = Some q \<and> r_started_at r \<le> r_started_at q"
proof -
  define rows where "rows = newest_first (filter (\<lambda>r. optional (\<lambda>t. r_trigger r = t) trigger \<and> optional (\<lambda>s. r_status r = s) st) (sync_runs db))"
  define own where "own s = filter (\<lambda>r. r_instance r = s) rows" for s
  have r: "r \<in> set (own (r_instance r))" using assms by (simp add: own_def rows_def)
  have "sorted_wrt (\<lambda>a b. run_order b \<le> run_order a) rows"
    using sorted_sort_key[of run_order] by (simp add: rows_def newest_first_def sorted_wrt_rev sorted_wrt_map)
  then have "sorted_wrt (\<lambda>a b. run_order b \<le> run_order a) (own (r_instance r))" unfolding own_def by (rule sorted_wrt_filter)
  then have "run_order r \<le> run_order (hd (own (r_instance r)))" using r by (cases "own (r_instance r)") auto
  then have newest: "r_started_at r \<le> r_started_at (hd (own (r_instance r)))" by (auto simp: run_order_def less_eq_prod_def)
  have hd: "r_instance (hd (own s)) = s" if "s \<in> set (map r_instance rows)" for s
  proof -
    have "own s \<noteq> []" using that by (auto simp: own_def filter_empty_conv)
    then show ?thesis using hd_in_set[of "own s"] by (simp add: own_def)
  qed
  let ?keys = "sort (remdups (map r_instance rows))"
  have l: "latest_by_source db trigger st = map (\<lambda>s. hd (own s)) ?keys"
    by (simp add: latest_by_source_def rows_def own_def Let_def)
  have k: "map (\<lambda>r. (r_instance r, r)) (map (\<lambda>s. hd (own s)) ?keys) = map (\<lambda>s. (s, hd (own s))) ?keys"
    using hd by simp
  have "r_instance r \<in> set ?keys" using r by (auto simp: own_def)
  then have "by_source (latest_by_source db trigger st) (r_instance r) = Some (hd (own (r_instance r)))"
    unfolding by_source_def l k by (simp add: rev_map map_of_map_restrict)
  then show ?thesis using newest by blast
qed


definition recent_run :: run_row where
  "recent_run = (new_run 100 ''run1'' ''pve-01'' ''proxmox'' SCHEDULED ''system/scheduler'' None None)\<lparr>r_status := RUN_FAILED\<rparr>"


end
