(* ===== verification/Manual_Sync.thy ===== *)
theory Manual_Sync
  imports Source_Config
begin

text \<open>
  \<open>application/confirmation.py\<close> and \<open>application/manual_sync.py\<close>: single-use confirmations of a
  reviewed plan, and the manual synchronization that consumes one, builds the plan again and
  calls the executor only when nothing has changed. The store keeps digests of tokens; the
  digest function, the random tokens and the clock are arguments. The registry and the NetBox
  inventory the loader and the planner read are a state that only the executor changes.
\<close>

section \<open>Confirmation store\<close>

record ConfirmationClaims =
  cl_source_instance :: string
  cl_source_id :: string
  cl_plan_digest :: string
  cl_planner_version :: string
  cl_source_fingerprint :: string
  cl_target_fingerprint :: string
  cl_operation_id :: "string option"
  cl_actor_id :: "string option"

record ConfirmationStore =
  cs_ttl :: timestamp
  cs_maximum :: nat
  cs_entries :: "(string \<times> (ConfirmationClaims \<times> timestamp)) list"

definition new_ConfirmationStore :: "timestamp \<Rightarrow> nat \<Rightarrow> ConfirmationStore" where
  "new_ConfirmationStore ttl maximum = \<lparr>cs_ttl = ttl, cs_maximum = maximum, cs_entries = []\<rparr>"

definition issue ::
  "(string \<Rightarrow> string) \<Rightarrow> string \<Rightarrow> timestamp \<Rightarrow> ConfirmationClaims \<Rightarrow> ConfirmationStore \<Rightarrow> string result \<times> ConfirmationStore" where
  "issue H token now claims store =
     (let kept = filter (\<lambda>(key, v). snd v > now) (cs_entries store) in
      if length kept \<ge> cs_maximum store
      then (Inl (ConfirmationError ''CONFIRMATION_CAPACITY_EXCEEDED''), store\<lparr>cs_entries := kept\<rparr>)
      else (Inr token, store\<lparr>cs_entries := AList.update (H token) (claims, now + cs_ttl store) kept\<rparr>))"

definition ascii :: "string \<Rightarrow> bool" where
  "ascii s = list_all (char_in 0 127) s"

text \<open>
  The entry is removed before it is judged. A token that is not ASCII cannot be encoded, and
  \<open>compare_digest\<close> refuses a text that is not ASCII.
\<close>

definition consume ::
  "(string \<Rightarrow> string) \<Rightarrow> pyval \<Rightarrow> string \<Rightarrow> timestamp \<Rightarrow> ConfirmationStore \<Rightarrow> ConfirmationClaims result \<times> ConfirmationStore" where
  "consume H token source_instance now store = (case token of
     PStr t \<Rightarrow>
       if length t \<noteq> 64 then (Inl (ConfirmationError ''CONFIRMATION_INVALID''), store)
       else if \<not> ascii t then (Inl (ValueError ''UnicodeEncodeError''), store)
       else let store' = store\<lparr>cs_entries := AList.delete (H t) (cs_entries store)\<rparr> in
         (case map_of (cs_entries store) (H t) of
            None \<Rightarrow> (Inl (ConfirmationError ''CONFIRMATION_INVALID''), store')
          | Some (claims, expires) \<Rightarrow>
              if expires \<le> now then (Inl (ConfirmationError ''CONFIRMATION_EXPIRED''), store')
              else if \<not> (ascii (cl_source_instance claims) \<and> ascii source_instance)
                then (Inl (TypeError ''comparing strings with non-ASCII characters is not supported''), store')
              else if cl_source_instance claims \<noteq> source_instance
                then (Inl (ConfirmationError ''CONFIRMATION_SOURCE_MISMATCH''), store')
              else (Inr claims, store'))
   | _ \<Rightarrow> (Inl (ConfirmationError ''CONFIRMATION_INVALID''), store))"

section \<open>Manual synchronization\<close>

record sync_plan =
  pl_apply_allowed :: bool
  pl_digest :: string
  pl_planner_version :: string
  pl_source_fingerprint :: string
  pl_target_fingerprint :: string

record 'w collaborators =
  source_loader :: "string \<Rightarrow> 'w \<Rightarrow> SourceConfig option result"
  plan_builder :: "SourceConfig \<Rightarrow> 'w \<Rightarrow> sync_plan result"
  executor :: "SourceConfig \<Rightarrow> sync_plan \<Rightarrow> 'w \<Rightarrow> unit result \<times> 'w"

definition enabled_source :: "'w collaborators \<Rightarrow> string \<Rightarrow> 'w \<Rightarrow> SourceConfig result" where
  "enabled_source env source_instance w =
     bindr (source_loader env source_instance w) (\<lambda>found. case found of
       None \<Rightarrow> Inl (ManualSyncError ''SOURCE_NOT_FOUND'')
     | Some source \<Rightarrow> bindr (require (cfg_enabled source) (ManualSyncError ''SOURCE_DISABLED'')) (\<lambda>_. Inr source))"

definition plan_claims :: "SourceConfig \<Rightarrow> sync_plan \<Rightarrow> ConfirmationClaims" where
  "plan_claims source plan = \<lparr>cl_source_instance = cfg_instance source, cl_source_id = cfg_id source,
     cl_plan_digest = pl_digest plan, cl_planner_version = pl_planner_version plan,
     cl_source_fingerprint = pl_source_fingerprint plan, cl_target_fingerprint = pl_target_fingerprint plan,
     cl_operation_id = None, cl_actor_id = None\<rparr>"

definition review_sync :: "'w collaborators \<Rightarrow> string \<Rightarrow> string \<Rightarrow> 'w \<Rightarrow> ConfirmationClaims result" where
  "review_sync env source_instance expected_digest w =
     bindr (enabled_source env source_instance w) (\<lambda>source.
     bindr (plan_builder env source w) (\<lambda>plan.
     bindr (require (pl_apply_allowed plan) (ManualSyncError ''PLAN_BLOCKED'')) (\<lambda>_.
     bindr (require (pl_digest plan = expected_digest) (ManualSyncError ''PLAN_STALE'')) (\<lambda>_.
       Inr (plan_claims source plan)))))"

definition prepare_sync ::
  "(string \<Rightarrow> string) \<Rightarrow> string \<Rightarrow> timestamp \<Rightarrow> 'w collaborators \<Rightarrow> string \<Rightarrow> string \<Rightarrow> ConfirmationStore \<times> 'w \<Rightarrow>
   string result \<times> (ConfirmationStore \<times> 'w)" where
  "prepare_sync H token now env source_instance expected_digest s =
     (case review_sync env source_instance expected_digest (snd s) of
        Inl e \<Rightarrow> (Inl e, s)
      | Inr claims \<Rightarrow> (case issue H token now claims (fst s) of (r, store) \<Rightarrow> (r, (store, snd s))))"

definition plan_current :: "ConfirmationClaims \<Rightarrow> SourceConfig \<Rightarrow> sync_plan \<Rightarrow> bool" where
  "plan_current claims source plan = (pl_apply_allowed plan \<and> cfg_id source = cl_source_id claims \<and>
     pl_digest plan = cl_plan_digest claims \<and> pl_planner_version plan = cl_planner_version claims \<and>
     pl_source_fingerprint plan = cl_source_fingerprint claims \<and> pl_target_fingerprint plan = cl_target_fingerprint claims)"

definition replan :: "'w collaborators \<Rightarrow> string \<Rightarrow> ConfirmationClaims \<Rightarrow> 'w \<Rightarrow> (SourceConfig \<times> sync_plan) result" where
  "replan env source_instance claims w =
     bindr (enabled_source env source_instance w) (\<lambda>source.
     bindr (plan_builder env source w) (\<lambda>plan.
     bindr (require (plan_current claims source plan) (ManualSyncError ''PLAN_STALE'')) (\<lambda>_. Inr (source, plan))))"

text \<open>\<open>except ManualSyncError: raise\<close>, any other \<open>Exception\<close> is an uncertain outcome.\<close>

fun delegated :: "exn \<Rightarrow> exn" where
  "delegated (ManualSyncError c) = ManualSyncError c"
| "delegated (SystemExit c) = SystemExit c"
| "delegated _ = ManualSyncError ''OUTCOME_UNCERTAIN''"

fun confirmation_failure :: "exn \<Rightarrow> exn" where
  "confirmation_failure (ConfirmationError c) = ManualSyncError c"
| "confirmation_failure e = e"

definition apply_sync ::
  "(string \<Rightarrow> string) \<Rightarrow> timestamp \<Rightarrow> 'w collaborators \<Rightarrow> string \<Rightarrow> pyval \<Rightarrow> ConfirmationStore \<times> 'w \<Rightarrow>
   string result \<times> (ConfirmationStore \<times> 'w)" where
  "apply_sync H now env source_instance token s =
     (case consume H token source_instance now (fst s) of
        (Inl e, store) \<Rightarrow> (Inl (confirmation_failure e), (store, snd s))
      | (Inr claims, store) \<Rightarrow>
          (case replan env source_instance claims (snd s) of
             Inl e \<Rightarrow> (Inl e, (store, snd s))
           | Inr (source, plan) \<Rightarrow>
               (case executor env source plan (snd s) of
                  (Inl e, w) \<Rightarrow> (Inl (delegated e), (store, w))
                | (Inr _, w) \<Rightarrow> (Inr (pl_digest plan), (store, w)))))"

section \<open>Properties\<close>

text \<open>Any sequence of calls on the store, in any order and at any times.\<close>

datatype confirmation_call = Issue string timestamp ConfirmationClaims | Consume pyval string timestamp

fun confirmation_step :: "(string \<Rightarrow> string) \<Rightarrow> confirmation_call \<Rightarrow> ConfirmationStore \<Rightarrow> ConfirmationStore" where
  "confirmation_step H (Issue token now claims) store = snd (issue H token now claims store)"
| "confirmation_step H (Consume token source now) store = snd (consume H token source now store)"

definition confirmation_run :: "(string \<Rightarrow> string) \<Rightarrow> confirmation_call list \<Rightarrow> ConfirmationStore \<Rightarrow> ConfirmationStore" where
  "confirmation_run H calls store = fold (confirmation_step H) calls store"

lemma delete_keys: "fst ` set (AList.delete k xs) = fst ` set xs - {k}"
  by (auto simp: AList.delete_eq)

lemma map_of_delete_self [simp]: "map_of (AList.delete k xs) k = None"
  by (simp add: map_of_eq_None_iff delete_keys)

lemma issue_entries: "cs_entries (snd (issue H token now claims store)) =
    (let kept = filter (\<lambda>(key, v). snd v > now) (cs_entries store) in
     if length kept \<ge> cs_maximum store then kept else AList.update (H token) (claims, now + cs_ttl store) kept)"
  by (simp add: issue_def Let_def)

lemma consume_entries: "cs_entries (snd (consume H token source now store)) =
    (case token of PStr t \<Rightarrow> if length t = 64 \<and> ascii t then AList.delete (H t) (cs_entries store) else cs_entries store
     | _ \<Rightarrow> cs_entries store)"
  by (auto simp: consume_def Let_def split: pyval.splits option.splits prod.splits)

lemma step_absent:
  assumes "map_of (cs_entries store) k = None" "\<And>t now claims. call' = Issue t now claims \<Longrightarrow> H t \<noteq> k"
  shows "map_of (cs_entries (confirmation_step H call' store)) k = None"
proof (cases call')
  case (Issue t now claims)
  have "map_of (filter (\<lambda>(key, v). snd v > now) (cs_entries store)) k = None"
    using assms(1) by (auto simp: map_of_eq_None_iff)
  then show ?thesis using assms(2)[OF Issue] by (simp add: Issue issue_entries Let_def)
next
  case (Consume t source now)
  then show ?thesis using assms(1)
    by (auto simp: consume_entries map_of_eq_None_iff delete_keys split: pyval.splits)
qed

lemma run_absent:
  assumes "map_of (cs_entries store) k = None" "\<And>t now claims. Issue t now claims \<in> set calls \<Longrightarrow> H t \<noteq> k"
  shows "map_of (cs_entries (confirmation_run H calls store)) k = None"
  using assms
proof (induction calls arbitrary: store)
  case (Cons c calls)
  have "map_of (cs_entries (confirmation_step H c store)) k = None" using Cons.prems by (auto intro: step_absent)
  then have "map_of (cs_entries (confirmation_run H calls (confirmation_step H c store))) k = None"
    by (rule Cons.IH) (use Cons.prems(2) in auto)
  then show ?case by (simp add: confirmation_run_def)
qed (simp add: confirmation_run_def)

text \<open>
  C18: A confirmation is used at most once: after a token has been presented, accepted or not, no
  later presentation of it is accepted, whatever calls happen in between, until the store issues
  a token with the same digest again.
\<close>
theorem confirmation_single_use:
  assumes "length t = 64" "ascii t"
    and "\<forall>t' now' claims. Issue t' now' claims \<in> set calls \<longrightarrow> H t' \<noteq> H t"
  shows "fst (consume H (PStr t) source2 now2
      (confirmation_run H calls (snd (consume H (PStr t) source1 now1 store)))) =
    Inl (ConfirmationError ''CONFIRMATION_INVALID'')"
proof -
  have "map_of (cs_entries (snd (consume H (PStr t) source1 now1 store))) (H t) = None"
    using assms(1,2) by (simp add: consume_entries map_of_eq_None_iff delete_keys)
  then have "map_of (cs_entries (confirmation_run H calls (snd (consume H (PStr t) source1 now1 store)))) (H t) = None"
    using assms(3) by (intro run_absent) auto
  then show ?thesis using assms(1,2) by (simp add: consume_def Let_def)
qed

definition example_token :: string where
  "example_token = replicate 64 (CHR ''a'')"

definition example_claims :: ConfirmationClaims where
  "example_claims = \<lparr>cl_source_instance = ''pve-01'', cl_source_id = ''pve-01'', cl_plan_digest = ''d'', cl_planner_version = ''1'',
     cl_source_fingerprint = ''s'', cl_target_fingerprint = ''t'', cl_operation_id = None, cl_actor_id = None\<rparr>"

theorem confirmation_single_use_witness:
  "fst (consume id (PStr example_token) ''pve-01'' 3
      (confirmation_run id [Issue ''b'' 2 example_claims, Consume (PStr ''b'') ''pve-01'' 2]
        (snd (consume id (PStr example_token) ''pve-01'' 1
          (snd (issue id example_token 0 example_claims (new_ConfirmationStore 300 256))))))) =
    Inl (ConfirmationError ''CONFIRMATION_INVALID'')"
proof -
  have "length example_token = 64" "ascii example_token" by code_simp+
  moreover have "\<forall>t' now' claims. Issue t' now' claims \<in> set [Issue ''b'' 2 example_claims, Consume (PStr ''b'') ''pve-01'' 2] \<longrightarrow>
      id t' \<noteq> id example_token"
    by (auto simp: example_token_def dest!: arg_cong[where f = length])
  ultimately show ?thesis by (rule confirmation_single_use)
qed

text \<open>
  The store never holds more than its maximum of confirmations, and never two for one digest,
  after any sequence of calls.
\<close>
lemma confirmation_capacity:
  "length (cs_entries (confirmation_run H calls (new_ConfirmationStore ttl maximum))) \<le> maximum \<and>
   distinct (map fst (cs_entries (confirmation_run H calls (new_ConfirmationStore ttl maximum))))"
proof -
  define ok where "ok store \<longleftrightarrow> cs_maximum store = maximum \<and> length (cs_entries store) \<le> maximum \<and> distinct (map fst (cs_entries store))"
    for store :: ConfirmationStore
  have step: "ok (confirmation_step H c store)" if "ok store" for c store
  proof (cases c)
    case (Issue t now claims)
    define kept where "kept = filter (\<lambda>(key, v). snd v > now) (cs_entries store)"
    have kept: "length kept \<le> maximum" "distinct (map fst kept)"
      using that le_trans[OF length_filter_le[of "\<lambda>(key, v). snd v > now" "cs_entries store"]]
      by (auto simp: ok_def kept_def intro: distinct_map_filter)
    have "length (AList.update k v xs) \<le> Suc (length xs)" for k v and xs :: "(string \<times> (ConfirmationClaims \<times> timestamp)) list"
      by (induction xs) auto
    note grows = this[of "H t" "(claims, now + cs_ttl store)" kept]
    have m: "cs_maximum store = maximum" "cs_maximum (snd (issue H t now claims store)) = maximum"
      using that by (simp_all add: issue_def ok_def Let_def)
    show ?thesis
    proof (cases "length kept \<ge> maximum")
      case True
      then show ?thesis using kept m by (simp add: Issue ok_def issue_entries kept_def[symmetric] Let_def)
    next
      case False
      then show ?thesis using kept m grows by (simp add: Issue ok_def issue_entries kept_def[symmetric] Let_def distinct_update)
    qed
  next
    case (Consume t source now)
    have "cs_maximum (snd (consume H t source now store)) = maximum"
      using that by (auto simp: consume_def ok_def Let_def split: pyval.splits option.splits prod.splits)
    then show ?thesis
      using that length_delete_le[of _ "cs_entries store"]
      by (auto simp: Consume ok_def consume_entries intro: order_trans distinct_delete split: pyval.splits)
  qed
  have "ok (new_ConfirmationStore ttl maximum)" by (simp add: ok_def new_ConfirmationStore_def)
  moreover have "ok store \<Longrightarrow> ok (confirmation_run H calls store)" for store
    by (induction calls arbitrary: store) (auto simp: confirmation_run_def intro: step)
  ultimately have "ok (confirmation_run H calls (new_ConfirmationStore ttl maximum))" by blast
  then show ?thesis by (simp add: ok_def)
qed

lemma consume_Inr:
  assumes "consume H token source_instance now store = (Inr claims, store')"
  shows "\<exists>t expires. token = PStr t \<and> map_of (cs_entries store) (H t) = Some (claims, expires) \<and> now < expires \<and>
    cl_source_instance claims = source_instance \<and> map_of (cs_entries store') (H t) = None"
  using assms
  by (auto simp: consume_def Let_def split: pyval.splits option.splits prod.splits if_splits)

lemma enabled_source_Inr:
  "enabled_source env source_instance w = Inr source \<longleftrightarrow> source_loader env source_instance w = Inr (Some source) \<and> cfg_enabled source"
  by (auto simp: enabled_source_def bindr_Inr_conv split: option.splits)

lemma review_sync_Inr:
  "review_sync env source_instance digest w = Inr claims \<longleftrightarrow> (\<exists>source plan.
     source_loader env source_instance w = Inr (Some source) \<and> cfg_enabled source \<and> plan_builder env source w = Inr plan \<and>
     pl_apply_allowed plan \<and> pl_digest plan = digest \<and> claims = plan_claims source plan)"
  unfolding review_sync_def bindr_Inr_conv[of "enabled_source env source_instance w"] enabled_source_Inr
    bindr_Inr_conv[of "plan_builder env _ w"] bind_require_Inr_iff by blast

lemma replan_Inr:
  "replan env source_instance claims w = Inr (source, plan) \<longleftrightarrow>
     source_loader env source_instance w = Inr (Some source) \<and> cfg_enabled source \<and> plan_builder env source w = Inr plan \<and>
     plan_current claims source plan"
  by (auto simp: replan_def enabled_source_Inr bindr_Inr_conv)

text \<open>
  C17: A manual synchronization writes only what was confirmed. Either it fails and leaves the world
  as it was, or the executor was called, once, with the plan that was just built for the enabled
  source of an unexpired confirmation, whose digest, versions, fingerprints and source are those
  confirmed; that confirmation is spent, and success is reported exactly when the executor
  returned.
\<close>
theorem manual_apply_guarded:
  "case apply_sync H now env source_instance token (store, w) of (r, (store', w')) \<Rightarrow>
     (w' = w \<and> (\<exists>e. r = Inl e)) \<or>
     (\<exists>t claims expires source plan. token = PStr t \<and> map_of (cs_entries store) (H t) = Some (claims, expires) \<and>
        now < expires \<and> cl_source_instance claims = source_instance \<and>
        source_loader env source_instance w = Inr (Some source) \<and> cfg_enabled source \<and>
        plan_builder env source w = Inr plan \<and> plan_current claims source plan \<and>
        map_of (cs_entries store') (H t) = None \<and> w' = snd (executor env source plan w) \<and>
        (r = Inr (pl_digest plan) \<longleftrightarrow> fst (executor env source plan w) = Inr ()))"
proof -
  obtain c store' where c: "consume H token source_instance now store = (c, store')" by force
  show ?thesis
  proof (cases c)
    case (Inl e)
    then show ?thesis by (simp add: apply_sync_def c)
  next
    case (Inr claims)
    note spent = consume_Inr[OF c[unfolded Inr]]
    show ?thesis
    proof (cases "replan env source_instance claims w")
      case (Inl e)
      then show ?thesis by (simp add: apply_sync_def c Inr)
    next
      fix sp assume "replan env source_instance claims w = Inr sp"
      then obtain source plan where sp: "replan env source_instance claims w = Inr (source, plan)" by (cases sp) auto
      obtain er w' where ex: "executor env source plan w = (er, w')" by force
      have "apply_sync H now env source_instance token (store, w) =
          ((case er of Inl e \<Rightarrow> Inl (delegated e) | Inr _ \<Rightarrow> Inr (pl_digest plan)), (store', w'))"
        by (simp add: apply_sync_def c Inr sp ex split: sum.splits)
      then show ?thesis using spent sp[unfolded replan_Inr] ex by (cases er) auto
    qed
  qed
qed

text \<open>
  C19: A confirmed plan can be applied: when the token of a preparation is presented before it
  expires and neither the source nor the plan has changed, the synchronization runs and reports
  the digest that was reviewed.
\<close>
theorem prepared_sync_applies:
  assumes "prepare_sync H token now env source_instance digest (store, w) = (Inr token', (store', w'))"
    and "length token = 64" "ascii token" "ascii source_instance" "later < now + cs_ttl store"
    and "\<forall>source. source_loader env source_instance w = Inr (Some source) \<longrightarrow> cfg_instance source = source_instance"
    and "\<forall>source plan. fst (executor env source plan w) = Inr ()"
  shows "token' = token \<and> w' = w \<and> fst (apply_sync H later env source_instance (PStr token) (store', w)) = Inr digest"
proof -
  obtain source plan where sp: "source_loader env source_instance w = Inr (Some source)" "cfg_enabled source"
      "plan_builder env source w = Inr plan" "pl_apply_allowed plan" "pl_digest plan = digest"
    and i: "issue H token now (plan_claims source plan) store = (Inr token', store')" and w: "w' = w"
  proof -
    obtain claims where c: "review_sync env source_instance digest w = Inr claims"
      using assms(1) by (cases "review_sync env source_instance digest w") (simp_all add: prepare_sync_def)
    then have "issue H token now claims store = (Inr token', store')" "w' = w"
      using assms(1) by (cases "issue H token now claims store"; simp add: prepare_sync_def)+
    then show ?thesis using that c unfolding review_sync_Inr by blast
  qed
  have t: "token' = token" and e: "map_of (cs_entries store') (H token) = Some (plan_claims source plan, now + cs_ttl store)"
    using i by (auto simp: issue_def Let_def split: if_splits)
  have inst: "cfg_instance source = source_instance" using assms(6) sp(1) by blast
  obtain store2 where c: "consume H (PStr token) source_instance later store' = (Inr (plan_claims source plan), store2)"
    using assms(2-5) e inst by (simp add: consume_def Let_def plan_claims_def)
  have "replan env source_instance (plan_claims source plan) w = Inr (source, plan)"
    using sp by (simp add: replan_Inr plan_current_def plan_claims_def)
  moreover obtain w2 where "executor env source plan w = (Inr (), w2)" using assms(7) by (metis prod.collapse)
  ultimately show ?thesis using t w sp(5) by (simp add: apply_sync_def c)
qed

definition example_sync_plan :: sync_plan where
  "example_sync_plan = \<lparr>pl_apply_allowed = True, pl_digest = ''d'', pl_planner_version = ''1'', pl_source_fingerprint = ''s'',
     pl_target_fingerprint = ''t''\<rparr>"

definition example_collaborators :: "nat collaborators" where
  "example_collaborators = \<lparr>source_loader = (\<lambda>i w. Inr (if i = ''pve-01'' then Some example_config else None)),
     plan_builder = (\<lambda>c w. Inr example_sync_plan), executor = (\<lambda>c p w. (Inr (), w + 1))\<rparr>"

theorem prepared_sync_applies_witness:
  "fst (apply_sync id 299 example_collaborators ''pve-01'' (PStr example_token)
     (fst (snd (prepare_sync id example_token 0 example_collaborators ''pve-01'' ''d'' (new_ConfirmationStore 300 256, 0))), 0)) = Inr ''d''"
proof -
  let ?s = "new_ConfirmationStore 300 256"
  have p: "prepare_sync id example_token 0 example_collaborators ''pve-01'' ''d'' (?s, 0) =
      (Inr example_token, (fst (snd (prepare_sync id example_token 0 example_collaborators ''pve-01'' ''d'' (?s, 0))), 0))"
    by (simp add: prepare_sync_def review_sync_def enabled_source_def example_collaborators_def example_sync_plan_def example_config_def
        issue_def new_ConfirmationStore_def)
  have "length example_token = 64" "ascii example_token" "ascii ''pve-01''" by code_simp+
  moreover have "299 < 0 + cs_ttl ?s" by (simp add: new_ConfirmationStore_def)
  moreover have "\<forall>source. source_loader example_collaborators ''pve-01'' 0 = Inr (Some source) \<longrightarrow> cfg_instance source = ''pve-01''"
    "\<forall>source plan. fst (executor example_collaborators source plan 0) = Inr ()"
    by (auto simp: example_collaborators_def example_config_def)
  ultimately show ?thesis using prepared_sync_applies[OF p] by blast
qed

end
