(* ===== verification/Identity_Exclusion.thy ===== *)
theory Identity_Exclusion
  imports Lifecycle_System
begin

text \<open>
  The decisions on identities, recoveries, baselines and archives as procedures of the system: each
  is a sequence of its transactions, and no sequence of transactions gives one hardware
  identity to two unarchived sources.
\<close>

section \<open>Procedures on identities\<close>

lemma follows_locked [follows_intro]: "follows step (\<lambda>db. db) p \<Longrightarrow> follows step (\<lambda>db. db) (with_apply_lock free p)"
  by (auto simp: with_apply_lock_def intro: follows_intro)

lemma follows_waiting [follows_intro]: "follows step view p \<Longrightarrow> follows step view (waiting_lock a b p)"
  by (auto simp: waiting_lock_def intro: follows_intro)

lemma legacy_confirm_follows:
  "follows (db_step H) (\<lambda>db. db)
     (legacy_confirm H now apply_free admission_free source actor operation expected decision reason claimed)"
proof (cases "admission_request actor decision reason claimed")
  case (Inl e)
  then show ?thesis by (simp add: legacy_confirm_def follows_def bindp_def pure_def)
next
  case (Inr a)
  then have "legacy_confirm H now apply_free admission_free source actor operation expected decision reason claimed =
      with_apply_lock apply_free (bindp (pure (require admission_free (LifecycleError ''SOURCE_LIFECYCLE_CONFLICT''))) (\<lambda>_.
       commit (legacy_confirm_txn H now source actor operation expected decision reason a)))"
    by (simp add: legacy_confirm_def fun_eq_iff bindp_def pure_def)
  then show ?thesis using db_step.legacy_confirm[OF Inr] by (auto intro!: follows_intro)
qed

lemma verify_identity_follows:
  "follows (db_step H) (\<lambda>db. db) (verify_identity H host_dto now apply_free admission_free source actor expected operation pf)"
  unfolding verify_identity_def by (intro follows_intro) (rule db_step.verify_identity)

lemma recovery_follows:
  "follows (db_step (env_hash env)) (\<lambda>db. db) (prepare_recovery env source operation actor expected pf)"
  "follows (db_step (env_hash env)) (\<lambda>db. db) (begin_credentials env source operation actor)"
  "follows (db_step (env_hash env)) (\<lambda>db. db) (abandon_recovery env source operation actor)"
  "follows (db_step (env_hash env)) (\<lambda>db. db) (complete_recovery env verify_owned source operation actor pf metadata)"
  unfolding prepare_recovery_def begin_credentials_def abandon_recovery_def complete_recovery_def
  by (intro follows_intro, rule db_step.prepare_recovery db_step.begin_credentials db_step.abandon_recovery db_step.complete_recovery,
      assumption)+

lemma baseline_review_follows [follows_intro]:
  "follows step fst (baseline_review_locked env remote source operation)"
  unfolding baseline_review_locked_def observed_inventory_def Let_def by (intro follows_intro)

lemma confirm_baseline_follows:
  "follows (db_step (env_hash env)) fst (confirm_baseline env intent_free remote source operation actor digest acks)"
  unfolding confirm_baseline_def by (intro follows_intro) (rule db_step.accept_baseline)

lemma follows_option_case [follows_intro]:
  assumes "follows step view p" "\<And>a. follows step view (q a)"
  shows "follows step view (\<lambda>s. case c s of None \<Rightarrow> p s | Some a \<Rightarrow> q a s)"
  using assms by (auto simp: follows_def split: option.splits)

lemma recheck_follows: "follows (db_step (env_hash env)) fst (recheck env remote source)"
  unfolding recheck_def[abs_def] by (intro follows_intro) (rule db_step.verify_archive)

section \<open>Procedures refine transactions\<close>


section \<open>Claims on an identity\<close>

text \<open>What the registry search reads of a source.\<close>

definition ident :: "source_row \<Rightarrow> string \<times> string \<times> uuid option" where
  "ident s = (s_instance s, s_type s, registration_anchor (s_settings s))"

definition identity_exclusive :: "registry \<Rightarrow> bool" where
  "identity_exclusive db = (\<forall>s \<in> set (sources db). \<forall>t \<in> set (sources db). \<forall>anchor.
     claims_identity db anchor s \<and> claims_identity db anchor t \<longrightarrow> s_instance s = s_instance t)"

text \<open>No source claims more than it did, except one on an identity nobody else claims.\<close>

definition claims_within :: "registry \<Rightarrow> registry \<Rightarrow> bool" where
  "claims_within db db' = (\<exists>source anchor. claim_free db source anchor \<and>
     (\<forall>t \<in> set (sources db'). \<forall>a. claims_identity db' a t \<longrightarrow> s_instance t = source \<and> a = anchor \<or>
       (\<exists>s \<in> set (sources db). s_instance s = s_instance t \<and> claims_identity db a s)))"

definition claims_kept :: "registry \<Rightarrow> registry \<Rightarrow> bool" where
  "claims_kept db db' = (\<forall>t \<in> set (sources db'). \<forall>a. claims_identity db' a t \<longrightarrow>
     (\<exists>s \<in> set (sources db). s_instance s = s_instance t \<and> claims_identity db a s))"

lemma claims_kept_exclusive: "claims_kept db db' \<Longrightarrow> identity_exclusive db \<Longrightarrow> identity_exclusive db'"
  unfolding claims_kept_def identity_exclusive_def by metis

lemma claims_within_exclusive: "claims_within db db' \<Longrightarrow> identity_exclusive db \<Longrightarrow> identity_exclusive db'"
proof -
  assume w: "claims_within db db'" and ex: "identity_exclusive db"
  obtain source anchor where free: "claim_free db source anchor" and
    claims: "\<And>t a. t \<in> set (sources db') \<Longrightarrow> claims_identity db' a t \<Longrightarrow> s_instance t = source \<and> a = anchor \<or>
       (\<exists>s \<in> set (sources db). s_instance s = s_instance t \<and> claims_identity db a s)"
    using w unfolding claims_within_def by blast
  have others: "s_instance s = source" if "s \<in> set (sources db)" "claims_identity db anchor s" for s
    using free that by (auto simp: claim_free_def list_ex_iff)
  have old: "s_instance s = s_instance t" if "s \<in> set (sources db)" "t \<in> set (sources db)" "claims_identity db a s" "claims_identity db a t" for s t a
    using ex that unfolding identity_exclusive_def by blast
  show ?thesis unfolding identity_exclusive_def
    using claims others old by metis
qed

lemma claims_keptI:
  assumes "ident ` set (sources db') \<subseteq> ident ` set (sources db)"
    and "\<And>t. t \<in> set (sources db') \<Longrightarrow> verified_archive db (s_instance t) \<Longrightarrow> verified_archive db' (s_instance t)"
  shows "claims_kept db db'"
  unfolding claims_kept_def
proof (intro ballI allI impI)
  fix t a assume t: "t \<in> set (sources db')" "claims_identity db' a t"
  obtain s where "s \<in> set (sources db)" "ident s = ident t" using assms(1) t(1) by fastforce
  then show "\<exists>s \<in> set (sources db). s_instance s = s_instance t \<and> claims_identity db a s"
    using t assms(2) by (auto simp: claims_identity_def ident_def)
qed

text \<open>Transactions that neither rewrite what the search reads nor touch the archives.\<close>

definition same_claims :: "registry \<Rightarrow> registry \<Rightarrow> bool" where
  "same_claims db db' = (map ident (sources db') = map ident (sources db) \<and> source_archives db' = source_archives db)"

lemma same_claims_kept: "same_claims db db' \<Longrightarrow> claims_kept db db'"
  by (rule claims_keptI) (auto simp: same_claims_def verified_archive_def simp flip: set_map)

lemma same_claims_refl [simp]: "same_claims db db" by (simp add: same_claims_def)

lemma ident_update [simp]:
  "ident (s\<lparr>s_enabled := x1\<rparr>) = ident s" "ident (s\<lparr>s_sync_enabled := x2\<rparr>) = ident s" "ident (s\<lparr>s_name := x3\<rparr>) = ident s"
  "ident (s\<lparr>s_interval := x4\<rparr>) = ident s" "ident (s\<lparr>s_calendar := x5\<rparr>) = ident s" "ident (s\<lparr>s_schedule_changed_at := x6\<rparr>) = ident s"
  by (simp_all add: ident_def)

lemma lifecycle_claims:
  "rename_txn H source expected name db = Inr (u, db') \<Longrightarrow> same_claims db db'"
  "cleanup_open source db = Inr (x, db') \<Longrightarrow> same_claims db db'"
  "cleanup_files cleanup source row db = Inr (u, db') \<Longrightarrow> same_claims db db'"
  by (auto simp: rename_txn_def cleanup_open_def cleanup_files_def bindr_Inr_conv set_credential_state_def update_source_def
      same_claims_def split: option.splits if_splits)

lemma remove_claims: "remove_txn H now source expected confirmed c operation db = Inr (u, db') \<Longrightarrow> same_claims db db'"
  by (auto simp: remove_txn_def bindr_Inr_conv disable_source_def upsert_tombstone_def Let_def update_source_def same_claims_def)

lemma schedule_claims: "schedule_update now q db = Inr (srow, db') \<Longrightarrow> same_claims db db'"
  by (auto simp: schedule_update_def schedule_store_update_def Let_def apply_schedule_def same_claims_def bindr_Inr_conv
      split: sum.splits option.splits)

lemma prepare_claims: "prepare H now source operation actor expected guard_instance remote db = Inr (r, db') \<Longrightarrow> same_claims db db'"
  by (cases "retirement_of db operation") (auto simp: same_claims_def dest: prepare_new prepare_again)

lemma dispatch_claims: "dispatch now source r archive c db = Inr (x, db') \<Longrightarrow> same_claims db db'"
  by (auto simp: dispatch_def Let_def bindr_Inr_conv same_claims_def update_retirement_def disable_source_def update_source_def
      abandon_prepared_def supersede_def)

lemma begin_claims: "begin_retirement H now source operation actor digest confirmed c db = Inr (p, db') \<Longrightarrow> same_claims db db'"
  by (erule begin_Inr) (auto simp: begin_again_def update_retirement_def bindr_Inr_conv same_claims_def split: if_splits
      dest: dispatch_claims[unfolded same_claims_def])

lemma update_retirement_claims [simp]: "same_claims db (update_retirement operation f db)"
  by (simp add: update_retirement_def same_claims_def)

lemma journal_claims:
  "resume_legacy_busy H source operation actor db = Inr (u, db') \<Longrightarrow> same_claims db db'"
  "uncertain source operation actor code db = Inr (u, db') \<Longrightarrow> same_claims db db'"
  "blocked source operation actor code db = Inr (u, db') \<Longrightarrow> same_claims db db'"
  by (auto simp: resume_legacy_busy_def uncertain_def blocked_def bindr_Inr_conv
      simp del: bind_refuse_if_Inr_iff refuse_if_Inr_iff)

lemma resolve_claims: "resolve now source operation actor guard_instance receipt db = Inr (r, db') \<Longrightarrow> same_claims db db'"
  unfolding resolve_def bindr_Inr_conv Let_def
  by (elim exE conjE, split if_split_asm) (auto simp: bindr_Inr_conv simp del: refuse_if_Inr_iff)

lemma enqueue_claims: "enqueue H source operation actor expected ok db = Inr (qv, db') \<Longrightarrow> same_claims db db'"
  by (auto simp: enqueue_def enqueue_new_def store_request_def Let_def bindr_Inr_conv same_claims_def update_source_def
      split: option.splits if_splits)

lemma decision_claims:
  "reserve dto U now af hf preview source operation_id actor intent db = Inr (anchor, db') \<Longrightarrow> same_claims db db'"
  "bind_intent dto U now preview source operation actor digest request db = Inr (claim, db') \<Longrightarrow> same_claims db db'"
  "prepare_recovery_txn H source operation actor expected pf db = Inr (rec, db') \<Longrightarrow> same_claims db db'"
  "begin_credentials_txn H source operation actor db = Inr (rec, db') \<Longrightarrow> same_claims db db'"
  "abandon_recovery_txn now source operation actor db = Inr (rec, db') \<Longrightarrow> same_claims db db'"
  by (auto simp: same_claims_def dest!: reserve_Inr bind_intent_Inr recovery_rows)

lemma baseline_claims: "baseline_txn H now source operation actor reviewed acks db = Inr (u, db') \<Longrightarrow> same_claims db db'"
  by (drule baseline_txn_Inr) (auto simp: accepted_db_def update_source_def same_claims_def)

lemma run_claims:
  "start_run now run_id source source_type trigger creator pd pv db = Inr (run, db') \<Longrightarrow> same_claims db db'"
  "finish_run now run_id st counts pd pv code_opt msg db = Inr (run, db') \<Longrightarrow> same_claims db db'"
  "bind_plan run_id d v db = Inr (u, db') \<Longrightarrow> same_claims db db'"
  by (auto simp: start_run_def insert_run_def bind_plan_def Let_def bindr_Inr_conv same_claims_def dest!: finish_run_Inr)

lemma operation_claims:
  "latest now source db = Inr (rows, db') \<Longrightarrow> same_claims db db'"
  "invalidate_plan now source operation db = Inr (u, db') \<Longrightarrow> same_claims db db'"
proof -
  have "same_claims db (fold (reconcile_row now) rows db)" for rows
    by (induction rows arbitrary: db) (auto simp: same_claims_def reconcile_row_def)
  then show "latest now source db = Inr (rows, db') \<Longrightarrow> same_claims db db'" by (auto simp: latest_def Let_def)
  show "invalidate_plan now source operation db = Inr (u, db') \<Longrightarrow> same_claims db db'"
    by (auto simp: invalidate_plan_def bindr_Inr_conv same_claims_def)
qed

lemmas unchanged_claims = lifecycle_claims remove_claims schedule_claims prepare_claims begin_claims journal_claims resolve_claims
  enqueue_claims decision_claims baseline_claims run_claims operation_claims

subsection \<open>Transactions that touch identities or archives\<close>

lemma purge_claims: "claims_kept db (purge_rows source auth db)"
  by (rule claims_keptI) (auto simp: purge_rows_def verified_archive_def list_ex_iff)

lemma insert_archive_verified: "verified_archive db x \<Longrightarrow> verified_archive (insert_archive a db) x"
  by (auto simp: insert_archive_def verified_archive_def)

lemma close_generation_claims: "close_generation now r db = Inr db' \<Longrightarrow> claims_kept db db'"
proof (rule claims_keptI)
  assume "close_generation now r db = Inr db'"
  then obtain a where db': "db' = stale_plans now (ret_instance r) (release_reservations now (ret_instance r) (insert_archive a db))"
    unfolding close_generation_def Let_def bindr_Inr_conv by (auto simp: bindr_Inr_conv split: option.splits)
  have s: "sources db' = sources db" "source_archives db' = source_archives (insert_archive a db)"
    by (simp_all add: db' stale_plans_def release_reservations_def insert_archive_def)
  show "ident ` set (sources db') \<subseteq> ident ` set (sources db)" by (simp add: s)
  show "verified_archive db (s_instance t) \<Longrightarrow> verified_archive db' (s_instance t)" for t :: source_row
    using insert_archive_verified[of db _ a] by (simp add: verified_archive_def s)
qed

lemma same_claims_of: "same_claims db db' \<Longrightarrow> claims_kept d db \<Longrightarrow> claims_kept d db'"
  by (drule same_claims_kept) (unfold claims_kept_def, metis)

lemma finalized_claims: "finalized now free source operation actor db = Inr (u, db') \<Longrightarrow> claims_kept db db'"
  by (auto simp: finalized_def bindr_Inr_conv split: if_splits dest!: purge_Inr close_generation_claims
      intro: purge_claims same_claims_of[OF update_retirement_claims])

lemma list_ex_update_where: "(\<And>r. q r \<Longrightarrow> q (f r)) \<Longrightarrow> list_ex q rows \<Longrightarrow> list_ex q (update_where p f rows)"
  by (induction rows) (auto simp: update_where_def)

lemma verify_archive_claims:
  assumes "verify_archive now free source receipt db = Inr (u, db')"
  shows "claims_kept db db'"
proof (rule claims_keptI)
  obtain p where db': "db' = db\<lparr>source_archives := update_where p (\<lambda>a. a\<lparr>a_verified_at := Some now\<rparr>) (source_archives db)\<rparr>"
    using assms unfolding verify_archive_def bindr_Inr_conv by blast
  show "ident ` set (sources db') \<subseteq> ident ` set (sources db)" by (simp add: db')
  show "verified_archive db (s_instance t) \<Longrightarrow> verified_archive db' (s_instance t)" for t :: source_row
    by (auto simp: db' verified_archive_def elim!: list_ex_update_where[rotated])
qed

lemma complete_recovery_claims:
  assumes inv: "lifecycle_inv db" and c: "complete_recovery_txn H now verify_owned source operation actor pf m db = Inr (rec, db')"
  shows "claims_kept db db'"
  using complete_recovery_cases[OF c]
proof (elim disjE exE conjE)
  fix row key config
  assume row: "source_of db source = Some row" and conf: "recovered_config row m key = Inr config"
    and db': "db' = restored_db now source operation config m key db"
  have s: "sources db' = update_where (\<lambda>s. s_instance s = source) (recovered_row config m key) (sources db)"
    and a: "source_archives db' = source_archives db"
    by (simp_all add: db' restored_db_def update_recovery_def restore_tombstone_def update_source_def)
  have "x = row" if "x \<in> set (sources db)" "s_instance x = source" for x
    using inv that source_of_Some[OF row] by (auto simp: lifecycle_defs distinct_map dest: inj_onD)
  then have "ident (recovered_row config m key x) = ident x" if "x \<in> set (sources db)" "s_instance x = source" for x
    using that by (simp add: ident_def recovered_row_def recovered_settings[OF conf])
  then show ?thesis by (intro claims_keptI) (auto simp: s a verified_archive_def set_update_where)
qed (simp add: same_claims_kept)

text \<open>A new claim is made by a decision on an identity, and only where the identity is free.\<close>

lemma update_source_claims:
  assumes "source_archives db' = source_archives db" "sources db' = update_where (\<lambda>s. s_instance s = source) f (sources db)"
    and "\<And>s. s_instance (f s) = s_instance s" "\<And>s. registration_anchor (s_settings (f s)) \<in> {None, anchor}"
    and "\<And>a. anchor = Some a \<Longrightarrow> claim_free db source a"
  shows "claims_within db db' \<or> claims_kept db db'"
proof -
  have same: "claims_identity db' = claims_identity db" by (simp add: fun_eq_iff claims_identity_def verified_archive_def assms(1))
  have new: "s_instance t = source \<and> Some a = anchor \<or> t \<in> set (sources db)" if t: "t \<in> set (sources db')" "claims_identity db' a t" for t a
  proof -
    obtain s where s: "s \<in> set (sources db)" "t = (if s_instance s = source then f s else s)"
      using t(1) unfolding assms(2) set_update_where by blast
    moreover have "registration_anchor (s_settings t) = Some a" using t(2) by (simp add: claims_identity_def)
    ultimately show ?thesis using assms(3,4)[of s] by (cases "s_instance s = source") auto
  qed
  show ?thesis
  proof (cases anchor)
    case None
    then show ?thesis using new unfolding claims_kept_def same by blast
  next
    case (Some a)
    then show ?thesis using new assms(5)[OF Some] unfolding claims_within_def same by blast
  qed
qed

lemma legacy_confirm_claims:
  assumes q: "admission_request actor decision reason claimed = Inr anchor"
    and c: "legacy_confirm_txn H now source actor operation expected decision reason anchor db = Inr (u, db')"
  shows "claims_within db db' \<or> claims_kept db db'"
  using legacy_confirm_Inr[OF c]
proof (elim disjE exE conjE)
  fix row v
  assume a: "admission_check H db source expected anchor = Inr row"
    and db': "db' = stale_ready_plans now source (update_source source (quarantined decision operation anchor row)
      (db\<lparr>source_identity_verifications := source_identity_verifications db @ [v]\<rparr>))"
  have "registration_anchor (s_settings (quarantined decision operation anchor row s)) \<in> {None, anchor}" for s
    using admission_check_Inr[OF a] decision_anchor[OF q, of operation]
    by (simp add: quarantined_def registration_anchor_def)
  then show ?thesis using admission_check_Inr[OF a]
    by (intro update_source_claims[where f = "quarantined decision operation anchor row" and anchor = anchor and source = source])
      (simp_all add: db' update_source_def quarantined_def)
qed (simp add: same_claims_kept)

lemma verified_identity_anchor:
  assumes "validated_host_hardware_uuid (PStr anchor) = Some anchor"
  shows "registration_anchor (AList.update ''provider_identity'' (PDict (verified_identity anchor operation p))
    (AList.delete ''legacy_admission'' settings)) \<in> {None, Some anchor}"
proof -
  have h: "dget (verified_identity anchor operation p) ''hardware_uuid'' = PStr anchor" by (simp add: verified_identity_def dget_def)
  have "proved_anchor (PDict (verified_identity anchor operation p)) mapping \<in> {None, Some anchor}" for mapping
    using assms by (auto simp: proved_anchor_def h split: pyval.splits option.splits)
  from this[of "dget settings ''onboarding_mapping''"]
  consider "proved_anchor (PDict (verified_identity anchor operation p)) (dget settings ''onboarding_mapping'') = None"
    | "proved_anchor (PDict (verified_identity anchor operation p)) (dget settings ''onboarding_mapping'') = Some anchor" by auto
  moreover have "observed_anchor (PDict []) = None" by (simp add: observed_anchor_def dget_def)
  ultimately show ?thesis by cases (simp_all add: registration_anchor_def legacy_anchor_def Let_def)
qed

lemma verify_identity_claims:
  assumes c: "verify_identity_txn H host_dto now free source actor expected operation pf db = Inr (anchor, db')"
  shows "claims_within db db' \<or> claims_kept db db'"
  using verify_identity_Inr[OF c]
proof (elim disjE exE conjE)
  fix row p v
  let ?f = "\<lambda>s. s\<lparr>s_settings := AList.update ''provider_identity''
      (PDict (verified_identity anchor operation p)) (AList.delete ''legacy_admission'' (s_settings s))\<rparr>"
  assume free: "claim_free db source anchor" and v: "validated_host_hardware_uuid (PStr anchor) = Some anchor"
    and db': "db' = stale_ready_plans now source (update_source source ?f
      (db\<lparr>source_identity_verifications := source_identity_verifications db @ [v]\<rparr>))"
  have s: "source_archives db' = source_archives db" "sources db' = update_where (\<lambda>s. s_instance s = source) ?f (sources db)"
    unfolding db' by (simp_all add: update_source_def)
  show ?thesis
    by (rule update_source_claims[OF s, where anchor = "Some anchor"]) (use free verified_identity_anchor[OF v] in simp_all)
qed (simp add: same_claims_kept)

lemma db_step_exclusive:
  assumes "db_step H db db'" "lifecycle_inv db" "identity_exclusive db"
  shows "identity_exclusive db'"
proof -
  have "claims_within db db' \<or> claims_kept db db'"
    using assms(1,2)
  proof (induction rule: db_step.induct)
    case (legacy_confirm actor decision reason claimed a now source operation expected db u db')
    then show ?case using legacy_confirm_claims by blast
  next
    case (verify_identity host_dto now free source actor expected operation pf db anchor db')
    then show ?case using verify_identity_claims by blast
  next
    case (complete_recovery now verify_owned source operation actor pf m db rec db')
    then show ?case using complete_recovery_claims by blast
  qed (rule disjI2, rule unchanged_claims[THEN same_claims_kept] finalized_claims verify_archive_claims, assumption |
     rule disjI2, simp add: same_claims_kept same_claims_def set_code_def update_retirement_def reconcile_abandoned_reads_def block_request_def)+
  then show ?thesis using assms(3) claims_within_exclusive claims_kept_exclusive by blast
qed

lemma sys_step_exclusive:
  assumes "sys_step H s s'" "lifecycle_inv (fst s)" "identity_exclusive (fst s)"
  shows "identity_exclusive (fst s')"
  using assms
proof (induction rule: sys_step.induct)
  case (transaction db db' issued)
  then show ?case using db_step_exclusive by simp
next
  case (admit now uuid source kind db row new db' issued)
  have "same_claims db db'" using admit(1) by (rule admit_Inr) (auto simp: same_claims_def upsert_operation_def)
  then show ?case using admit claims_kept_exclusive[OF same_claims_kept] by simp
next
  case (execute_begin operation issued db)
  have "same_claims db (snd (execute_begin operation db))"
    by (auto simp: execute_begin_def Let_def same_claims_def split: option.splits)
  then show ?case using execute_begin claims_kept_exclusive[OF same_claims_kept] by simp
next
  case (execute_finish operation issued db dto host_dto now outcome)
  have "same_claims db (execute_finish H dto host_dto now operation outcome db)"
    by (auto simp: execute_finish_def same_claims_def split: prod.splits)
  then show ?case using execute_finish claims_kept_exclusive[OF same_claims_kept] by simp
qed

lemma system_inv_lifecycle: "system_inv H s \<Longrightarrow> lifecycle_inv (fst s)"
  by (simp add: system_inv_def)

lemma reachable_exclusive:
  assumes "(sys_step H)\<^sup>*\<^sup>* s s'" "system_inv H s" "identity_exclusive (fst s)"
  shows "system_inv H s' \<and> identity_exclusive (fst s')"
  using assms by (induction rule: rtranclp_induct) (auto simp: sys_step_inv intro: sys_step_exclusive[rotated] dest: system_inv_lifecycle)


text \<open>Two hosts without an identity: the one that is admitted first keeps the observed identity.\<close>

definition two_hosts :: registry where
  "two_hosts = retire_registry\<lparr>sources := [example_esxi, example_esxi\<lparr>s_instance := ''esx-b''\<rparr>]\<rparr>"


end
