(* ===== verification/Spec2Isabelle.thy ===== *)
theory Spec2Isabelle
  imports Netbox_Metadata Orchestrator Manual_Sync Identity_Exclusion
begin

text \<open>
  Verification of netbox-sync: a service that discovers the hosts and guests of Proxmox and ESXi
  installations and keeps their objects in NetBox. Paths below are relative to
  \<open>src/netbox_sync\<close> unless they say otherwise.

  \<^bold>\<open>The parts and how they interact.\<close> A registry in PostgreSQL holds the configured sources and all durable
  state of their life: operations (discovery and plan), synchronization runs, tombstones,
  retirements, recoveries, archives, host reservations, identity decisions, removal requests. The
  orchestrator and its scheduler select due sources, open a run, execute the source and close
  the run. The web process plans a synchronization, lets a user confirm it and applies it. The
  lifecycle services rename, remove, retire, purge, verify and recover a source; retirement
  asks a guard plugin inside NetBox to delete the objects of the source and records its receipt.
  Every service commits its changes of the registry in transactions, under a file lock for
  writers of NetBox and a gate per source.

  \<^bold>\<open>How the code is translated.\<close> Python values are \<open>pyval\<close> (Py_Values) with the equality, truth,
  indexing, iteration, \<open>repr\<close>, \<open>str\<close> and canonical JSON of the language; exceptions are the
  datatype \<open>exn\<close> and a fallible function returns \<open>exn + 'a\<close> (Py_Prelude). Timestamps are integers
  in microseconds, dates are those of the proleptic Gregorian calendar (Py_Time). A table is a
  list of records in the record \<open>registry\<close> (Registry); a transaction is a function to an error or a
  value and the new registry, so that an error rolls back by construction, and \<open>commit\<close> makes it an
  action. A procedure threads the registry, and the state of the remote guard, through
  its transactions. SHA-256, locks, the clock, the file cleanup, the secret broker, the executor,
  the planner, the transfer models of the API and the guard are arguments of the definitions;
  theorems hold for every value of them unless a hypothesis says what is relied on.

  \<^bold>\<open>Theories.\<close>
  \<^item> Py_Prelude, Py_Values, Py_Time: the language and the library functions the sources use.
  \<^item> Discovery (\<open>discovery.py\<close>): the records of discovered hosts, guests, interfaces and disks.
  \<^item> Source_Identity (\<open>source_identity.py\<close>), Netbox_Metadata (\<open>netbox_metadata.py\<close>,
    \<open>netbox_vm_metadata.py\<close>, \<open>netbox_lxc_metadata.py\<close>, \<open>netbox_vm_interface_metadata.py\<close>,
    \<open>netbox_record_values.py\<close>): identities in custom fields, their match ranks, and the fields written
    for hosts, virtual machines, containers and interfaces. What is written is found again with
    the exact rank, fields of others are kept, ranks of other sources do not change.
  \<^item> Registry (\<open>../migrations/versions\<close>): the rows, unique keys, views and triggers.
  \<^item> Source_Operations (\<open>source_operations.py\<close>, \<open>provider_evidence.py\<close>): the source gate, admission,
    execution, expiry and the reviewed plan.
  \<^item> Source_Lifecycle (\<open>source_lifecycle.py\<close>, \<open>schedule_worker.py\<close>): rename, removal, credential cleanup
    and rescheduling; a removal is all or nothing and spares credentials others use.
  \<^item> Retirement_Journal, Retirement_Coordinator (\<open>retirement_journal.py\<close>, \<open>source_archive.py\<close>,
    \<open>retirement_coordinator.py\<close>, \<open>../migrations/versions/0014_source_purge.py\<close>): review, dispatch, outcome,
    archive and purge of a source, and the protocol with the guard.
  \<^item> Removal_Queue (\<open>removal_queue.py\<close>, \<open>retirement_continuation.py\<close>): queued removals and background
    continuation; every waiting request is served after finitely many steps.
  \<^item> Run_History (\<open>run_history.py\<close>, \<open>application/runs.py\<close>), Run_Reconciliation (\<open>run_reconciliation.py\<close>,
    \<open>source_archive.py\<close>): the records of runs, their pages, and the acceptance of a baseline over runs
    whose outcome is unknown.
  \<^item> Host_Identity (\<open>host_registration.py\<close>, \<open>legacy_admission.py\<close>, \<open>source_identity_verification.py\<close>):
    hardware identities of ESXi hosts, reservations and the two decisions on an identity.
  \<^item> Source_Config (\<open>source_config.py\<close>, \<open>roles.py\<close>), Source_Registry (\<open>source_registry.py\<close>), Source_Recovery
    (\<open>source_recovery.py\<close>): the checked configuration, its rows, and the recovery of a removed source.
  \<^item> Calendar_Schedule (\<open>calendar_schedule.py\<close>), Scheduling (\<open>application/scheduling.py\<close>), Orchestrator
    (\<open>orchestrator.py\<close>, \<open>scheduler_runtime.py\<close>, \<open>scheduled_failure.py\<close>): slots, cadence and the tick.
  \<^item> Manual_Sync (\<open>application/manual_sync.py\<close>, \<open>application/confirmation.py\<close>): confirmation tokens and the
    guarded manual run.
  \<^item> Lifecycle_Invariant, Lifecycle_System, Identity_Exclusion: all services as one transition
    system, described next.

  \<^bold>\<open>The system.\<close> \<open>db_step\<close> has one rule for every transaction of the services and \<open>sys_step\<close> adds the
  admission and execution of operations, bound to the identifiers handed out. The invariant
  \<open>lifecycle_inv\<close> says that keys are unique, a run is finished exactly when it left RUNNING, a source has
  at most one retirement in flight, is then disabled with nothing running on it, and that the
  receipt of a finished retirement passed every check. Each transaction has a preservation lemma.
  The locale \<open>kept_relation\<close> lifts what a step keeps to sequences of steps and to actions; it is
  interpreted for the invariant and for the history of finished runs. \<open>follows\<close> says that an action is a
  sequence of steps whatever its environment answers, and every procedure is proved to follow the
  step relation, including the passes of the scheduler and of the background continuation. The locale
  \<open>gated_command\<close> collects the commands that the source gate refuses.

  \<^bold>\<open>Bounds.\<close> No definition uses fuel. The calendar search scans 63 days as the code does, and 62 are proved
  to be enough for every valid calendar. Moscow time is the constant offset of three hours it has had
  since October 2014. Strings are lists of characters below code point 256, so lengths and orders
  agree with Python on that range. Lists the code limits (pages, 100 runs, 1000 generations) keep
  their limits.

  \<^bold>\<open>Not modelled.\<close>
  \<^item> Provider clients and NetBox clients, and the planners and writers of hosts, guests, networks and
    catalogues above them: their inputs and effects are objects of third-party libraries
    (pynetbox, pyVmomi, proxmoxer). The orchestrator and the manual service take them as
    arguments, with arbitrary results and exceptions.
  \<^item> The Selectel and pfSense pipelines, which are separate services with their own storage.
  \<^item> Web routes, transfer objects, sockets, child processes, TLS, LDAP, secret files and deployment:
    input and output.
  \<^item> The guard plugin, a Django application inside NetBox: the remote guard is an argument.
  \<^item> In the step relation: the insertion and the free update of a configuration by \<open>source_registry\<close> and the
    choice of a placement by \<open>placement_control.save\<close>. They are modelled or named as single operations, and
    the exclusivity of identities is stated for states reached without them; a registration inserts
    its row under the reservation whose exclusion is proved in Host_Identity.
\<close>

end
